(* ===== verification/Prelude.thy ===== *)
theory Prelude
  imports Main "HOL-Library.State_Monad"
begin

text \<open>
  Shared vocabulary of the development: Go errors and their wrapping chains, Go results as
  sums, lemmas that execute the state monad, and the predicate \<open>preserves\<close> with its
  composition rules, by which every invariant of the store and of the services is proved.
\<close>

section \<open>Go errors\<close>

text \<open>
  The sentinel errors of \<^verbatim>\<open>internal/auth/auth.go\<close>, \<^verbatim>\<open>internal/project/project.go\<close>,
  \<^verbatim>\<open>database/sql\<close> and of the SQLite driver, and \<open>Errorf\<close> for \<^verbatim>\<open>fmt.Errorf("...: %w", err)\<close>,
  which keeps the wrapped error reachable for \<^verbatim>\<open>errors.Is\<close>.  \<open>ErrMsg\<close> is an error created
  from a message alone.
\<close>

datatype go_error =
    ErrNoRows
  | ErrSqliteUnique
  | ErrSqliteForeignKey
  | ErrDriver
  | ErrRand
  | ErrEmailAlreadyRegistered
  | ErrCurrentPasswordIncorrect
  | ErrInvalidCredentials
  | ErrInvalidEmail
  | ErrInvalidPassword
  | ErrPasswordTooLong
  | ErrEmailUnchanged
  | ErrPasswordUnchanged
  | ErrInvalidPasswordResetToken
  | ErrInvalidSession
  | ErrInvalidSessionTarget
  | ErrCannotRevokeCurrentSession
  | ErrInvalidEmailChangeToken
  | ErrInvalidVerificationToken
  | ErrTOTPRequired
  | ErrInvalidTOTPCode
  | ErrTOTPAlreadyEnabled
  | ErrTOTPNotEnabled
  | ErrTOTPSetupNotStarted
  | ErrPasskeysDisabled
  | ErrPasskeyCeremony
  | ErrPasskeyNotFound
  | ErrProjectNameRequired
  | ErrProjectNameTooLong
  | ErrProjectNotFound
  | ErrInvalidPasswordHash
  | ErrInvalidCiphertext
  | ErrMsg string
  | Errorf string go_error

text \<open>\<^verbatim>\<open>errors.Is(err, target)\<close>: walk the chain of wrapped errors.\<close>

fun errors_Is :: "go_error \<Rightarrow> go_error \<Rightarrow> bool" where
  "errors_Is (Errorf m e) t = (Errorf m e = t \<or> errors_Is e t)"
| "errors_Is e t = (e = t)"

type_synonym 'a result = "go_error + 'a"

text \<open>\<open>if err != nil { return zero, fmt.Errorf(m, err) }\<close> on a result.\<close>

definition wrap_err :: "string \<Rightarrow> 'a result \<Rightarrow> 'a result" where
  "wrap_err m r = (case r of Inl e \<Rightarrow> Inl (Errorf m e) | Inr x \<Rightarrow> Inr x)"

lemma wrap_err_simps [simp]:
  "wrap_err m (Inl e) = Inl (Errorf m e)"
  "wrap_err m (Inr x) = Inr x"
  by (simp_all add: wrap_err_def)

lemma wrap_err_eq_Inr [simp]: "wrap_err m r = Inr x \<longleftrightarrow> r = Inr x"
  by (cases r) simp_all

lemma wrap_err_eq_Inl: "wrap_err m r = Inl e \<longleftrightarrow> (\<exists>e'. r = Inl e' \<and> e = Errorf m e')"
  by (cases r) auto

lemma wrap_err_Inr_eq [simp]: "Inr x = wrap_err m r \<longleftrightarrow> r = Inr x"
  by (cases r) auto

section \<open>Executing the state monad\<close>

text \<open>
  The code threads a database, a clock and a random source through its calls; the model
  threads one state.  \<open>run_bind_iff\<close> turns a run of a sequence into runs of its parts and is
  what the functional proofs simplify with.
\<close>

abbreviation ret :: "'a \<Rightarrow> ('s, 'a) state" where
  "ret \<equiv> State_Monad.return"

named_theorems run_simps \<open>equations that execute monadic programs\<close>

lemma run_bind [run_simps]:
  "run_state (State_Monad.bind m f) s = (case run_state m s of (x, s') \<Rightarrow> run_state (f x) s')"
  by (simp add: State_Monad.bind_def)

lemma run_bind_iff:
  "run_state (State_Monad.bind m f) s = (r, t) \<longleftrightarrow>
     (\<exists>x s'. run_state m s = (x, s') \<and> run_state (f x) s' = (r, t))"
  by (auto simp: run_bind split: prod.splits)

lemma run_ret_iff: "run_state (ret x) s = (r, t) \<longleftrightarrow> r = x \<and> t = s"
  by auto

lemmas run_iffs = run_bind_iff run_ret_iff

section \<open>Results that may be errors\<close>

text \<open>
  \<open>try_op m f\<close> is \<^verbatim>\<open>x, err := m(); if err != nil { return zero, err }\<close> followed by \<open>f x\<close>;
  \<open>wrapped msg m\<close> is \<open>m\<close> with its error wrapped by \<^verbatim>\<open>fmt.Errorf("msg: %w", err)\<close>.
\<close>

definition try_op :: "('s, 'a result) state \<Rightarrow> ('a \<Rightarrow> ('s, 'b result) state) \<Rightarrow> ('s, 'b result) state" where
  "try_op m f = do { r \<leftarrow> m; case r of Inl e \<Rightarrow> ret (Inl e) | Inr x \<Rightarrow> f x }"

definition wrapped :: "string \<Rightarrow> ('s, 'a result) state \<Rightarrow> ('s, 'a result) state" where
  "wrapped msg m = do { r \<leftarrow> m; ret (wrap_err msg r) }"

lemma run_try_op [run_simps]:
  "run_state (try_op m f) s =
     (case run_state m s of (Inl e, s') \<Rightarrow> (Inl e, s') | (Inr x, s') \<Rightarrow> run_state (f x) s')"
  by (simp add: try_op_def run_bind split: prod.splits sum.splits)

lemma run_wrapped [run_simps]:
  "run_state (wrapped msg m) s = (case run_state m s of (r, s') \<Rightarrow> (wrap_err msg r, s'))"
  by (simp add: wrapped_def run_bind split: prod.splits)

lemma errors_Is_Errorf [simp]: "t \<noteq> Errorf m e \<Longrightarrow> errors_Is (Errorf m e) t \<longleftrightarrow> errors_Is e t"
  by auto

section \<open>Preservation of a predicate by every run\<close>

text \<open>
  \<open>preserves P m\<close>: whatever state \<open>m\<close> starts in and whatever it returns, errors included,
  \<open>P\<close> carries over.  The rules below follow the shape of the programs, so that a proof for an
  operation is one \<open>auto\<close> over its definition.
\<close>

definition preserves :: "('s \<Rightarrow> bool) \<Rightarrow> ('s, 'a) state \<Rightarrow> bool" where
  "preserves P m \<longleftrightarrow> (\<forall>s. P s \<longrightarrow> P (snd (run_state m s)))"

named_theorems preserves_rules \<open>introduction rules for preservation\<close>

lemma preservesI: "(\<And>s r t. P s \<Longrightarrow> run_state m s = (r, t) \<Longrightarrow> P t) \<Longrightarrow> preserves P m"
  by (simp add: preserves_def) (metis prod.collapse)

lemma preservesD: "preserves P m \<Longrightarrow> P s \<Longrightarrow> run_state m s = (r, t) \<Longrightarrow> P t"
  by (auto simp: preserves_def dest!: spec [of _ s])

lemma preserves_ret [preserves_rules]: "preserves P (ret x)"
  by (simp add: preserves_def)

lemma preserves_bind [preserves_rules]:
  "preserves P m \<Longrightarrow> (\<And>x. preserves P (f x)) \<Longrightarrow> preserves P (State_Monad.bind m f)"
  by (simp add: preserves_def run_bind split: prod.splits) (metis snd_conv)

lemma preserves_if [preserves_rules]:
  "(b \<Longrightarrow> preserves P m) \<Longrightarrow> (\<not> b \<Longrightarrow> preserves P n) \<Longrightarrow> preserves P (if b then m else n)"
  by simp

lemma preserves_case_sum [preserves_rules]:
  "(\<And>e. r = Inl e \<Longrightarrow> preserves P (f e)) \<Longrightarrow> (\<And>x. r = Inr x \<Longrightarrow> preserves P (g x)) \<Longrightarrow>
     preserves P (case r of Inl e \<Rightarrow> f e | Inr x \<Rightarrow> g x)"
  by (cases r) simp_all

lemma preserves_case_option [preserves_rules]:
  "(r = None \<Longrightarrow> preserves P f) \<Longrightarrow> (\<And>x. r = Some x \<Longrightarrow> preserves P (g x)) \<Longrightarrow>
     preserves P (case r of None \<Rightarrow> f | Some x \<Rightarrow> g x)"
  by (cases r) simp_all

lemma preserves_case_prod [preserves_rules]:
  "(\<And>x y. p = (x, y) \<Longrightarrow> preserves P (f x y)) \<Longrightarrow> preserves P (case p of (x, y) \<Rightarrow> f x y)"
  by (cases p) simp

lemma preserves_try_op [preserves_rules]:
  "preserves P m \<Longrightarrow> (\<And>x. preserves P (f x)) \<Longrightarrow> preserves P (try_op m f)"
  unfolding try_op_def by (intro preserves_rules) auto

lemma preserves_wrapped [preserves_rules]: "preserves P m \<Longrightarrow> preserves P (wrapped msg m)"
  unfolding wrapped_def by (intro preserves_rules)

lemma preserves_let [preserves_rules]:
  "preserves P (f x) \<Longrightarrow> preserves P (let y = x in f y)"
  by simp

section \<open>Lists\<close>

lemma find_eq_Some: "find p xs = Some x \<Longrightarrow> x \<in> set xs \<and> p x"
  by (metis find_Some_iff nth_mem)

lemma find_eq_None [simp]: "find p xs = None \<longleftrightarrow> (\<forall>x \<in> set xs. \<not> p x)"
  by (auto simp: find_None_iff)

text \<open>A column that is unique identifies the row.\<close>

lemma distinct_map_eq:
  "distinct (map f xs) \<Longrightarrow> x \<in> set xs \<Longrightarrow> y \<in> set xs \<Longrightarrow> f x = f y \<Longrightarrow> x = y"
  by (auto simp: distinct_map inj_on_def)

lemma find_unique:
  assumes "distinct (map f xs)" and "x \<in> set xs" and "f x = k"
  shows "find (\<lambda>r. f r = k) xs = Some x"
proof (cases "find (\<lambda>r. f r = k) xs")
  case None
  with assms(2,3) show ?thesis by simp
next
  case (Some y)
  then have "y \<in> set xs \<and> f y = k" by (rule find_eq_Some)
  with assms Some show ?thesis by (metis distinct_map_eq)
qed

end
