(* ===== verification/Go_Strings.thy ===== *)
theory Go_Strings
  imports Prelude "HOL-Library.Sublist"
begin

text \<open>
  The part of Go's standard library on strings that the program uses: \<^verbatim>\<open>strings\<close>,
  \<^verbatim>\<open>unicode/utf8\<close>, \<^verbatim>\<open>strconv\<close>, \<^verbatim>\<open>encoding/hex\<close> and \<^verbatim>\<open>encoding/base64\<close>.  A Go string
  (and a byte slice) is a \<open>string\<close>, a list of 8-bit characters; \<open>length\<close> is Go's \<^verbatim>\<open>len\<close>.
\<close>

type_synonym bytes = string

abbreviation code :: "char \<Rightarrow> nat" where
  "code \<equiv> of_char"

abbreviation chr :: "nat \<Rightarrow> char" where
  "chr \<equiv> char_of"

lemma code_less [simp]: "code c < 256"
  by simp

section \<open>White space\<close>

text \<open>
  \<^verbatim>\<open>strings.TrimSpace\<close> removes the runes for which \<^verbatim>\<open>unicode.IsSpace\<close> holds.  Every such
  rune has a UTF-8 encoding that starts with a byte no continuation byte equals, so cutting the
  encodings off either end of the byte string is what decoding rune by rune does.
\<close>

definition space_encodings :: "bytes list" where
  "space_encodings =
     map (map chr) [[9], [10], [11], [12], [13], [32], [194, 133], [194, 160], [225, 154, 128],
       [226, 128, 128], [226, 128, 129], [226, 128, 130], [226, 128, 131], [226, 128, 132],
       [226, 128, 133], [226, 128, 134], [226, 128, 135], [226, 128, 136], [226, 128, 137],
       [226, 128, 138], [226, 128, 168], [226, 128, 169], [226, 128, 175], [226, 129, 159],
       [227, 128, 128]]"

definition strip_one :: "bytes list \<Rightarrow> bytes \<Rightarrow> bytes option" where
  "strip_one encs s = map_option (\<lambda>e. drop (length e) s) (find (\<lambda>e. prefix e s) encs)"

definition encs_ok :: "bytes list \<Rightarrow> bool" where
  "encs_ok encs \<longleftrightarrow> [] \<notin> set encs"

lemma strip_one_shorter: "encs_ok encs \<Longrightarrow> strip_one encs s = Some t \<Longrightarrow> length t < length s"
  by (auto simp: strip_one_def encs_ok_def prefix_def dest!: find_eq_Some)

function trim_with :: "bytes list \<Rightarrow> bytes \<Rightarrow> bytes" where
  "trim_with encs s =
     (if encs_ok encs then (case strip_one encs s of None \<Rightarrow> s | Some t \<Rightarrow> trim_with encs t) else s)"
  by pat_completeness auto
termination
  by (relation "measure (\<lambda>(e, s). length s)") (auto dest: strip_one_shorter)

declare trim_with.simps [simp del]

definition TrimSpace :: "bytes \<Rightarrow> bytes" where
  "TrimSpace s = rev (trim_with (map rev space_encodings) (rev (trim_with space_encodings s)))"

text \<open>\<^verbatim>\<open>strings.Join(strings.Fields(s), "")\<close>: all white space runes removed.\<close>

function remove_spaces :: "bytes \<Rightarrow> bytes" where
  "remove_spaces s = (case strip_one space_encodings s of
       Some t \<Rightarrow> remove_spaces t
     | None \<Rightarrow> (case s of [] \<Rightarrow> [] | c # cs \<Rightarrow> c # remove_spaces cs))"
  by pat_completeness auto
termination
  by (relation "measure length")
     (auto intro!: strip_one_shorter [of space_encodings] simp: encs_ok_def space_encodings_def)

declare remove_spaces.simps [simp del]

lemma space_encs_ok [simp]: "encs_ok space_encodings" "encs_ok (map rev space_encodings)"
  by (simp_all add: encs_ok_def space_encodings_def)

lemma trim_with_unfold:
  "encs_ok encs \<Longrightarrow>
     trim_with encs s = (case strip_one encs s of None \<Rightarrow> s | Some t \<Rightarrow> trim_with encs t)"
  by (simp add: trim_with.simps [of encs s])

lemma strip_one_trim_with: "encs_ok encs \<Longrightarrow> strip_one encs (trim_with encs s) = None"
proof (induction encs s rule: trim_with.induct)
  case (1 encs s)
  then show ?case
    by (cases "strip_one encs s") (simp_all add: trim_with_unfold [of encs s])
qed

lemma trim_with_fixpoint: "strip_one encs s = None \<Longrightarrow> trim_with encs s = s"
  by (simp add: trim_with.simps [of encs s])

lemma trim_with_suffix: "suffix (trim_with encs s) s"
proof (induction encs s rule: trim_with.induct)
  case (1 encs s)
  show ?case
  proof (cases "encs_ok encs \<and> strip_one encs s \<noteq> None")
    case True
    then obtain t where t: "strip_one encs s = Some t" by auto
    then have "suffix t s" by (auto simp: strip_one_def suffix_drop)
    with "1" True t show ?thesis
      by (auto simp: trim_with_unfold [of encs s] intro: suffix_order.trans)
  next
    case False
    then show ?thesis by (auto simp: trim_with.simps [of encs s])
  qed
qed

lemma strip_one_None_prefix: "strip_one encs s = None \<Longrightarrow> prefix t s \<Longrightarrow> strip_one encs t = None"
  by (auto simp: strip_one_def intro: prefix_order.trans)

lemma TrimSpace_trimmed:
  "strip_one space_encodings (TrimSpace s) = None"
  "strip_one (map rev space_encodings) (rev (TrimSpace s)) = None"
proof -
  let ?l = "trim_with space_encodings s"
  have "suffix (trim_with (map rev space_encodings) (rev ?l)) (rev ?l)"
    by (rule trim_with_suffix)
  then have "prefix (TrimSpace s) ?l"
    by (simp add: TrimSpace_def suffix_to_prefix)
  then show "strip_one space_encodings (TrimSpace s) = None"
    by (rule strip_one_None_prefix [OF strip_one_trim_with, rotated]) simp
  show "strip_one (map rev space_encodings) (rev (TrimSpace s)) = None"
    by (simp add: TrimSpace_def strip_one_trim_with)
qed

text \<open>Trimming twice is trimming once: handlers trim, and so do the services they call.\<close>

lemma TrimSpace_idem [simp]: "TrimSpace (TrimSpace s) = TrimSpace s"
  using TrimSpace_trimmed [of s] by (simp add: TrimSpace_def [of "TrimSpace s"] trim_with_fixpoint)

lemma TrimSpace_length: "length (TrimSpace s) \<le> length s"
  unfolding TrimSpace_def
  by (metis length_rev order_trans suffix_length_le trim_with_suffix)

section \<open>Case mapping on ASCII\<close>

definition is_ascii :: "char \<Rightarrow> bool" where
  "is_ascii c \<longleftrightarrow> code c < 128"

definition lower_char :: "char \<Rightarrow> char" where
  "lower_char c = (if 65 \<le> code c \<and> code c \<le> 90 then chr (code c + 32) else c)"

definition upper_char :: "char \<Rightarrow> char" where
  "upper_char c = (if 97 \<le> code c \<and> code c \<le> 122 then chr (code c - 32) else c)"

lemma code_chr [simp]: "n < 256 \<Longrightarrow> code (chr n) = n"
  by (simp add: of_char_of)

lemma upper_char_idem [simp]: "upper_char (upper_char c) = upper_char c"
  by (auto simp: upper_char_def)

lemma lower_char_idem [simp]: "lower_char (lower_char c) = lower_char c"
  by (auto simp: lower_char_def)

section \<open>Splitting\<close>

text \<open>\<^verbatim>\<open>strings.Split(s, sep)\<close> and \<^verbatim>\<open>strings.Cut(s, sep)\<close> for the one-byte separators used.\<close>

fun Split :: "char \<Rightarrow> bytes \<Rightarrow> bytes list" where
  "Split c [] = [[]]"
| "Split c (x # xs) =
     (if x = c then [] # Split c xs
      else (case Split c xs of [] \<Rightarrow> [[x]] | y # ys \<Rightarrow> (x # y) # ys))"

fun Cut :: "char \<Rightarrow> bytes \<Rightarrow> bytes \<times> bytes \<times> bool" where
  "Cut c [] = ([], [], False)"
| "Cut c (x # xs) =
     (if x = c then ([], xs, True) else (case Cut c xs of (a, b, f) \<Rightarrow> (x # a, b, f)))"

definition CutPrefix :: "bytes \<Rightarrow> bytes \<Rightarrow> bytes option" where
  "CutPrefix p s = (if prefix p s then Some (drop (length p) s) else None)"

lemma Split_nonempty [simp]: "Split c s \<noteq> []"
  by (cases s) (auto split: list.splits)

lemma Split_no_sep: "c \<notin> set s \<Longrightarrow> Split c s = [s]"
  by (induction s) auto

lemma Split_append: "c \<notin> set s \<Longrightarrow> Split c (s @ c # t) = s # Split c t"
  by (induction s) auto

lemma Cut_no_sep: "c \<notin> set s \<Longrightarrow> Cut c s = (s, [], False)"
  by (induction s) auto

lemma Cut_append: "c \<notin> set s \<Longrightarrow> Cut c (s @ c # t) = (s, t, True)"
  by (induction s) auto

lemma CutPrefix_append [simp]: "CutPrefix p (p @ s) = Some s"
  by (simp add: CutPrefix_def)

section \<open>UTF-8\<close>

text \<open>
  The length of the valid encoding a byte string starts with, 0 where the first byte starts
  none, after the tables of \<^verbatim>\<open>unicode/utf8\<close>.  \<^verbatim>\<open>RuneCountInString\<close> counts an invalid byte
  as one rune.
\<close>

definition is_cont :: "char \<Rightarrow> bool" where
  "is_cont c \<longleftrightarrow> 128 \<le> code c \<and> code c \<le> 191"

definition second_ok :: "nat \<Rightarrow> char \<Rightarrow> bool" where
  "second_ok a c \<longleftrightarrow>
     (if a = 224 then 160 else if a = 240 then 144 else 128) \<le> code c \<and>
     code c \<le> (if a = 237 then 159 else if a = 244 then 143 else 191)"

fun rune_len :: "bytes \<Rightarrow> nat" where
  "rune_len [] = 0"
| "rune_len (a # s) =
     (if code a < 128 then 1
      else if 194 \<le> code a \<and> code a \<le> 223
      then (case s of b # _ \<Rightarrow> if is_cont b then 2 else 0 | _ \<Rightarrow> 0)
      else if 224 \<le> code a \<and> code a \<le> 239
      then (case s of b # c # _ \<Rightarrow> if second_ok (code a) b \<and> is_cont c then 3 else 0 | _ \<Rightarrow> 0)
      else if 240 \<le> code a \<and> code a \<le> 244
      then (case s of b # c # d # _ \<Rightarrow>
              if second_ok (code a) b \<and> is_cont c \<and> is_cont d then 4 else 0 | _ \<Rightarrow> 0)
      else 0)"

function RuneCountInString :: "bytes \<Rightarrow> nat" where
  "RuneCountInString s =
     (if s = [] then 0 else Suc (RuneCountInString (drop (max 1 (rune_len s)) s)))"
  by pat_completeness auto
termination
  by (relation "measure length") auto

declare RuneCountInString.simps [simp del]

function ValidString :: "bytes \<Rightarrow> bool" where
  "ValidString s =
     (if s = [] then True else if rune_len s = 0 then False else ValidString (drop (rune_len s) s))"
  by pat_completeness auto
termination
  by (relation "measure length") auto

declare ValidString.simps [simp del]

lemma RuneCount_le_length: "RuneCountInString s \<le> length s"
proof (induction s rule: RuneCountInString.induct)
  case (1 s)
  show ?case
  proof (cases "s = []")
    case False
    with "1" have "RuneCountInString (drop (max 1 (rune_len s)) s) \<le> length s - max 1 (rune_len s)"
      by simp
    with False show ?thesis
      by (subst RuneCountInString.simps) (cases s; auto)
  qed (simp add: RuneCountInString.simps)
qed

lemma RuneCount_ascii: "list_all is_ascii s \<Longrightarrow> RuneCountInString s = length s"
proof (induction s)
  case (Cons c s)
  then show ?case
    by (subst RuneCountInString.simps) (simp add: is_ascii_def)
qed (simp add: RuneCountInString.simps)

lemma ValidString_Nil [simp]: "ValidString []"
  by (simp add: ValidString.simps)

section \<open>Decimal numbers\<close>

definition digit_char :: "nat \<Rightarrow> char" where
  "digit_char d = chr (48 + d)"

definition digit_val :: "char \<Rightarrow> nat option" where
  "digit_val c = (if 48 \<le> code c \<and> code c \<le> 57 then Some (code c - 48) else None)"

fun dec :: "nat \<Rightarrow> bytes" where
  "dec n = (if n < 10 then [digit_char n] else dec (n div 10) @ [digit_char (n mod 10)])"

declare dec.simps [simp del]

fun parse_digits :: "nat \<Rightarrow> bytes \<Rightarrow> nat option" where
  "parse_digits acc [] = Some acc"
| "parse_digits acc (c # cs) =
     (case digit_val c of None \<Rightarrow> None | Some d \<Rightarrow> parse_digits (10 * acc + d) cs)"

text \<open>\<^verbatim>\<open>strconv.ParseUint(s, 10, bits)\<close> and \<^verbatim>\<open>strconv.ParseInt(s, 10, 64)\<close>, errors as \<open>None\<close>.\<close>

definition ParseUint :: "nat \<Rightarrow> bytes \<Rightarrow> nat option" where
  "ParseUint bits s =
     (if s = [] then None
      else case parse_digits 0 s of None \<Rightarrow> None | Some v \<Rightarrow> if v < 2 ^ bits then Some v else None)"

definition ParseInt :: "bytes \<Rightarrow> int option" where
  "ParseInt s =
     (let neg = (case s of c # _ \<Rightarrow> c = CHR ''-'' | [] \<Rightarrow> False);
          body = (case s of c # cs \<Rightarrow> if c = CHR ''-'' \<or> c = CHR ''+'' then cs else s | [] \<Rightarrow> [])
      in if body = [] then None
         else case parse_digits 0 body of
             None \<Rightarrow> None
           | Some v \<Rightarrow> if neg then (if v \<le> 2 ^ 63 then Some (- int v) else None)
                      else (if v < 2 ^ 63 then Some (int v) else None))"

definition FormatInt :: "int \<Rightarrow> bytes" where
  "FormatInt i = (if i < 0 then CHR ''-'' # dec (nat (- i)) else dec (nat i))"

definition ParseBool :: "bytes \<Rightarrow> bool option" where
  "ParseBool s =
     (if s \<in> {''1'', ''t'', ''T'', ''TRUE'', ''true'', ''True''} then Some True
      else if s \<in> {''0'', ''f'', ''F'', ''FALSE'', ''false'', ''False''} then Some False
      else None)"

definition FormatBool :: "bool \<Rightarrow> bytes" where
  "FormatBool b = (if b then ''true'' else ''false'')"

lemma digit_val_char [simp]: "d < 10 \<Longrightarrow> digit_val (digit_char d) = Some d"
  by (simp add: digit_val_def digit_char_def)

lemma parse_digits_append:
  "parse_digits a (s @ t) = (case parse_digits a s of None \<Rightarrow> None | Some b \<Rightarrow> parse_digits b t)"
  by (induction s arbitrary: a) (auto split: option.splits)

lemma parse_digits_dec [simp]: "parse_digits 0 (dec n) = Some n"
proof (induction n rule: dec.induct)
  case (1 n)
  then show ?case
    by (subst dec.simps) (simp add: parse_digits_append)
qed

lemma dec_nonempty [simp]: "dec n \<noteq> []"
  by (subst dec.simps) simp

lemma dec_digits: "c \<in> set (dec n) \<Longrightarrow> 48 \<le> code c \<and> code c \<le> 57"
proof (induction n rule: dec.induct)
  case (1 n)
  then show ?case
    by (subst (asm) dec.simps) (auto simp: digit_char_def split: if_splits)
qed

lemma dec_no_char:
  assumes "code c < 48 \<or> 57 < code c"
  shows "c \<notin> set (dec n)"
  using assms dec_digits [of c n] by fastforce

lemma dec_hd: "dec n = c # cs \<Longrightarrow> c \<noteq> CHR ''-'' \<and> c \<noteq> CHR ''+''"
  using dec_digits [of c n] by auto

lemma ParseUint_dec [simp]: "n < 2 ^ b \<Longrightarrow> ParseUint b (dec n) = Some n"
  by (simp add: ParseUint_def)

lemma ParseInt_dec:
  assumes "n < 2 ^ 63"
  shows "ParseInt (dec n) = Some (int n)"
proof -
  obtain c cs where d: "dec n = c # cs" by (meson dec_nonempty neq_Nil_conv)
  have "parse_digits 0 (c # cs) = Some n" using parse_digits_dec [of n] d by simp
  with assms dec_hd [OF d] show ?thesis
    by (simp add: d ParseInt_def del: parse_digits.simps)
qed

lemma ParseInt_FormatInt:
  assumes "- (2 ^ 63) \<le> i" and "i < 2 ^ 63"
  shows "ParseInt (FormatInt i) = Some i"
proof (cases "i < 0")
  case True
  with assms show ?thesis
    by (simp add: FormatInt_def ParseInt_def nat_le_iff)
next
  case False
  with assms have "nat i < 2 ^ 63" by (simp add: nat_less_iff)
  with False show ?thesis by (simp add: FormatInt_def ParseInt_dec)
qed

lemma FormatInt_no_char:
  assumes "code c < 48 \<or> 57 < code c" and "c \<noteq> CHR ''-''"
  shows "c \<notin> set (FormatInt i)"
  using assms dec_no_char [OF assms(1)] by (simp add: FormatInt_def)

lemma ParseBool_FormatBool [simp]: "ParseBool (FormatBool b) = Some b"
  by (simp add: ParseBool_def FormatBool_def)

section \<open>Hexadecimal\<close>

definition hex_digit :: "nat \<Rightarrow> char" where
  "hex_digit n = (if n < 10 then chr (48 + n) else chr (87 + n))"

text \<open>\<^verbatim>\<open>hex.EncodeToString\<close>.\<close>

fun hex_encode :: "bytes \<Rightarrow> bytes" where
  "hex_encode [] = []"
| "hex_encode (c # cs) = hex_digit (code c div 16) # hex_digit (code c mod 16) # hex_encode cs"

lemma length_hex_encode [simp]: "length (hex_encode s) = 2 * length s"
  by (induction s) auto

lemma hex_digit_inj:
  assumes "a < 16" and "b < 16" and "hex_digit a = hex_digit b"
  shows "a = b"
proof -
  have "code (hex_digit a) = code (hex_digit b)" using assms(3) by simp
  with assms(1,2) show ?thesis by (simp add: hex_digit_def split: if_splits)
qed

lemma hex_encode_inj: "hex_encode s = hex_encode t \<Longrightarrow> s = t"
proof (induction s arbitrary: t)
  case Nil
  then show ?case by (cases t) auto
next
  case (Cons c s)
  then obtain d u where t: "t = d # u" by (cases t) auto
  with Cons.prems have
    "hex_digit (code c div 16) = hex_digit (code d div 16)"
    "hex_digit (code c mod 16) = hex_digit (code d mod 16)" "hex_encode s = hex_encode u"
    by auto
  then have "code c div 16 = code d div 16" "code c mod 16 = code d mod 16" "s = u"
    using Cons.IH code_less [of c] code_less [of d]
    by (auto intro!: hex_digit_inj simp: less_mult_imp_div_less simp del: code_less)
  then have "code c = code d" by (metis div_mult_mod_eq)
  with t \<open>s = u\<close> show ?case by simp
qed

text \<open>A hexadecimal string has no white space to trim.\<close>

lemma hex_digit_range: "n < 16 \<Longrightarrow> 48 \<le> code (hex_digit n) \<and> code (hex_digit n) \<le> 102"
  by (auto simp: hex_digit_def)

lemma hex_encode_range: "c \<in> set (hex_encode s) \<Longrightarrow> 48 \<le> code c \<and> code c \<le> 102"
proof (induction s)
  case (Cons a s)
  have "code a div 16 < 16" using code_less [of a] by (simp add: less_mult_imp_div_less del: code_less)
  with Cons hex_digit_range [of "code a div 16"] hex_digit_range [of "code a mod 16"]
  show ?case by auto
qed simp

lemma not_prefix_outside:
  "c \<notin> set s \<Longrightarrow> \<not> prefix (c # cs) s"
  by (auto simp: prefix_def)

definition visible :: "char \<Rightarrow> bool" where
  "visible c \<longleftrightarrow> 32 < code c \<and> code c < 128"

lemma strip_one_none:
  assumes "list_all visible s"
  shows "strip_one space_encodings s = None" "strip_one (map rev space_encodings) s = None"
proof -
  have out: "chr n \<notin> set s" if "n \<le> 32 \<or> (128 \<le> n \<and> n < 256)" for n
    using assms that by (auto simp: list_all_iff visible_def)
  show "strip_one space_encodings s = None" "strip_one (map rev space_encodings) s = None"
    unfolding strip_one_def space_encodings_def
    by (simp_all add: not_prefix_outside out del: char_of_eq_iff)
qed

lemma TrimSpace_visible: "list_all visible s \<Longrightarrow> TrimSpace s = s"
  by (simp add: TrimSpace_def trim_with_fixpoint strip_one_none list_all_rev)

lemma TrimSpace_hex [simp]: "TrimSpace (hex_encode s) = hex_encode s"
  by (rule TrimSpace_visible) (use hex_encode_range in \<open>fastforce simp: list_all_iff visible_def\<close>)

section \<open>Base 64\<close>

text \<open>
  \<^verbatim>\<open>base64.RawStdEncoding\<close> and \<^verbatim>\<open>base64.RawURLEncoding\<close>: no padding.  Go's decoder skips
  carriage returns and newlines, and in the default (non-strict) mode does not require the unused
  low bits of the last digit to be zero; both are modelled.
\<close>

definition std_alphabet :: string where
  "std_alphabet = ''ABCDEFGHIJKLMNOPQRSTUVWXYZabcdefghijklmnopqrstuvwxyz0123456789+/''"

definition url_alphabet :: string where
  "url_alphabet = ''ABCDEFGHIJKLMNOPQRSTUVWXYZabcdefghijklmnopqrstuvwxyz0123456789-_''"

fun index_of :: "char \<Rightarrow> string \<Rightarrow> nat option" where
  "index_of c [] = None"
| "index_of c (x # xs) = (if x = c then Some 0 else map_option Suc (index_of c xs))"

fun sextets :: "bytes \<Rightarrow> nat list" where
  "sextets [] = []"
| "sextets [a] = [code a div 4, (code a mod 4) * 16]"
| "sextets [a, b] = [code a div 4, (code a mod 4) * 16 + code b div 16, (code b mod 16) * 4]"
| "sextets (a # b # c # s) =
     code a div 4 # ((code a mod 4) * 16 + code b div 16) # ((code b mod 16) * 4 + code c div 64)
       # code c mod 64 # sextets s"

fun unsextets :: "nat list \<Rightarrow> bytes option" where
  "unsextets [] = Some []"
| "unsextets [w] = None"
| "unsextets [w, x] = Some [chr (w * 4 + x div 16)]"
| "unsextets [w, x, y] = Some [chr (w * 4 + x div 16), chr ((x mod 16) * 16 + y div 4)]"
| "unsextets (w # x # y # z # ns) =
     map_option (\<lambda>s. chr (w * 4 + x div 16) # chr ((x mod 16) * 16 + y div 4)
                       # chr ((y mod 4) * 64 + z) # s) (unsextets ns)"

fun decode_digits :: "string \<Rightarrow> bytes \<Rightarrow> nat list option" where
  "decode_digits al [] = Some []"
| "decode_digits al (c # cs) =
     (if c = CHR 0x0A \<or> c = CHR 0x0D then decode_digits al cs
      else case index_of c al of None \<Rightarrow> None | Some n \<Rightarrow> map_option (Cons n) (decode_digits al cs))"

definition b64_encode :: "string \<Rightarrow> bytes \<Rightarrow> bytes" where
  "b64_encode al s = map ((!) al) (sextets s)"

definition b64_decode :: "string \<Rightarrow> bytes \<Rightarrow> bytes option" where
  "b64_decode al s = (case decode_digits al s of None \<Rightarrow> None | Some ns \<Rightarrow> unsextets ns)"

definition alphabet_ok :: "string \<Rightarrow> bool" where
  "alphabet_ok al \<longleftrightarrow> length al = 64 \<and> distinct al \<and> CHR 0x0A \<notin> set al \<and> CHR 0x0D \<notin> set al"

lemma alphabets_ok [simp]: "alphabet_ok std_alphabet" "alphabet_ok url_alphabet"
  by (simp_all add: alphabet_ok_def std_alphabet_def url_alphabet_def)

lemma index_of_nth: "distinct al \<Longrightarrow> n < length al \<Longrightarrow> index_of (al ! n) al = Some n"
proof (induction al arbitrary: n)
  case (Cons x xs)
  then show ?case by (cases n) auto
qed simp

lemma decode_digits_map:
  assumes "alphabet_ok al" and "\<forall>n \<in> set ns. n < 64"
  shows "decode_digits al (map ((!) al) ns) = Some ns"
  using assms(2)
proof (induction ns)
  case (Cons n ns)
  with assms(1) have "al ! n \<in> set al" "index_of (al ! n) al = Some n"
    by (auto simp: alphabet_ok_def intro: index_of_nth)
  with Cons assms(1) show ?case by (auto simp: alphabet_ok_def simp del: nth_mem)
qed simp

lemma div_mod_digits:
  fixes x y m :: nat
  assumes "y < m"
  shows "(x * m + y) div m = x" "(x * m + y) mod m = y"
  using assms by simp_all

lemma sextet_parts:
  fixes a b c :: nat
  assumes "a < 256" and "b < 256" and "c < 256"
  shows "a div 4 < 64" "(a mod 4) * 16 + b div 16 < 64" "(b mod 16) * 4 + c div 64 < 64"
    "(a mod 4) * 16 < 64" "(b mod 16) * 4 < 64"
    "a div 4 * 4 + ((a mod 4) * 16 + b div 16) div 16 = a"
    "a div 4 * 4 + ((a mod 4) * 16) div 16 = a"
    "((a mod 4) * 16 + b div 16) mod 16 * 16 + ((b mod 16) * 4 + c div 64) div 4 = b"
    "((a mod 4) * 16 + b div 16) mod 16 * 16 + ((b mod 16) * 4) div 4 = b"
    "((b mod 16) * 4 + c div 64) mod 4 * 64 + c mod 64 = c"
proof -
  have lt: "b div 16 < 16" "c div 64 < 4" "a mod 4 < 4" "b mod 16 < 16"
    using assms by (simp_all add: less_mult_imp_div_less)
  note d = div_mod_digits [OF lt(1), of "a mod 4"] div_mod_digits [OF lt(2), of "b mod 16"]
  show "a div 4 < 64" using assms by (simp add: less_mult_imp_div_less)
  show "(a mod 4) * 16 + b div 16 < 64" "(b mod 16) * 4 + c div 64 < 64"
    "(a mod 4) * 16 < 64" "(b mod 16) * 4 < 64"
    using lt by linarith+
  show "a div 4 * 4 + ((a mod 4) * 16 + b div 16) div 16 = a" by (simp only: d div_mult_mod_eq)
  show "a div 4 * 4 + ((a mod 4) * 16) div 16 = a" by simp
  show "((a mod 4) * 16 + b div 16) mod 16 * 16 + ((b mod 16) * 4 + c div 64) div 4 = b"
    by (simp only: d div_mult_mod_eq)
  show "((a mod 4) * 16 + b div 16) mod 16 * 16 + ((b mod 16) * 4) div 4 = b"
    by (simp only: d nonzero_mult_div_cancel_right) (simp add: div_mult_mod_eq)
  show "((b mod 16) * 4 + c div 64) mod 4 * 64 + c mod 64 = c" by (simp only: d div_mult_mod_eq)
qed

lemmas code_sextets = sextet_parts [OF code_less code_less code_less]

lemma sextets_less: "n \<in> set (sextets s) \<Longrightarrow> n < 64"
  by (induction s rule: sextets.induct) (auto simp: code_sextets)

lemma unsextets_sextets: "unsextets (sextets s) = Some s"
  by (induction s rule: sextets.induct) (simp_all only: sextets.simps unsextets.simps code_sextets char_of_char option.map)

theorem b64_roundtrip: "alphabet_ok al \<Longrightarrow> b64_decode al (b64_encode al s) = Some s"
  by (simp add: b64_decode_def b64_encode_def decode_digits_map sextets_less unsextets_sextets)

lemma b64_encode_alphabet: "alphabet_ok al \<Longrightarrow> set (b64_encode al s) \<subseteq> set al"
  by (auto simp: b64_encode_def alphabet_ok_def dest!: sextets_less)

lemma b64_encode_nonempty: "s \<noteq> [] \<Longrightarrow> b64_encode al s \<noteq> []"
  by (cases s rule: sextets.cases) (auto simp: b64_encode_def)

end
