(* ===== verification/Database.thy ===== *)
theory Database
  imports Go_Strings "HOL-Library.Product_Lexorder"
begin

text \<open>
  The SQLite database of \<^verbatim>\<open>migrations/*.sql\<close> as lists of rows, the world a request runs in
  (database, clock, random source, faults of the driver), the execution of one statement and of
  a transaction (\<^verbatim>\<open>internal/auth/tx.go\<close>), and the schema invariant.  Instants are nanoseconds;
  \<^verbatim>\<open>CURRENT_TIMESTAMP\<close> is the clock cut to whole seconds.
\<close>

type_synonym time = int

section \<open>Rows and tables\<close>

text \<open>
  \<open>user_cols\<close> are the columns the user queries return, \<open>user_row\<close> adds the WebAuthn handle.
  The three token tables share their columns; \<open>change_row\<close> adds the address to change to.
\<close>

record user_cols =
  usr_ID :: int
  usr_Email :: string
  usr_PasswordHash :: string
  usr_EmailVerifiedAt :: "time option"
  usr_CreatedAt :: time

record user_row = user_cols +
  usr_Handle :: bytes

lemma truncate_cols [simp]:
  "usr_ID (user_cols.truncate u) = usr_ID u"
  "usr_Email (user_cols.truncate u) = usr_Email u"
  "usr_PasswordHash (user_cols.truncate u) = usr_PasswordHash u"
  "usr_EmailVerifiedAt (user_cols.truncate u) = usr_EmailVerifiedAt u"
  "usr_CreatedAt (user_cols.truncate u) = usr_CreatedAt u"
  by (simp_all add: user_cols.truncate_def)

record session_row =
  ses_ID :: int
  ses_UserID :: int
  ses_TokenHash :: string
  ses_ExpiresAt :: time
  ses_CreatedAt :: time

record token_row =
  tok_ID :: int
  tok_UserID :: int
  tok_TokenHash :: string
  tok_ExpiresAt :: time
  tok_ConsumedAt :: "time option"
  tok_CreatedAt :: time

record change_row = token_row +
  tok_NewEmail :: string

datatype outbox_status = Pending | Sending | Sent | Failed

record outbox_row =
  out_ID :: int
  out_Sender :: string
  out_Recipient :: string
  out_Subject :: string
  out_TextBody :: string
  out_HtmlBody :: string
  out_Status :: outbox_status
  out_Attempts :: int
  out_LastError :: string
  out_AvailableAt :: time
  out_ClaimedAt :: "time option"
  out_ClaimExpiresAt :: "time option"
  out_ClaimToken :: string
  out_SentAt :: "time option"
  out_CreatedAt :: time

record totp_row =
  totp_ID :: int
  totp_UserID :: int
  totp_Secret :: string
  totp_EnabledAt :: "time option"
  totp_CreatedAt :: time
  totp_LastUsedCounter :: "int option"

record backup_row =
  bkp_ID :: int
  bkp_UserID :: int
  bkp_CodeHash :: string
  bkp_UsedAt :: "time option"
  bkp_CreatedAt :: time

record cred_row =
  crd_ID :: int
  crd_UserID :: int
  crd_CredentialID :: bytes
  crd_PublicKey :: bytes
  crd_AttestationType :: string
  crd_Aaguid :: bytes
  crd_SignCount :: int
  crd_Transports :: string
  crd_BackupEligible :: int
  crd_BackupState :: int
  crd_Name :: string
  crd_CreatedAt :: time
  crd_LastUsedAt :: "time option"

record project_row =
  prj_ID :: int
  prj_UserID :: int
  prj_Name :: string
  prj_CreatedAt :: time

record db =
  users :: "user_row list"
  sessions :: "session_row list"
  ev_tokens :: "token_row list"
  pr_tokens :: "token_row list"
  ec_tokens :: "change_row list"
  outbox :: "outbox_row list"
  totps :: "totp_row list"
  backup_codes :: "backup_row list"
  credentials :: "cred_row list"
  projects :: "project_row list"

definition empty_db :: db where
  "empty_db = \<lparr>users = [], sessions = [], ev_tokens = [], pr_tokens = [], ec_tokens = [],
     outbox = [], totps = [], backup_codes = [], credentials = [], projects = []\<rparr>"

text \<open>
  The key SQLite gives a new row of a table with an \<^verbatim>\<open>INTEGER PRIMARY KEY\<close>: one more than the
  largest key present (so the key of a deleted last row is used again).
\<close>

definition next_id :: "('r \<Rightarrow> int) \<Rightarrow> 'r list \<Rightarrow> int" where
  "next_id key rows = (if rows = [] then 1 else Max (set (map key rows)) + 1)"

lemma next_id_greater: "r \<in> set rows \<Longrightarrow> key r < next_id key rows"
proof -
  assume r: "r \<in> set rows"
  then have "key r \<le> Max (set (map key rows))" by (intro Max_ge) auto
  with r show ?thesis by (auto simp: next_id_def)
qed

lemma next_id_fresh: "next_id key rows \<notin> key ` set rows"
  by (metis imageE less_irrefl next_id_greater)

lemma next_id_pos: "\<forall>r \<in> set rows. 0 < key r \<Longrightarrow> 0 < next_id key rows"
proof (cases rows)
  case (Cons r rs)
  assume "\<forall>r \<in> set rows. 0 < key r"
  with Cons next_id_greater [of r rows key] show ?thesis by fastforce
qed (simp add: next_id_def)

section \<open>The world and one statement\<close>

text \<open>
  \<open>wclock\<close> gives the successive readings of \<^verbatim>\<open>time.Now\<close> (no order is assumed), \<open>wrand\<close> the
  successive answers of \<^verbatim>\<open>crypto/rand\<close> (\<open>None\<close>: the read failed), \<open>wfault\<close> whether the driver
  fails the next statement, \<^verbatim>\<open>BEGIN\<close> or \<^verbatim>\<open>COMMIT\<close> (lost connection, busy database, cancelled
  context).  Every error path of the code is reachable through them.
\<close>

record world =
  wdb :: db
  wclock :: "nat \<Rightarrow> time"
  wrand :: "nat \<Rightarrow> (nat \<Rightarrow> char) option"
  wfault :: "nat \<Rightarrow> bool"

type_synonym 'a op = "(world, 'a result) state"
type_synonym 'a query = "time \<Rightarrow> db \<Rightarrow> 'a result \<times> db"

definition time_now :: "(world, time) state" where
  "time_now = State (\<lambda>w. (wclock w 0, w\<lparr>wclock := \<lambda>n. wclock w (Suc n)\<rparr>))"

definition rand_Read :: "nat \<Rightarrow> bytes op" where
  "rand_Read n = State (\<lambda>w.
     (case wrand w 0 of None \<Rightarrow> Inl ErrRand | Some f \<Rightarrow> Inr (map f [0..<n]),
      w\<lparr>wrand := \<lambda>k. wrand w (Suc k)\<rparr>))"

definition fault :: "(world, bool) state" where
  "fault = State (\<lambda>w. (wfault w 0, w\<lparr>wfault := \<lambda>n. wfault w (Suc n)\<rparr>))"

definition get_db :: "(world, db) state" where
  "get_db = State (\<lambda>w. (wdb w, w))"

definition put_db :: "db \<Rightarrow> (world, unit) state" where
  "put_db d = State (\<lambda>w. ((), w\<lparr>wdb := d\<rparr>))"

definition second :: time where
  "second = 1000000000"

definition current_timestamp :: "time \<Rightarrow> time" where
  "current_timestamp t = t - t mod second"

text \<open>One SQL statement: it may fail in the driver; otherwise it acts on the database at once.\<close>

definition exec :: "'a query \<Rightarrow> 'a op" where
  "exec q = do {
     f \<leftarrow> fault;
     now \<leftarrow> time_now;
     if f then ret (Inl ErrDriver)
     else State (\<lambda>w. case q (current_timestamp now) (wdb w) of (r, d) \<Rightarrow> (r, w\<lparr>wdb := d\<rparr>))
   }"

text \<open>
  \<^verbatim>\<open>withTx\<close> and \<^verbatim>\<open>withTxResult\<close>: an error of the body, or a failing commit, leaves the database
  as it was when the transaction began (the deferred rollback).
\<close>

definition withTx :: "string \<Rightarrow> 'a op \<Rightarrow> 'a op" where
  "withTx operation fn = do {
     f \<leftarrow> fault;
     if f then ret (Inl (Errorf (''begin '' @ operation @ '' transaction'') ErrDriver))
     else do {
       snapshot \<leftarrow> get_db;
       r \<leftarrow> fn;
       (case r of
          Inl e \<Rightarrow> do { put_db snapshot; ret (Inl e) }
        | Inr x \<Rightarrow> do {
            f \<leftarrow> fault;
            if f then do {
              put_db snapshot;
              ret (Inl (Errorf (''commit '' @ operation @ '' transaction'') ErrDriver))
            }
            else ret (Inr x)
          })
     }
   }"

text \<open>Running the primitives.\<close>

lemma run_time_now [run_simps]:
  "run_state time_now w = (wclock w 0, w\<lparr>wclock := \<lambda>n. wclock w (Suc n)\<rparr>)"
  by (simp add: time_now_def)

lemma run_rand_Read [run_simps]:
  "run_state (rand_Read n) w =
     (case wrand w 0 of None \<Rightarrow> Inl ErrRand | Some f \<Rightarrow> Inr (map f [0..<n]),
      w\<lparr>wrand := \<lambda>k. wrand w (Suc k)\<rparr>)"
  by (simp add: rand_Read_def)

lemma run_fault [run_simps]:
  "run_state fault w = (wfault w 0, w\<lparr>wfault := \<lambda>n. wfault w (Suc n)\<rparr>)"
  by (simp add: fault_def)

lemma run_exec [run_simps]:
  "run_state (exec q) w =
     (let w' = w\<lparr>wclock := \<lambda>n. wclock w (Suc n), wfault := \<lambda>n. wfault w (Suc n)\<rparr>
      in if wfault w 0 then (Inl ErrDriver, w')
         else (case q (current_timestamp (wclock w 0)) (wdb w) of (r, d) \<Rightarrow> (r, w'\<lparr>wdb := d\<rparr>)))"
  by (simp add: exec_def run_simps Let_def split: prod.splits)

lemma run_withTx [run_simps]:
  "run_state (withTx oper fn) w =
     (let w1 = w\<lparr>wfault := \<lambda>n. wfault w (Suc n)\<rparr>
      in if wfault w 0 then (Inl (Errorf (''begin '' @ oper @ '' transaction'') ErrDriver), w1)
         else (case run_state fn w1 of
             (Inl e, w2) \<Rightarrow> (Inl e, w2\<lparr>wdb := wdb w\<rparr>)
           | (Inr x, w2) \<Rightarrow>
               (let w3 = w2\<lparr>wfault := \<lambda>n. wfault w2 (Suc n)\<rparr>
                in if wfault w2 0
                   then (Inl (Errorf (''commit '' @ oper @ '' transaction'') ErrDriver), w3\<lparr>wdb := wdb w\<rparr>)
                   else (Inr x, w3))))"
  by (simp add: withTx_def run_simps get_db_def put_db_def Let_def split: prod.splits sum.splits)

text \<open>The database after a step that only reads the clock, the random source or a fault.\<close>

lemma wdb_primitives:
  "run_state time_now w = (t, w1) \<Longrightarrow> wdb w1 = wdb w"
  "run_state (rand_Read n) w = (r, w2) \<Longrightarrow> wdb w2 = wdb w"
  by (auto simp: run_simps)

text \<open>A statement: what it returned and what it left behind.\<close>

lemma exec_result:
  assumes "run_state (exec q) w = (r, w')"
  obtains (driver) "r = Inl ErrDriver" "wdb w' = wdb w"
    | (ran) now where "q now (wdb w) = (r, wdb w')"
  using assms by (auto simp: run_exec Let_def split: if_splits prod.splits)

lemma exec_Inr:
  "run_state (exec q) w = (Inr x, w') \<Longrightarrow>
     q (current_timestamp (wclock w 0)) (wdb w) = (Inr x, wdb w')"
  by (auto simp: run_exec Let_def split: if_splits prod.splits)

text \<open>A transaction either takes effect as a whole or not at all.\<close>

lemma withTx_Inl_wdb: "run_state (withTx oper fn) w = (Inl e, w') \<Longrightarrow> wdb w' = wdb w"
  by (auto simp: run_withTx Let_def split: if_splits prod.splits sum.splits)

lemma withTx_Inr:
  assumes "run_state (withTx oper fn) w = (Inr x, w')"
  obtains w1 w2 where "wdb w1 = wdb w" "run_state fn w1 = (Inr x, w2)" "wdb w' = wdb w2"
proof -
  let ?w1 = "w\<lparr>wfault := \<lambda>n. wfault w (Suc n)\<rparr>"
  from assms obtain w2 where "run_state fn ?w1 = (Inr x, w2)" "wdb w' = wdb w2"
    by (auto simp: run_withTx Let_def split: if_splits prod.splits sum.splits)
  then show ?thesis by (intro that [of ?w1 w2]) simp_all
qed

section \<open>Preservation of a property of the database\<close>

abbreviation keeps :: "(db \<Rightarrow> bool) \<Rightarrow> (world, 'a) state \<Rightarrow> bool" where
  "keeps P m \<equiv> preserves (\<lambda>w. P (wdb w)) m"

definition query_keeps :: "(db \<Rightarrow> bool) \<Rightarrow> 'a query \<Rightarrow> bool" where
  "query_keeps P q \<longleftrightarrow> (\<forall>now d. P d \<longrightarrow> P (snd (q now d)))"

lemma keeps_primitives [preserves_rules]:
  "keeps P time_now" "keeps P (rand_Read n)"
  by (auto intro!: preservesI simp: wdb_primitives)

lemma keeps_exec: "query_keeps P q \<Longrightarrow> keeps P (exec q)"
  by (rule preservesI) (auto simp: query_keeps_def run_exec Let_def split: if_splits prod.splits; metis snd_conv)

lemma keeps_withTx [preserves_rules]:
  assumes "keeps P fn"
  shows "keeps P (withTx oper fn)"
proof (rule preservesI)
  fix w :: world and r w'
  assume P: "P (wdb w)" and run: "run_state (withTx oper fn) w = (r, w')"
  show "P (wdb w')"
  proof (cases r)
    case (Inl e)
    with P run show ?thesis by (auto dest: withTx_Inl_wdb)
  next
    case (Inr x)
    with run obtain w1 w2 where "wdb w1 = wdb w" "run_state fn w1 = (Inr x, w2)" "wdb w' = wdb w2"
      by (auto elim: withTx_Inr)
    with P preservesD [OF assms] show ?thesis by metis
  qed
qed

section \<open>Weakest preconditions on the database\<close>

text \<open>
  \<open>wp m Q d\<close>: from a world whose database is \<open>d\<close>, and whatever the clock, the random source and
  the driver do, \<open>m\<close> ends with a result and a database that satisfy \<open>Q\<close>.  The rules follow the
  shape of the programs, one per primitive, so that a specification of an operation is proved by
  resolution with \<open>wp_rules\<close> and simplification of the queries that remain.
\<close>

definition wp :: "(world, 'a) state \<Rightarrow> ('a \<Rightarrow> db \<Rightarrow> bool) \<Rightarrow> db \<Rightarrow> bool" where
  "wp m Q d \<longleftrightarrow> (\<forall>w. wdb w = d \<longrightarrow> (case run_state m w of (r, w') \<Rightarrow> Q r (wdb w')))"

named_theorems wp_rules \<open>weakest precondition rules\<close>

lemma wpI: "(\<And>w r w'. wdb w = d \<Longrightarrow> run_state m w = (r, w') \<Longrightarrow> Q r (wdb w')) \<Longrightarrow> wp m Q d"
  by (auto simp: wp_def)

lemma wpD: "wp m Q (wdb w) \<Longrightarrow> run_state m w = (r, w') \<Longrightarrow> Q r (wdb w')"
  by (auto simp: wp_def)

lemma wp_mono: "wp m P d \<Longrightarrow> (\<And>r d'. P r d' \<Longrightarrow> Q r d') \<Longrightarrow> wp m Q d"
  by (force simp: wp_def)

lemma wp_ret [wp_rules]: "Q x d \<Longrightarrow> wp (ret x) Q d"
  by (simp add: wp_def)

lemma wp_bind [wp_rules]: "wp m (\<lambda>x. wp (f x) Q) d \<Longrightarrow> wp (State_Monad.bind m f) Q d"
  by (auto simp: wp_def run_bind split: prod.splits)

lemma wp_try_op [wp_rules]:
  "wp m (\<lambda>r d'. case r of Inl e \<Rightarrow> Q (Inl e) d' | Inr x \<Rightarrow> wp (f x) Q d') d \<Longrightarrow> wp (try_op m f) Q d"
  unfolding try_op_def
  by (rule wp_bind, erule wp_mono) (auto intro: wp_ret split: sum.splits)

lemma wp_wrapped [wp_rules]:
  "wp m (\<lambda>r d'. Q (wrap_err msg r) d') d \<Longrightarrow> wp (wrapped msg m) Q d"
  unfolding wrapped_def by (rule wp_bind, erule wp_mono) (auto intro: wp_ret)

lemma wp_time_now [wp_rules]:
  assumes "\<And>t. Q t d"
  shows "wp time_now Q d"
proof (rule wpI)
  fix w r w'
  assume "wdb w = d" and "run_state time_now w = (r, w')"
  then have "wdb w' = d" using wdb_primitives(1) by blast
  with assms [of r] show "Q r (wdb w')" by (simp only:)
qed

lemma wp_rand_Read [wp_rules]:
  assumes "Q (Inl ErrRand) d" and "\<And>b. length b = n \<Longrightarrow> Q (Inr b) d"
  shows "wp (rand_Read n) Q d"
proof (rule wpI)
  fix w r w'
  assume d: "wdb w = d" and run: "run_state (rand_Read n) w = (r, w')"
  then have "wdb w' = d" using wdb_primitives(2) by blast
  moreover have "r = fst (run_state (rand_Read n) w)" using run by simp
  then have "r = Inl ErrRand \<or> (\<exists>b. r = Inr b \<and> length b = n)"
    by (cases "wrand w 0") (simp_all add: run_rand_Read)
  ultimately show "Q r (wdb w')" using assms by metis
qed

lemma wp_exec [wp_rules]:
  "Q (Inl ErrDriver) d \<Longrightarrow> (\<And>t r d'. q t d = (r, d') \<Longrightarrow> Q r d') \<Longrightarrow> wp (exec q) Q d"
  by (rule wpI) (erule exec_result, auto)

lemma wp_withTx [wp_rules]:
  assumes "wp fn (\<lambda>r d'. case r of Inl e \<Rightarrow> Q (Inl e) d | Inr x \<Rightarrow> Q (Inr x) d') d"
    and "Q (Inl (Errorf (''begin '' @ oper @ '' transaction'') ErrDriver)) d"
    and "Q (Inl (Errorf (''commit '' @ oper @ '' transaction'') ErrDriver)) d"
  shows "wp (withTx oper fn) Q d"
proof (rule wpI)
  fix w :: world and r w'
  assume d: "wdb w = d" and run: "run_state (withTx oper fn) w = (r, w')"
  let ?w1 = "w\<lparr>wfault := \<lambda>n. wfault w (Suc n)\<rparr>"
  obtain r2 w2 where fn: "run_state fn ?w1 = (r2, w2)" by fastforce
  have *: "case r2 of Inl e \<Rightarrow> Q (Inl e) d | Inr x \<Rightarrow> Q (Inr x) (wdb w2)"
    using wpD [OF _ fn] assms(1) d by simp
  show "Q r (wdb w')"
    using run assms(2,3) d fn *
    by (cases r2) (auto simp: run_withTx Let_def split: if_splits)
qed

lemma wp_if [wp_rules]:
  "(b \<Longrightarrow> wp m Q d) \<Longrightarrow> (\<not> b \<Longrightarrow> wp n Q d) \<Longrightarrow> wp (if b then m else n) Q d"
  by simp

lemma wp_case_sum [wp_rules]:
  "(\<And>e. r = Inl e \<Longrightarrow> wp (f e) Q d) \<Longrightarrow> (\<And>x. r = Inr x \<Longrightarrow> wp (g x) Q d) \<Longrightarrow>
     wp (case r of Inl e \<Rightarrow> f e | Inr x \<Rightarrow> g x) Q d"
  by (cases r) simp_all

lemma wp_case_option [wp_rules]:
  "(r = None \<Longrightarrow> wp f Q d) \<Longrightarrow> (\<And>x. r = Some x \<Longrightarrow> wp (g x) Q d) \<Longrightarrow>
     wp (case r of None \<Rightarrow> f | Some x \<Rightarrow> g x) Q d"
  by (cases r) simp_all

lemma wp_case_prod [wp_rules]:
  "(\<And>x y. p = (x, y) \<Longrightarrow> wp (f x y) Q d) \<Longrightarrow> wp (case p of (x, y) \<Rightarrow> f x y) Q d"
  by (cases p) simp

lemma wp_let [wp_rules]: "wp (f x) Q d \<Longrightarrow> wp (let y = x in f y) Q d"
  by simp

text \<open>What the post-condition of a fallible step asks of its two outcomes.\<close>

lemma case_sumI [wp_rules]:
  "(\<And>e. r = Inl e \<Longrightarrow> P e) \<Longrightarrow> (\<And>x. r = Inr x \<Longrightarrow> Q x) \<Longrightarrow>
     case r of Inl e \<Rightarrow> P e | Inr x \<Rightarrow> Q x"
  by (cases r) simp_all

lemma ifI [wp_rules]: "(b \<Longrightarrow> P) \<Longrightarrow> (\<not> b \<Longrightarrow> Q) \<Longrightarrow> if b then P else Q"
  by simp

text \<open>A fact that holds of every database is kept by every run.\<close>

lemma keeps_wp: "keeps P m \<longleftrightarrow> (\<forall>d. P d \<longrightarrow> wp m (\<lambda>_. P) d)"
  unfolding preserves_def wp_def case_prod_unfold by blast

end
