(* ===== verification/Queries.thy ===== *)
theory Queries
  imports Database
begin

text \<open>
  The SQL statements of \<^verbatim>\<open>internal/db/generated/*.sql.go\<close>, one definition per query method, as
  functions on the database: the result the method returns (\<open>ErrNoRows\<close> where a \<^verbatim>\<open>:one\<close> query
  finds nothing, a count of rows for \<^verbatim>\<open>:execrows\<close>) and the database after it.  \<^verbatim>\<open>UNIQUE\<close> and
  foreign-key violations of the schema are errors that leave the database alone.
\<close>

section \<open>Shapes of statements\<close>

text \<open>\<^verbatim>\<open>SELECT ... LIMIT 1\<close> into one row, and \<^verbatim>\<open>UPDATE ... RETURNING\<close> into one row.\<close>

definition one_row :: "'r option \<Rightarrow> 'r result" where
  "one_row r = (case r of None \<Rightarrow> Inl ErrNoRows | Some x \<Rightarrow> Inr x)"

definition update_where :: "('r \<Rightarrow> bool) \<Rightarrow> ('r \<Rightarrow> 'r) \<Rightarrow> 'r list \<Rightarrow> 'r list" where
  "update_where p f rows = map (\<lambda>r. if p r then f r else r) rows"

definition affected :: "('r \<Rightarrow> bool) \<Rightarrow> 'r list \<Rightarrow> int" where
  "affected p rows = int (length (filter p rows))"

definition newest_first :: "('r \<Rightarrow> time) \<Rightarrow> ('r \<Rightarrow> int) \<Rightarrow> 'r list \<Rightarrow> 'r list" where
  "newest_first created key rows = rev (sort_key (\<lambda>r. (created r, key r)) rows)"

definition user_exists :: "int \<Rightarrow> db \<Rightarrow> bool" where
  "user_exists uid d \<longleftrightarrow> uid \<in> usr_ID ` set (users d)"

lemma one_row_eq [simp]:
  "one_row r = Inr x \<longleftrightarrow> r = Some x"
  "one_row r = Inl e \<longleftrightarrow> r = None \<and> e = ErrNoRows"
  "Inr x = one_row r \<longleftrightarrow> r = Some x"
  "Inl e = one_row r \<longleftrightarrow> r = None \<and> e = ErrNoRows"
  by (auto simp: one_row_def split: option.splits)

section \<open>Users\<close>

definition Q_CreateUser :: "string \<Rightarrow> string \<Rightarrow> bytes \<Rightarrow> user_cols query" where
  "Q_CreateUser email passwordHash handle now d =
     (if email \<in> usr_Email ` set (users d) \<or> handle \<in> usr_Handle ` set (users d)
      then (Inl ErrSqliteUnique, d)
      else let u = \<lparr>usr_ID = next_id usr_ID (users d), usr_Email = email,
                    usr_PasswordHash = passwordHash, usr_EmailVerifiedAt = None,
                    usr_CreatedAt = now, usr_Handle = handle\<rparr>
           in (Inr (user_cols.truncate u), d\<lparr>users := users d @ [u]\<rparr>))"

definition Q_GetUserByEmail :: "string \<Rightarrow> user_cols query" where
  "Q_GetUserByEmail email now d =
     (one_row (map_option user_cols.truncate (find (\<lambda>u. usr_Email u = email) (users d))), d)"

definition Q_GetUserByID :: "int \<Rightarrow> user_cols query" where
  "Q_GetUserByID uid now d =
     (one_row (map_option user_cols.truncate (find (\<lambda>u. usr_ID u = uid) (users d))), d)"

definition Q_GetWebAuthnHandleByUserID :: "int \<Rightarrow> bytes query" where
  "Q_GetWebAuthnHandleByUserID uid now d =
     (one_row (map_option usr_Handle (find (\<lambda>u. usr_ID u = uid) (users d))), d)"

definition Q_GetUserByWebAuthnHandle :: "bytes \<Rightarrow> user_cols query" where
  "Q_GetUserByWebAuthnHandle handle now d =
     (one_row (map_option user_cols.truncate (find (\<lambda>u. usr_Handle u = handle) (users d))), d)"

text \<open>The join of sessions with users, restricted to live sessions.\<close>

definition session_live :: "time \<Rightarrow> session_row \<Rightarrow> bool" where
  "session_live now s \<longleftrightarrow> now < ses_ExpiresAt s"

definition Q_GetUserBySessionTokenHash :: "string \<Rightarrow> user_cols query" where
  "Q_GetUserBySessionTokenHash tokenHash now d =
     (one_row (map_option (\<lambda>p. user_cols.truncate (fst p))
        (find (\<lambda>(u, s). ses_UserID s = usr_ID u \<and> ses_TokenHash s = tokenHash \<and> session_live now s)
           (List.product (users d) (sessions d)))), d)"

definition Q_UpdateUserPasswordHash :: "string \<Rightarrow> int \<Rightarrow> unit query" where
  "Q_UpdateUserPasswordHash passwordHash uid now d =
     (Inr (), d\<lparr>users :=
        update_where (\<lambda>u. usr_ID u = uid) (\<lambda>u. u\<lparr>usr_PasswordHash := passwordHash\<rparr>) (users d)\<rparr>)"

definition Q_MarkUserEmailVerified :: "time option \<Rightarrow> int \<Rightarrow> user_cols query" where
  "Q_MarkUserEmailVerified verifiedAt uid now d =
     (let us = update_where (\<lambda>u. usr_ID u = uid) (\<lambda>u. u\<lparr>usr_EmailVerifiedAt := verifiedAt\<rparr>) (users d)
      in (one_row (map_option user_cols.truncate (find (\<lambda>u. usr_ID u = uid) us)), d\<lparr>users := us\<rparr>))"

definition Q_UpdateUserEmail :: "string \<Rightarrow> time option \<Rightarrow> int \<Rightarrow> user_cols query" where
  "Q_UpdateUserEmail email verifiedAt uid now d =
     (if user_exists uid d \<and> (\<exists>u \<in> set (users d). usr_ID u \<noteq> uid \<and> usr_Email u = email)
      then (Inl ErrSqliteUnique, d)
      else let us = update_where (\<lambda>u. usr_ID u = uid)
                      (\<lambda>u. u\<lparr>usr_Email := email, usr_EmailVerifiedAt := verifiedAt\<rparr>) (users d)
           in (one_row (map_option user_cols.truncate (find (\<lambda>u. usr_ID u = uid) us)), d\<lparr>users := us\<rparr>))"

text \<open>Every user-owned table declares \<^verbatim>\<open>ON DELETE CASCADE\<close> on its user.\<close>

definition Q_DeleteUserByID :: "int \<Rightarrow> unit query" where
  "Q_DeleteUserByID uid now d =
     (Inr (), if \<not> user_exists uid d then d else
        d\<lparr>users := filter (\<lambda>u. usr_ID u \<noteq> uid) (users d),
          sessions := filter (\<lambda>s. ses_UserID s \<noteq> uid) (sessions d),
          ev_tokens := filter (\<lambda>t. tok_UserID t \<noteq> uid) (ev_tokens d),
          pr_tokens := filter (\<lambda>t. tok_UserID t \<noteq> uid) (pr_tokens d),
          ec_tokens := filter (\<lambda>t. tok_UserID t \<noteq> uid) (ec_tokens d),
          totps := filter (\<lambda>t. totp_UserID t \<noteq> uid) (totps d),
          backup_codes := filter (\<lambda>c. bkp_UserID c \<noteq> uid) (backup_codes d),
          credentials := filter (\<lambda>c. crd_UserID c \<noteq> uid) (credentials d),
          projects := filter (\<lambda>p. prj_UserID p \<noteq> uid) (projects d)\<rparr>)"

section \<open>Sessions\<close>

definition Q_CreateSession :: "int \<Rightarrow> string \<Rightarrow> time \<Rightarrow> session_row query" where
  "Q_CreateSession uid tokenHash expiresAt now d =
     (if tokenHash \<in> ses_TokenHash ` set (sessions d) then (Inl ErrSqliteUnique, d)
      else if \<not> user_exists uid d then (Inl ErrSqliteForeignKey, d)
      else let s = \<lparr>ses_ID = next_id ses_ID (sessions d), ses_UserID = uid,
                    ses_TokenHash = tokenHash, ses_ExpiresAt = expiresAt, ses_CreatedAt = now\<rparr>
           in (Inr s, d\<lparr>sessions := sessions d @ [s]\<rparr>))"

definition delete_sessions :: "(session_row \<Rightarrow> bool) \<Rightarrow> db \<Rightarrow> db" where
  "delete_sessions p d = d\<lparr>sessions := filter (\<lambda>s. \<not> p s) (sessions d)\<rparr>"

definition Q_DeleteSessionByTokenHash :: "string \<Rightarrow> unit query" where
  "Q_DeleteSessionByTokenHash tokenHash now d =
     (Inr (), delete_sessions (\<lambda>s. ses_TokenHash s = tokenHash) d)"

definition Q_DeleteExpiredSessions :: "time \<Rightarrow> int query" where
  "Q_DeleteExpiredSessions expiredBefore now d =
     (let p = (\<lambda>s. ses_ExpiresAt s \<le> expiredBefore)
      in (Inr (affected p (sessions d)), delete_sessions p d))"

definition Q_DeleteSessionsByUserID :: "int \<Rightarrow> unit query" where
  "Q_DeleteSessionsByUserID uid now d = (Inr (), delete_sessions (\<lambda>s. ses_UserID s = uid) d)"

definition Q_ListActiveSessionsByUserID :: "int \<Rightarrow> session_row list query" where
  "Q_ListActiveSessionsByUserID uid now d =
     (Inr (newest_first ses_CreatedAt ses_ID
        (filter (\<lambda>s. ses_UserID s = uid \<and> session_live now s) (sessions d))), d)"

definition Q_DeleteOtherSessionsByUserIDAndTokenHash :: "int \<Rightarrow> string \<Rightarrow> int query" where
  "Q_DeleteOtherSessionsByUserIDAndTokenHash uid tokenHash now d =
     (let p = (\<lambda>s. ses_UserID s = uid \<and> ses_TokenHash s \<noteq> tokenHash)
      in (Inr (affected p (sessions d)), delete_sessions p d))"

definition Q_DeleteSessionByIDAndUserIDAndTokenHashNot :: "int \<Rightarrow> int \<Rightarrow> string \<Rightarrow> int query" where
  "Q_DeleteSessionByIDAndUserIDAndTokenHashNot sid uid tokenHash now d =
     (let p = (\<lambda>s. ses_ID s = sid \<and> ses_UserID s = uid \<and> ses_TokenHash s \<noteq> tokenHash)
      in (Inr (affected p (sessions d)), delete_sessions p d))"

section \<open>Single-use tokens\<close>

text \<open>
  \<open>token_usable\<close> is the \<^verbatim>\<open>WHERE\<close> clause of the three \<^verbatim>\<open>Consume...\<close> statements and of
  \<^verbatim>\<open>GetValidPasswordResetTokenByHash\<close>; \<open>token_stale\<close> that of the \<^verbatim>\<open>Prune...\<close> statements.
\<close>

definition token_usable :: "string \<Rightarrow> time \<Rightarrow> 'a token_row_scheme \<Rightarrow> bool" where
  "token_usable tokenHash t r \<longleftrightarrow>
     tok_TokenHash r = tokenHash \<and> tok_ConsumedAt r = None \<and> t < tok_ExpiresAt r"

definition consume_token ::
  "time option \<Rightarrow> string \<Rightarrow> time \<Rightarrow> 'a token_row_scheme list \<Rightarrow>
     'a token_row_scheme option \<times> 'a token_row_scheme list" where
  "consume_token consumedAt tokenHash t rows =
     (map_option (\<lambda>r. r\<lparr>tok_ConsumedAt := consumedAt\<rparr>) (find (token_usable tokenHash t) rows),
      update_where (token_usable tokenHash t) (\<lambda>r. r\<lparr>tok_ConsumedAt := consumedAt\<rparr>) rows)"

definition token_stale :: "time \<Rightarrow> time \<Rightarrow> 'a token_row_scheme \<Rightarrow> bool" where
  "token_stale expiredBefore consumedBefore r \<longleftrightarrow>
     tok_ExpiresAt r \<le> expiredBefore \<or>
     (case tok_ConsumedAt r of None \<Rightarrow> False | Some c \<Rightarrow> c \<le> consumedBefore)"

definition new_token :: "int \<Rightarrow> string \<Rightarrow> time \<Rightarrow> time \<Rightarrow> 'a token_row_scheme list \<Rightarrow> token_row" where
  "new_token uid tokenHash expiresAt now rows =
     \<lparr>tok_ID = next_id tok_ID rows, tok_UserID = uid, tok_TokenHash = tokenHash,
      tok_ExpiresAt = expiresAt, tok_ConsumedAt = None, tok_CreatedAt = now\<rparr>"

definition Q_CreateEmailVerificationToken :: "int \<Rightarrow> string \<Rightarrow> time \<Rightarrow> token_row query" where
  "Q_CreateEmailVerificationToken uid tokenHash expiresAt now d =
     (if tokenHash \<in> tok_TokenHash ` set (ev_tokens d) then (Inl ErrSqliteUnique, d)
      else if \<not> user_exists uid d then (Inl ErrSqliteForeignKey, d)
      else let t = new_token uid tokenHash expiresAt now (ev_tokens d)
           in (Inr t, d\<lparr>ev_tokens := ev_tokens d @ [t]\<rparr>))"

definition Q_ConsumeEmailVerificationToken ::
  "time option \<Rightarrow> string \<Rightarrow> time \<Rightarrow> token_row query" where
  "Q_ConsumeEmailVerificationToken consumedAt tokenHash expiresAt now d =
     (case consume_token consumedAt tokenHash expiresAt (ev_tokens d) of
        (r, rows) \<Rightarrow> (one_row r, d\<lparr>ev_tokens := rows\<rparr>))"

definition Q_PruneEmailVerificationTokens :: "time \<Rightarrow> time \<Rightarrow> int query" where
  "Q_PruneEmailVerificationTokens expiredBefore consumedBefore now d =
     (let p = token_stale expiredBefore consumedBefore
      in (Inr (affected p (ev_tokens d)), d\<lparr>ev_tokens := filter (\<lambda>r. \<not> p r) (ev_tokens d)\<rparr>))"

definition Q_CreatePasswordResetToken :: "int \<Rightarrow> string \<Rightarrow> time \<Rightarrow> token_row query" where
  "Q_CreatePasswordResetToken uid tokenHash expiresAt now d =
     (if tokenHash \<in> tok_TokenHash ` set (pr_tokens d) then (Inl ErrSqliteUnique, d)
      else if \<not> user_exists uid d then (Inl ErrSqliteForeignKey, d)
      else let t = new_token uid tokenHash expiresAt now (pr_tokens d)
           in (Inr t, d\<lparr>pr_tokens := pr_tokens d @ [t]\<rparr>))"

definition Q_GetValidPasswordResetTokenByHash :: "string \<Rightarrow> time \<Rightarrow> token_row query" where
  "Q_GetValidPasswordResetTokenByHash tokenHash expiresAt now d =
     (one_row (find (token_usable tokenHash expiresAt) (pr_tokens d)), d)"

definition Q_ConsumePasswordResetToken :: "time option \<Rightarrow> string \<Rightarrow> time \<Rightarrow> token_row query" where
  "Q_ConsumePasswordResetToken consumedAt tokenHash expiresAt now d =
     (case consume_token consumedAt tokenHash expiresAt (pr_tokens d) of
        (r, rows) \<Rightarrow> (one_row r, d\<lparr>pr_tokens := rows\<rparr>))"

definition Q_PrunePasswordResetTokens :: "time \<Rightarrow> time \<Rightarrow> int query" where
  "Q_PrunePasswordResetTokens expiredBefore consumedBefore now d =
     (let p = token_stale expiredBefore consumedBefore
      in (Inr (affected p (pr_tokens d)), d\<lparr>pr_tokens := filter (\<lambda>r. \<not> p r) (pr_tokens d)\<rparr>))"

definition Q_CreateEmailChangeToken :: "int \<Rightarrow> string \<Rightarrow> string \<Rightarrow> time \<Rightarrow> change_row query" where
  "Q_CreateEmailChangeToken uid newEmail tokenHash expiresAt now d =
     (if tokenHash \<in> tok_TokenHash ` set (ec_tokens d) then (Inl ErrSqliteUnique, d)
      else if \<not> user_exists uid d then (Inl ErrSqliteForeignKey, d)
      else let t = token_row.extend (new_token uid tokenHash expiresAt now (ec_tokens d))
                     (change_row.fields newEmail)
           in (Inr t, d\<lparr>ec_tokens := ec_tokens d @ [t]\<rparr>))"

definition Q_ConsumeEmailChangeToken :: "time option \<Rightarrow> string \<Rightarrow> time \<Rightarrow> change_row query" where
  "Q_ConsumeEmailChangeToken consumedAt tokenHash expiresAt now d =
     (case consume_token consumedAt tokenHash expiresAt (ec_tokens d) of
        (r, rows) \<Rightarrow> (one_row r, d\<lparr>ec_tokens := rows\<rparr>))"

definition Q_PruneEmailChangeTokens :: "time \<Rightarrow> time \<Rightarrow> int query" where
  "Q_PruneEmailChangeTokens expiredBefore consumedBefore now d =
     (let p = token_stale expiredBefore consumedBefore
      in (Inr (affected p (ec_tokens d)), d\<lparr>ec_tokens := filter (\<lambda>r. \<not> p r) (ec_tokens d)\<rparr>))"

section \<open>Email outbox\<close>

definition Q_EnqueueEmail ::
  "string \<Rightarrow> string \<Rightarrow> string \<Rightarrow> string \<Rightarrow> string \<Rightarrow> time \<Rightarrow> outbox_row query" where
  "Q_EnqueueEmail sender recipient subject textBody htmlBody availableAt now d =
     (let r = \<lparr>out_ID = next_id out_ID (outbox d), out_Sender = sender, out_Recipient = recipient,
               out_Subject = subject, out_TextBody = textBody, out_HtmlBody = htmlBody,
               out_Status = Pending, out_Attempts = 0, out_LastError = [],
               out_AvailableAt = availableAt, out_ClaimedAt = None, out_ClaimExpiresAt = None,
               out_ClaimToken = [], out_SentAt = None, out_CreatedAt = now\<rparr>
      in (Inr r, d\<lparr>outbox := outbox d @ [r]\<rparr>))"

definition Q_GetEmailOutboxRow :: "int \<Rightarrow> outbox_row query" where
  "Q_GetEmailOutboxRow oid now d = (one_row (find (\<lambda>r. out_ID r = oid) (outbox d)), d)"

definition claimable :: "time \<Rightarrow> outbox_row \<Rightarrow> bool" where
  "claimable t r \<longleftrightarrow>
     (out_Status r = Pending \<and> out_AvailableAt r \<le> t) \<or>
     (out_Status r = Sending \<and> (case out_ClaimExpiresAt r of None \<Rightarrow> False | Some e \<Rightarrow> e \<le> t))"

definition claim_ids :: "time \<Rightarrow> int \<Rightarrow> outbox_row list \<Rightarrow> int list" where
  "claim_ids t lim rows =
     (let found = sort_key (\<lambda>r. (out_AvailableAt r, out_ID r)) (filter (claimable t) rows)
      in map out_ID (if lim < 0 then found else take (nat lim) found))"

definition claim_row :: "time option \<Rightarrow> time option \<Rightarrow> string \<Rightarrow> outbox_row \<Rightarrow> outbox_row" where
  "claim_row claimedAt expiresAt claimToken r =
     r\<lparr>out_Status := Sending, out_ClaimedAt := claimedAt, out_ClaimExpiresAt := expiresAt,
       out_ClaimToken := claimToken\<rparr>"

definition Q_ClaimPendingEmails ::
  "time \<Rightarrow> time option \<Rightarrow> string \<Rightarrow> int \<Rightarrow> outbox_row list query" where
  "Q_ClaimPendingEmails t claimExpiresAt claimToken lim now d =
     (let ids = claim_ids t lim (outbox d);
          rows = update_where (\<lambda>r. out_ID r \<in> set ids)
                   (claim_row (Some t) claimExpiresAt claimToken) (outbox d)
      in (Inr (filter (\<lambda>r. out_ID r \<in> set ids) rows), d\<lparr>outbox := rows\<rparr>))"

definition release_row :: "outbox_row \<Rightarrow> outbox_row" where
  "release_row r = r\<lparr>out_ClaimedAt := None, out_ClaimExpiresAt := None, out_ClaimToken := []\<rparr>"

definition mark_email ::
  "(outbox_row \<Rightarrow> outbox_row) \<Rightarrow> int \<Rightarrow> string \<Rightarrow> outbox_row query" where
  "mark_email f oid claimToken now d =
     (let p = (\<lambda>r. out_ID r = oid \<and> out_ClaimToken r = claimToken)
      in (one_row (map_option f (find p (outbox d))), d\<lparr>outbox := update_where p f (outbox d)\<rparr>))"

definition Q_MarkEmailSent :: "time option \<Rightarrow> int \<Rightarrow> string \<Rightarrow> outbox_row query" where
  "Q_MarkEmailSent sentAt =
     mark_email (\<lambda>r. release_row (r\<lparr>out_Status := Sent, out_SentAt := sentAt\<rparr>))"

definition Q_MarkEmailFailed :: "string \<Rightarrow> time \<Rightarrow> int \<Rightarrow> string \<Rightarrow> outbox_row query" where
  "Q_MarkEmailFailed lastError availableAt =
     mark_email (\<lambda>r. release_row (r\<lparr>out_Status := Pending, out_Attempts := out_Attempts r + 1,
       out_LastError := lastError, out_AvailableAt := availableAt\<rparr>))"

definition Q_MarkEmailFailedPermanently :: "string \<Rightarrow> time \<Rightarrow> int \<Rightarrow> string \<Rightarrow> outbox_row query" where
  "Q_MarkEmailFailedPermanently lastError availableAt =
     mark_email (\<lambda>r. release_row (r\<lparr>out_Status := Failed, out_Attempts := out_Attempts r + 1,
       out_LastError := lastError, out_AvailableAt := availableAt\<rparr>))"

definition Q_PruneSentEmailOutboxRows :: "time \<Rightarrow> int query" where
  "Q_PruneSentEmailOutboxRows sentBefore now d =
     (let p = (\<lambda>r. out_Status r = Sent \<and> (case out_SentAt r of None \<Rightarrow> False | Some s \<Rightarrow> s \<le> sentBefore))
      in (Inr (affected p (outbox d)), d\<lparr>outbox := filter (\<lambda>r. \<not> p r) (outbox d)\<rparr>))"

definition Q_PruneFailedEmailOutboxRows :: "time \<Rightarrow> int query" where
  "Q_PruneFailedEmailOutboxRows failedBefore now d =
     (let p = (\<lambda>r. out_Status r = Failed \<and> out_AvailableAt r \<le> failedBefore)
      in (Inr (affected p (outbox d)), d\<lparr>outbox := filter (\<lambda>r. \<not> p r) (outbox d)\<rparr>))"

section \<open>TOTP and backup codes\<close>

definition Q_GetTOTPByUserID :: "int \<Rightarrow> totp_row query" where
  "Q_GetTOTPByUserID uid now d = (one_row (find (\<lambda>r. totp_UserID r = uid) (totps d)), d)"

definition Q_GetEnabledTOTPByUserID :: "int \<Rightarrow> totp_row query" where
  "Q_GetEnabledTOTPByUserID uid now d =
     (one_row (find (\<lambda>r. totp_UserID r = uid \<and> totp_EnabledAt r \<noteq> None) (totps d)), d)"

definition counter_free :: "int \<Rightarrow> totp_row \<Rightarrow> bool" where
  "counter_free counter r \<longleftrightarrow>
     (case totp_LastUsedCounter r of None \<Rightarrow> True | Some c \<Rightarrow> c < counter)"

definition Q_ClaimTOTPCounter :: "int \<Rightarrow> int \<Rightarrow> int query" where
  "Q_ClaimTOTPCounter counter uid now d =
     (let p = (\<lambda>r. totp_UserID r = uid \<and> counter_free counter r)
      in (Inr (affected p (totps d)),
          d\<lparr>totps := update_where p (\<lambda>r. r\<lparr>totp_LastUsedCounter := Some counter\<rparr>) (totps d)\<rparr>))"

definition Q_UpsertPendingTOTP :: "int \<Rightarrow> string \<Rightarrow> unit query" where
  "Q_UpsertPendingTOTP uid sec now d =
     (if uid \<in> totp_UserID ` set (totps d)
      then (Inr (), d\<lparr>totps := update_where (\<lambda>r. totp_UserID r = uid)
                       (\<lambda>r. r\<lparr>totp_Secret := sec, totp_EnabledAt := None\<rparr>) (totps d)\<rparr>)
      else if \<not> user_exists uid d then (Inl ErrSqliteForeignKey, d)
      else (Inr (), d\<lparr>totps := totps d @ [\<lparr>totp_ID = next_id totp_ID (totps d), totp_UserID = uid,
              totp_Secret = sec, totp_EnabledAt = None, totp_CreatedAt = now,
              totp_LastUsedCounter = None\<rparr>]\<rparr>))"

definition Q_EnableTOTP :: "time option \<Rightarrow> int \<Rightarrow> unit query" where
  "Q_EnableTOTP enabledAt uid now d =
     (Inr (), d\<lparr>totps := update_where (\<lambda>r. totp_UserID r = uid \<and> totp_EnabledAt r = None)
                          (\<lambda>r. r\<lparr>totp_EnabledAt := enabledAt\<rparr>) (totps d)\<rparr>)"

definition Q_DeleteTOTPByUserID :: "int \<Rightarrow> unit query" where
  "Q_DeleteTOTPByUserID uid now d =
     (Inr (), d\<lparr>totps := filter (\<lambda>r. totp_UserID r \<noteq> uid) (totps d)\<rparr>)"

definition Q_CreateTOTPBackupCode :: "int \<Rightarrow> string \<Rightarrow> unit query" where
  "Q_CreateTOTPBackupCode uid codeHash now d =
     (if codeHash \<in> bkp_CodeHash ` set (backup_codes d) then (Inl ErrSqliteUnique, d)
      else if \<not> user_exists uid d then (Inl ErrSqliteForeignKey, d)
      else (Inr (), d\<lparr>backup_codes := backup_codes d @ [\<lparr>bkp_ID = next_id bkp_ID (backup_codes d),
              bkp_UserID = uid, bkp_CodeHash = codeHash, bkp_UsedAt = None, bkp_CreatedAt = now\<rparr>]\<rparr>))"

definition Q_DeleteTOTPBackupCodesByUserID :: "int \<Rightarrow> unit query" where
  "Q_DeleteTOTPBackupCodesByUserID uid now d =
     (Inr (), d\<lparr>backup_codes := filter (\<lambda>c. bkp_UserID c \<noteq> uid) (backup_codes d)\<rparr>)"

definition Q_ConsumeTOTPBackupCode :: "time option \<Rightarrow> int \<Rightarrow> string \<Rightarrow> int query" where
  "Q_ConsumeTOTPBackupCode usedAt uid codeHash now d =
     (let p = (\<lambda>c. bkp_UserID c = uid \<and> bkp_CodeHash c = codeHash \<and> bkp_UsedAt c = None)
      in (Inr (affected p (backup_codes d)),
          d\<lparr>backup_codes := update_where p (\<lambda>c. c\<lparr>bkp_UsedAt := usedAt\<rparr>) (backup_codes d)\<rparr>))"

definition Q_CountUnusedTOTPBackupCodes :: "int \<Rightarrow> int query" where
  "Q_CountUnusedTOTPBackupCodes uid now d =
     (Inr (affected (\<lambda>c. bkp_UserID c = uid \<and> bkp_UsedAt c = None) (backup_codes d)), d)"

section \<open>WebAuthn credentials\<close>

text \<open>The key and the two timestamps of a row are set by the statement, the rest is given.\<close>

definition Q_CreateWebAuthnCredential :: "cred_row \<Rightarrow> unit query" where
  "Q_CreateWebAuthnCredential c now d =
     (if crd_CredentialID c \<in> crd_CredentialID ` set (credentials d) then (Inl ErrSqliteUnique, d)
      else if \<not> user_exists (crd_UserID c) d then (Inl ErrSqliteForeignKey, d)
      else (Inr (), d\<lparr>credentials := credentials d @
              [c\<lparr>crd_ID := next_id crd_ID (credentials d), crd_CreatedAt := now,
                 crd_LastUsedAt := None\<rparr>]\<rparr>))"

definition Q_ListWebAuthnCredentialsByUserID :: "int \<Rightarrow> cred_row list query" where
  "Q_ListWebAuthnCredentialsByUserID uid now d =
     (Inr (newest_first crd_CreatedAt crd_ID (filter (\<lambda>c. crd_UserID c = uid) (credentials d))), d)"

definition Q_UpdateWebAuthnCredentialOnLogin ::
  "int \<Rightarrow> int \<Rightarrow> time option \<Rightarrow> bytes \<Rightarrow> unit query" where
  "Q_UpdateWebAuthnCredentialOnLogin signCount backupState lastUsedAt credentialID now d =
     (Inr (), d\<lparr>credentials := update_where (\<lambda>c. crd_CredentialID c = credentialID)
        (\<lambda>c. c\<lparr>crd_SignCount := signCount, crd_BackupState := backupState,
               crd_LastUsedAt := lastUsedAt\<rparr>) (credentials d)\<rparr>)"

definition Q_RenameWebAuthnCredential :: "string \<Rightarrow> int \<Rightarrow> int \<Rightarrow> int query" where
  "Q_RenameWebAuthnCredential name cid uid now d =
     (let p = (\<lambda>c. crd_ID c = cid \<and> crd_UserID c = uid)
      in (Inr (affected p (credentials d)),
          d\<lparr>credentials := update_where p (\<lambda>c. c\<lparr>crd_Name := name\<rparr>) (credentials d)\<rparr>))"

definition Q_DeleteWebAuthnCredentialByIDAndUserID :: "int \<Rightarrow> int \<Rightarrow> int query" where
  "Q_DeleteWebAuthnCredentialByIDAndUserID cid uid now d =
     (let p = (\<lambda>c. crd_ID c = cid \<and> crd_UserID c = uid)
      in (Inr (affected p (credentials d)),
          d\<lparr>credentials := filter (\<lambda>c. \<not> p c) (credentials d)\<rparr>))"

definition Q_CountWebAuthnCredentialsByUserID :: "int \<Rightarrow> int query" where
  "Q_CountWebAuthnCredentialsByUserID uid now d =
     (Inr (affected (\<lambda>c. crd_UserID c = uid) (credentials d)), d)"

section \<open>Projects\<close>

definition Q_CreateProject :: "int \<Rightarrow> string \<Rightarrow> project_row query" where
  "Q_CreateProject uid name now d =
     (if \<not> user_exists uid d then (Inl ErrSqliteForeignKey, d)
      else let p = \<lparr>prj_ID = next_id prj_ID (projects d), prj_UserID = uid, prj_Name = name,
                    prj_CreatedAt = now\<rparr>
           in (Inr p, d\<lparr>projects := projects d @ [p]\<rparr>))"

definition Q_ListProjectsByUserID :: "int \<Rightarrow> project_row list query" where
  "Q_ListProjectsByUserID uid now d =
     (Inr (newest_first prj_CreatedAt prj_ID (filter (\<lambda>p. prj_UserID p = uid) (projects d))), d)"

definition Q_DeleteProjectByIDAndUserID :: "int \<Rightarrow> int \<Rightarrow> int query" where
  "Q_DeleteProjectByIDAndUserID pid uid now d =
     (let q = (\<lambda>p. prj_ID p = pid \<and> prj_UserID p = uid)
      in (Inr (affected q (projects d)), d\<lparr>projects := filter (\<lambda>p. \<not> q p) (projects d)\<rparr>))"

end
