(* ===== verification/Schema.thy ===== *)
theory Schema
  imports Queries
begin

text \<open>
  The schema invariant \<open>db_inv\<close> (primary keys positive and distinct, \<^verbatim>\<open>UNIQUE\<close> columns distinct,
  every user-owned row owned by an existing user), the proof that every statement keeps it, and
  the interface of a single-use token table.
\<close>

section \<open>The schema invariant\<close>

definition pk_ok :: "('r \<Rightarrow> int) \<Rightarrow> 'r list \<Rightarrow> bool" where
  "pk_ok key rows \<longleftrightarrow> distinct (map key rows) \<and> (\<forall>r \<in> set rows. 0 < key r)"

definition uq_ok :: "('r \<Rightarrow> 'k) \<Rightarrow> 'r list \<Rightarrow> bool" where
  "uq_ok col rows \<longleftrightarrow> distinct (map col rows)"

definition fk_ok :: "('r \<Rightarrow> int) \<Rightarrow> 'r list \<Rightarrow> 'a user_cols_scheme list \<Rightarrow> bool" where
  "fk_ok owner rows us \<longleftrightarrow> (\<forall>r \<in> set rows. owner r \<in> usr_ID ` set us)"

definition db_inv :: "db \<Rightarrow> bool" where
  "db_inv d \<longleftrightarrow>
     pk_ok usr_ID (users d) \<and> uq_ok usr_Email (users d) \<and> uq_ok usr_Handle (users d) \<and>
     pk_ok ses_ID (sessions d) \<and> uq_ok ses_TokenHash (sessions d) \<and>
       fk_ok ses_UserID (sessions d) (users d) \<and>
     pk_ok tok_ID (ev_tokens d) \<and> uq_ok tok_TokenHash (ev_tokens d) \<and>
       fk_ok tok_UserID (ev_tokens d) (users d) \<and>
     pk_ok tok_ID (pr_tokens d) \<and> uq_ok tok_TokenHash (pr_tokens d) \<and>
       fk_ok tok_UserID (pr_tokens d) (users d) \<and>
     pk_ok tok_ID (ec_tokens d) \<and> uq_ok tok_TokenHash (ec_tokens d) \<and>
       fk_ok tok_UserID (ec_tokens d) (users d) \<and>
     pk_ok out_ID (outbox d) \<and>
     pk_ok totp_ID (totps d) \<and> uq_ok totp_UserID (totps d) \<and> fk_ok totp_UserID (totps d) (users d) \<and>
     pk_ok bkp_ID (backup_codes d) \<and> uq_ok bkp_CodeHash (backup_codes d) \<and>
       fk_ok bkp_UserID (backup_codes d) (users d) \<and>
     pk_ok crd_ID (credentials d) \<and> uq_ok crd_CredentialID (credentials d) \<and>
       fk_ok crd_UserID (credentials d) (users d) \<and>
     pk_ok prj_ID (projects d) \<and> fk_ok prj_UserID (projects d) (users d)"

lemma db_inv_empty: "db_inv empty_db"
  by (simp add: db_inv_def empty_db_def pk_ok_def uq_ok_def fk_ok_def)

text \<open>Under the invariant a key or unique column identifies its row.\<close>

lemma unique_rows:
  assumes "db_inv d"
  shows "u \<in> set (users d) \<Longrightarrow> v \<in> set (users d) \<Longrightarrow> usr_ID u = usr_ID v \<Longrightarrow> u = v"
    and "u \<in> set (users d) \<Longrightarrow> v \<in> set (users d) \<Longrightarrow> usr_Email u = usr_Email v \<Longrightarrow> u = v"
    and "s \<in> set (sessions d) \<Longrightarrow> t \<in> set (sessions d) \<Longrightarrow> ses_ID s = ses_ID t \<Longrightarrow> s = t"
    and "s \<in> set (sessions d) \<Longrightarrow> t \<in> set (sessions d) \<Longrightarrow> ses_TokenHash s = ses_TokenHash t \<Longrightarrow> s = t"
    and "p \<in> set (totps d) \<Longrightarrow> q \<in> set (totps d) \<Longrightarrow> totp_UserID p = totp_UserID q \<Longrightarrow> p = q"
    and "b \<in> set (backup_codes d) \<Longrightarrow> c \<in> set (backup_codes d) \<Longrightarrow> bkp_CodeHash b = bkp_CodeHash c \<Longrightarrow> b = c"
    and "m \<in> set (outbox d) \<Longrightarrow> n \<in> set (outbox d) \<Longrightarrow> out_ID m = out_ID n \<Longrightarrow> m = n"
  using assms unfolding db_inv_def pk_ok_def uq_ok_def by (blast intro: distinct_map_eq)+

section \<open>What the shapes of statements do to a table\<close>

named_theorems table_simps \<open>how statements act on keys, unique columns and owners\<close>

lemma pk_ok_insert [table_simps]:
  "key r = next_id key rows \<Longrightarrow> pk_ok key (rows @ [r]) \<longleftrightarrow> pk_ok key rows"
  using next_id_fresh [of key rows] next_id_pos [of rows key] by (auto simp: pk_ok_def)

lemma uq_ok_insert [table_simps]:
  "uq_ok col (rows @ [r]) \<longleftrightarrow> uq_ok col rows \<and> col r \<notin> col ` set rows"
  by (auto simp: uq_ok_def)

lemma fk_ok_insert [table_simps]:
  "fk_ok owner (rows @ [r]) us \<longleftrightarrow> fk_ok owner rows us \<and> owner r \<in> usr_ID ` set us"
  by (auto simp: fk_ok_def)

lemma fk_ok_insert_user [table_simps]: "fk_ok owner rows us \<Longrightarrow> fk_ok owner rows (us @ [u])"
  by (auto simp: fk_ok_def)

lemma pk_ok_filter [table_simps]: "pk_ok key rows \<Longrightarrow> pk_ok key (filter p rows)"
  by (auto simp: pk_ok_def distinct_map_filter)

lemma uq_ok_filter [table_simps]: "uq_ok col rows \<Longrightarrow> uq_ok col (filter p rows)"
  by (auto simp: uq_ok_def distinct_map_filter)

lemma fk_ok_filter [table_simps]: "fk_ok owner rows us \<Longrightarrow> fk_ok owner (filter p rows) us"
  by (auto simp: fk_ok_def)

lemma fk_ok_cascade [table_simps]:
  "fk_ok owner rows us \<Longrightarrow>
     fk_ok owner (filter (\<lambda>r. owner r \<noteq> uid) rows) (filter (\<lambda>u. usr_ID u \<noteq> uid) us)"
  by (auto simp: fk_ok_def)

lemma map_update_where: "(\<And>r. p r \<Longrightarrow> col (f r) = col r) \<Longrightarrow> map col (update_where p f rows) = map col rows"
  by (auto simp: update_where_def)

lemma set_update_where: "set (update_where p f rows) = (\<lambda>r. if p r then f r else r) ` set rows"
  by (simp add: update_where_def)

lemma length_update_where [simp]: "length (update_where p f rows) = length rows"
  by (simp add: update_where_def)

lemma image_update_where:
  "(\<And>r. p r \<Longrightarrow> col (f r) = col r) \<Longrightarrow> col ` set (update_where p f rows) = col ` set rows"
  using map_update_where [of p col f rows] by (metis image_set)

lemma pk_ok_update [table_simps]:
  assumes "\<And>r. p r \<Longrightarrow> key (f r) = key r"
  shows "pk_ok key (update_where p f rows) \<longleftrightarrow> pk_ok key rows"
proof -
  have *: "pk_ok key xs \<longleftrightarrow> distinct (map key xs) \<and> (\<forall>k \<in> set (map key xs). 0 < k)" for xs
    by (simp add: pk_ok_def)
  show ?thesis by (simp only: * map_update_where [of p key f, OF assms])
qed

lemma uq_ok_update [table_simps]:
  "(\<And>r. p r \<Longrightarrow> col (f r) = col r) \<Longrightarrow> uq_ok col (update_where p f rows) \<longleftrightarrow> uq_ok col rows"
  by (simp add: uq_ok_def map_update_where [of p col f])

lemma fk_ok_update [table_simps]:
  assumes "\<And>r. p r \<Longrightarrow> owner (f r) = owner r"
  shows "fk_ok owner (update_where p f rows) us \<longleftrightarrow> fk_ok owner rows us"
proof -
  have *: "fk_ok owner xs us \<longleftrightarrow> (\<forall>k \<in> set (map owner xs). k \<in> usr_ID ` set us)" for xs
    by (simp add: fk_ok_def)
  show ?thesis by (simp only: * map_update_where [of p owner f, OF assms])
qed

lemma fk_ok_update_users [table_simps]:
  "(\<And>u. p u \<Longrightarrow> usr_ID (f u) = usr_ID u) \<Longrightarrow>
     fk_ok owner rows (update_where p f us) \<longleftrightarrow> fk_ok owner rows us"
  by (simp add: fk_ok_def image_update_where [of p usr_ID f])

text \<open>The one update of a unique column: the new address is no other user's.\<close>

lemma uq_ok_update_email:
  assumes pk: "pk_ok usr_ID us" and uq: "uq_ok usr_Email us"
    and new: "\<forall>u \<in> set us. usr_ID u \<noteq> uid \<longrightarrow> usr_Email u \<noteq> e"
  shows "uq_ok usr_Email (update_where (\<lambda>u. usr_ID u = uid)
           (\<lambda>u. u\<lparr>usr_Email := e, usr_EmailVerifiedAt := v\<rparr>) us)"
  using assms
proof (induction us)
  case (Cons u us)
  then have IH: "uq_ok usr_Email (update_where (\<lambda>u. usr_ID u = uid)
           (\<lambda>u. u\<lparr>usr_Email := e, usr_EmailVerifiedAt := v\<rparr>) us)"
    by (simp add: pk_ok_def uq_ok_def)
  have "usr_ID u \<notin> usr_ID ` set us" and "usr_Email u \<notin> usr_Email ` set us"
    using Cons.prems by (auto simp: pk_ok_def uq_ok_def)
  with IH Cons.prems(3) show ?case
    by (auto simp: uq_ok_def update_where_def image_iff)
qed (simp add: uq_ok_def update_where_def)

section \<open>Every statement keeps the invariant\<close>

lemmas read_query_defs =
  Q_GetUserByEmail_def Q_GetUserByID_def Q_GetWebAuthnHandleByUserID_def
  Q_GetUserByWebAuthnHandle_def Q_GetUserBySessionTokenHash_def Q_ListActiveSessionsByUserID_def
  Q_GetValidPasswordResetTokenByHash_def Q_GetEmailOutboxRow_def Q_GetTOTPByUserID_def
  Q_GetEnabledTOTPByUserID_def Q_CountUnusedTOTPBackupCodes_def
  Q_ListWebAuthnCredentialsByUserID_def Q_CountWebAuthnCredentialsByUserID_def
  Q_ListProjectsByUserID_def

text \<open>Reading statements keep any property of the database.\<close>

lemma reads_keep [preserves_rules]:
  "query_keeps P (Q_GetUserByEmail e)"
  "query_keeps P (Q_GetUserByID i)"
  "query_keeps P (Q_GetWebAuthnHandleByUserID i)"
  "query_keeps P (Q_GetUserByWebAuthnHandle h)"
  "query_keeps P (Q_GetUserBySessionTokenHash h)"
  "query_keeps P (Q_ListActiveSessionsByUserID i)"
  "query_keeps P (Q_GetValidPasswordResetTokenByHash h t)"
  "query_keeps P (Q_GetEmailOutboxRow i)"
  "query_keeps P (Q_GetTOTPByUserID i)"
  "query_keeps P (Q_GetEnabledTOTPByUserID i)"
  "query_keeps P (Q_CountUnusedTOTPBackupCodes i)"
  "query_keeps P (Q_ListWebAuthnCredentialsByUserID i)"
  "query_keeps P (Q_CountWebAuthnCredentialsByUserID i)"
  "query_keeps P (Q_ListProjectsByUserID i)"
  by (simp_all add: query_keeps_def read_query_defs)

declare keeps_exec [preserves_rules]

lemma user_queries_inv [preserves_rules]:
  "query_keeps db_inv (Q_CreateUser e p h)"
  "query_keeps db_inv (Q_UpdateUserPasswordHash p i)"
  "query_keeps db_inv (Q_MarkUserEmailVerified v i)"
  "query_keeps db_inv (Q_DeleteUserByID i)"
  by (simp_all add: query_keeps_def Q_CreateUser_def Q_UpdateUserPasswordHash_def
      Q_MarkUserEmailVerified_def Q_DeleteUserByID_def db_inv_def Let_def table_simps)

lemma update_email_inv [preserves_rules]: "query_keeps db_inv (Q_UpdateUserEmail e v i)"
proof -
  have "db_inv (snd (Q_UpdateUserEmail e v i now d))" if inv: "db_inv d" for now d
  proof (cases "\<exists>u \<in> set (users d). usr_ID u \<noteq> i \<and> usr_Email u = e")
    case True
    have "update_where (\<lambda>u. usr_ID u = i) f (users d) = users d" if "\<not> user_exists i d" for f
      using that by (auto simp: update_where_def user_exists_def intro!: map_idI)
    with True inv show ?thesis
      by (cases "user_exists i d") (simp_all add: Q_UpdateUserEmail_def Let_def)
  next
    case False
    with inv have "uq_ok usr_Email (update_where (\<lambda>u. usr_ID u = i)
           (\<lambda>u. u\<lparr>usr_Email := e, usr_EmailVerifiedAt := v\<rparr>) (users d))"
      by (intro uq_ok_update_email) (auto simp: db_inv_def)
    with inv False show ?thesis
      by (simp add: Q_UpdateUserEmail_def db_inv_def Let_def table_simps)
  qed
  then show ?thesis by (simp add: query_keeps_def)
qed

lemma session_queries_inv [preserves_rules]:
  "query_keeps db_inv (Q_CreateSession i h x)"
  "query_keeps db_inv (Q_DeleteSessionByTokenHash h)"
  "query_keeps db_inv (Q_DeleteExpiredSessions x)"
  "query_keeps db_inv (Q_DeleteSessionsByUserID i)"
  "query_keeps db_inv (Q_DeleteOtherSessionsByUserIDAndTokenHash i h)"
  "query_keeps db_inv (Q_DeleteSessionByIDAndUserIDAndTokenHashNot j i h)"
  by (simp_all add: query_keeps_def Q_CreateSession_def Q_DeleteSessionByTokenHash_def
      Q_DeleteExpiredSessions_def Q_DeleteSessionsByUserID_def
      Q_DeleteOtherSessionsByUserIDAndTokenHash_def
      Q_DeleteSessionByIDAndUserIDAndTokenHashNot_def delete_sessions_def user_exists_def
      db_inv_def Let_def table_simps)

lemma token_queries_inv [preserves_rules]:
  "query_keeps db_inv (Q_CreateEmailVerificationToken i h x)"
  "query_keeps db_inv (Q_ConsumeEmailVerificationToken c h x)"
  "query_keeps db_inv (Q_PruneEmailVerificationTokens x y)"
  "query_keeps db_inv (Q_CreatePasswordResetToken i h x)"
  "query_keeps db_inv (Q_ConsumePasswordResetToken c h x)"
  "query_keeps db_inv (Q_PrunePasswordResetTokens x y)"
  "query_keeps db_inv (Q_CreateEmailChangeToken i e h x)"
  "query_keeps db_inv (Q_ConsumeEmailChangeToken c h x)"
  "query_keeps db_inv (Q_PruneEmailChangeTokens x y)"
  by (simp_all add: query_keeps_def Q_CreateEmailVerificationToken_def
      Q_ConsumeEmailVerificationToken_def Q_PruneEmailVerificationTokens_def
      Q_CreatePasswordResetToken_def Q_ConsumePasswordResetToken_def Q_PrunePasswordResetTokens_def
      Q_CreateEmailChangeToken_def Q_ConsumeEmailChangeToken_def Q_PruneEmailChangeTokens_def
      new_token_def token_row.extend_def change_row.fields_def consume_token_def user_exists_def
      db_inv_def Let_def table_simps)

lemma outbox_queries_inv [preserves_rules]:
  "query_keeps db_inv (Q_EnqueueEmail a b c e f x)"
  "query_keeps db_inv (Q_ClaimPendingEmails x y k n)"
  "query_keeps db_inv (Q_MarkEmailSent y i k)"
  "query_keeps db_inv (Q_MarkEmailFailed l x i k)"
  "query_keeps db_inv (Q_MarkEmailFailedPermanently l x i k)"
  "query_keeps db_inv (Q_PruneSentEmailOutboxRows x)"
  "query_keeps db_inv (Q_PruneFailedEmailOutboxRows x)"
  by (simp_all add: query_keeps_def Q_EnqueueEmail_def Q_ClaimPendingEmails_def claim_row_def
      mark_email_def release_row_def Q_MarkEmailSent_def Q_MarkEmailFailed_def
      Q_MarkEmailFailedPermanently_def Q_PruneSentEmailOutboxRows_def
      Q_PruneFailedEmailOutboxRows_def db_inv_def Let_def table_simps)

lemma totp_queries_inv [preserves_rules]:
  "query_keeps db_inv (Q_ClaimTOTPCounter c i)"
  "query_keeps db_inv (Q_UpsertPendingTOTP i s)"
  "query_keeps db_inv (Q_EnableTOTP y i)"
  "query_keeps db_inv (Q_DeleteTOTPByUserID i)"
  "query_keeps db_inv (Q_CreateTOTPBackupCode i h)"
  "query_keeps db_inv (Q_DeleteTOTPBackupCodesByUserID i)"
  "query_keeps db_inv (Q_ConsumeTOTPBackupCode y i h)"
  by (simp_all add: query_keeps_def Q_ClaimTOTPCounter_def Q_UpsertPendingTOTP_def Q_EnableTOTP_def
      Q_DeleteTOTPByUserID_def Q_CreateTOTPBackupCode_def Q_DeleteTOTPBackupCodesByUserID_def
      Q_ConsumeTOTPBackupCode_def user_exists_def db_inv_def Let_def table_simps)

lemma credential_queries_inv [preserves_rules]:
  "query_keeps db_inv (Q_CreateWebAuthnCredential c)"
  "query_keeps db_inv (Q_UpdateWebAuthnCredentialOnLogin n b y k)"
  "query_keeps db_inv (Q_RenameWebAuthnCredential s j i)"
  "query_keeps db_inv (Q_DeleteWebAuthnCredentialByIDAndUserID j i)"
  by (simp_all add: query_keeps_def Q_CreateWebAuthnCredential_def
      Q_UpdateWebAuthnCredentialOnLogin_def Q_RenameWebAuthnCredential_def
      Q_DeleteWebAuthnCredentialByIDAndUserID_def user_exists_def db_inv_def Let_def table_simps)

lemma project_queries_inv [preserves_rules]:
  "query_keeps db_inv (Q_CreateProject i s)"
  "query_keeps db_inv (Q_DeleteProjectByIDAndUserID j i)"
  by (simp_all add: query_keeps_def Q_CreateProject_def Q_DeleteProjectByIDAndUserID_def
      user_exists_def db_inv_def Let_def table_simps)

end
