(* ===== verification/Go_Crypto.thy ===== *)
theory Go_Crypto
  imports Go_Strings "HOL-Library.Word"
begin

text \<open>
  The parts of the Go standard library that the credentials rest on and that have a public
  definition: SHA-256 (\<^verbatim>\<open>crypto/sha256\<close>), HMAC-SHA256 (\<^verbatim>\<open>crypto/hmac\<close>), Base32
  (\<^verbatim>\<open>encoding/base32\<close>) and the two URL escapers of \<^verbatim>\<open>net/url\<close>.  32-bit values are
  \<^typ>\<open>32 word\<close>, whose addition wraps as Go's \<^verbatim>\<open>uint32\<close> does.
\<close>

unbundle bit_operations_syntax

type_synonym u32 = "32 word"

section \<open>SHA-256\<close>

text \<open>
  The round constants (leading fractional bits of the cube roots of the first 64 primes) and the
  initial state (square roots of the first eight), in decimal.
\<close>

definition sha_k :: "u32 list" where
  "sha_k =
    [1116352408, 1899447441, 3049323471, 3921009573, 961987163, 1508970993,
     2453635748, 2870763221, 3624381080, 310598401, 607225278, 1426881987,
     1925078388, 2162078206, 2614888103, 3248222580, 3835390401, 4022224774,
     264347078, 604807628, 770255983, 1249150122, 1555081692, 1996064986,
     2554220882, 2821834349, 2952996808, 3210313671, 3336571891, 3584528711,
     113926993, 338241895, 666307205, 773529912, 1294757372, 1396182291,
     1695183700, 1986661051, 2177026350, 2456956037, 2730485921, 2820302411,
     3259730800, 3345764771, 3516065817, 3600352804, 4094571909, 275423344,
     430227734, 506948616, 659060556, 883997877, 958139571, 1322822218,
     1537002063, 1747873779, 1955562222, 2024104815, 2227730452, 2361852424,
     2428436474, 2756734187, 3204031479, 3329325298]"

definition sha_init :: "u32 list" where
  "sha_init =
    [1779033703, 3144134277, 1013904242, 2773480762, 1359893119, 2600822924,
     528734635, 1541459225]"

definition byte_word :: "char \<Rightarrow> u32" where
  "byte_word c = of_char c"

definition word_byte :: "u32 \<Rightarrow> char" where
  "word_byte w = char_of (uint w)"

fun be_words :: "bytes \<Rightarrow> u32 list" where
  "be_words (a # b # c # d # s) =
     (push_bit 24 (byte_word a) OR push_bit 16 (byte_word b) OR push_bit 8 (byte_word c) OR byte_word d)
       # be_words s"
| "be_words _ = []"

definition be_bytes :: "u32 \<Rightarrow> bytes" where
  "be_bytes w =
     [word_byte (drop_bit 24 w), word_byte (drop_bit 16 w), word_byte (drop_bit 8 w), word_byte w]"

text \<open>Padding: a one bit, zeros to 56 modulo 64, and the bit length in eight bytes.\<close>

definition sha_pad :: "bytes \<Rightarrow> bytes" where
  "sha_pad s =
     (let bits = word_of_int (8 * int (length s)) :: 64 word
      in s @ [CHR 0x80] @ replicate (nat ((55 - int (length s)) mod 64)) (CHR 0x00) @
         map (\<lambda>i. char_of (uint (drop_bit i bits))) [56, 48, 40, 32, 24, 16, 8, 0])"

text \<open>The message schedule, newest word first.\<close>

fun sha_schedule :: "nat \<Rightarrow> u32 list \<Rightarrow> u32 list" where
  "sha_schedule 0 ws = ws"
| "sha_schedule (Suc n) ws =
     (let x = ws ! 14; y = ws ! 1;
          s0 = word_rotr 7 x XOR word_rotr 18 x XOR drop_bit 3 x;
          s1 = word_rotr 17 y XOR word_rotr 19 y XOR drop_bit 10 y
      in sha_schedule n ((ws ! 15 + s0 + ws ! 6 + s1) # ws))"

fun sha_round :: "u32 list \<Rightarrow> u32 \<times> u32 \<Rightarrow> u32 list" where
  "sha_round [a, b, c, d, e, f, g, h] (k, w) =
     (let s1 = word_rotr 6 e XOR word_rotr 11 e XOR word_rotr 25 e;
          ch = (e AND f) XOR (NOT e AND g);
          t1 = h + s1 + ch + k + w;
          s0 = word_rotr 2 a XOR word_rotr 13 a XOR word_rotr 22 a;
          maj = (a AND b) XOR (a AND c) XOR (b AND c)
      in [t1 + (s0 + maj), a, b, c, d + t1, e, f, g])"
| "sha_round st _ = st"

definition sha_block :: "u32 list \<Rightarrow> u32 list \<Rightarrow> u32 list" where
  "sha_block st ws =
     map2 (+) st (foldl sha_round st (zip sha_k (rev (sha_schedule 48 (rev ws)))))"

function sha_blocks :: "u32 list \<Rightarrow> u32 list \<Rightarrow> u32 list" where
  "sha_blocks st ws =
     (if length ws < 16 then st else sha_blocks (sha_block st (take 16 ws)) (drop 16 ws))"
  by pat_completeness auto
termination by (relation "measure (\<lambda>(st, ws). length ws)") auto

declare sha_blocks.simps [simp del]

definition sha256_Sum256 :: "bytes \<Rightarrow> bytes" where
  "sha256_Sum256 s = concat (map be_bytes (sha_blocks sha_init (be_words (sha_pad s))))"

lemma length_sha_round: "length st = 8 \<Longrightarrow> length (sha_round st kw) = 8"
  by (cases "(st, kw)" rule: sha_round.cases) (auto simp: Let_def)

lemma length_sha_block: "length st = 8 \<Longrightarrow> length (sha_block st ws) = 8"
proof -
  have "length st = 8 \<Longrightarrow> length (foldl sha_round st kws) = 8" for kws
    by (induction kws arbitrary: st) (simp_all add: length_sha_round)
  then show "length st = 8 \<Longrightarrow> length (sha_block st ws) = 8" by (simp add: sha_block_def)
qed

lemma length_sha_blocks: "length st = 8 \<Longrightarrow> length (sha_blocks st ws) = 8"
  by (induction st ws rule: sha_blocks.induct)
    (subst sha_blocks.simps, simp add: length_sha_block)

text \<open>A digest has 32 bytes.\<close>

lemma length_sha256 [simp]: "length (sha256_Sum256 s) = 32"
proof -
  have *: "length (concat (map be_bytes ws)) = 4 * length ws" for ws
    by (induction ws) (simp_all add: be_bytes_def)
  have "length (sha_blocks sha_init (be_words (sha_pad s))) = 8"
    by (rule length_sha_blocks) (simp add: sha_init_def)
  with * show ?thesis by (simp add: sha256_Sum256_def)
qed

section \<open>HMAC-SHA256\<close>

definition xor_pad :: "8 word \<Rightarrow> bytes \<Rightarrow> bytes" where
  "xor_pad p k = map (\<lambda>c. char_of (uint (of_char c XOR p))) k"

definition hmac_key :: "bytes \<Rightarrow> bytes" where
  "hmac_key k =
     (let k' = if 64 < length k then sha256_Sum256 k else k in k' @ replicate (64 - length k') (CHR 0x00))"

definition hmac_sha256 :: "bytes \<Rightarrow> bytes \<Rightarrow> bytes" where
  "hmac_sha256 k msg =
     sha256_Sum256 (xor_pad 0x5c (hmac_key k) @ sha256_Sum256 (xor_pad 0x36 (hmac_key k) @ msg))"

lemma length_hmac [simp]: "length (hmac_sha256 k m) = 32"
  by (simp add: hmac_sha256_def)

lemma hmac_nonempty [simp]: "hmac_sha256 k m \<noteq> []"
  by (metis length_hmac list.size(3) zero_neq_numeral)

section \<open>Base32\<close>

definition b32_alphabet :: string where
  "b32_alphabet = ''ABCDEFGHIJKLMNOPQRSTUVWXYZ234567''"

definition b32_digits :: "nat \<Rightarrow> bytes \<Rightarrow> bytes" where
  "b32_digits n s =
     (let v = foldl (\<lambda>a c. 256 * a + of_char c) 0 (s @ replicate (5 - length s) (CHR 0x00)) :: int
      in map (\<lambda>i. b32_alphabet ! nat (v div 32 ^ (7 - i) mod 32)) [0..<n] @ replicate (8 - n) (CHR ''=''))"

fun b32_encode :: "bytes \<Rightarrow> bytes" where
  "b32_encode (a # b # c # d # e # s) = b32_digits 8 [a, b, c, d, e] @ b32_encode s"
| "b32_encode [] = []"
| "b32_encode [a] = b32_digits 2 [a]"
| "b32_encode [a, b] = b32_digits 4 [a, b]"
| "b32_encode [a, b, c] = b32_digits 5 [a, b, c]"
| "b32_encode [a, b, c, d] = b32_digits 7 [a, b, c, d]"

section \<open>URL escaping\<close>

definition unreserved :: "char \<Rightarrow> bool" where
  "unreserved c \<longleftrightarrow> (48 \<le> code c \<and> code c \<le> 57) \<or> (65 \<le> code c \<and> code c \<le> 90) \<or>
     (97 \<le> code c \<and> code c \<le> 122) \<or> c \<in> set ''-_.~''"

definition percent :: "char \<Rightarrow> bytes" where
  "percent c = CHR ''%'' # map upper_char (hex_encode [c])"

definition QueryEscape :: "bytes \<Rightarrow> bytes" where
  "QueryEscape s =
     concat (map (\<lambda>c. if unreserved c then [c] else if c = CHR '' '' then ''+'' else percent c) s)"

definition PathEscape :: "bytes \<Rightarrow> bytes" where
  "PathEscape s =
     concat (map (\<lambda>c. if unreserved c \<or> c \<in> set ''$&+=:@'' then [c] else percent c) s)"

end
