(* ===== verification/Credentials.thy ===== *)
theory Credentials
  imports Database Go_Crypto
begin

text \<open>
  Credentials at rest: the Argon2id password hasher (\<^verbatim>\<open>internal/auth/password_hasher.go\<close>), the
  cipher of TOTP secrets (\<^verbatim>\<open>internal/auth/secret_cipher.go\<close>), the TOTP package
  (\<^verbatim>\<open>internal/totp/totp.go\<close>) and key derivation (\<^verbatim>\<open>internal/secret/secret.go\<close>).  The record
  \<open>libs\<close> collects the functions of other packages that the program calls.
\<close>

section \<open>Functions of other packages\<close>

text \<open>
  \<open>lib_IDKey\<close> is \<^verbatim>\<open>argon2.IDKey\<close> (password, salt, time, memory, threads, key length);
  \<open>lib_Seal\<close> and \<open>lib_Open\<close> are AES-GCM under a key and a nonce; \<open>lib_ParseAddress\<close> is
  \<^verbatim>\<open>mail.ParseAddress\<close> with the name, the address and the printed form of its result;
  \<open>lib_ToLower\<close> and \<open>lib_ToUpper\<close> are case mapping of strings with characters beyond ASCII (the
  Unicode tables); \<open>lib_GenerateCode\<close> is \<^verbatim>\<open>totp.GenerateCode\<close> of \<^verbatim>\<open>pquerna/otp\<close> at a Unix time;
  \<open>lib_ParseURL\<close> gives scheme and host of a URL and \<open>lib_token_link\<close> the URL with a path joined
  and \<^verbatim>\<open>token\<close> set in its query; \<open>lib_Execute\<close> runs a compiled template, by file name, on the
  link it is given.  \<open>lib_MarshalStrings\<close> and \<open>lib_UnmarshalStrings\<close> are \<^verbatim>\<open>encoding/json\<close> on lists
  of strings.
\<close>

record mail_address =
  adr_Name :: string
  adr_Address :: string
  adr_String :: string

record libs =
  lib_IDKey :: "bytes \<Rightarrow> bytes \<Rightarrow> 32 word \<Rightarrow> 32 word \<Rightarrow> 8 word \<Rightarrow> nat \<Rightarrow> bytes"
  lib_Seal :: "bytes \<Rightarrow> bytes \<Rightarrow> bytes \<Rightarrow> bytes"
  lib_Open :: "bytes \<Rightarrow> bytes \<Rightarrow> bytes \<Rightarrow> bytes option"
  lib_ParseAddress :: "string \<Rightarrow> mail_address option"
  lib_ToLower :: "bytes \<Rightarrow> bytes"
  lib_ToUpper :: "bytes \<Rightarrow> bytes"
  lib_GenerateCode :: "string \<Rightarrow> int \<Rightarrow> string option"
  lib_ParseURL :: "string \<Rightarrow> (string \<times> string) option"
  lib_token_link :: "string \<Rightarrow> string \<Rightarrow> string \<Rightarrow> string"
  lib_Execute :: "string \<Rightarrow> string \<Rightarrow> string option"
  lib_MarshalStrings :: "string list \<Rightarrow> string"
  lib_UnmarshalStrings :: "string \<Rightarrow> string list option"

text \<open>What the program relies on: documented behaviour of the packages.\<close>

definition argon2_key_length :: "libs \<Rightarrow> bool" where
  "argon2_key_length L \<longleftrightarrow> (\<forall>p s t m n k. length (lib_IDKey L p s t m n k) = k)"

definition aead_correct :: "libs \<Rightarrow> bool" where
  "aead_correct L \<longleftrightarrow> (\<forall>k n p. lib_Open L k n (lib_Seal L k n p) = Some p)"

definition ToLower :: "libs \<Rightarrow> bytes \<Rightarrow> bytes" where
  "ToLower L s = (if list_all is_ascii s then map lower_char s else lib_ToLower L s)"

definition ToUpper :: "libs \<Rightarrow> bytes \<Rightarrow> bytes" where
  "ToUpper L s = (if list_all is_ascii s then map upper_char s else lib_ToUpper L s)"

section \<open>Key derivation\<close>

definition DeriveKey :: "bytes \<Rightarrow> string \<Rightarrow> bytes" where
  "DeriveKey base purpose = hmac_sha256 base purpose"

section \<open>Passwords\<close>

record argon2idHasher =
  memoryKiB :: "32 word"
  iterations :: "32 word"
  threads :: "8 word"
  pepper :: string

record argon2idHashParams =
  p_memoryKiB :: "32 word"
  p_iterations :: "32 word"
  p_threads :: "8 word"

definition argon2_Version :: nat where
  "argon2_Version = 19"

definition argon2idSaltLength :: nat where
  "argon2idSaltLength = 16"

definition argon2idKeyLength :: nat where
  "argon2idKeyLength = 32"

text \<open>The four Argon2 options of \<^verbatim>\<open>AuthOptions\<close>; zero means the default.\<close>

definition newArgon2idHasher :: "32 word \<Rightarrow> 32 word \<Rightarrow> 8 word \<Rightarrow> string \<Rightarrow> argon2idHasher" where
  "newArgon2idHasher mem its par pep =
     \<lparr>memoryKiB = if mem = 0 then 19 * 1024 else mem,
      iterations = if its = 0 then 2 else its,
      threads = if par = 0 then 1 else par,
      pepper = pep\<rparr>"

definition passwordInput :: "argon2idHasher \<Rightarrow> string \<Rightarrow> bytes" where
  "passwordInput h password = (if pepper h = [] then password else hmac_sha256 (pepper h) password)"

definition encodeArgon2idHash :: "argon2idHasher \<Rightarrow> bytes \<Rightarrow> bytes \<Rightarrow> string" where
  "encodeArgon2idHash h salt hash =
     ''$argon2id$v='' @ dec argon2_Version @ ''$m='' @ dec (unat (memoryKiB h)) @
     '',t='' @ dec (unat (iterations h)) @ '',p='' @ dec (unat (threads h)) @
     ''$'' @ b64_encode std_alphabet salt @ ''$'' @ b64_encode std_alphabet hash"

definition Hash :: "libs \<Rightarrow> argon2idHasher \<Rightarrow> string \<Rightarrow> string op" where
  "Hash L h password =
     try_op (wrapped ''generate salt'' (rand_Read argon2idSaltLength)) (\<lambda>salt.
       ret (Inr (encodeArgon2idHash h salt
         (lib_IDKey L (passwordInput h password) salt (iterations h) (memoryKiB h) (threads h)
            argon2idKeyLength))))"

text \<open>The map of parameters: absent keys read as the empty string; a later entry wins.\<close>

fun paramMap_of :: "bytes list \<Rightarrow> (bytes \<Rightarrow> bytes) \<Rightarrow> (bytes \<Rightarrow> bytes) option" where
  "paramMap_of [] m = Some m"
| "paramMap_of (entry # es) m =
     (case Cut (CHR ''='') entry of (key, val, ok) \<Rightarrow>
        if \<not> ok \<or> key = [] \<or> val = [] then None else paramMap_of es (m(key := val)))"

definition parse_nonzero :: "nat \<Rightarrow> bytes \<Rightarrow> nat option" where
  "parse_nonzero bits s = (case ParseUint bits s of None \<Rightarrow> None | Some n \<Rightarrow> if n = 0 then None else Some n)"

definition parseArgon2idParams :: "bytes \<Rightarrow> argon2idHashParams result" where
  "parseArgon2idParams raw =
     (case paramMap_of (Split (CHR '','') raw) (\<lambda>_. []) of
        None \<Rightarrow> Inl ErrInvalidPasswordHash
      | Some pm \<Rightarrow>
          (case parse_nonzero 32 (pm ''m'') of
             None \<Rightarrow> Inl ErrInvalidPasswordHash
           | Some memory64 \<Rightarrow>
               (case parse_nonzero 32 (pm ''t'') of
                  None \<Rightarrow> Inl ErrInvalidPasswordHash
                | Some iterations64 \<Rightarrow>
                    (case parse_nonzero 8 (pm ''p'') of
                       None \<Rightarrow> Inl ErrInvalidPasswordHash
                     | Some threads64 \<Rightarrow>
                         Inr \<lparr>p_memoryKiB = of_nat memory64, p_iterations = of_nat iterations64,
                              p_threads = of_nat threads64\<rparr>))))"

definition decode_nonempty :: "bytes \<Rightarrow> bytes option" where
  "decode_nonempty s =
     (case b64_decode std_alphabet s of None \<Rightarrow> None | Some b \<Rightarrow> if b = [] then None else Some b)"

definition decodeArgon2idHash :: "string \<Rightarrow> (argon2idHashParams \<times> bytes \<times> bytes) result" where
  "decodeArgon2idHash encoded =
     (case Split (CHR ''$'') encoded of
        [_, alg, vers, raw, salt64, hash64] \<Rightarrow>
          if alg \<noteq> ''argon2id'' then Inl ErrInvalidPasswordHash
          else (case CutPrefix ''v='' vers of
             None \<Rightarrow> Inl ErrInvalidPasswordHash
           | Some versionRaw \<Rightarrow>
               if ParseInt versionRaw \<noteq> Some (int argon2_Version) then Inl ErrInvalidPasswordHash
               else (case parseArgon2idParams raw of
                  Inl e \<Rightarrow> Inl e
                | Inr params \<Rightarrow>
                    (case decode_nonempty salt64 of
                       None \<Rightarrow> Inl ErrInvalidPasswordHash
                     | Some salt \<Rightarrow>
                         (case decode_nonempty hash64 of
                            None \<Rightarrow> Inl ErrInvalidPasswordHash
                          | Some hash \<Rightarrow> Inr (params, salt, hash)))))
      | _ \<Rightarrow> Inl ErrInvalidPasswordHash)"

definition Verify :: "libs \<Rightarrow> argon2idHasher \<Rightarrow> string \<Rightarrow> string \<Rightarrow> bool result" where
  "Verify L h encodedHash password =
     (case decodeArgon2idHash encodedHash of
        Inl e \<Rightarrow> Inl e
      | Inr (params, salt, hash) \<Rightarrow>
          Inr (hash = lib_IDKey L (passwordInput h password) salt (p_iterations params)
                        (p_memoryKiB params) (p_threads params) (length hash)))"

text \<open>\<open>newArgon2idHasher\<close> never yields a zero parameter, which \<open>decodeArgon2idHash\<close> would refuse.\<close>

definition hasher_ok :: "argon2idHasher \<Rightarrow> bool" where
  "hasher_ok h \<longleftrightarrow> memoryKiB h \<noteq> 0 \<and> iterations h \<noteq> 0 \<and> threads h \<noteq> 0"

lemma newArgon2idHasher_ok [simp]: "hasher_ok (newArgon2idHasher m t p pep)"
  by (simp add: hasher_ok_def newArgon2idHasher_def)

lemma parse_nonzero_dec: "n < 2 ^ b \<Longrightarrow> 0 < n \<Longrightarrow> parse_nonzero b (dec n) = Some n"
  by (simp add: parse_nonzero_def)

lemma decode_nonempty_encode: "s \<noteq> [] \<Longrightarrow> decode_nonempty (b64_encode std_alphabet s) = Some s"
  by (simp add: decode_nonempty_def b64_roundtrip)

lemma std_alphabet_no_dollar: "CHR ''$'' \<notin> set (b64_encode std_alphabet s)"
proof -
  have "CHR ''$'' \<notin> set std_alphabet" by (simp add: std_alphabet_def)
  with b64_encode_alphabet [of std_alphabet s] show ?thesis by auto
qed

lemma parse_encoded_params:
  assumes "hasher_ok h"
  shows "parseArgon2idParams (''m='' @ dec (unat (memoryKiB h)) @ '',t='' @ dec (unat (iterations h)) @
           '',p='' @ dec (unat (threads h))) =
         Inr \<lparr>p_memoryKiB = memoryKiB h, p_iterations = iterations h, p_threads = threads h\<rparr>"
proof -
  let ?m = "''m='' @ dec (unat (memoryKiB h))" and ?t = "''t='' @ dec (unat (iterations h))"
    and ?p = "''p='' @ dec (unat (threads h))"
  have split: "Split (CHR '','') (?m @ CHR '','' # ?t @ CHR '','' # ?p) = [?m, ?t, ?p]"
    by (subst Split_append | subst Split_no_sep | simp add: dec_no_char)+
  have cut: "Cut (CHR ''='') ([c] @ CHR ''='' # s) = ([c], s, True)" if "c \<noteq> CHR ''=''" for c s
    using that by (intro Cut_append) simp
  have bounds: "unat (memoryKiB h) < 2 ^ 32" "unat (iterations h) < 2 ^ 32" "unat (threads h) < 2 ^ 8"
    using unsigned_less [of "memoryKiB h", where ?'a = nat]
      unsigned_less [of "iterations h", where ?'a = nat] unsigned_less [of "threads h", where ?'a = nat]
    by simp_all
  have pos: "0 < unat (memoryKiB h)" "0 < unat (iterations h)" "0 < unat (threads h)"
    using assms by (simp_all add: hasher_ok_def unat_gt_0)
  note parsed = parse_nonzero_dec [OF bounds(1) pos(1)] parse_nonzero_dec [OF bounds(2) pos(2)]
    parse_nonzero_dec [OF bounds(3) pos(3)]
  have pm: "paramMap_of [?m, ?t, ?p] (\<lambda>_. []) =
      Some ((\<lambda>_. [])(''m'' := dec (unat (memoryKiB h)), ''t'' := dec (unat (iterations h)),
             ''p'' := dec (unat (threads h))))"
    using cut [of "CHR ''m''"] cut [of "CHR ''t''"] cut [of "CHR ''p''"] by simp
  have shape: "''m='' @ dec (unat (memoryKiB h)) @ '',t='' @ dec (unat (iterations h)) @
           '',p='' @ dec (unat (threads h)) = ?m @ CHR '','' # ?t @ CHR '','' # ?p"
    by simp
  show ?thesis
    unfolding parseArgon2idParams_def shape split pm option.case by (simp add: parsed)
qed

text \<open>Decoding undoes the encoding of \<open>Hash\<close>, parameters included.\<close>

lemma decode_encodeArgon2idHash:
  assumes "hasher_ok h" and "salt \<noteq> []" and "hash \<noteq> []"
  shows "decodeArgon2idHash (encodeArgon2idHash h salt hash) =
    Inr (\<lparr>p_memoryKiB = memoryKiB h, p_iterations = iterations h, p_threads = threads h\<rparr>, salt, hash)"
proof -
  let ?v = "''v='' @ dec argon2_Version"
    and ?ps = "''m='' @ dec (unat (memoryKiB h)) @ '',t='' @ dec (unat (iterations h)) @
           '',p='' @ dec (unat (threads h))"
    and ?s = "b64_encode std_alphabet salt" and ?h = "b64_encode std_alphabet hash"
  have enc: "encodeArgon2idHash h salt hash =
      [] @ CHR ''$'' # ''argon2id'' @ CHR ''$'' # ?v @ CHR ''$'' # ?ps @ CHR ''$'' # ?s @ CHR ''$'' # ?h"
    by (simp add: encodeArgon2idHash_def)
  have no_dollar: "CHR ''$'' \<notin> set []" "CHR ''$'' \<notin> set ''argon2id''" "CHR ''$'' \<notin> set ?v"
    "CHR ''$'' \<notin> set ?ps" "CHR ''$'' \<notin> set ?s" "CHR ''$'' \<notin> set ?h"
    by (simp_all add: dec_no_char std_alphabet_no_dollar)
  have split: "Split (CHR ''$'') (encodeArgon2idHash h salt hash) = [[], ''argon2id'', ?v, ?ps, ?s, ?h]"
    unfolding enc by (simp only: Split_append Split_no_sep no_dollar not_False_eq_True)
  have version: "ParseInt (dec argon2_Version) = Some (int argon2_Version)"
    by (rule ParseInt_dec) (simp add: argon2_Version_def)
  note prefix = CutPrefix_append [of "''v=''" "dec argon2_Version"]
  show ?thesis
    unfolding decodeArgon2idHash_def split list.case prefix option.case parse_encoded_params [OF assms(1)]
    using assms(2,3) by (simp add: version decode_nonempty_encode)
qed

lemma Verify_encoded:
  assumes "hasher_ok h" and "salt \<noteq> []" and "hash \<noteq> []"
  shows "Verify L h (encodeArgon2idHash h salt hash) password =
    Inr (hash = lib_IDKey L (passwordInput h password) salt (iterations h) (memoryKiB h) (threads h)
                  (length hash))"
  by (simp add: Verify_def decode_encodeArgon2idHash [OF assms])

text \<open>What a successful \<open>Hash\<close> returned: the encoding of a key for a fresh salt.\<close>

lemma Hash_InrE:
  assumes "run_state (Hash L h p) w = (Inr e, w')"
  obtains salt where "length salt = argon2idSaltLength"
    "e = encodeArgon2idHash h salt
       (lib_IDKey L (passwordInput h p) salt (iterations h) (memoryKiB h) (threads h) argon2idKeyLength)"
    "wdb w' = wdb w"
proof -
  from assms obtain salt where run: "run_state (rand_Read argon2idSaltLength) w = (Inr salt, w')"
    and e: "e = encodeArgon2idHash h salt
       (lib_IDKey L (passwordInput h p) salt (iterations h) (memoryKiB h) (threads h) argon2idKeyLength)"
    by (auto simp: Hash_def run_try_op run_wrapped split: prod.splits sum.splits)
  have "Inr salt = fst (run_state (rand_Read argon2idSaltLength) w)" using run by simp
  then have "length salt = argon2idSaltLength"
    by (cases "wrand w 0") (simp_all add: run_rand_Read)
  with e run that show ?thesis by (simp add: wdb_primitives)
qed

lemma Verify_Hash:
  assumes "argon2_key_length L" and "hasher_ok h" and "run_state (Hash L h p) w = (Inr e, w')"
  obtains salt where "\<And>q. Verify L h e q =
    Inr (lib_IDKey L (passwordInput h p) salt (iterations h) (memoryKiB h) (threads h) argon2idKeyLength =
         lib_IDKey L (passwordInput h q) salt (iterations h) (memoryKiB h) (threads h) argon2idKeyLength)"
proof -
  from assms(3) obtain salt where s: "length salt = argon2idSaltLength"
    and e: "e = encodeArgon2idHash h salt
       (lib_IDKey L (passwordInput h p) salt (iterations h) (memoryKiB h) (threads h) argon2idKeyLength)"
    by (rule Hash_InrE)
  let ?k = "lib_IDKey L (passwordInput h p) salt (iterations h) (memoryKiB h) (threads h) argon2idKeyLength"
  have len: "length ?k = argon2idKeyLength" using assms(1) by (simp add: argon2_key_length_def)
  then have "salt \<noteq> []" "?k \<noteq> []"
    using s by (auto simp: argon2idSaltLength_def argon2idKeyLength_def)
  with that assms(2) len show ?thesis by (simp add: e Verify_encoded)
qed

lemma wp_Hash [wp_rules]:
  assumes "Q (Inl (Errorf ''generate salt'' ErrRand)) d"
    and "\<And>salt. length salt = argon2idSaltLength \<Longrightarrow> Q (Inr (encodeArgon2idHash h salt
       (lib_IDKey L (passwordInput h p) salt (iterations h) (memoryKiB h) (threads h) argon2idKeyLength))) d"
  shows "wp (Hash L h p) Q d"
  unfolding Hash_def by (intro wp_rules) (auto simp: assms intro!: wp_rules)

lemma keeps_Hash [preserves_rules]: "keeps P (Hash L h p)"
  unfolding Hash_def by (intro preserves_rules)

section \<open>TOTP secrets at rest\<close>

definition gcm_NonceSize :: nat where
  "gcm_NonceSize = 12"

definition newSecretCipher :: "bytes \<Rightarrow> bytes result" where
  "newSecretCipher key =
     (if length key \<in> {16, 24, 32} then Inr key
      else Inl (Errorf ''new cipher'' (ErrMsg ''crypto/aes: invalid key size'')))"

definition encrypt :: "libs \<Rightarrow> bytes \<Rightarrow> string \<Rightarrow> string op" where
  "encrypt L key plaintext =
     try_op (wrapped ''generate nonce'' (rand_Read gcm_NonceSize)) (\<lambda>nonce.
       ret (Inr (b64_encode std_alphabet (nonce @ lib_Seal L key nonce plaintext))))"

definition decrypt :: "libs \<Rightarrow> bytes \<Rightarrow> string \<Rightarrow> string result" where
  "decrypt L key encoded =
     (case b64_decode std_alphabet encoded of
        None \<Rightarrow> Inl ErrInvalidCiphertext
      | Some raw \<Rightarrow>
          if length raw < gcm_NonceSize then Inl ErrInvalidCiphertext
          else (case lib_Open L key (take gcm_NonceSize raw) (drop gcm_NonceSize raw) of
                  None \<Rightarrow> Inl ErrInvalidCiphertext
                | Some plaintext \<Rightarrow> Inr plaintext))"

lemma decrypt_sealed:
  "aead_correct L \<Longrightarrow> length nonce = gcm_NonceSize \<Longrightarrow>
     decrypt L key (b64_encode std_alphabet (nonce @ lib_Seal L key nonce p)) = Inr p"
  by (simp add: decrypt_def b64_roundtrip aead_correct_def)

lemma wp_encrypt:
  assumes "Q (Inl (Errorf ''generate nonce'' ErrRand)) d"
    and "\<And>c. (aead_correct L \<Longrightarrow> decrypt L key c = Inr p) \<Longrightarrow> Q (Inr c) d"
  shows "wp (encrypt L key p) Q d"
  unfolding encrypt_def
  by (intro wp_rules) (auto simp: assms decrypt_sealed intro!: wp_rules)

lemma keeps_encrypt [preserves_rules]: "keeps P (encrypt L key p)"
  unfolding encrypt_def by (intro preserves_rules)

section \<open>Time-based one-time passwords\<close>

definition totp_digits :: nat where
  "totp_digits = 6"

definition totp_period :: int where
  "totp_period = 30"

text \<open>Go's integer division truncates toward zero.\<close>

definition go_quot :: "int \<Rightarrow> int \<Rightarrow> int" where
  "go_quot a b = sgn a * sgn b * (\<bar>a\<bar> div \<bar>b\<bar>)"

definition time_Unix :: "time \<Rightarrow> int" where
  "time_Unix t = t div second"

definition BuildURI :: "string \<Rightarrow> string \<Rightarrow> string \<Rightarrow> string" where
  "BuildURI issuer account secr =
     ''otpauth://totp/'' @ PathEscape issuer @ '':'' @ PathEscape account @
     ''?algorithm=SHA1&digits='' @ dec totp_digits @ ''&issuer='' @ QueryEscape issuer @
     ''&period='' @ FormatInt totp_period @ ''&secret='' @ QueryEscape secr"

definition Generate :: "libs \<Rightarrow> string \<Rightarrow> (world, string option) state" where
  "Generate L secr = do { now \<leftarrow> time_now; ret (lib_GenerateCode L secr (time_Unix now)) }"

fun match_windows :: "libs \<Rightarrow> string \<Rightarrow> string \<Rightarrow> int \<Rightarrow> int list \<Rightarrow> int \<times> bool \<Rightarrow> int \<times> bool" where
  "match_windows L secr code6 counter [] (matched, ok) = (matched, ok)"
| "match_windows L secr code6 counter (delta # ds) (matched, ok) =
     (let step = counter + delta
      in case lib_GenerateCode L secr (step * totp_period) of
           None \<Rightarrow> (0, False)
         | Some candidate \<Rightarrow>
             match_windows L secr code6 counter ds
               (if candidate = code6 \<and> \<not> ok then (step, True) else (matched, ok)))"

definition VerifyWithCounter :: "libs \<Rightarrow> string \<Rightarrow> string \<Rightarrow> (world, int \<times> bool) state" where
  "VerifyWithCounter L secr code6 =
     (let code6 = TrimSpace code6
      in if length code6 \<noteq> totp_digits then ret (0, False)
         else do {
           now \<leftarrow> time_now;
           ret (match_windows L secr code6 (go_quot (time_Unix now) totp_period) [-1, 0, 1] (0, False))
         })"

text \<open>A match is the code of one of the three windows around the current one.\<close>

lemma match_windows_sound:
  "match_windows L secr c k ds (m, ok) = (n, True) \<Longrightarrow>
     (ok \<and> n = m) \<or> (\<exists>delta \<in> set ds. n = k + delta \<and> lib_GenerateCode L secr (n * totp_period) = Some c)"
  by (induction ds arbitrary: m ok) (auto simp: Let_def split: option.splits if_splits)

lemma match_windows_ok:
  "(\<And>delta. delta \<in> set ds \<Longrightarrow> lib_GenerateCode L secr ((k + delta) * totp_period) \<noteq> None) \<Longrightarrow>
     match_windows L secr c k ds (m, True) = (m, True)"
  by (induction ds) (auto simp: Let_def split: option.splits)

lemma wp_VerifyWithCounter [wp_rules]:
  assumes "\<And>n ok. (ok \<Longrightarrow> lib_GenerateCode L secr (n * totp_period) = Some (TrimSpace c)) \<Longrightarrow> Q (n, ok) d"
  shows "wp (VerifyWithCounter L secr c) Q d"
proof -
  have none: "Q (0, False) d" by (rule assms) simp
  have found: "Q (match_windows L secr (TrimSpace c) k ds (0, False)) d" for k ds
  proof -
    obtain n ok where mw: "match_windows L secr (TrimSpace c) k ds (0, False) = (n, ok)" by fastforce
    then have "ok \<Longrightarrow> lib_GenerateCode L secr (n * totp_period) = Some (TrimSpace c)"
      using match_windows_sound [of L secr "TrimSpace c" k ds 0 False n] by auto
    then show ?thesis unfolding mw by (rule assms)
  qed
  show ?thesis
    unfolding VerifyWithCounter_def Let_def by (intro wp_rules none found)
qed

end
