(* ===== verification/Email_Messages.thy ===== *)
theory Email_Messages
  imports Credentials
begin

text \<open>
  The transactional messages of \<^verbatim>\<open>internal/email/email.go\<close>: addresses are normalised through the
  mail parser, a token becomes a link under the application's base URL, and the subject and the two
  bodies are the trimmed output of the named templates.
\<close>

record Message =
  msg_From :: string
  msg_To :: string
  msg_Subject :: string
  msg_TextBody :: string
  msg_HTMLBody :: string

record MessageOptions =
  mo_AppBaseURL :: string
  mo_From :: string

definition paths_ConfirmEmail :: string where
  "paths_ConfirmEmail = ''/account/confirm-email''"

definition paths_ResetPassword :: string where
  "paths_ResetPassword = ''/account/reset-password''"

definition paths_ConfirmEmailChange :: string where
  "paths_ConfirmEmailChange = ''/account/confirm-email-change''"

definition TrimPrefix :: "bytes \<Rightarrow> bytes \<Rightarrow> bytes" where
  "TrimPrefix s p = (case CutPrefix p s of None \<Rightarrow> s | Some t \<Rightarrow> t)"

definition normalizeAddress :: "libs \<Rightarrow> string \<Rightarrow> string \<Rightarrow> string result" where
  "normalizeAddress L field address =
     (case lib_ParseAddress L (TrimSpace address) of
        None \<Rightarrow> Inl (Errorf (field @ '' email address'') (ErrMsg ''mail: invalid address''))
      | Some parsed \<Rightarrow> Inr (adr_String parsed))"

definition tokenURL :: "libs \<Rightarrow> string \<Rightarrow> string \<Rightarrow> string \<Rightarrow> string \<Rightarrow> string result" where
  "tokenURL L appBaseURL path token tokenLabel =
     (let token = TrimSpace token; base = TrimSpace appBaseURL
      in if token = [] then Inl (ErrMsg (tokenLabel @ '' token is required''))
         else case lib_ParseURL L base of
             None \<Rightarrow> Inl (Errorf ''app base URL'' (ErrMsg ''parse''))
           | Some (scheme, host) \<Rightarrow>
               if scheme \<noteq> ''http'' \<and> scheme \<noteq> ''https''
               then Inl (ErrMsg ''app base URL must use http or https'')
               else if host = [] then Inl (ErrMsg ''app base URL must include a host'')
               else Inr (lib_token_link L base path token))"

text \<open>The names found in \<^verbatim>\<open>internal/email/templates\<close> at start-up.\<close>

definition emailTemplates :: "string list" where
  "emailTemplates = [''account_confirmation'', ''email_change'', ''email_change_notice'', ''password_reset'']"

definition renderTemplate :: "libs \<Rightarrow> string \<Rightarrow> string \<Rightarrow> string \<Rightarrow> string result" where
  "renderTemplate L templateName part link =
     (case lib_Execute L (templateName @ ''-'' @ part) link of
        None \<Rightarrow> Inl (Errorf (''render '' @ templateName @ '' '' @ part @ '' template'') (ErrMsg ''template''))
      | Some out \<Rightarrow> Inr out)"

definition renderEmailTemplates ::
  "libs \<Rightarrow> string \<Rightarrow> string \<Rightarrow> (string \<times> string \<times> string) result" where
  "renderEmailTemplates L templateName link =
     (if templateName \<notin> set emailTemplates then Inl (ErrMsg (''unknown email template '' @ templateName))
      else case renderTemplate L templateName ''subject'' link of
          Inl e \<Rightarrow> Inl e
        | Inr subjectOut \<Rightarrow>
            (case renderTemplate L templateName ''text'' link of
               Inl e \<Rightarrow> Inl e
             | Inr textOut \<Rightarrow>
                 (case renderTemplate L templateName ''html'' link of
                    Inl e \<Rightarrow> Inl e
                  | Inr htmlOut \<Rightarrow> Inr (TrimSpace subjectOut, TrimSpace textOut, TrimSpace htmlOut))))"

text \<open>The steps the three messages with a link share; they differ in path, label and template.\<close>

definition newTokenMessage ::
  "libs \<Rightarrow> MessageOptions \<Rightarrow> string \<Rightarrow> string \<Rightarrow> string \<Rightarrow> string \<Rightarrow> string \<Rightarrow> Message result" where
  "newTokenMessage L opts recipient token path tokenLabel templateName =
     (case normalizeAddress L ''from'' (mo_From opts) of
        Inl e \<Rightarrow> Inl e
      | Inr from_adr \<Rightarrow>
          (case normalizeAddress L ''to'' recipient of
             Inl e \<Rightarrow> Inl e
           | Inr to_adr \<Rightarrow>
               (case tokenURL L (mo_AppBaseURL opts) (TrimPrefix path ''/'') token tokenLabel of
                  Inl e \<Rightarrow> Inl e
                | Inr link \<Rightarrow>
                    (case renderEmailTemplates L templateName link of
                       Inl e \<Rightarrow> Inl e
                     | Inr (subject, textBody, htmlBody) \<Rightarrow>
                         Inr \<lparr>msg_From = from_adr, msg_To = to_adr, msg_Subject = subject,
                              msg_TextBody = textBody, msg_HTMLBody = htmlBody\<rparr>))))"

definition NewAccountConfirmationMessage ::
  "libs \<Rightarrow> MessageOptions \<Rightarrow> string \<Rightarrow> string \<Rightarrow> Message result" where
  "NewAccountConfirmationMessage L opts recipient token =
     newTokenMessage L opts recipient token paths_ConfirmEmail ''confirmation'' ''account_confirmation''"

definition NewPasswordResetMessage ::
  "libs \<Rightarrow> MessageOptions \<Rightarrow> string \<Rightarrow> string \<Rightarrow> Message result" where
  "NewPasswordResetMessage L opts recipient token =
     newTokenMessage L opts recipient token paths_ResetPassword ''password reset'' ''password_reset''"

definition NewEmailChangeMessage ::
  "libs \<Rightarrow> MessageOptions \<Rightarrow> string \<Rightarrow> string \<Rightarrow> Message result" where
  "NewEmailChangeMessage L opts recipient token =
     newTokenMessage L opts recipient token paths_ConfirmEmailChange ''email change'' ''email_change''"

definition NewEmailChangeNoticeMessage :: "libs \<Rightarrow> MessageOptions \<Rightarrow> string \<Rightarrow> Message result" where
  "NewEmailChangeNoticeMessage L opts recipient =
     (case normalizeAddress L ''from'' (mo_From opts) of
        Inl e \<Rightarrow> Inl e
      | Inr from_adr \<Rightarrow>
          (case normalizeAddress L ''to'' recipient of
             Inl e \<Rightarrow> Inl e
           | Inr to_adr \<Rightarrow>
               (case renderEmailTemplates L ''email_change_notice'' [] of
                  Inl e \<Rightarrow> Inl e
                | Inr (subject, textBody, htmlBody) \<Rightarrow>
                    Inr \<lparr>msg_From = from_adr, msg_To = to_adr, msg_Subject = subject,
                         msg_TextBody = textBody, msg_HTMLBody = htmlBody\<rparr>)))"

text \<open>A path is relative once its slash is cut.\<close>

lemma TrimPrefix_slash [simp]: "TrimPrefix (CHR ''/'' # s) ''/'' = s"
  by (simp add: TrimPrefix_def CutPrefix_def)

text \<open>A message with a link goes to the parsed recipient from the parsed sender.\<close>

lemma newTokenMessage_InrE:
  assumes "newTokenMessage L opts recipient token path label tpl = Inr m"
  obtains f t where
    "lib_ParseAddress L (TrimSpace (mo_From opts)) = Some f" "msg_From m = adr_String f"
    "lib_ParseAddress L (TrimSpace recipient) = Some t" "msg_To m = adr_String t"
    "TrimSpace token \<noteq> []"
  using assms
  by (auto simp: newTokenMessage_def normalizeAddress_def tokenURL_def Let_def
      split: sum.splits option.splits prod.splits if_splits)

text \<open>No built message refers to an unknown template: the four names used are the embedded ones.\<close>

lemma used_templates_known:
  "''account_confirmation'' \<in> set emailTemplates" "''password_reset'' \<in> set emailTemplates"
  "''email_change'' \<in> set emailTemplates" "''email_change_notice'' \<in> set emailTemplates"
  by (simp_all add: emailTemplates_def)

end
