(* ===== verification/Auth_Store.thy ===== *)
theory Auth_Store
  imports Schema Email_Messages
begin

text \<open>
  The store behind the authentication service (\<^verbatim>\<open>internal/auth/auth_store.go\<close>,
  \<^verbatim>\<open>totp_store.go\<close>, \<^verbatim>\<open>webauthn_store.go\<close>): each method runs one statement, or several in one
  transaction, and wraps the errors.  The names carry the prefix \<open>store_\<close>.
\<close>

section \<open>Domain types of \<^verbatim>\<open>internal/auth/auth.go\<close>\<close>

record User =
  u_ID :: int
  u_Email :: string
  u_EmailVerifiedAt :: "time option"
  u_CreatedAt :: time

record UserRecord = User +
  ur_PasswordHash :: string

record SessionRecord =
  sr_ID :: int
  sr_UserID :: int
  sr_TokenHash :: string
  sr_ExpiresAt :: time
  sr_CreatedAt :: time

record EmailVerificationToken =
  evt_ID :: int
  evt_UserID :: int
  evt_TokenHash :: string
  evt_ExpiresAt :: time
  evt_ConsumedAt :: "time option"
  evt_CreatedAt :: time

record PasswordResetToken =
  prt_ID :: int
  prt_UserID :: int
  prt_TokenHash :: string
  prt_ExpiresAt :: time
  prt_ConsumedAt :: "time option"
  prt_CreatedAt :: time

record TOTPRecord =
  tr_ID :: int
  tr_UserID :: int
  tr_Secret :: string
  tr_EnabledAt :: "time option"
  tr_LastUsedCounter :: "int option"
  tr_CreatedAt :: time

record CreateUserWithEmailVerificationParams =
  cu_Email :: string
  cu_PasswordHash :: string
  cu_TokenHash :: string
  cu_TokenExpiresAt :: time
  cu_ConfirmationEmail :: Message
  cu_EmailAvailableAt :: time

record ResendEmailVerificationParams =
  rv_UserID :: int
  rv_TokenHash :: string
  rv_TokenExpiresAt :: time
  rv_ConfirmationEmail :: Message
  rv_EmailAvailableAt :: time

record RequestPasswordResetParams =
  rp_UserID :: int
  rp_TokenHash :: string
  rp_TokenExpiresAt :: time
  rp_PasswordResetEmail :: Message
  rp_EmailAvailableAt :: time

record RequestEmailChangeParams =
  rc_UserID :: int
  rc_NewEmail :: string
  rc_TokenHash :: string
  rc_TokenExpiresAt :: time
  rc_EmailChangeVerifyEmail :: Message
  rc_EmailAvailableAt :: time

record ConfirmEmailChangeParams =
  cc_TokenHash :: string
  cc_ChangedAt :: time
  cc_OldEmailNoticeOptions :: MessageOptions
  cc_NoticeEmailAvailableAt :: time
  cc_SendOldEmailNotice :: bool

record applyEmailChangeParams =
  ae_UserID :: int
  ae_NewEmail :: string
  ae_ChangedAt :: time
  ae_OldEmailNoticeOptions :: MessageOptions
  ae_NoticeEmailAvailableAt :: time
  ae_SendOldEmailNotice :: bool

section \<open>Conversions of rows\<close>

definition userFromCreateUserRow :: "user_cols \<Rightarrow> User" where
  "userFromCreateUserRow row = \<lparr>u_ID = usr_ID row, u_Email = usr_Email row,
     u_EmailVerifiedAt = usr_EmailVerifiedAt row, u_CreatedAt = usr_CreatedAt row\<rparr>"

definition userRecordFromGetUserByEmailRow :: "user_cols \<Rightarrow> UserRecord" where
  "userRecordFromGetUserByEmailRow row = \<lparr>u_ID = usr_ID row, u_Email = usr_Email row,
     u_EmailVerifiedAt = usr_EmailVerifiedAt row, u_CreatedAt = usr_CreatedAt row,
     ur_PasswordHash = usr_PasswordHash row\<rparr>"

definition userRecordFromGetUserBySessionTokenHashRow :: "user_cols \<Rightarrow> UserRecord" where
  "userRecordFromGetUserBySessionTokenHashRow row = \<lparr>u_ID = usr_ID row, u_Email = usr_Email row,
     u_EmailVerifiedAt = usr_EmailVerifiedAt row, u_CreatedAt = usr_CreatedAt row,
     ur_PasswordHash = usr_PasswordHash row\<rparr>"

definition userFromMarkUserEmailVerifiedRow :: "user_cols \<Rightarrow> User" where
  "userFromMarkUserEmailVerifiedRow row = \<lparr>u_ID = usr_ID row, u_Email = usr_Email row,
     u_EmailVerifiedAt = usr_EmailVerifiedAt row, u_CreatedAt = usr_CreatedAt row\<rparr>"

definition userFromUpdateUserEmailRow :: "user_cols \<Rightarrow> User" where
  "userFromUpdateUserEmailRow row = \<lparr>u_ID = usr_ID row, u_Email = usr_Email row,
     u_EmailVerifiedAt = usr_EmailVerifiedAt row, u_CreatedAt = usr_CreatedAt row\<rparr>"

definition userRecordFromGetUserByIDRow :: "user_cols \<Rightarrow> UserRecord" where
  "userRecordFromGetUserByIDRow row = \<lparr>u_ID = usr_ID row, u_Email = usr_Email row,
     u_EmailVerifiedAt = usr_EmailVerifiedAt row, u_CreatedAt = usr_CreatedAt row,
     ur_PasswordHash = usr_PasswordHash row\<rparr>"

definition sessionRecordFromSession :: "session_row \<Rightarrow> SessionRecord" where
  "sessionRecordFromSession row = \<lparr>sr_ID = ses_ID row, sr_UserID = ses_UserID row,
     sr_TokenHash = ses_TokenHash row, sr_ExpiresAt = ses_ExpiresAt row,
     sr_CreatedAt = ses_CreatedAt row\<rparr>"

definition emailVerificationTokenFromDB :: "token_row \<Rightarrow> EmailVerificationToken" where
  "emailVerificationTokenFromDB row = \<lparr>evt_ID = tok_ID row, evt_UserID = tok_UserID row,
     evt_TokenHash = tok_TokenHash row, evt_ExpiresAt = tok_ExpiresAt row,
     evt_ConsumedAt = tok_ConsumedAt row, evt_CreatedAt = tok_CreatedAt row\<rparr>"

definition passwordResetTokenFromDB :: "token_row \<Rightarrow> PasswordResetToken" where
  "passwordResetTokenFromDB row = \<lparr>prt_ID = tok_ID row, prt_UserID = tok_UserID row,
     prt_TokenHash = tok_TokenHash row, prt_ExpiresAt = tok_ExpiresAt row,
     prt_ConsumedAt = tok_ConsumedAt row, prt_CreatedAt = tok_CreatedAt row\<rparr>"

definition totpRecordFromDB :: "totp_row \<Rightarrow> TOTPRecord" where
  "totpRecordFromDB row = \<lparr>tr_ID = totp_ID row, tr_UserID = totp_UserID row,
     tr_Secret = totp_Secret row, tr_EnabledAt = totp_EnabledAt row,
     tr_LastUsedCounter = totp_LastUsedCounter row, tr_CreatedAt = totp_CreatedAt row\<rparr>"

lemmas row_conversions =
  userFromCreateUserRow_def userRecordFromGetUserByEmailRow_def
  userRecordFromGetUserBySessionTokenHashRow_def userFromMarkUserEmailVerifiedRow_def
  userFromUpdateUserEmailRow_def userRecordFromGetUserByIDRow_def sessionRecordFromSession_def
  emailVerificationTokenFromDB_def passwordResetTokenFromDB_def totpRecordFromDB_def

section \<open>Users\<close>

definition isSQLiteUniqueConstraint :: "go_error \<Rightarrow> bool" where
  "isSQLiteUniqueConstraint e \<longleftrightarrow> errors_Is e ErrSqliteUnique"

definition webAuthnUserHandleBytes :: nat where
  "webAuthnUserHandleBytes = 64"

definition newWebAuthnUserHandle :: "bytes op" where
  "newWebAuthnUserHandle = wrapped ''generate webauthn user handle'' (rand_Read webAuthnUserHandleBytes)"

text \<open>The mapping of an insertion error that \<^verbatim>\<open>CreateUser\<close> and \<^verbatim>\<open>UpdateUserEmail\<close> share.\<close>

definition unique_or :: "string \<Rightarrow> 'a result \<Rightarrow> 'a result" where
  "unique_or msg r = (case r of
     Inl e \<Rightarrow> Inl (if isSQLiteUniqueConstraint e then ErrEmailAlreadyRegistered else Errorf msg e)
   | Inr x \<Rightarrow> Inr x)"

definition tx_CreateUser :: "string \<Rightarrow> string \<Rightarrow> bytes \<Rightarrow> user_cols op" where
  "tx_CreateUser email passwordHash handle =
     do { r \<leftarrow> exec (Q_CreateUser email passwordHash handle); ret (unique_or ''create user'' r) }"

definition store_CreateUser :: "string \<Rightarrow> string \<Rightarrow> User op" where
  "store_CreateUser email passwordHash =
     try_op newWebAuthnUserHandle (\<lambda>handle.
     try_op (tx_CreateUser email passwordHash handle) (\<lambda>user.
     ret (Inr (userFromCreateUserRow user))))"

definition store_CreateVerifiedUser :: "string \<Rightarrow> string \<Rightarrow> time \<Rightarrow> User op" where
  "store_CreateVerifiedUser email passwordHash verifiedAt =
     try_op newWebAuthnUserHandle (\<lambda>handle.
     withTx ''create verified user'' (
       try_op (tx_CreateUser email passwordHash handle) (\<lambda>createdUser.
       try_op (wrapped ''mark user email verified''
                (exec (Q_MarkUserEmailVerified (Some verifiedAt) (usr_ID createdUser)))) (\<lambda>user.
       ret (Inr (userFromMarkUserEmailVerifiedRow user))))))"

definition tx_EnqueueEmail :: "Message \<Rightarrow> time \<Rightarrow> outbox_row op" where
  "tx_EnqueueEmail m availableAt =
     exec (Q_EnqueueEmail (msg_From m) (msg_To m) (msg_Subject m) (msg_TextBody m) (msg_HTMLBody m)
             availableAt)"

definition store_CreateUserWithEmailVerification ::
  "CreateUserWithEmailVerificationParams \<Rightarrow> User op" where
  "store_CreateUserWithEmailVerification params =
     try_op newWebAuthnUserHandle (\<lambda>handle.
     withTx ''register user'' (
       try_op (tx_CreateUser (cu_Email params) (cu_PasswordHash params) handle) (\<lambda>user.
       try_op (wrapped ''create email verification token''
                (exec (Q_CreateEmailVerificationToken (usr_ID user) (cu_TokenHash params)
                         (cu_TokenExpiresAt params)))) (\<lambda>_.
       try_op (wrapped ''enqueue confirmation email''
                (tx_EnqueueEmail (cu_ConfirmationEmail params) (cu_EmailAvailableAt params))) (\<lambda>_.
       ret (Inr (userFromCreateUserRow user)))))))"

definition store_GetUserByEmail :: "string \<Rightarrow> UserRecord op" where
  "store_GetUserByEmail email =
     try_op (wrapped ''get user by email'' (exec (Q_GetUserByEmail email))) (\<lambda>user.
     ret (Inr (userRecordFromGetUserByEmailRow user)))"

definition store_GetUserByID :: "int \<Rightarrow> UserRecord op" where
  "store_GetUserByID userID =
     try_op (wrapped ''get user by ID'' (exec (Q_GetUserByID userID))) (\<lambda>user.
     ret (Inr (userRecordFromGetUserByIDRow user)))"

definition store_UpdateUserPasswordHash :: "int \<Rightarrow> string \<Rightarrow> unit op" where
  "store_UpdateUserPasswordHash userID passwordHash =
     wrapped ''update user password hash'' (exec (Q_UpdateUserPasswordHash passwordHash userID))"

definition store_DeleteAccount :: "int \<Rightarrow> unit op" where
  "store_DeleteAccount userID = wrapped ''delete user'' (exec (Q_DeleteUserByID userID))"

section \<open>Sessions\<close>

definition store_CreateSession :: "int \<Rightarrow> string \<Rightarrow> time \<Rightarrow> SessionRecord op" where
  "store_CreateSession userID tokenHash expiresAt =
     try_op (wrapped ''create session'' (exec (Q_CreateSession userID tokenHash expiresAt))) (\<lambda>session.
     ret (Inr (sessionRecordFromSession session)))"

definition store_GetUserBySessionTokenHash :: "string \<Rightarrow> UserRecord op" where
  "store_GetUserBySessionTokenHash tokenHash =
     try_op (wrapped ''get user by session token hash'' (exec (Q_GetUserBySessionTokenHash tokenHash)))
       (\<lambda>user. ret (Inr (userRecordFromGetUserBySessionTokenHashRow user)))"

definition store_DeleteSessionByTokenHash :: "string \<Rightarrow> unit op" where
  "store_DeleteSessionByTokenHash tokenHash =
     wrapped ''delete session by token hash'' (exec (Q_DeleteSessionByTokenHash tokenHash))"

definition store_DeleteSessionsByUserID :: "int \<Rightarrow> unit op" where
  "store_DeleteSessionsByUserID userID =
     wrapped ''delete sessions by user ID'' (exec (Q_DeleteSessionsByUserID userID))"

definition store_ListActiveSessionsByUserID :: "int \<Rightarrow> SessionRecord list op" where
  "store_ListActiveSessionsByUserID userID =
     try_op (wrapped ''list active sessions by user ID'' (exec (Q_ListActiveSessionsByUserID userID)))
       (\<lambda>sessions. ret (Inr (map sessionRecordFromSession sessions)))"

definition store_DeleteOtherSessionsByUserIDAndTokenHash :: "int \<Rightarrow> string \<Rightarrow> int op" where
  "store_DeleteOtherSessionsByUserIDAndTokenHash userID tokenHash =
     wrapped ''delete other sessions by user ID and token hash''
       (exec (Q_DeleteOtherSessionsByUserIDAndTokenHash userID tokenHash))"

definition store_DeleteSessionByIDAndUserIDAndTokenHashNot :: "int \<Rightarrow> int \<Rightarrow> string \<Rightarrow> int op" where
  "store_DeleteSessionByIDAndUserIDAndTokenHashNot sessionID userID tokenHash =
     wrapped ''delete session by ID and user ID and token hash not''
       (exec (Q_DeleteSessionByIDAndUserIDAndTokenHashNot sessionID userID tokenHash))"

definition store_SetPasswordAndRevokeSessions :: "int \<Rightarrow> string \<Rightarrow> unit op" where
  "store_SetPasswordAndRevokeSessions userID passwordHash =
     withTx ''set password and revoke sessions'' (
       try_op (wrapped ''update user password hash''
                (exec (Q_UpdateUserPasswordHash passwordHash userID))) (\<lambda>_.
       wrapped ''delete sessions by user ID'' (exec (Q_DeleteSessionsByUserID userID))))"

section \<open>Password reset\<close>

definition store_CreatePasswordResetToken :: "int \<Rightarrow> string \<Rightarrow> time \<Rightarrow> PasswordResetToken op" where
  "store_CreatePasswordResetToken userID tokenHash expiresAt =
     try_op (wrapped ''create password reset token''
              (exec (Q_CreatePasswordResetToken userID tokenHash expiresAt))) (\<lambda>token.
     ret (Inr (passwordResetTokenFromDB token)))"

definition store_GetValidPasswordResetTokenByHash :: "string \<Rightarrow> time \<Rightarrow> PasswordResetToken op" where
  "store_GetValidPasswordResetTokenByHash tokenHash now =
     try_op (wrapped ''get valid password reset token by hash''
              (exec (Q_GetValidPasswordResetTokenByHash tokenHash now))) (\<lambda>token.
     ret (Inr (passwordResetTokenFromDB token)))"

definition store_ConsumePasswordResetToken :: "string \<Rightarrow> time \<Rightarrow> PasswordResetToken op" where
  "store_ConsumePasswordResetToken tokenHash consumedAt =
     try_op (wrapped ''consume password reset token''
              (exec (Q_ConsumePasswordResetToken (Some consumedAt) tokenHash consumedAt))) (\<lambda>token.
     ret (Inr (passwordResetTokenFromDB token)))"

definition store_RequestPasswordReset :: "RequestPasswordResetParams \<Rightarrow> unit op" where
  "store_RequestPasswordReset params =
     withTx ''password reset request'' (
       try_op (wrapped ''create password reset token''
                (exec (Q_CreatePasswordResetToken (rp_UserID params) (rp_TokenHash params)
                         (rp_TokenExpiresAt params)))) (\<lambda>_.
       try_op (wrapped ''enqueue password reset email''
                (tx_EnqueueEmail (rp_PasswordResetEmail params) (rp_EmailAvailableAt params))) (\<lambda>_.
       ret (Inr ()))))"

section \<open>Email verification and change\<close>

definition store_RequestEmailChange :: "RequestEmailChangeParams \<Rightarrow> unit op" where
  "store_RequestEmailChange params =
     withTx ''email change request'' (
       try_op (wrapped ''create email change token''
                (exec (Q_CreateEmailChangeToken (rc_UserID params) (rc_NewEmail params)
                         (rc_TokenHash params) (rc_TokenExpiresAt params)))) (\<lambda>_.
       try_op (wrapped ''enqueue email change verification email''
                (tx_EnqueueEmail (rc_EmailChangeVerifyEmail params) (rc_EmailAvailableAt params))) (\<lambda>_.
       ret (Inr ()))))"

definition store_CreateEmailVerificationToken :: "int \<Rightarrow> string \<Rightarrow> time \<Rightarrow> EmailVerificationToken op" where
  "store_CreateEmailVerificationToken userID tokenHash expiresAt =
     try_op (wrapped ''create email verification token''
              (exec (Q_CreateEmailVerificationToken userID tokenHash expiresAt))) (\<lambda>token.
     ret (Inr (emailVerificationTokenFromDB token)))"

definition store_ResendEmailVerification :: "ResendEmailVerificationParams \<Rightarrow> unit op" where
  "store_ResendEmailVerification params =
     withTx ''resend email verification'' (
       try_op (wrapped ''create email verification token''
                (exec (Q_CreateEmailVerificationToken (rv_UserID params) (rv_TokenHash params)
                         (rv_TokenExpiresAt params)))) (\<lambda>_.
       try_op (wrapped ''enqueue confirmation email''
                (tx_EnqueueEmail (rv_ConfirmationEmail params) (rv_EmailAvailableAt params))) (\<lambda>_.
       ret (Inr ()))))"

definition store_VerifyEmailByTokenHash :: "string \<Rightarrow> time \<Rightarrow> User op" where
  "store_VerifyEmailByTokenHash tokenHash verifiedAt =
     withTx ''verify email'' (
       try_op (wrapped ''consume email verification token''
                (exec (Q_ConsumeEmailVerificationToken (Some verifiedAt) tokenHash verifiedAt))) (\<lambda>token.
       try_op (wrapped ''mark user email verified''
                (exec (Q_MarkUserEmailVerified (Some verifiedAt) (tok_UserID token)))) (\<lambda>user.
       ret (Inr (userFromMarkUserEmailVerifiedRow user)))))"

definition applyEmailChange :: "libs \<Rightarrow> applyEmailChangeParams \<Rightarrow> User op" where
  "applyEmailChange L params =
     try_op (wrapped ''get user by ID'' (exec (Q_GetUserByID (ae_UserID params)))) (\<lambda>oldUser.
     try_op (do { r \<leftarrow> exec (Q_UpdateUserEmail (ae_NewEmail params) (Some (ae_ChangedAt params))
                               (ae_UserID params));
                  ret (unique_or ''update user email'' r) }) (\<lambda>user.
     try_op (wrapped ''delete sessions by user ID'' (exec (Q_DeleteSessionsByUserID (ae_UserID params)))) (\<lambda>_.
     if ae_SendOldEmailNotice params
     then (case NewEmailChangeNoticeMessage L (ae_OldEmailNoticeOptions params) (usr_Email oldUser) of
             Inl e \<Rightarrow> ret (Inl (Errorf ''build old email change notice'' e))
           | Inr notice \<Rightarrow>
               try_op (wrapped ''enqueue old email change notice''
                        (tx_EnqueueEmail notice (ae_NoticeEmailAvailableAt params))) (\<lambda>_.
               ret (Inr (userFromUpdateUserEmailRow user))))
     else ret (Inr (userFromUpdateUserEmailRow user)))))"

definition store_ConfirmEmailChange :: "libs \<Rightarrow> ConfirmEmailChangeParams \<Rightarrow> User op" where
  "store_ConfirmEmailChange L params =
     withTx ''confirm email change'' (
       try_op (wrapped ''consume email change token''
                (exec (Q_ConsumeEmailChangeToken (Some (cc_ChangedAt params)) (cc_TokenHash params)
                         (cc_ChangedAt params)))) (\<lambda>token.
       applyEmailChange L \<lparr>ae_UserID = tok_UserID token, ae_NewEmail = tok_NewEmail token,
         ae_ChangedAt = cc_ChangedAt params,
         ae_OldEmailNoticeOptions = cc_OldEmailNoticeOptions params,
         ae_NoticeEmailAvailableAt = cc_NoticeEmailAvailableAt params,
         ae_SendOldEmailNotice = cc_SendOldEmailNotice params\<rparr>))"

end
