(* ===== verification/Factor_Store.thy ===== *)
theory Factor_Store
  imports Auth_Store
begin

text \<open>
  The store of second factors and passkeys (\<^verbatim>\<open>internal/auth/totp_store.go\<close>,
  \<^verbatim>\<open>internal/auth/webauthn_store.go\<close>), and the proof that every method of the store keeps the
  schema invariant.
\<close>

section \<open>TOTP and backup codes\<close>

text \<open>\<open>key\<close> is the key of the store's \<^verbatim>\<open>secretCipher\<close>.\<close>

definition decryptRecord :: "libs \<Rightarrow> bytes \<Rightarrow> TOTPRecord \<Rightarrow> TOTPRecord result" where
  "decryptRecord L key record =
     (case decrypt L key (tr_Secret record) of
        Inl e \<Rightarrow> Inl (Errorf ''decrypt TOTP secret'' e)
      | Inr plain \<Rightarrow> Inr (record\<lparr>tr_Secret := plain\<rparr>))"

definition store_GetTOTPByUserID :: "libs \<Rightarrow> bytes \<Rightarrow> int \<Rightarrow> TOTPRecord op" where
  "store_GetTOTPByUserID L key userID =
     try_op (wrapped ''get TOTP by user ID'' (exec (Q_GetTOTPByUserID userID))) (\<lambda>row.
     ret (decryptRecord L key (totpRecordFromDB row)))"

definition store_GetEnabledTOTPByUserID :: "libs \<Rightarrow> bytes \<Rightarrow> int \<Rightarrow> TOTPRecord op" where
  "store_GetEnabledTOTPByUserID L key userID =
     try_op (wrapped ''get enabled TOTP by user ID'' (exec (Q_GetEnabledTOTPByUserID userID))) (\<lambda>row.
     ret (decryptRecord L key (totpRecordFromDB row)))"

definition store_UpsertPendingTOTP :: "libs \<Rightarrow> bytes \<Rightarrow> int \<Rightarrow> string \<Rightarrow> unit op" where
  "store_UpsertPendingTOTP L key userID secr =
     try_op (wrapped ''encrypt TOTP secret'' (encrypt L key secr)) (\<lambda>encryptedSecret.
     wrapped ''upsert pending TOTP'' (exec (Q_UpsertPendingTOTP userID encryptedSecret)))"

fun insertBackupCodes :: "int \<Rightarrow> string list \<Rightarrow> unit op" where
  "insertBackupCodes userID [] = ret (Inr ())"
| "insertBackupCodes userID (hash # hashes) =
     try_op (wrapped ''create backup code'' (exec (Q_CreateTOTPBackupCode userID hash))) (\<lambda>_.
     insertBackupCodes userID hashes)"

definition store_EnableTOTPWithBackupCodes :: "int \<Rightarrow> time \<Rightarrow> string list \<Rightarrow> unit op" where
  "store_EnableTOTPWithBackupCodes userID enabledAt codeHashes =
     withTx ''enable TOTP with backup codes'' (
       try_op (wrapped ''enable TOTP'' (exec (Q_EnableTOTP (Some enabledAt) userID))) (\<lambda>_.
       try_op (wrapped ''delete old backup codes'' (exec (Q_DeleteTOTPBackupCodesByUserID userID))) (\<lambda>_.
       insertBackupCodes userID codeHashes)))"

definition store_ReplaceBackupCodes :: "int \<Rightarrow> string list \<Rightarrow> unit op" where
  "store_ReplaceBackupCodes userID codeHashes =
     withTx ''replace backup codes'' (
       try_op (wrapped ''delete backup codes'' (exec (Q_DeleteTOTPBackupCodesByUserID userID))) (\<lambda>_.
       insertBackupCodes userID codeHashes))"

definition store_DeleteTOTPAndBackupCodes :: "int \<Rightarrow> unit op" where
  "store_DeleteTOTPAndBackupCodes userID =
     withTx ''delete TOTP and backup codes'' (
       try_op (wrapped ''delete backup codes'' (exec (Q_DeleteTOTPBackupCodesByUserID userID))) (\<lambda>_.
       wrapped ''delete TOTP'' (exec (Q_DeleteTOTPByUserID userID))))"

definition store_ConsumeTOTPBackupCode :: "int \<Rightarrow> string \<Rightarrow> time \<Rightarrow> bool op" where
  "store_ConsumeTOTPBackupCode userID codeHash usedAt =
     try_op (wrapped ''consume TOTP backup code''
              (exec (Q_ConsumeTOTPBackupCode (Some usedAt) userID codeHash))) (\<lambda>rows.
     ret (Inr (0 < rows)))"

definition store_ClaimTOTPCounter :: "int \<Rightarrow> int \<Rightarrow> bool op" where
  "store_ClaimTOTPCounter userID counter =
     try_op (wrapped ''claim TOTP counter'' (exec (Q_ClaimTOTPCounter counter userID))) (\<lambda>rows.
     ret (Inr (0 < rows)))"

definition store_CountUnusedTOTPBackupCodes :: "int \<Rightarrow> int op" where
  "store_CountUnusedTOTPBackupCodes userID =
     wrapped ''count unused TOTP backup codes'' (exec (Q_CountUnusedTOTPBackupCodes userID))"

section \<open>Passkeys\<close>

record WebAuthnCredential =
  wc_ID :: int
  wc_UserID :: int
  wc_CredentialID :: bytes
  wc_PublicKey :: bytes
  wc_AttestationType :: string
  wc_AAGUID :: bytes
  wc_SignCount :: "32 word"
  wc_Transports :: "string list"
  wc_BackupEligible :: bool
  wc_BackupState :: bool
  wc_Name :: string
  wc_CreatedAt :: time
  wc_LastUsedAt :: "time option"

record CreateWebAuthnCredentialParams =
  cw_UserID :: int
  cw_CredentialID :: bytes
  cw_PublicKey :: bytes
  cw_AttestationType :: string
  cw_AAGUID :: bytes
  cw_SignCount :: "32 word"
  cw_Transports :: "string list"
  cw_BackupEligible :: bool
  cw_BackupState :: bool
  cw_Name :: string

record UpdateWebAuthnCredentialParams =
  uw_CredentialID :: bytes
  uw_SignCount :: "32 word"
  uw_BackupState :: bool
  uw_LastUsedAt :: time

definition boolToInt64 :: "bool \<Rightarrow> int" where
  "boolToInt64 b = (if b then 1 else 0)"

definition store_GetWebAuthnHandleByUserID :: "int \<Rightarrow> bytes op" where
  "store_GetWebAuthnHandleByUserID userID =
     wrapped ''get webauthn handle by user ID'' (exec (Q_GetWebAuthnHandleByUserID userID))"

definition store_GetUserByWebAuthnHandle :: "bytes \<Rightarrow> User op" where
  "store_GetUserByWebAuthnHandle handle =
     try_op (wrapped ''get user by webauthn handle'' (exec (Q_GetUserByWebAuthnHandle handle))) (\<lambda>user.
     ret (Inr \<lparr>u_ID = usr_ID user, u_Email = usr_Email user,
               u_EmailVerifiedAt = usr_EmailVerifiedAt user, u_CreatedAt = usr_CreatedAt user\<rparr>))"

text \<open>
  The key and the two timestamps of the row given to the statement are placeholders: the statement
  sets them.
\<close>

definition store_CreateWebAuthnCredential :: "libs \<Rightarrow> CreateWebAuthnCredentialParams \<Rightarrow> unit op" where
  "store_CreateWebAuthnCredential L params =
     wrapped ''create webauthn credential'' (exec (Q_CreateWebAuthnCredential
       \<lparr>crd_ID = 0, crd_UserID = cw_UserID params, crd_CredentialID = cw_CredentialID params,
        crd_PublicKey = cw_PublicKey params, crd_AttestationType = cw_AttestationType params,
        crd_Aaguid = cw_AAGUID params, crd_SignCount = uint (cw_SignCount params),
        crd_Transports = lib_MarshalStrings L (cw_Transports params),
        crd_BackupEligible = boolToInt64 (cw_BackupEligible params),
        crd_BackupState = boolToInt64 (cw_BackupState params), crd_Name = cw_Name params,
        crd_CreatedAt = 0, crd_LastUsedAt = None\<rparr>))"

definition webAuthnCredentialFromDB :: "libs \<Rightarrow> cred_row \<Rightarrow> WebAuthnCredential result" where
  "webAuthnCredentialFromDB L row =
     (case (if crd_Transports row = [] then Some [] else lib_UnmarshalStrings L (crd_Transports row)) of
        None \<Rightarrow> Inl (Errorf ''unmarshal webauthn transports'' (ErrMsg ''json''))
      | Some transports \<Rightarrow>
          Inr \<lparr>wc_ID = crd_ID row, wc_UserID = crd_UserID row, wc_CredentialID = crd_CredentialID row,
               wc_PublicKey = crd_PublicKey row, wc_AttestationType = crd_AttestationType row,
               wc_AAGUID = crd_Aaguid row, wc_SignCount = word_of_int (crd_SignCount row),
               wc_Transports = transports, wc_BackupEligible = (crd_BackupEligible row \<noteq> 0),
               wc_BackupState = (crd_BackupState row \<noteq> 0), wc_Name = crd_Name row,
               wc_CreatedAt = crd_CreatedAt row, wc_LastUsedAt = crd_LastUsedAt row\<rparr>)"

fun credentialsFromDB :: "libs \<Rightarrow> cred_row list \<Rightarrow> WebAuthnCredential list result" where
  "credentialsFromDB L [] = Inr []"
| "credentialsFromDB L (row # rows) =
     (case webAuthnCredentialFromDB L row of
        Inl e \<Rightarrow> Inl e
      | Inr c \<Rightarrow> (case credentialsFromDB L rows of Inl e \<Rightarrow> Inl e | Inr cs \<Rightarrow> Inr (c # cs)))"

definition store_ListWebAuthnCredentialsByUserID :: "libs \<Rightarrow> int \<Rightarrow> WebAuthnCredential list op" where
  "store_ListWebAuthnCredentialsByUserID L userID =
     try_op (wrapped ''list webauthn credentials by user ID''
              (exec (Q_ListWebAuthnCredentialsByUserID userID))) (\<lambda>rows.
     ret (credentialsFromDB L rows))"

definition store_UpdateWebAuthnCredentialOnLogin :: "UpdateWebAuthnCredentialParams \<Rightarrow> unit op" where
  "store_UpdateWebAuthnCredentialOnLogin params =
     wrapped ''update webauthn credential on login''
       (exec (Q_UpdateWebAuthnCredentialOnLogin (uint (uw_SignCount params))
                (boolToInt64 (uw_BackupState params)) (Some (uw_LastUsedAt params))
                (uw_CredentialID params)))"

definition store_RenameWebAuthnCredential :: "int \<Rightarrow> int \<Rightarrow> string \<Rightarrow> bool op" where
  "store_RenameWebAuthnCredential userID credentialDBID name =
     try_op (wrapped ''rename webauthn credential''
              (exec (Q_RenameWebAuthnCredential name credentialDBID userID))) (\<lambda>rows.
     ret (Inr (0 < rows)))"

definition store_DeleteWebAuthnCredential :: "int \<Rightarrow> int \<Rightarrow> bool op" where
  "store_DeleteWebAuthnCredential userID credentialDBID =
     try_op (wrapped ''delete webauthn credential''
              (exec (Q_DeleteWebAuthnCredentialByIDAndUserID credentialDBID userID))) (\<lambda>rows.
     ret (Inr (0 < rows)))"

definition store_CountWebAuthnCredentialsByUserID :: "int \<Rightarrow> int op" where
  "store_CountWebAuthnCredentialsByUserID userID =
     wrapped ''count webauthn credentials by user ID'' (exec (Q_CountWebAuthnCredentialsByUserID userID))"

section \<open>Every method keeps the invariant\<close>

lemmas store_user_defs =
  newWebAuthnUserHandle_def tx_CreateUser_def tx_EnqueueEmail_def store_CreateUser_def
  store_CreateVerifiedUser_def store_CreateUserWithEmailVerification_def
  store_GetUserByEmail_def store_GetUserByID_def store_UpdateUserPasswordHash_def
  store_DeleteAccount_def

lemmas store_session_defs =
  store_CreateSession_def store_GetUserBySessionTokenHash_def store_DeleteSessionByTokenHash_def
  store_DeleteSessionsByUserID_def store_ListActiveSessionsByUserID_def
  store_DeleteOtherSessionsByUserIDAndTokenHash_def
  store_DeleteSessionByIDAndUserIDAndTokenHashNot_def store_SetPasswordAndRevokeSessions_def

lemmas store_token_defs =
  tx_EnqueueEmail_def store_CreatePasswordResetToken_def store_GetValidPasswordResetTokenByHash_def
  store_ConsumePasswordResetToken_def store_RequestPasswordReset_def store_RequestEmailChange_def
  store_CreateEmailVerificationToken_def store_ResendEmailVerification_def
  store_VerifyEmailByTokenHash_def applyEmailChange_def store_ConfirmEmailChange_def

lemmas store_factor_defs =
  store_GetTOTPByUserID_def store_GetEnabledTOTPByUserID_def store_UpsertPendingTOTP_def
  store_EnableTOTPWithBackupCodes_def store_ReplaceBackupCodes_def
  store_DeleteTOTPAndBackupCodes_def store_ConsumeTOTPBackupCode_def store_ClaimTOTPCounter_def
  store_CountUnusedTOTPBackupCodes_def store_GetWebAuthnHandleByUserID_def
  store_GetUserByWebAuthnHandle_def store_CreateWebAuthnCredential_def
  store_ListWebAuthnCredentialsByUserID_def store_UpdateWebAuthnCredentialOnLogin_def
  store_RenameWebAuthnCredential_def store_DeleteWebAuthnCredential_def
  store_CountWebAuthnCredentialsByUserID_def

text \<open>Reading methods keep any property of the database.\<close>

lemma store_reads_keep [preserves_rules]:
  "keeps P (store_GetUserByEmail e)"
  "keeps P (store_GetUserByID i)"
  "keeps P (store_GetUserBySessionTokenHash h)"
  "keeps P (store_ListActiveSessionsByUserID i)"
  "keeps P (store_GetValidPasswordResetTokenByHash h t)"
  "keeps P (store_GetTOTPByUserID L k i)"
  "keeps P (store_GetEnabledTOTPByUserID L k i)"
  "keeps P (store_CountUnusedTOTPBackupCodes i)"
  "keeps P (store_GetWebAuthnHandleByUserID i)"
  "keeps P (store_GetUserByWebAuthnHandle b)"
  "keeps P (store_ListWebAuthnCredentialsByUserID L i)"
  "keeps P (store_CountWebAuthnCredentialsByUserID i)"
  unfolding store_user_defs store_session_defs store_token_defs store_factor_defs
  by (intro preserves_rules)+

lemma insertBackupCodes_inv [preserves_rules]: "keeps db_inv (insertBackupCodes i hs)"
  by (induction hs) (auto intro!: preserves_rules)

lemma store_users_inv [preserves_rules]:
  "keeps db_inv (store_CreateUser e p)"
  "keeps db_inv (store_CreateVerifiedUser e p t)"
  "keeps db_inv (store_CreateUserWithEmailVerification c)"
  "keeps db_inv (store_UpdateUserPasswordHash i p)"
  "keeps db_inv (store_DeleteAccount i)"
  unfolding store_user_defs by (intro preserves_rules)+

lemma store_sessions_inv [preserves_rules]:
  "keeps db_inv (store_CreateSession i h t)"
  "keeps db_inv (store_DeleteSessionByTokenHash h)"
  "keeps db_inv (store_DeleteSessionsByUserID i)"
  "keeps db_inv (store_DeleteOtherSessionsByUserIDAndTokenHash i h)"
  "keeps db_inv (store_DeleteSessionByIDAndUserIDAndTokenHashNot j i h)"
  "keeps db_inv (store_SetPasswordAndRevokeSessions i p)"
  unfolding store_session_defs by (intro preserves_rules)+

lemma store_tokens_inv [preserves_rules]:
  "keeps db_inv (store_CreatePasswordResetToken i h t)"
  "keeps db_inv (store_ConsumePasswordResetToken h t)"
  "keeps db_inv (store_RequestPasswordReset r)"
  "keeps db_inv (store_RequestEmailChange c)"
  "keeps db_inv (store_CreateEmailVerificationToken i h t)"
  "keeps db_inv (store_ResendEmailVerification v)"
  "keeps db_inv (store_VerifyEmailByTokenHash h t)"
  "keeps db_inv (applyEmailChange L a)"
  "keeps db_inv (store_ConfirmEmailChange L cc)"
  unfolding store_token_defs by (intro preserves_rules)+

lemma store_factors_inv [preserves_rules]:
  "keeps db_inv (store_UpsertPendingTOTP L k i s)"
  "keeps db_inv (store_EnableTOTPWithBackupCodes i t hs)"
  "keeps db_inv (store_ReplaceBackupCodes i hs)"
  "keeps db_inv (store_DeleteTOTPAndBackupCodes i)"
  "keeps db_inv (store_ConsumeTOTPBackupCode i h t)"
  "keeps db_inv (store_ClaimTOTPCounter i c)"
  "keeps db_inv (store_CreateWebAuthnCredential L w)"
  "keeps db_inv (store_UpdateWebAuthnCredentialOnLogin u)"
  "keeps db_inv (store_RenameWebAuthnCredential i j n)"
  "keeps db_inv (store_DeleteWebAuthnCredential i j)"
  unfolding store_factor_defs by (intro preserves_rules)+

end
