(* ===== verification/Auth_Service.thy ===== *)
theory Auth_Service
  imports Factor_Store
begin

text \<open>
  The authentication service of \<^verbatim>\<open>internal/auth/auth.go\<close>: registration, login, sessions,
  passwords, email verification and change, account deletion.  A method of \<^verbatim>\<open>*AuthService\<close> takes
  the package functions \<open>L\<close> and the service record \<open>s\<close>; a \<^verbatim>\<open>context\<close> only decides whether the
  driver fails, which \<open>wfault\<close> stands for.
\<close>

section \<open>Configuration\<close>

record webauthn_config =
  wa_RPID :: string
  wa_RPDisplayName :: string
  wa_RPOrigins :: "string list"
  wa_Timeout :: time

record AuthService =
  svc_totpSecretKey :: bytes
  svc_emailChangeNoticeEnabled :: bool
  svc_sessionDuration :: time
  svc_emailVerificationTokenDuration :: time
  svc_passwordResetTokenDuration :: time
  svc_emailOptions :: MessageOptions
  svc_passwordHasher :: argon2idHasher
  svc_dummyPasswordHash :: string
  svc_tokenBytes :: int
  svc_passwordMinLen :: int
  svc_totpIssuer :: string
  svc_backupCodeKey :: bytes
  svc_webAuthn :: "webauthn_config option"

record AuthOptions =
  ao_SessionDuration :: time
  ao_Argon2idMemoryKiB :: "32 word"
  ao_Argon2idIterations :: "32 word"
  ao_Argon2idParallelism :: "8 word"
  ao_PasswordPepper :: string
  ao_TokenBytes :: int
  ao_PasswordMinLen :: int
  ao_EmailVerificationTokenDuration :: time
  ao_PasswordResetTokenDuration :: time
  ao_EmailOptions :: MessageOptions
  ao_EmailChangeNoticeEnabled :: "bool option"
  ao_TOTPIssuer :: string
  ao_TOTPSecretKey :: bytes
  ao_TOTPBackupCodeKey :: bytes
  ao_WebAuthnRPID :: string
  ao_WebAuthnRPDisplayName :: string
  ao_WebAuthnRPOrigins :: "string list"

record AuthSession =
  as_Token :: string
  as_ExpiresAt :: time

record ManagedSession =
  ms_ID :: int
  ms_CreatedAt :: time
  ms_ExpiresAt :: time
  ms_Current :: bool

definition zero_User :: User where
  "zero_User = \<lparr>u_ID = 0, u_Email = [], u_EmailVerifiedAt = None, u_CreatedAt = 0\<rparr>"

definition zero_AuthSession :: AuthSession where
  "zero_AuthSession = \<lparr>as_Token = [], as_ExpiresAt = 0\<rparr>"

definition hour :: time where
  "hour = 3600 * second"

definition DefaultPasswordMinLength :: int where
  "DefaultPasswordMinLength = 12"

definition PasswordMaxLength :: int where
  "PasswordMaxLength = 4096"

definition DefaultEmailVerificationTokenTimeout :: time where
  "DefaultEmailVerificationTokenTimeout = 24 * hour"

definition DefaultPasswordResetTokenTimeout :: time where
  "DefaultPasswordResetTokenTimeout = hour"

definition passkeyCeremonyTimeout :: time where
  "passkeyCeremonyTimeout = 300 * second"

definition emailChangeNoticeEnabled :: "bool option \<Rightarrow> bool" where
  "emailChangeNoticeEnabled enabled = (case enabled of None \<Rightarrow> True | Some b \<Rightarrow> b)"

text \<open>\<open>webauthn_New\<close> is the validation of \<^verbatim>\<open>webauthn.New\<close>; no relying party means passkeys are off.\<close>

definition newWebAuthn :: "(webauthn_config \<Rightarrow> webauthn_config result) \<Rightarrow> AuthOptions \<Rightarrow>
    webauthn_config option result" where
  "newWebAuthn webauthn_New opts =
     (let rpID = TrimSpace (ao_WebAuthnRPID opts);
          origins = filter (\<lambda>r. r \<noteq> []) (map TrimSpace (ao_WebAuthnRPOrigins opts));
          displayName = TrimSpace (ao_WebAuthnRPDisplayName opts)
      in if rpID = [] \<or> origins = [] then Inr None
         else case webauthn_New \<lparr>wa_RPID = rpID,
                wa_RPDisplayName = if displayName = [] then rpID else displayName,
                wa_RPOrigins = origins, wa_Timeout = passkeyCeremonyTimeout\<rparr> of
              Inl e \<Rightarrow> Inl e
            | Inr cfg \<Rightarrow> Inr (Some cfg))"

definition default_if_zero :: "int \<Rightarrow> int \<Rightarrow> int" where
  "default_if_zero v d = (if v = 0 then d else v)"

definition NewAuthService :: "libs \<Rightarrow> (webauthn_config \<Rightarrow> webauthn_config result) \<Rightarrow> AuthOptions \<Rightarrow>
    AuthService op" where
  "NewAuthService L webauthn_New opts =
     (case newSecretCipher (ao_TOTPSecretKey opts) of
        Inl e \<Rightarrow> ret (Inl (Errorf ''configure auth store'' (Errorf ''configure TOTP secret cipher'' e)))
      | Inr cipherKey \<Rightarrow>
          (let hasher = newArgon2idHasher (ao_Argon2idMemoryKiB opts) (ao_Argon2idIterations opts)
                          (ao_Argon2idParallelism opts) (ao_PasswordPepper opts)
           in do {
             r \<leftarrow> Hash L hasher ''dummy-timing-equalization-password'';
             (let dummyPasswordHash = (case r of Inl _ \<Rightarrow> [] | Inr h \<Rightarrow> h)
              in case newWebAuthn webauthn_New opts of
                   Inl e \<Rightarrow> ret (Inl (Errorf ''configure webauthn'' e))
                 | Inr webAuthn \<Rightarrow> ret (Inr
                     \<lparr>svc_totpSecretKey = cipherKey,
                      svc_emailChangeNoticeEnabled =
                        emailChangeNoticeEnabled (ao_EmailChangeNoticeEnabled opts),
                      svc_sessionDuration = default_if_zero (ao_SessionDuration opts) (7 * 24 * hour),
                      svc_emailVerificationTokenDuration =
                        default_if_zero (ao_EmailVerificationTokenDuration opts)
                          DefaultEmailVerificationTokenTimeout,
                      svc_passwordResetTokenDuration =
                        default_if_zero (ao_PasswordResetTokenDuration opts)
                          DefaultPasswordResetTokenTimeout,
                      svc_emailOptions = ao_EmailOptions opts,
                      svc_passwordHasher = hasher,
                      svc_dummyPasswordHash = dummyPasswordHash,
                      svc_tokenBytes = default_if_zero (ao_TokenBytes opts) 32,
                      svc_passwordMinLen =
                        default_if_zero (ao_PasswordMinLen opts) DefaultPasswordMinLength,
                      svc_totpIssuer = TrimSpace (ao_TOTPIssuer opts),
                      svc_backupCodeKey = ao_TOTPBackupCodeKey opts,
                      svc_webAuthn = webAuthn\<rparr>))
           }))"

section \<open>Helpers\<close>

definition normalizeEmail :: "libs \<Rightarrow> string \<Rightarrow> string" where
  "normalizeEmail L email = ToLower L (TrimSpace email)"

definition label_char :: "char \<Rightarrow> bool" where
  "label_char r \<longleftrightarrow>
     (97 \<le> code r \<and> code r \<le> 122) \<or> (48 \<le> code r \<and> code r \<le> 57) \<or> r = CHR ''-''"

definition valid_label :: "string \<Rightarrow> bool" where
  "valid_label l \<longleftrightarrow>
     l \<noteq> [] \<and> length l \<le> 63 \<and> hd l \<noteq> CHR ''-'' \<and> last l \<noteq> CHR ''-'' \<and> list_all label_char l"

definition isValidEmail :: "libs \<Rightarrow> string \<Rightarrow> bool" where
  "isValidEmail L email =
     (if 254 < length email then False
      else case lib_ParseAddress L email of
          None \<Rightarrow> False
        | Some address \<Rightarrow>
            if adr_Name address \<noteq> [] \<or> adr_Address address \<noteq> email then False
            else (case Cut (CHR ''@'') email of (local, domain, ok) \<Rightarrow>
              if \<not> ok \<or> local = [] \<or> domain = [] \<or> 64 < length local then False
              else (let labels = Split (CHR ''.'') domain
                    in if length labels < 2 then False
                       else if \<not> list_all valid_label labels then False
                       else (let tld = last labels
                             in 2 \<le> length tld \<and>
                                list_ex (\<lambda>r. 97 \<le> code r \<and> code r \<le> 122) tld))))"

definition generateToken :: "int \<Rightarrow> string op" where
  "generateToken n =
     try_op (rand_Read (nat (if n < 32 then 32 else n))) (\<lambda>buffer. ret (Inr (hex_encode buffer)))"

definition hashToken :: "string \<Rightarrow> string" where
  "hashToken token = hex_encode (sha256_Sum256 token)"

definition validatePassword :: "AuthService \<Rightarrow> string \<Rightarrow> go_error option" where
  "validatePassword s password =
     (let n = int (RuneCountInString password)
      in if n < svc_passwordMinLen s then Some ErrInvalidPassword
         else if PasswordMaxLength < n then Some ErrPasswordTooLong
         else None)"

text \<open>
  The idiom \<^verbatim>\<open>if errors.Is(err, sql.ErrNoRows) { absent } if err != nil { wrap }\<close> after a lookup.
\<close>

definition on_no_rows :: "'a op \<Rightarrow> 'b op \<Rightarrow> string \<Rightarrow> ('a \<Rightarrow> 'b op) \<Rightarrow> 'b op" where
  "on_no_rows m absent msg f = do {
     r \<leftarrow> m;
     case r of
       Inl e \<Rightarrow> if errors_Is e ErrNoRows then absent else ret (Inl (Errorf msg e))
     | Inr x \<Rightarrow> f x
   }"

text \<open>\<^verbatim>\<open>matches, err := Verify(...); if err != nil || !matches\<close>.\<close>

definition password_matches :: "libs \<Rightarrow> AuthService \<Rightarrow> string \<Rightarrow> string \<Rightarrow> bool" where
  "password_matches L s encodedHash password =
     (Verify L (svc_passwordHasher s) encodedHash password = Inr True)"

definition guard_err :: "go_error option \<Rightarrow> 'a op \<Rightarrow> 'a op" where
  "guard_err e m = (case e of Some err \<Rightarrow> ret (Inl err) | None \<Rightarrow> m)"

section \<open>Registration and login\<close>

definition Register :: "libs \<Rightarrow> AuthService \<Rightarrow> string \<Rightarrow> string \<Rightarrow> User op" where
  "Register L s emailAddress password =
     (let emailAddress = normalizeEmail L emailAddress
      in if \<not> isValidEmail L emailAddress then ret (Inl ErrInvalidEmail)
         else guard_err (validatePassword s password) (do {
           r \<leftarrow> store_GetUserByEmail emailAddress;
           case r of
             Inr _ \<Rightarrow> ret (Inr zero_User)
           | Inl e \<Rightarrow>
               if \<not> errors_Is e ErrNoRows then ret (Inl (Errorf ''get user by email'' e))
               else
                 try_op (wrapped ''hash password'' (Hash L (svc_passwordHasher s) password)) (\<lambda>hash. do {
                 now \<leftarrow> time_now;
                 try_op (wrapped ''generate email verification token'' (generateToken (svc_tokenBytes s))) (\<lambda>token.
                 case NewAccountConfirmationMessage L (svc_emailOptions s) emailAddress token of
                   Inl e \<Rightarrow> ret (Inl (Errorf ''build account confirmation email'' e))
                 | Inr message \<Rightarrow> do {
                     r \<leftarrow> store_CreateUserWithEmailVerification
                       \<lparr>cu_Email = emailAddress, cu_PasswordHash = hash, cu_TokenHash = hashToken token,
                        cu_TokenExpiresAt = now + svc_emailVerificationTokenDuration s,
                        cu_ConfirmationEmail = message, cu_EmailAvailableAt = now\<rparr>;
                     case r of
                       Inl e \<Rightarrow> if errors_Is e ErrEmailAlreadyRegistered then ret (Inr zero_User)
                                else ret (Inl (Errorf ''create user'' e))
                     | Inr user \<Rightarrow> ret (Inr user)
                   })
               })
         }))"

definition createSessionForUser :: "AuthService \<Rightarrow> int \<Rightarrow> AuthSession op" where
  "createSessionForUser s userID =
     try_op (wrapped ''generate session token'' (generateToken (svc_tokenBytes s))) (\<lambda>token. do {
     now \<leftarrow> time_now;
     (let expiresAt = now + svc_sessionDuration s
      in try_op (wrapped ''create session'' (store_CreateSession userID (hashToken token) expiresAt)) (\<lambda>_.
         ret (Inr \<lparr>as_Token = token, as_ExpiresAt = expiresAt\<rparr>)))
   })"

text \<open>\<^verbatim>\<open>Login\<close> returns the user together with \<^verbatim>\<open>ErrTOTPRequired\<close>, so its result is a triple.\<close>

definition Login ::
  "libs \<Rightarrow> AuthService \<Rightarrow> string \<Rightarrow> string \<Rightarrow> (world, User \<times> AuthSession \<times> go_error option) state" where
  "Login L s email password = do {
     r \<leftarrow> store_GetUserByEmail (normalizeEmail L email);
     case r of
       Inl e \<Rightarrow>
         if errors_Is e ErrNoRows then ret (zero_User, zero_AuthSession, Some ErrInvalidCredentials)
         else ret (zero_User, zero_AuthSession, Some (Errorf ''get user by email'' e))
     | Inr user \<Rightarrow>
         if \<not> password_matches L s (ur_PasswordHash user) password
         then ret (zero_User, zero_AuthSession, Some ErrInvalidCredentials)
         else do {
           t \<leftarrow> store_GetEnabledTOTPByUserID L (svc_totpSecretKey s) (u_ID user);
           case t of
             Inr _ \<Rightarrow> ret (User.truncate user, zero_AuthSession, Some ErrTOTPRequired)
           | Inl e \<Rightarrow>
               if \<not> errors_Is e ErrNoRows
               then ret (zero_User, zero_AuthSession, Some (Errorf ''check TOTP status'' e))
               else do {
                 c \<leftarrow> createSessionForUser s (u_ID user);
                 case c of
                   Inl e \<Rightarrow> ret (zero_User, zero_AuthSession, Some e)
                 | Inr session \<Rightarrow> ret (User.truncate user, session, None)
               }
         }
   }"

section \<open>Sessions\<close>

definition UserBySessionToken :: "string \<Rightarrow> User op" where
  "UserBySessionToken token =
     (let token = TrimSpace token
      in if token = [] then ret (Inl ErrInvalidSession)
         else on_no_rows (store_GetUserBySessionTokenHash (hashToken token))
                (ret (Inl ErrInvalidSession)) ''get user by session token''
                (\<lambda>user. ret (Inr (User.truncate user))))"

definition Logout :: "string \<Rightarrow> unit op" where
  "Logout token =
     (let token = TrimSpace token
      in if token = [] then ret (Inl ErrInvalidSession)
         else wrapped ''delete session'' (store_DeleteSessionByTokenHash (hashToken token)))"

definition ListManagedSessions :: "int \<Rightarrow> string \<Rightarrow> ManagedSession list op" where
  "ListManagedSessions userID currentSessionToken =
     (let currentSessionToken = TrimSpace currentSessionToken
      in if currentSessionToken = [] then ret (Inl ErrInvalidSession)
         else try_op (wrapped ''list active sessions by user ID'' (store_ListActiveSessionsByUserID userID))
           (\<lambda>sessions. ret (Inr (map (\<lambda>session.
              \<lparr>ms_ID = sr_ID session, ms_CreatedAt = sr_CreatedAt session,
               ms_ExpiresAt = sr_ExpiresAt session,
               ms_Current = (sr_TokenHash session = hashToken currentSessionToken)\<rparr>) sessions))))"

definition RevokeOtherSessions :: "int \<Rightarrow> string \<Rightarrow> unit op" where
  "RevokeOtherSessions userID currentSessionToken =
     (let currentSessionToken = TrimSpace currentSessionToken
      in if currentSessionToken = [] then ret (Inl ErrInvalidSession)
         else try_op (wrapped ''delete other sessions by user ID''
                (store_DeleteOtherSessionsByUserIDAndTokenHash userID (hashToken currentSessionToken)))
                (\<lambda>_. ret (Inr ())))"

definition RevokeSessionByID :: "int \<Rightarrow> string \<Rightarrow> int \<Rightarrow> unit op" where
  "RevokeSessionByID userID currentSessionToken sessionID =
     (let currentSessionToken = TrimSpace currentSessionToken
      in if currentSessionToken = [] then ret (Inl ErrInvalidSession)
         else if sessionID \<le> 0 then ret (Inl ErrInvalidSessionTarget)
         else (let currentTokenHash = hashToken currentSessionToken
           in try_op (wrapped ''delete session by ID and user ID''
                (store_DeleteSessionByIDAndUserIDAndTokenHashNot sessionID userID currentTokenHash))
                (\<lambda>deleted.
              if 0 < deleted then ret (Inr ())
              else try_op (wrapped ''list active sessions by user ID''
                     (store_ListActiveSessionsByUserID userID)) (\<lambda>sessions.
                   if list_ex (\<lambda>session. sr_ID session = sessionID \<and>
                        sr_TokenHash session = currentTokenHash) sessions
                   then ret (Inl ErrCannotRevokeCurrentSession)
                   else ret (Inl ErrInvalidSessionTarget)))))"

section \<open>Passwords\<close>

definition setPasswordAndRevokeSessions :: "libs \<Rightarrow> AuthService \<Rightarrow> int \<Rightarrow> string \<Rightarrow> unit op" where
  "setPasswordAndRevokeSessions L s userID newPassword =
     try_op (wrapped ''hash password'' (Hash L (svc_passwordHasher s) newPassword)) (\<lambda>hash.
     wrapped ''set password and revoke sessions'' (store_SetPasswordAndRevokeSessions userID hash))"

definition ChangePassword :: "libs \<Rightarrow> AuthService \<Rightarrow> int \<Rightarrow> string \<Rightarrow> string \<Rightarrow> unit op" where
  "ChangePassword L s userID currentPassword newPassword =
     on_no_rows (store_GetUserByID userID) (ret (Inl ErrCurrentPasswordIncorrect)) ''get user by ID''
       (\<lambda>user.
         if \<not> password_matches L s (ur_PasswordHash user) currentPassword
         then ret (Inl ErrCurrentPasswordIncorrect)
         else guard_err (validatePassword s newPassword) (
           if password_matches L s (ur_PasswordHash user) newPassword
           then ret (Inl ErrPasswordUnchanged)
           else setPasswordAndRevokeSessions L s (u_ID user) newPassword))"

definition RequestPasswordReset :: "libs \<Rightarrow> AuthService \<Rightarrow> string \<Rightarrow> unit op" where
  "RequestPasswordReset L s emailAddress =
     (let emailAddress = normalizeEmail L emailAddress
      in if \<not> isValidEmail L emailAddress then ret (Inl ErrInvalidEmail)
         else on_no_rows (store_GetUserByEmail emailAddress) (ret (Inr ())) ''get user by email'' (\<lambda>user.
           try_op (wrapped ''generate password reset token'' (generateToken (svc_tokenBytes s))) (\<lambda>token.
           case NewPasswordResetMessage L (svc_emailOptions s) (u_Email user) token of
             Inl e \<Rightarrow> ret (Inl (Errorf ''build password reset email'' e))
           | Inr message \<Rightarrow> do {
               now \<leftarrow> time_now;
               wrapped ''request password reset'' (store_RequestPasswordReset
                 \<lparr>rp_UserID = u_ID user, rp_TokenHash = hashToken token,
                  rp_TokenExpiresAt = now + svc_passwordResetTokenDuration s,
                  rp_PasswordResetEmail = message, rp_EmailAvailableAt = now\<rparr>)
             })))"

definition ValidatePasswordResetToken :: "string \<Rightarrow> unit op" where
  "ValidatePasswordResetToken token =
     (let token = TrimSpace token
      in if token = [] then ret (Inl ErrInvalidPasswordResetToken)
         else do {
           now \<leftarrow> time_now;
           on_no_rows (store_GetValidPasswordResetTokenByHash (hashToken token) now)
             (ret (Inl ErrInvalidPasswordResetToken)) ''get password reset token'' (\<lambda>_. ret (Inr ()))
         })"

definition ResetPasswordWithToken :: "libs \<Rightarrow> AuthService \<Rightarrow> string \<Rightarrow> string \<Rightarrow> unit op" where
  "ResetPasswordWithToken L s token newPassword =
     (let token = TrimSpace token
      in if token = [] then ret (Inl ErrInvalidPasswordResetToken)
         else guard_err (validatePassword s newPassword) (do {
           now \<leftarrow> time_now;
           on_no_rows (store_ConsumePasswordResetToken (hashToken token) now)
             (ret (Inl ErrInvalidPasswordResetToken)) ''consume password reset token''
             (\<lambda>resetToken. setPasswordAndRevokeSessions L s (prt_UserID resetToken) newPassword)
         }))"

section \<open>Email addresses\<close>

definition RequestEmailChange :: "libs \<Rightarrow> AuthService \<Rightarrow> int \<Rightarrow> string \<Rightarrow> string \<Rightarrow> unit op" where
  "RequestEmailChange L s userID currentPassword newEmail =
     on_no_rows (store_GetUserByID userID) (ret (Inl ErrCurrentPasswordIncorrect)) ''get user by ID''
       (\<lambda>user.
         if \<not> password_matches L s (ur_PasswordHash user) currentPassword
         then ret (Inl ErrCurrentPasswordIncorrect)
         else (let newEmail = normalizeEmail L newEmail
           in if \<not> isValidEmail L newEmail then ret (Inl ErrInvalidEmail)
              else if newEmail = normalizeEmail L (u_Email user) then ret (Inl ErrEmailUnchanged)
              else do {
                r \<leftarrow> store_GetUserByEmail newEmail;
                case r of
                  Inr _ \<Rightarrow> ret (Inr ())
                | Inl e \<Rightarrow>
                    if \<not> errors_Is e ErrNoRows then ret (Inl (Errorf ''get user by email'' e))
                    else do {
                      now \<leftarrow> time_now;
                      try_op (wrapped ''generate email change token'' (generateToken (svc_tokenBytes s)))
                        (\<lambda>token.
                        case NewEmailChangeMessage L (svc_emailOptions s) newEmail token of
                          Inl e \<Rightarrow> ret (Inl (Errorf ''build email change verification email'' e))
                        | Inr message \<Rightarrow>
                            wrapped ''request email change'' (store_RequestEmailChange
                              \<lparr>rc_UserID = u_ID user, rc_NewEmail = newEmail,
                               rc_TokenHash = hashToken token,
                               rc_TokenExpiresAt = now + svc_emailVerificationTokenDuration s,
                               rc_EmailChangeVerifyEmail = message, rc_EmailAvailableAt = now\<rparr>))
                    }
              }))"

definition ConfirmEmailChange :: "libs \<Rightarrow> AuthService \<Rightarrow> string \<Rightarrow> User op" where
  "ConfirmEmailChange L s token =
     (let token = TrimSpace token
      in if token = [] then ret (Inl ErrInvalidEmailChangeToken)
         else do {
           now \<leftarrow> time_now;
           on_no_rows (store_ConfirmEmailChange L
               \<lparr>cc_TokenHash = hashToken token, cc_ChangedAt = now,
                cc_OldEmailNoticeOptions = svc_emailOptions s, cc_NoticeEmailAvailableAt = now,
                cc_SendOldEmailNotice = svc_emailChangeNoticeEnabled s\<rparr>)
             (ret (Inl ErrInvalidEmailChangeToken)) ''confirm email change'' (\<lambda>user. ret (Inr user))
         })"

definition CreateEmailVerificationToken ::
  "AuthService \<Rightarrow> int \<Rightarrow> (string \<times> EmailVerificationToken) op" where
  "CreateEmailVerificationToken s userID =
     try_op (wrapped ''generate email verification token'' (generateToken (svc_tokenBytes s))) (\<lambda>token. do {
     now \<leftarrow> time_now;
     try_op (wrapped ''create email verification token''
       (store_CreateEmailVerificationToken userID (hashToken token)
          (now + svc_emailVerificationTokenDuration s))) (\<lambda>verificationToken.
     ret (Inr (token, verificationToken)))
   })"

definition VerifyEmail :: "string \<Rightarrow> User op" where
  "VerifyEmail token =
     (let token = TrimSpace token
      in if token = [] then ret (Inl ErrInvalidVerificationToken)
         else do {
           now \<leftarrow> time_now;
           on_no_rows (store_VerifyEmailByTokenHash (hashToken token) now)
             (ret (Inl ErrInvalidVerificationToken)) ''verify email'' (\<lambda>user. ret (Inr user))
         })"

definition ResendVerificationEmail :: "libs \<Rightarrow> AuthService \<Rightarrow> int \<Rightarrow> unit op" where
  "ResendVerificationEmail L s userID =
     on_no_rows (store_GetUserByID userID) (ret (Inr ())) ''get user by ID'' (\<lambda>user.
       if u_EmailVerifiedAt user \<noteq> None then ret (Inr ())
       else try_op (wrapped ''generate email verification token'' (generateToken (svc_tokenBytes s)))
         (\<lambda>token.
         case NewAccountConfirmationMessage L (svc_emailOptions s) (u_Email user) token of
           Inl e \<Rightarrow> ret (Inl (Errorf ''build account confirmation email'' e))
         | Inr message \<Rightarrow> do {
             now \<leftarrow> time_now;
             wrapped ''resend email verification'' (store_ResendEmailVerification
               \<lparr>rv_UserID = u_ID user, rv_TokenHash = hashToken token,
                rv_TokenExpiresAt = now + svc_emailVerificationTokenDuration s,
                rv_ConfirmationEmail = message, rv_EmailAvailableAt = now\<rparr>)
           }))"

definition ResendVerificationEmailByAddress :: "libs \<Rightarrow> AuthService \<Rightarrow> string \<Rightarrow> unit op" where
  "ResendVerificationEmailByAddress L s emailAddress =
     (let emailAddress = normalizeEmail L emailAddress
      in if \<not> isValidEmail L emailAddress then ret (Inl ErrInvalidEmail)
         else on_no_rows (store_GetUserByEmail emailAddress) (ret (Inr ())) ''get user by email'' (\<lambda>user.
           if u_EmailVerifiedAt user \<noteq> None then ret (Inr ())
           else ResendVerificationEmail L s (u_ID user)))"

section \<open>Account deletion\<close>

definition DeleteAccount :: "libs \<Rightarrow> AuthService \<Rightarrow> int \<Rightarrow> string \<Rightarrow> unit op" where
  "DeleteAccount L s userID currentPassword =
     on_no_rows (store_GetUserByID userID) (ret (Inl ErrCurrentPasswordIncorrect)) ''get user by ID''
       (\<lambda>user.
         if \<not> password_matches L s (ur_PasswordHash user) currentPassword
         then ret (Inl ErrCurrentPasswordIncorrect)
         else wrapped ''delete account'' (store_DeleteAccount userID))"

section \<open>Every method keeps the schema invariant\<close>

lemma preserves_on_no_rows [preserves_rules]:
  "keeps P m \<Longrightarrow> keeps P absent \<Longrightarrow> (\<And>x. keeps P (f x)) \<Longrightarrow> keeps P (on_no_rows m absent msg f)"
  unfolding on_no_rows_def by (intro preserves_rules) auto

lemma preserves_guard_err [preserves_rules]: "keeps P m \<Longrightarrow> keeps P (guard_err e m)"
  unfolding guard_err_def by (intro preserves_rules)

lemma keeps_generateToken [preserves_rules]: "keeps P (generateToken n)"
  unfolding generateToken_def by (intro preserves_rules)

lemma keeps_reads [preserves_rules]:
  "keeps P (UserBySessionToken t)"
  "keeps P (ListManagedSessions i t)"
  "keeps P (ValidatePasswordResetToken t)"
  unfolding UserBySessionToken_def ListManagedSessions_def ValidatePasswordResetToken_def
  by (intro preserves_rules)+

lemma session_methods_inv [preserves_rules]:
  "keeps db_inv (createSessionForUser s i)"
  "keeps db_inv (Logout t)"
  "keeps db_inv (RevokeOtherSessions i t)"
  "keeps db_inv (RevokeSessionByID i t j)"
  unfolding createSessionForUser_def Logout_def RevokeOtherSessions_def RevokeSessionByID_def
  by (intro preserves_rules)+

lemma Login_inv [preserves_rules]: "keeps db_inv (Login L s e p)"
  unfolding Login_def by (intro preserves_rules)

lemma Register_inv [preserves_rules]: "keeps db_inv (Register L s e p)"
  unfolding Register_def by (intro preserves_rules)

lemma password_methods_inv [preserves_rules]:
  "keeps db_inv (setPasswordAndRevokeSessions L s i p)"
  "keeps db_inv (ChangePassword L s i p q)"
  "keeps db_inv (RequestPasswordReset L s e)"
  "keeps db_inv (ResetPasswordWithToken L s t p)"
  unfolding setPasswordAndRevokeSessions_def ChangePassword_def RequestPasswordReset_def
    ResetPasswordWithToken_def
  by (intro preserves_rules)+

lemma email_methods_inv [preserves_rules]:
  "keeps db_inv (RequestEmailChange L s i p e)"
  "keeps db_inv (ConfirmEmailChange L s t)"
  "keeps db_inv (CreateEmailVerificationToken s i)"
  "keeps db_inv (VerifyEmail t)"
  "keeps db_inv (ResendVerificationEmail L s i)"
  "keeps db_inv (ResendVerificationEmailByAddress L s e)"
  "keeps db_inv (DeleteAccount L s i p)"
  unfolding RequestEmailChange_def ConfirmEmailChange_def CreateEmailVerificationToken_def
    VerifyEmail_def ResendVerificationEmail_def ResendVerificationEmailByAddress_def
    DeleteAccount_def
  by (intro preserves_rules)+

end
