(* ===== verification/Tokens.thy ===== *)
theory Tokens
  imports Schema
begin

text \<open>
  The contract of a single-use token table, stated once as a locale and interpreted for the three
  tables of the schema (email verification, password reset, email change): what a \<^verbatim>\<open>Consume...\<close>
  statement returns and that a consumed token is never accepted again.
\<close>

lemma update_where_cong: "(\<And>r. r \<in> set rows \<Longrightarrow> \<not> p r) \<Longrightarrow> update_where p f rows = rows"
  by (simp add: update_where_def map_idI)

lemma consume_token_find:
  "fst (consume_token c h t rows) = Some r \<longleftrightarrow>
     (\<exists>r0. find (token_usable h t) rows = Some r0 \<and> r = r0\<lparr>tok_ConsumedAt := c\<rparr>)"
  by (auto simp: consume_token_def)

locale single_use_tokens =
  fixes rows :: "db \<Rightarrow> 'a token_row_scheme list"
    and consume :: "time option \<Rightarrow> string \<Rightarrow> time \<Rightarrow> 'a token_row_scheme query"
  assumes consume_result: "fst (consume c h t now d) = one_row (fst (consume_token c h t (rows d)))"
    and consume_rows: "rows (snd (consume c h t now d)) = snd (consume_token c h t (rows d))"
begin

lemma consume_InrE:
  assumes "consume c h t now d = (Inr r, d')"
  obtains r0 where "r0 \<in> set (rows d)" "token_usable h t r0" "r = r0\<lparr>tok_ConsumedAt := c\<rparr>"
proof -
  from assms consume_result [of c h t now d] have "fst (consume_token c h t (rows d)) = Some r" by simp
  with that show ?thesis by (auto simp: consume_token_find dest: find_eq_Some)
qed

lemma consume_Inl:
  assumes "consume c h t now d = (Inl e, d')"
  shows "e = ErrNoRows" and "rows d' = rows d" and "\<forall>r \<in> set (rows d). \<not> token_usable h t r"
proof -
  from assms consume_result [of c h t now d]
  have "e = ErrNoRows" and none: "fst (consume_token c h t (rows d)) = None" by simp_all
  then show "e = ErrNoRows" and *: "\<forall>r \<in> set (rows d). \<not> token_usable h t r"
    by (auto simp: consume_token_def)
  from assms consume_rows [of c h t now d] * show "rows d' = rows d"
    by (auto simp: consume_token_def intro!: update_where_cong)
qed

text \<open>The rows of other tokens are left alone.\<close>

lemma consume_frame:
  assumes "consume c h t now d = (r, d')"
  shows "filter (\<lambda>r. tok_TokenHash r \<noteq> h) (rows d') = filter (\<lambda>r. tok_TokenHash r \<noteq> h) (rows d)"
proof -
  have "filter (\<lambda>r. tok_TokenHash r \<noteq> h) (update_where (token_usable h t) (\<lambda>r. r\<lparr>tok_ConsumedAt := c\<rparr>) rs)
      = filter (\<lambda>r. tok_TokenHash r \<noteq> h) rs" for rs :: "'a token_row_scheme list"
    by (induction rs) (auto simp: update_where_def token_usable_def)
  with assms consume_rows [of c h t now d] show ?thesis by (simp add: consume_token_def)
qed

text \<open>After a token was consumed no row accepts it, at whatever time it is tried.\<close>

lemma consumed_unusable:
  assumes uq: "uq_ok tok_TokenHash (rows d)" and con: "consume (Some c) h t now d = (Inr r, d')"
    and "r' \<in> set (rows d')"
  shows "\<not> token_usable h t' r'"
proof -
  from con obtain r0 where r0: "r0 \<in> set (rows d)" "token_usable h t r0" by (rule consume_InrE)
  from con consume_rows [of "Some c" h t now d]
  have "rows d' = update_where (token_usable h t) (\<lambda>r. r\<lparr>tok_ConsumedAt := Some c\<rparr>) (rows d)"
    by (simp add: consume_token_def)
  with \<open>r' \<in> set (rows d')\<close> obtain q where q: "q \<in> set (rows d)"
    and r': "r' = (if token_usable h t q then q\<lparr>tok_ConsumedAt := Some c\<rparr> else q)"
    by (auto simp: set_update_where)
  show ?thesis
  proof (cases "tok_TokenHash q = h")
    case True
    with r0 q uq have "q = r0"
      by (intro distinct_map_eq [of tok_TokenHash "rows d"]) (auto simp: uq_ok_def token_usable_def)
    with r0 r' show ?thesis by (simp add: token_usable_def)
  next
    case False
    with r' show ?thesis by (auto simp: token_usable_def)
  qed
qed

lemma consume_again:
  assumes "uq_ok tok_TokenHash (rows d)" and "consume (Some c) h t now d = (Inr r, d')"
  shows "fst (consume c' h t' now' d') = Inl ErrNoRows"
  using consumed_unusable [OF assms] consume_result [of c' h t' now' d']
  by (simp add: consume_token_def)

end

interpretation ev: single_use_tokens ev_tokens Q_ConsumeEmailVerificationToken
  by unfold_locales (simp_all add: Q_ConsumeEmailVerificationToken_def split: prod.split)

interpretation pr: single_use_tokens pr_tokens Q_ConsumePasswordResetToken
  by unfold_locales (simp_all add: Q_ConsumePasswordResetToken_def split: prod.split)

interpretation ec: single_use_tokens ec_tokens Q_ConsumeEmailChangeToken
  by unfold_locales (simp_all add: Q_ConsumeEmailChangeToken_def split: prod.split)

end
