(* ===== verification/Auth_Properties.thy ===== *)
theory Auth_Properties
  imports Auth_Service Tokens
begin

text \<open>
  What the methods of the authentication service do, on every branch: weakest-precondition rules
  for the store methods they call, and then one specification per method.  A specification gives
  the exact database a success leaves behind and says that an error leaves it as it was, or what
  an error may change.
\<close>

section \<open>Rules for the idioms\<close>

lemma wp_on_no_rows [wp_rules]:
  "wp m (\<lambda>r d'. case r of
            Inl e \<Rightarrow> if errors_Is e ErrNoRows then wp absent Q d' else Q (Inl (Errorf msg e)) d'
          | Inr x \<Rightarrow> wp (f x) Q d') d \<Longrightarrow>
     wp (on_no_rows m absent msg f) Q d"
  unfolding on_no_rows_def
  by (rule wp_bind, erule wp_mono) (auto intro: wp_ret split: sum.splits if_splits)

lemma wp_guard_err [wp_rules]:
  "(\<And>err. e = Some err \<Longrightarrow> Q (Inl err) d) \<Longrightarrow> (e = None \<Longrightarrow> wp m Q d) \<Longrightarrow> wp (guard_err e m) Q d"
  unfolding guard_err_def by (intro wp_rules) auto

lemma wp_generateToken:
  assumes "Q (Inl ErrRand) d" and "\<And>b. 32 \<le> length b \<Longrightarrow> Q (Inr (hex_encode b)) d"
  shows "wp (generateToken n) Q d"
  unfolding generateToken_def
  by (intro wp_rules) (auto simp: assms nat_le_iff split: if_splits intro!: assms wp_rules)

section \<open>Rules for the store\<close>

text \<open>\<open>failed e\<close>: an error that no caller can take for a missing row.\<close>

abbreviation failed :: "go_error \<Rightarrow> bool" where
  "failed e \<equiv> \<not> errors_Is e ErrNoRows"

lemma wp_store_GetUserByID:
  assumes "\<And>e. failed e \<Longrightarrow> Q (Inl e) d"
    and "\<And>e. uid \<notin> usr_ID ` set (users d) \<Longrightarrow> errors_Is e ErrNoRows \<Longrightarrow> Q (Inl e) d"
    and "\<And>u. u \<in> set (users d) \<Longrightarrow> usr_ID u = uid \<Longrightarrow>
           Q (Inr (userRecordFromGetUserByIDRow (user_cols.truncate u))) d"
  shows "wp (store_GetUserByID uid) Q d"
proof -
  have absent: "Q (Inl (Errorf m ErrNoRows)) d" if "\<forall>x \<in> set (users d). usr_ID x \<noteq> uid" for m
    using that by (intro assms(2)) auto
  show ?thesis
    unfolding store_GetUserByID_def
    by (intro wp_rules)
      (auto simp: Q_GetUserByID_def wrap_err_eq_Inl intro: assms(1,3) absent dest: find_eq_Some)
qed

lemma wp_store_GetUserByEmail:
  assumes "\<And>e. failed e \<Longrightarrow> Q (Inl e) d"
    and "\<And>e. em \<notin> usr_Email ` set (users d) \<Longrightarrow> errors_Is e ErrNoRows \<Longrightarrow> Q (Inl e) d"
    and "\<And>u. u \<in> set (users d) \<Longrightarrow> usr_Email u = em \<Longrightarrow>
           Q (Inr (userRecordFromGetUserByEmailRow (user_cols.truncate u))) d"
  shows "wp (store_GetUserByEmail em) Q d"
proof -
  have absent: "Q (Inl (Errorf m ErrNoRows)) d" if "\<forall>x \<in> set (users d). usr_Email x \<noteq> em" for m
    using that by (intro assms(2)) auto
  show ?thesis
    unfolding store_GetUserByEmail_def
    by (intro wp_rules)
      (auto simp: Q_GetUserByEmail_def wrap_err_eq_Inl intro: assms(1,3) absent dest: find_eq_Some)
qed

text \<open>A password hash made for \<open>password\<close> by the service's hasher.\<close>

definition hashed_as :: "libs \<Rightarrow> AuthService \<Rightarrow> string \<Rightarrow> string \<Rightarrow> bool" where
  "hashed_as L s password h \<longleftrightarrow> (\<exists>salt. length salt = argon2idSaltLength \<and>
     h = encodeArgon2idHash (svc_passwordHasher s) salt
           (lib_IDKey L (passwordInput (svc_passwordHasher s) password) salt
              (iterations (svc_passwordHasher s)) (memoryKiB (svc_passwordHasher s))
              (threads (svc_passwordHasher s)) argon2idKeyLength))"

lemma hashed_as_matches:
  assumes "argon2_key_length L" and "hasher_ok (svc_passwordHasher s)" and "hashed_as L s p h"
  shows "password_matches L s h p"
proof -
  from assms(3) obtain salt where salt: "length salt = argon2idSaltLength"
    and h: "h = encodeArgon2idHash (svc_passwordHasher s) salt
           (lib_IDKey L (passwordInput (svc_passwordHasher s) p) salt
              (iterations (svc_passwordHasher s)) (memoryKiB (svc_passwordHasher s))
              (threads (svc_passwordHasher s)) argon2idKeyLength)"
    by (auto simp: hashed_as_def)
  have "length (lib_IDKey L a b c d e argon2idKeyLength) = argon2idKeyLength" for a b c d e
    using assms(1) by (simp add: argon2_key_length_def)
  moreover from this have "lib_IDKey L a b c d e argon2idKeyLength \<noteq> []" for a b c d e
    by (metis argon2idKeyLength_def list.size(3) zero_neq_numeral)
  moreover from salt have "salt \<noteq> []" by (auto simp: argon2idSaltLength_def)
  ultimately show ?thesis
    by (simp add: h password_matches_def Verify_encoded [OF assms(2)])
qed

lemma wp_hash_password [wp_rules]:
  assumes "\<And>e. failed e \<Longrightarrow> Q (Inl e) d" and "\<And>h. hashed_as L s p h \<Longrightarrow> Q (Inr h) d"
  shows "wp (wrapped ''hash password'' (Hash L (svc_passwordHasher s) p)) Q d"
  by (intro wp_rules) (auto simp: hashed_as_def intro!: assms)

text \<open>The database after \<^verbatim>\<open>SetPasswordAndRevokeSessions\<close>.\<close>

definition set_password_db :: "int \<Rightarrow> string \<Rightarrow> db \<Rightarrow> db" where
  "set_password_db uid h d =
     d\<lparr>users := update_where (\<lambda>u. usr_ID u = uid) (\<lambda>u. u\<lparr>usr_PasswordHash := h\<rparr>) (users d),
       sessions := filter (\<lambda>s. ses_UserID s \<noteq> uid) (sessions d)\<rparr>"

lemma wp_setPassword:
  assumes "\<And>e. failed e \<Longrightarrow> Q (Inl e) d"
    and "\<And>h. hashed_as L s p h \<Longrightarrow> Q (Inr ()) (set_password_db uid h d)"
  shows "wp (setPasswordAndRevokeSessions L s uid p) Q d"
  unfolding setPasswordAndRevokeSessions_def store_SetPasswordAndRevokeSessions_def
  by (intro wp_rules)
    (auto simp: Q_UpdateUserPasswordHash_def Q_DeleteSessionsByUserID_def delete_sessions_def
      set_password_db_def [symmetric] intro!: assms)

section \<open>Passwords\<close>

text \<open>
  C7: changing a password either fails and leaves the database exactly as it was, or succeeds
  after the current password was verified and the new one passed the policy and differs; the new
  database differs from the old one in the user's hash, which is a hash of the new password, and
  in that every session of the user is gone.
\<close>

theorem ChangePassword_wp:
  "wp (ChangePassword L s uid cur new)
     (\<lambda>r d'. case r of
        Inl e \<Rightarrow> d' = d
      | Inr _ \<Rightarrow> \<exists>u h. u \<in> set (users d) \<and> usr_ID u = uid \<and>
          password_matches L s (usr_PasswordHash u) cur \<and> validatePassword s new = None \<and>
          \<not> password_matches L s (usr_PasswordHash u) new \<and>
          hashed_as L s new h \<and> d' = set_password_db uid h d) d"
  unfolding ChangePassword_def
  by (intro wp_rules wp_store_GetUserByID wp_setPassword) (auto simp: row_conversions, blast)

lemma decrypt_Inl: "decrypt L k c = Inl e \<Longrightarrow> e = ErrInvalidCiphertext"
  by (auto simp: decrypt_def split: option.splits if_splits)

definition spend_reset :: "string \<Rightarrow> time \<Rightarrow> db \<Rightarrow> db" where
  "spend_reset h now d = d\<lparr>pr_tokens := snd (consume_token (Some now) h now (pr_tokens d))\<rparr>"

lemma wp_store_ConsumePasswordResetToken:
  assumes "\<And>e. failed e \<Longrightarrow> Q (Inl e) d"
    and "\<And>e. \<forall>r \<in> set (pr_tokens d). \<not> token_usable h now r \<Longrightarrow> errors_Is e ErrNoRows \<Longrightarrow> Q (Inl e) d"
    and "\<And>r. r \<in> set (pr_tokens d) \<Longrightarrow> token_usable h now r \<Longrightarrow>
           Q (Inr (passwordResetTokenFromDB (r\<lparr>tok_ConsumedAt := Some now\<rparr>))) (spend_reset h now d)"
  shows "wp (store_ConsumePasswordResetToken h now) Q d"
proof -
  have absent: "Q (Inl (Errorf m ErrNoRows)) d'"
    if "Q_ConsumePasswordResetToken (Some now) h now t d = (Inl e, d')" for m t e d'
  proof -
    have "d' = d"
      using that pr.consume_Inl(2) [OF that] by (auto simp: Q_ConsumePasswordResetToken_def split: prod.splits)
    with pr.consume_Inl(3) [OF that] show ?thesis by (auto intro: assms(2))
  qed
  have present: "Q (Inr (passwordResetTokenFromDB r)) d'"
    if "Q_ConsumePasswordResetToken (Some now) h now t d = (Inr r, d')" for t r d'
  proof -
    have "d' = spend_reset h now d"
      using that by (auto simp: Q_ConsumePasswordResetToken_def spend_reset_def split: prod.splits)
    with that show ?thesis by (auto elim!: pr.consume_InrE intro!: assms(3))
  qed
  show ?thesis
    unfolding store_ConsumePasswordResetToken_def
    by (intro wp_rules)
      (auto simp: wrap_err_eq_Inl intro: assms(1) absent present dest: pr.consume_Inl(1))
qed

lemma ResetPasswordWithToken_wp:
  "wp (ResetPasswordWithToken L s tok new)
     (\<lambda>r d'. case r of
        Inl e \<Rightarrow> d' = d \<or> (\<exists>now. d' = spend_reset (hashToken (TrimSpace tok)) now d)
      | Inr _ \<Rightarrow> \<exists>row now h. row \<in> set (pr_tokens d) \<and>
          token_usable (hashToken (TrimSpace tok)) now row \<and> validatePassword s new = None \<and>
          hashed_as L s new h \<and>
          d' = set_password_db (tok_UserID row) h (spend_reset (hashToken (TrimSpace tok)) now d)) d"
  unfolding ResetPasswordWithToken_def
  by (intro wp_rules wp_store_ConsumePasswordResetToken wp_setPassword) (auto simp: row_conversions, blast)

section \<open>Sessions and login\<close>

definition add_session :: "int \<Rightarrow> string \<Rightarrow> time \<Rightarrow> time \<Rightarrow> db \<Rightarrow> db" where
  "add_session uid h expiresAt now d = d\<lparr>sessions := sessions d @
     [\<lparr>ses_ID = next_id ses_ID (sessions d), ses_UserID = uid, ses_TokenHash = h,
       ses_ExpiresAt = expiresAt, ses_CreatedAt = now\<rparr>]\<rparr>"

text \<open>
  \<open>opened s uid sess d d'\<close>: \<open>d'\<close> is \<open>d\<close> with one more session, for user \<open>uid\<close>, under the hash of
  the token in \<open>sess\<close>, a hexadecimal string of at least 32 random bytes whose hash no session had.
\<close>

definition opened :: "AuthService \<Rightarrow> int \<Rightarrow> AuthSession \<Rightarrow> db \<Rightarrow> db \<Rightarrow> bool" where
  "opened s uid sess d d' \<longleftrightarrow> (\<exists>b now t. 32 \<le> length b \<and> as_Token sess = hex_encode b \<and>
     as_ExpiresAt sess = now + svc_sessionDuration s \<and> user_exists uid d \<and>
     hashToken (as_Token sess) \<notin> ses_TokenHash ` set (sessions d) \<and>
     d' = add_session uid (hashToken (as_Token sess)) (as_ExpiresAt sess) t d)"

lemma Q_CreateSession_cases:
  assumes "Q_CreateSession uid h x t d = (r, d')"
  obtains e where "r = Inl e" "failed e" "d' = d"
    | row where "r = Inr row" "user_exists uid d" "h \<notin> ses_TokenHash ` set (sessions d)"
        "d' = add_session uid h x t d"
  using assms by (auto simp: Q_CreateSession_def add_session_def Let_def split: if_splits)

lemma wp_createSessionForUser:
  assumes "\<And>e. failed e \<Longrightarrow> Q (Inl e) d"
    and "\<And>sess d'. opened s uid sess d d' \<Longrightarrow> Q (Inr sess) d'"
  shows "wp (createSessionForUser s uid) Q d"
  unfolding createSessionForUser_def store_CreateSession_def
  by (intro wp_rules wp_generateToken)
    (auto simp: opened_def wrap_err_eq_Inl elim!: Q_CreateSession_cases intro: assms(1) intro!: assms(2), blast)

lemma wp_store_GetEnabledTOTP:
  assumes "\<And>e. failed e \<Longrightarrow> Q (Inl e) d"
    and "\<And>e. \<forall>r \<in> set (totps d). totp_UserID r = uid \<longrightarrow> totp_EnabledAt r = None \<Longrightarrow>
           errors_Is e ErrNoRows \<Longrightarrow> Q (Inl e) d"
    and "\<And>r p. r \<in> set (totps d) \<Longrightarrow> totp_UserID r = uid \<Longrightarrow> totp_EnabledAt r \<noteq> None \<Longrightarrow>
           decrypt L k (totp_Secret r) = Inr p \<Longrightarrow> Q (Inr ((totpRecordFromDB r)\<lparr>tr_Secret := p\<rparr>)) d"
  shows "wp (store_GetEnabledTOTPByUserID L k uid) Q d"
proof -
  have absent: "Q (Inl (Errorf m ErrNoRows)) d"
    if "\<forall>r \<in> set (totps d). totp_UserID r = uid \<longrightarrow> totp_EnabledAt r = None" for m
    using that by (intro assms(2)) auto
  have decrypted: "Q (decryptRecord L k (totpRecordFromDB r)) d"
    if "r \<in> set (totps d)" "totp_UserID r = uid" "totp_EnabledAt r \<noteq> None" for r
  proof (cases "decrypt L k (totp_Secret r)")
    case (Inl e)
    with decrypt_Inl [OF Inl] show ?thesis
      by (auto simp: decryptRecord_def totpRecordFromDB_def intro: assms(1))
  next
    case (Inr p)
    then have "decryptRecord L k (totpRecordFromDB r) = Inr ((totpRecordFromDB r)\<lparr>tr_Secret := p\<rparr>)"
      by (simp add: decryptRecord_def totpRecordFromDB_def)
    with Inr that show ?thesis by (auto intro: assms(3))
  qed
  show ?thesis
    unfolding store_GetEnabledTOTPByUserID_def
    by (intro wp_rules)
      (auto simp: Q_GetEnabledTOTPByUserID_def wrap_err_eq_Inl intro: assms(1) absent decrypted
        dest!: find_eq_Some)
qed

text \<open>What every read of a user returns to the caller, without the password hash.\<close>

lemma truncate_UserRecord [simp]:
  "User.truncate (userRecordFromGetUserByEmailRow u) = userFromCreateUserRow u"
  "User.truncate (userRecordFromGetUserByIDRow u) = userFromCreateUserRow u"
  "User.truncate (userRecordFromGetUserBySessionTokenHashRow u) = userFromCreateUserRow u"
  by (simp_all add: row_conversions User.truncate_def)

definition no_second_factor :: "int \<Rightarrow> db \<Rightarrow> bool" where
  "no_second_factor uid d \<longleftrightarrow> (\<forall>r \<in> set (totps d). totp_UserID r = uid \<longrightarrow> totp_EnabledAt r = None)"

definition public_user :: "user_row \<Rightarrow> User" where
  "public_user u = \<lparr>u_ID = usr_ID u, u_Email = usr_Email u,
     u_EmailVerifiedAt = usr_EmailVerifiedAt u, u_CreatedAt = usr_CreatedAt u\<rparr>"

lemma userFromCreateUserRow_public [simp]:
  "userFromCreateUserRow (user_cols.truncate u) = public_user u"
  by (simp add: row_conversions public_user_def)

lemma userFromUpdateUserEmailRow_public [simp]:
  "userFromUpdateUserEmailRow (user_cols.truncate u) = public_user u"
  by (simp add: row_conversions public_user_def)

lemma Login_wp:
  "wp (Login L s em pw)
     (\<lambda>(u, sess, err) d'. case err of
        Some e \<Rightarrow> d' = d \<and> sess = zero_AuthSession
      | None \<Rightarrow> \<exists>row. row \<in> set (users d) \<and> usr_Email row = normalizeEmail L em \<and>
          password_matches L s (usr_PasswordHash row) pw \<and> no_second_factor (usr_ID row) d \<and>
          u = public_user row \<and> opened s (usr_ID row) sess d d') d"
  unfolding Login_def
  by (intro wp_rules wp_store_GetUserByEmail wp_store_GetEnabledTOTP wp_createSessionForUser)
    (auto simp: no_second_factor_def row_conversions public_user_def User.truncate_def)

text \<open>The session query finds a row exactly when the join has one.\<close>

lemma find_product_Some:
  "find (\<lambda>(u, s). P u s) (List.product us ss) = Some (u, s) \<Longrightarrow> u \<in> set us \<and> s \<in> set ss \<and> P u s"
  using find_eq_Some by fastforce

lemma session_query_iff:
  assumes "db_inv d"
  shows "fst (Q_GetUserBySessionTokenHash h now d) = Inr c \<longleftrightarrow>
    (\<exists>row ses. row \<in> set (users d) \<and> ses \<in> set (sessions d) \<and> ses_UserID ses = usr_ID row \<and>
       ses_TokenHash ses = h \<and> session_live now ses \<and> c = user_cols.truncate row)" (is "?L \<longleftrightarrow> ?R")
proof
  assume ?L
  then show ?R
    by (auto simp: Q_GetUserBySessionTokenHash_def dest!: find_product_Some)
next
  assume ?R
  then obtain row ses where r: "row \<in> set (users d)" "ses \<in> set (sessions d)" "ses_UserID ses = usr_ID row"
    "ses_TokenHash ses = h" "session_live now ses" "c = user_cols.truncate row" by blast
  let ?f = "find (\<lambda>(u, s). ses_UserID s = usr_ID u \<and> ses_TokenHash s = h \<and> session_live now s)
     (List.product (users d) (sessions d))"
  have "?f \<noteq> None" using r by (auto simp: find_None_iff simp del: find_eq_None)
  then obtain p where "?f = Some p" by (rule not_None_eq [THEN iffD1, THEN exE])
  then obtain u s where f: "?f = Some (u, s)" by (cases p) (simp only:)
  from find_product_Some [OF f] r assms have "s = ses" "u = row"
    by (metis unique_rows(4), metis unique_rows(1,4))
  with f r show ?L by (simp add: Q_GetUserBySessionTokenHash_def)
qed

lemma UserBySessionToken_run:
  assumes "\<not> wfault w 0" and "TrimSpace tok \<noteq> []"
  shows "fst (run_state (UserBySessionToken tok) w) = Inr u \<longleftrightarrow>
    (\<exists>c. fst (Q_GetUserBySessionTokenHash (hashToken (TrimSpace tok)) (current_timestamp (wclock w 0)) (wdb w))
          = Inr c \<and> u = userFromCreateUserRow c)"
proof -
  let ?q = "Q_GetUserBySessionTokenHash (hashToken (TrimSpace tok)) (current_timestamp (wclock w 0)) (wdb w)"
  obtain r where q: "?q = (r, wdb w)" and r: "\<And>e. r = Inl e \<Longrightarrow> e = ErrNoRows"
    by (simp add: Q_GetUserBySessionTokenHash_def)
  show ?thesis
    using assms r
    by (cases r) (simp_all add: UserBySessionToken_def on_no_rows_def store_GetUserBySessionTokenHash_def
        run_bind run_try_op run_wrapped run_exec Let_def q eq_commute)
qed

text \<open>A session that was opened authenticates its user until it expires.\<close>

lemma opened_authenticates:
  assumes "db_inv (wdb v)" and "opened s (usr_ID row) sess d (wdb v)" and "row \<in> set (users d)"
    and "\<not> wfault v 0" and "current_timestamp (wclock v 0) < as_ExpiresAt sess"
  shows "fst (run_state (UserBySessionToken (as_Token sess)) v) = Inr (public_user row)"
proof -
  from assms(2) obtain b t where b: "32 \<le> length b" "as_Token sess = hex_encode b"
    and v: "wdb v = add_session (usr_ID row) (hashToken (as_Token sess)) (as_ExpiresAt sess) t d"
    by (auto simp: opened_def)
  have tok: "TrimSpace (as_Token sess) = as_Token sess" "as_Token sess \<noteq> []"
    using b by (auto simp: b(2) simp flip: length_0_conv)
  have "fst (Q_GetUserBySessionTokenHash (hashToken (as_Token sess)) (current_timestamp (wclock v 0)) (wdb v)) =
      Inr (user_cols.truncate row)"
    unfolding session_query_iff [OF assms(1)]
    using assms(3,5) by (intro exI [of _ row]) (auto simp: v add_session_def session_live_def)
  with assms(4) tok show ?thesis by (auto simp: UserBySessionToken_run)
qed

text \<open>Without a live session row the lookup finds nobody.\<close>

lemma no_session_no_user:
  assumes "run_state (UserBySessionToken tok) w = (Inr u, w')"
  shows "\<exists>ses \<in> set (sessions (wdb w)). ses_TokenHash ses = hashToken (TrimSpace tok) \<and>
    (\<exists>n. current_timestamp (wclock w n) < ses_ExpiresAt ses)"
  using assms
  by (auto simp: UserBySessionToken_def on_no_rows_def store_GetUserBySessionTokenHash_def run_simps Let_def
      Q_GetUserBySessionTokenHash_def session_live_def
      split: if_splits sum.splits prod.splits dest!: find_product_Some)

text \<open>Statements that remove rows and report how many.\<close>

lemma affected_pos: "0 < affected p rows \<longleftrightarrow> (\<exists>r \<in> set rows. p r)"
  by (auto simp: affected_def filter_empty_conv)

lemma delete_sessions_none: "\<forall>s \<in> set (sessions d). \<not> p s \<Longrightarrow> delete_sessions p d = d"
  by (simp add: delete_sessions_def)

definition revocable :: "int \<Rightarrow> int \<Rightarrow> string \<Rightarrow> session_row \<Rightarrow> bool" where
  "revocable sid uid h s \<longleftrightarrow> ses_ID s = sid \<and> ses_UserID s = uid \<and> ses_TokenHash s \<noteq> h"

lemma wp_store_DeleteSessionByID:
  assumes "\<And>e. failed e \<Longrightarrow> Q (Inl e) d"
    and "\<forall>s \<in> set (sessions d). \<not> revocable sid uid h s \<Longrightarrow> Q (Inr 0) d"
    and "\<And>s n. s \<in> set (sessions d) \<Longrightarrow> revocable sid uid h s \<Longrightarrow> 0 < n \<Longrightarrow>
           Q (Inr n) (delete_sessions (revocable sid uid h) d)"
  shows "wp (store_DeleteSessionByIDAndUserIDAndTokenHashNot sid uid h) Q d"
proof -
  have p: "(\<lambda>s. ses_ID s = sid \<and> ses_UserID s = uid \<and> ses_TokenHash s \<noteq> h) = revocable sid uid h"
    by (auto simp: revocable_def)
  have "Q (Inr (affected (revocable sid uid h) (sessions d))) (delete_sessions (revocable sid uid h) d)"
  proof (cases "\<exists>s \<in> set (sessions d). revocable sid uid h s")
    case True
    then obtain s where "s \<in> set (sessions d)" "revocable sid uid h s" by blast
    with True show ?thesis by (intro assms(3)) (auto simp: affected_pos)
  next
    case False
    then have "affected (revocable sid uid h) (sessions d) = 0"
      by (simp add: affected_def filter_empty_conv)
    with False assms(2) show ?thesis by (simp add: delete_sessions_none)
  qed
  then show ?thesis
    unfolding store_DeleteSessionByIDAndUserIDAndTokenHashNot_def
    by (intro wp_rules)
      (auto simp: Q_DeleteSessionByIDAndUserIDAndTokenHashNot_def p Let_def intro: assms(1))
qed

lemma wp_store_ListActiveSessions:
  assumes "\<And>e. failed e \<Longrightarrow> Q (Inl e) d"
    and "\<And>t. Q (Inr (map sessionRecordFromSession (newest_first ses_CreatedAt ses_ID
           (filter (\<lambda>s. ses_UserID s = uid \<and> session_live t s) (sessions d))))) d"
  shows "wp (store_ListActiveSessionsByUserID uid) Q d"
  unfolding store_ListActiveSessionsByUserID_def
  by (intro wp_rules) (auto simp: Q_ListActiveSessionsByUserID_def intro: assms(1) intro!: assms(2))

text \<open>
  C13: revoking a session by its id removes sessions only if they have that id, belong to the
  caller and are not the caller's current session, and it reports success exactly when there was
  one; every error leaves the database alone.
\<close>

theorem RevokeSessionByID_wp:
  "wp (RevokeSessionByID uid cur sid)
     (\<lambda>r d'. case r of
        Inl e \<Rightarrow> d' = d
      | Inr _ \<Rightarrow> (\<exists>s \<in> set (sessions d). revocable sid uid (hashToken (TrimSpace cur)) s) \<and>
          d' = delete_sessions (revocable sid uid (hashToken (TrimSpace cur))) d) d"
  unfolding RevokeSessionByID_def
  by (intro wp_rules wp_store_DeleteSessionByID wp_store_ListActiveSessions) auto

text \<open>
  Revoking the other sessions removes precisely the caller's sessions with another token
  hash than the current one; sessions of other users and the current session stay.
\<close>

theorem RevokeOtherSessions_wp:
  "wp (RevokeOtherSessions uid cur)
     (\<lambda>r d'. case r of
        Inl e \<Rightarrow> d' = d
      | Inr _ \<Rightarrow> d' = delete_sessions
          (\<lambda>s. ses_UserID s = uid \<and> ses_TokenHash s \<noteq> hashToken (TrimSpace cur)) d) d"
  unfolding RevokeOtherSessions_def store_DeleteOtherSessionsByUserIDAndTokenHash_def
  by (intro wp_rules) (auto simp: Q_DeleteOtherSessionsByUserIDAndTokenHash_def Let_def)

lemma Logout_wp:
  "wp (Logout tok)
     (\<lambda>r d'. case r of
        Inl e \<Rightarrow> d' = d
      | Inr _ \<Rightarrow> TrimSpace tok \<noteq> [] \<and>
          d' = delete_sessions (\<lambda>s. ses_TokenHash s = hashToken (TrimSpace tok)) d) d"
  unfolding Logout_def store_DeleteSessionByTokenHash_def
  by (intro wp_rules) (auto simp: Q_DeleteSessionByTokenHash_def)

section \<open>Account deletion\<close>

text \<open>
  C12: deleting an account asks for the current password and removes the user with every row
  of every table that belongs to the user, and nothing else; the outbox and all rows of other
  users stay.
\<close>

theorem DeleteAccount_wp:
  "wp (DeleteAccount L s uid pw)
     (\<lambda>r d'. case r of
        Inl e \<Rightarrow> d' = d
      | Inr _ \<Rightarrow> (\<exists>u \<in> set (users d). usr_ID u = uid \<and> password_matches L s (usr_PasswordHash u) pw) \<and>
          d' = \<lparr>users = filter (\<lambda>u. usr_ID u \<noteq> uid) (users d),
                sessions = filter (\<lambda>s. ses_UserID s \<noteq> uid) (sessions d),
                ev_tokens = filter (\<lambda>t. tok_UserID t \<noteq> uid) (ev_tokens d),
                pr_tokens = filter (\<lambda>t. tok_UserID t \<noteq> uid) (pr_tokens d),
                ec_tokens = filter (\<lambda>t. tok_UserID t \<noteq> uid) (ec_tokens d),
                outbox = outbox d,
                totps = filter (\<lambda>t. totp_UserID t \<noteq> uid) (totps d),
                backup_codes = filter (\<lambda>c. bkp_UserID c \<noteq> uid) (backup_codes d),
                credentials = filter (\<lambda>c. crd_UserID c \<noteq> uid) (credentials d),
                projects = filter (\<lambda>p. prj_UserID p \<noteq> uid) (projects d)\<rparr>) d"
  unfolding DeleteAccount_def store_DeleteAccount_def
  by (intro wp_rules wp_store_GetUserByID)
    (auto simp: Q_DeleteUserByID_def row_conversions user_exists_def intro!: db.equality)

section \<open>Email verification and change\<close>

lemma find_update_where:
  "(\<And>x. p x \<Longrightarrow> p (f x)) \<Longrightarrow> find p (update_where p f xs) = map_option f (find p xs)"
  by (induction xs) (auto simp: update_where_def)

lemma Q_MarkUserEmailVerified_cases:
  assumes "Q_MarkUserEmailVerified v uid t d = (r, d')"
  obtains "r = Inl ErrNoRows"
    | u where "u \<in> set (users d)" "usr_ID u = uid"
        "r = Inr (user_cols.truncate (u\<lparr>usr_EmailVerifiedAt := v\<rparr>))"
        "d' = d\<lparr>users := update_where (\<lambda>u. usr_ID u = uid) (\<lambda>u. u\<lparr>usr_EmailVerifiedAt := v\<rparr>) (users d)\<rparr>"
  using assms that
  by (cases "find (\<lambda>u. usr_ID u = uid) (users d)")
    (auto simp: Q_MarkUserEmailVerified_def Let_def find_update_where one_row_def dest: find_eq_Some)

definition verified_db :: "string \<Rightarrow> int \<Rightarrow> time \<Rightarrow> db \<Rightarrow> db" where
  "verified_db h uid now d =
     d\<lparr>ev_tokens := snd (consume_token (Some now) h now (ev_tokens d)),
       users := update_where (\<lambda>u. usr_ID u = uid) (\<lambda>u. u\<lparr>usr_EmailVerifiedAt := Some now\<rparr>) (users d)\<rparr>"

lemma Q_ConsumeEV_InrE:
  assumes "Q_ConsumeEmailVerificationToken c h now t d = (Inr r, d')"
  obtains r0 where "r0 \<in> set (ev_tokens d)" "token_usable h now r0" "r = r0\<lparr>tok_ConsumedAt := c\<rparr>"
    "d' = d\<lparr>ev_tokens := snd (consume_token c h now (ev_tokens d))\<rparr>"
  using assms that
  by (auto simp: Q_ConsumeEmailVerificationToken_def split: prod.splits elim!: ev.consume_InrE [OF assms])

text \<open>
  An email address is marked verified only for the owner of an unexpired, unconsumed
  verification token with the hash of the given token, which is consumed in the same transaction;
  on any error, a commit failure included, neither happens.
\<close>

theorem VerifyEmail_wp:
  "wp (VerifyEmail tok)
     (\<lambda>r d'. case r of
        Inl e \<Rightarrow> d' = d
      | Inr u \<Rightarrow> \<exists>row now owner. row \<in> set (ev_tokens d) \<and>
          token_usable (hashToken (TrimSpace tok)) now row \<and>
          owner \<in> set (users d) \<and> usr_ID owner = tok_UserID row \<and>
          u = public_user (owner\<lparr>usr_EmailVerifiedAt := Some now\<rparr>) \<and>
          d' = verified_db (hashToken (TrimSpace tok)) (tok_UserID row) now d) d"
  unfolding VerifyEmail_def store_VerifyEmailByTokenHash_def
  by (intro wp_rules)
    (auto simp: wrap_err_eq_Inl verified_db_def row_conversions public_user_def
      elim!: Q_ConsumeEV_InrE Q_MarkUserEmailVerified_cases, metis)

text \<open>The row a message becomes in the outbox.\<close>

definition queued_row :: "Message \<Rightarrow> time \<Rightarrow> time \<Rightarrow> db \<Rightarrow> outbox_row" where
  "queued_row m availableAt now d =
     \<lparr>out_ID = next_id out_ID (outbox d), out_Sender = msg_From m, out_Recipient = msg_To m,
      out_Subject = msg_Subject m, out_TextBody = msg_TextBody m, out_HtmlBody = msg_HTMLBody m,
      out_Status = Pending, out_Attempts = 0, out_LastError = [], out_AvailableAt = availableAt,
      out_ClaimedAt = None, out_ClaimExpiresAt = None, out_ClaimToken = [], out_SentAt = None,
      out_CreatedAt = now\<rparr>"

lemma wp_tx_EnqueueEmail [wp_rules]:
  assumes "Q (Inl ErrDriver) d"
    and "\<And>t. Q (Inr (queued_row m a t d)) (d\<lparr>outbox := outbox d @ [queued_row m a t d]\<rparr>)"
  shows "wp (tx_EnqueueEmail m a) Q d"
  unfolding tx_EnqueueEmail_def
  by (intro wp_rules) (auto simp: Q_EnqueueEmail_def Let_def assms(1) assms(2) [unfolded queued_row_def])

lemma Q_UpdateUserEmail_cases:
  assumes "Q_UpdateUserEmail em v uid t d = (r, d')"
    and "find (\<lambda>u. usr_ID u = uid) (users d) = Some u"
  obtains "r = Inl ErrSqliteUnique"
    | "\<forall>x \<in> set (users d). usr_ID x \<noteq> uid \<longrightarrow> usr_Email x \<noteq> em"
        "r = Inr (user_cols.truncate (u\<lparr>usr_Email := em, usr_EmailVerifiedAt := v\<rparr>))"
        "d' = d\<lparr>users := update_where (\<lambda>u. usr_ID u = uid)
                (\<lambda>u. u\<lparr>usr_Email := em, usr_EmailVerifiedAt := v\<rparr>) (users d)\<rparr>"
proof -
  from find_eq_Some [OF assms(2)] have ex: "user_exists uid d" by (auto simp: user_exists_def)
  have new: "find (\<lambda>u. usr_ID u = uid) (update_where (\<lambda>u. usr_ID u = uid)
      (\<lambda>u. u\<lparr>usr_Email := em, usr_EmailVerifiedAt := v\<rparr>) (users d)) =
      Some (u\<lparr>usr_Email := em, usr_EmailVerifiedAt := v\<rparr>)"
    by (simp add: find_update_where assms(2))
  show ?thesis
  proof (cases "\<exists>x \<in> set (users d). usr_ID x \<noteq> uid \<and> usr_Email x = em")
    case True
    with assms(1) ex have "r = Inl ErrSqliteUnique" by (simp add: Q_UpdateUserEmail_def)
    then show ?thesis by (rule that(1))
  next
    case False
    with assms(1) new show ?thesis
      by (intro that(2)) (auto simp: Q_UpdateUserEmail_def Let_def one_row_def simp del: find_eq_None)
  qed
qed

lemma unique_or_Inr [simp]: "unique_or m r = Inr x \<longleftrightarrow> r = Inr x"
  by (simp add: unique_or_def split: sum.split)

definition taken_by_other :: "string \<Rightarrow> int \<Rightarrow> db \<Rightarrow> bool" where
  "taken_by_other em uid d \<longleftrightarrow> (\<exists>x \<in> set (users d). usr_ID x \<noteq> uid \<and> usr_Email x = em)"

definition email_changed_db :: "string \<Rightarrow> int \<Rightarrow> string \<Rightarrow> time \<Rightarrow> outbox_row list \<Rightarrow> db \<Rightarrow> db" where
  "email_changed_db h uid new now mails d =
     d\<lparr>ec_tokens := snd (consume_token (Some now) h now (ec_tokens d)),
       users := update_where (\<lambda>u. usr_ID u = uid)
                  (\<lambda>u. u\<lparr>usr_Email := new, usr_EmailVerifiedAt := Some now\<rparr>) (users d),
       sessions := filter (\<lambda>s. ses_UserID s \<noteq> uid) (sessions d),
       outbox := outbox d @ mails\<rparr>"

lemma Q_ConsumeEC_InrE:
  assumes "Q_ConsumeEmailChangeToken c h now t d = (Inr r, d')"
  obtains r0 where "r0 \<in> set (ec_tokens d)" "token_usable h now r0" "r = r0\<lparr>tok_ConsumedAt := c\<rparr>"
    "d' = d\<lparr>ec_tokens := snd (consume_token c h now (ec_tokens d))\<rparr>"
  using assms that
  by (auto simp: Q_ConsumeEmailChangeToken_def split: prod.splits elim!: ec.consume_InrE [OF assms])

lemma NewEmailChangeNoticeMessage_InrE:
  assumes "NewEmailChangeNoticeMessage L opts recipient = Inr m"
  obtains t where "lib_ParseAddress L (TrimSpace recipient) = Some t" "msg_To m = adr_String t"
  using assms
  by (auto simp: NewEmailChangeNoticeMessage_def normalizeAddress_def
      split: sum.splits option.splits prod.splits)

text \<open>\<open>notice_to L em mails\<close>: one pending message to the old address, as the mail parser prints it.\<close>

definition notice_to :: "libs \<Rightarrow> bool \<Rightarrow> string \<Rightarrow> outbox_row list \<Rightarrow> bool" where
  "notice_to L enabled em mails \<longleftrightarrow>
     (if enabled then \<exists>m t. mails = [m] \<and> lib_ParseAddress L (TrimSpace em) = Some t \<and>
                        out_Recipient m = adr_String t \<and> out_Status m = Pending
      else mails = [])"

lemma wp_applyEmailChange:
  assumes "\<And>e d'. Q (Inl e) d'"
    and "\<And>owner mails. owner \<in> set (users d) \<Longrightarrow> usr_ID owner = ae_UserID p \<Longrightarrow>
      \<forall>x \<in> set (users d). usr_ID x \<noteq> ae_UserID p \<longrightarrow> usr_Email x \<noteq> ae_NewEmail p \<Longrightarrow>
      notice_to L (ae_SendOldEmailNotice p) (usr_Email owner) mails \<Longrightarrow>
      Q (Inr (public_user (owner\<lparr>usr_Email := ae_NewEmail p, usr_EmailVerifiedAt := Some (ae_ChangedAt p)\<rparr>)))
        (d\<lparr>users := update_where (\<lambda>u. usr_ID u = ae_UserID p)
             (\<lambda>u. u\<lparr>usr_Email := ae_NewEmail p, usr_EmailVerifiedAt := Some (ae_ChangedAt p)\<rparr>) (users d),
           sessions := filter (\<lambda>s. ses_UserID s \<noteq> ae_UserID p) (sessions d),
           outbox := outbox d @ mails\<rparr>)"
  shows "wp (applyEmailChange L p) Q d"
proof (cases "find (\<lambda>u. usr_ID u = ae_UserID p) (users d)")
  case None
  then show ?thesis
    unfolding applyEmailChange_def
    by (intro wp_rules) (auto simp: Q_GetUserByID_def one_row_def assms(1) simp del: find_eq_None)
next
  case (Some owner)
  note owner = find_eq_Some [OF Some]
  let ?u = "owner\<lparr>usr_Email := ae_NewEmail p, usr_EmailVerifiedAt := Some (ae_ChangedAt p)\<rparr>"
  let ?d = "d\<lparr>users := update_where (\<lambda>u. usr_ID u = ae_UserID p)
             (\<lambda>u. u\<lparr>usr_Email := ae_NewEmail p, usr_EmailVerifiedAt := Some (ae_ChangedAt p)\<rparr>) (users d),
           sessions := filter (\<lambda>s. ses_UserID s \<noteq> ae_UserID p) (sessions d)\<rparr>"
  have sent: "Q (Inr (public_user ?u)) (?d\<lparr>outbox := outbox d @ [queued_row notice a t d1]\<rparr>)"
    if "\<forall>x \<in> set (users d). usr_ID x \<noteq> ae_UserID p \<longrightarrow> usr_Email x \<noteq> ae_NewEmail p"
      and "ae_SendOldEmailNotice p"
      and "NewEmailChangeNoticeMessage L (ae_OldEmailNoticeOptions p) (usr_Email owner) = Inr notice"
    for notice a t d1
    using that owner by (intro assms(2)) (auto simp: notice_to_def queued_row_def
        elim!: NewEmailChangeNoticeMessage_InrE)
  have same: "?d = ?d\<lparr>outbox := outbox d @ []\<rparr>" by (cases d) simp
  have silent: "Q (Inr (public_user ?u)) ?d"
    if "\<forall>x \<in> set (users d). usr_ID x \<noteq> ae_UserID p \<longrightarrow> usr_Email x \<noteq> ae_NewEmail p"
      and "\<not> ae_SendOldEmailNotice p"
    by (subst same, rule assms(2)) (use that owner in \<open>auto simp: notice_to_def\<close>)
  show ?thesis
    unfolding applyEmailChange_def
    by (intro wp_rules)
      (auto simp: Q_GetUserByID_def Some one_row_def Q_DeleteSessionsByUserID_def delete_sessions_def
        assms(1) sent silent elim!: Q_UpdateUserEmail_cases [OF _ Some])
qed

text \<open>
  C9: confirming an email change is atomic: on success the unexpired, unconsumed token is
  consumed, its owner's address becomes the address stored with the token and is verified, all
  sessions of the owner are revoked and, when enabled, one notice goes to the old address; no other
  account has the new address.  On any error nothing of this happened.
\<close>

theorem ConfirmEmailChange_wp:
  "wp (ConfirmEmailChange L s tok)
     (\<lambda>r d'. case r of
        Inl e \<Rightarrow> d' = d
      | Inr u \<Rightarrow> \<exists>row now owner mails. row \<in> set (ec_tokens d) \<and>
          token_usable (hashToken (TrimSpace tok)) now row \<and>
          owner \<in> set (users d) \<and> usr_ID owner = tok_UserID row \<and>
          \<not> taken_by_other (tok_NewEmail row) (tok_UserID row) d \<and>
          u = public_user (owner\<lparr>usr_Email := tok_NewEmail row, usr_EmailVerifiedAt := Some now\<rparr>) \<and>
          notice_to L (svc_emailChangeNoticeEnabled s) (usr_Email owner) mails \<and>
          d' = email_changed_db (hashToken (TrimSpace tok)) (tok_UserID row) (tok_NewEmail row) now mails d) d"
  unfolding ConfirmEmailChange_def store_ConfirmEmailChange_def
  by (intro wp_rules wp_applyEmailChange)
    (auto simp: email_changed_db_def taken_by_other_def elim!: Q_ConsumeEC_InrE, metis)

section \<open>Registration and requests for a link\<close>

lemma wp_tx_CreateUser:
  assumes "\<And>e. Q (Inl e) d"
    and "\<And>u. em \<notin> usr_Email ` set (users d) \<Longrightarrow> usr_Email u = em \<Longrightarrow> usr_PasswordHash u = h \<Longrightarrow>
           usr_EmailVerifiedAt u = None \<Longrightarrow> usr_ID u = next_id usr_ID (users d) \<Longrightarrow>
           Q (Inr (user_cols.truncate u)) (d\<lparr>users := users d @ [u]\<rparr>)"
  shows "wp (tx_CreateUser em h handle) Q d"
proof -
  have created: "Q (Inr r) d'" if "Q_CreateUser em h handle t d = (Inr r, d')" for r d' t
    using that by (auto simp: Q_CreateUser_def Let_def split: if_splits intro!: assms(2))
  have refused: "d' = d" if "Q_CreateUser em h handle t d = (Inl e, d')" for e d' t
    using that by (auto simp: Q_CreateUser_def Let_def split: if_splits)
  show ?thesis
    unfolding tx_CreateUser_def
  proof (intro wp_rules)
    show "Q (unique_or ''create user'' (Inl ErrDriver)) d" by (simp add: unique_or_def assms(1))
  next
    fix t r d'
    assume q: "Q_CreateUser em h handle t d = (r, d')"
    show "Q (unique_or ''create user'' r) d'"
    proof (cases r)
      case (Inl e)
      with q refused have "d' = d" by simp
      with Inl show ?thesis by (simp add: unique_or_def assms(1))
    next
      case (Inr x)
      with q created show ?thesis by (simp add: unique_or_def)
    qed
  qed
qed

lemma Q_CreateEV_cases:
  assumes "Q_CreateEmailVerificationToken uid h x t d = (r, d')"
  obtains e where "r = Inl e" "failed e" "d' = d"
    | "r = Inr (new_token uid h x t (ev_tokens d))"
      "d' = d\<lparr>ev_tokens := ev_tokens d @ [new_token uid h x t (ev_tokens d)]\<rparr>"
proof (cases "h \<in> tok_TokenHash ` set (ev_tokens d) \<or> \<not> user_exists uid d")
  case True
  with assms have "\<exists>e. r = Inl e \<and> failed e \<and> d' = d"
    by (auto simp: Q_CreateEmailVerificationToken_def split: if_splits)
  with that(1) show ?thesis by blast
next
  case False
  with assms show ?thesis by (intro that(2)) (simp_all add: Q_CreateEmailVerificationToken_def Let_def)
qed


text \<open>\<open>mailed L em m\<close>: a pending message to \<open>em\<close>, as the mail parser prints it.\<close>

definition mailed :: "libs \<Rightarrow> string \<Rightarrow> outbox_row \<Rightarrow> bool" where
  "mailed L em m \<longleftrightarrow> (\<exists>t. lib_ParseAddress L (TrimSpace em) = Some t \<and> out_Recipient m = adr_String t) \<and>
     out_Status m = Pending"

lemma mailed_queued_row:
  "newTokenMessage L opts em token path label tpl = Inr m \<Longrightarrow> mailed L em (queued_row m a t d)"
  by (auto simp: mailed_def queued_row_def elim!: newTokenMessage_InrE)

text \<open>
  \<open>fresh_token b tok uid x\<close>: an unconsumed token of user \<open>uid\<close> under the hash of the hexadecimal
  form of at least 32 random bytes \<open>b\<close>.
\<close>

definition fresh_token :: "bytes \<Rightarrow> int \<Rightarrow> time \<Rightarrow> token_row \<Rightarrow> bool" where
  "fresh_token b uid x tok \<longleftrightarrow> 32 \<le> length b \<and> tok_UserID tok = uid \<and>
     tok_TokenHash tok = hashToken (hex_encode b) \<and> tok_ExpiresAt tok = x \<and> tok_ConsumedAt tok = None"

lemma fresh_new_token:
  "32 \<le> length b \<Longrightarrow> fresh_token b uid x (new_token uid (hashToken (hex_encode b)) x t rows)"
  by (simp add: fresh_token_def new_token_def)

definition registered :: "libs \<Rightarrow> AuthService \<Rightarrow> string \<Rightarrow> string \<Rightarrow> User \<Rightarrow> db \<Rightarrow> db \<Rightarrow> bool" where
  "registered L s em pw u d d' \<longleftrightarrow> (\<exists>row tok mail b now.
     em \<notin> usr_Email ` set (users d) \<and> usr_Email row = em \<and> hashed_as L s pw (usr_PasswordHash row) \<and>
     usr_EmailVerifiedAt row = None \<and> usr_ID row = next_id usr_ID (users d) \<and> u = public_user row \<and>
     fresh_token b (usr_ID row) (now + svc_emailVerificationTokenDuration s) tok \<and> mailed L em mail \<and>
     d' = d\<lparr>users := users d @ [row], ev_tokens := ev_tokens d @ [tok], outbox := outbox d @ [mail]\<rparr>)"

lemma wp_store_CreateUserWithEmailVerification:
  assumes "\<And>e. Q (Inl e) d"
    and "\<And>row tok mail. cu_Email p \<notin> usr_Email ` set (users d) \<Longrightarrow> usr_Email row = cu_Email p \<Longrightarrow>
       usr_PasswordHash row = cu_PasswordHash p \<Longrightarrow> usr_EmailVerifiedAt row = None \<Longrightarrow>
       usr_ID row = next_id usr_ID (users d) \<Longrightarrow>
       (\<exists>t. tok = new_token (usr_ID row) (cu_TokenHash p) (cu_TokenExpiresAt p) t (ev_tokens d)) \<Longrightarrow>
       (\<exists>a t d1. mail = queued_row (cu_ConfirmationEmail p) a t d1) \<Longrightarrow>
       Q (Inr (public_user row))
         (d\<lparr>users := users d @ [row], ev_tokens := ev_tokens d @ [tok], outbox := outbox d @ [mail]\<rparr>)"
  shows "wp (store_CreateUserWithEmailVerification p) Q d"
  unfolding store_CreateUserWithEmailVerification_def newWebAuthnUserHandle_def
  by (intro wp_rules wp_tx_CreateUser)
    (auto simp: assms(1) elim!: Q_CreateEV_cases intro!: assms(2), blast+)

lemma registeredI:
  assumes "em \<notin> usr_Email ` set (users d)" and "usr_Email row = em"
    and "hashed_as L s pw (usr_PasswordHash row)" and "usr_EmailVerifiedAt row = None"
    and "usr_ID row = next_id usr_ID (users d)" and "32 \<le> length b"
    and "newTokenMessage L opts em token path label tpl = Inr m"
  shows "registered L s em pw (public_user row) d (d\<lparr>users := users d @ [row],
     ev_tokens := ev_tokens d @ [new_token (next_id usr_ID (users d)) (hashToken (hex_encode b))
       (now + svc_emailVerificationTokenDuration s) t rows],
     outbox := outbox d @ [queued_row m a t' d1]\<rparr>)"
  unfolding registered_def
  using assms fresh_new_token [OF assms(6)] mailed_queued_row [OF assms(7)] by metis

lemma wp_store_Create_registered:
  assumes "newTokenMessage L opts em token path label tpl = Inr m" and "32 \<le> length b"
    and "hashed_as L s pw h" and "\<And>e. Q (Inl e) d"
    and "\<And>u d'. registered L s em pw u d d' \<Longrightarrow> Q (Inr u) d'"
  shows "wp (store_CreateUserWithEmailVerification
     \<lparr>cu_Email = em, cu_PasswordHash = h, cu_TokenHash = hashToken (hex_encode b),
      cu_TokenExpiresAt = now + svc_emailVerificationTokenDuration s,
      cu_ConfirmationEmail = m, cu_EmailAvailableAt = avail\<rparr>) Q d"
proof (rule wp_store_CreateUserWithEmailVerification, goal_cases)
  case (2 row tok mail)
  then obtain t a t' d1 where
    "tok = new_token (next_id usr_ID (users d)) (hashToken (hex_encode b))
       (now + svc_emailVerificationTokenDuration s) t (ev_tokens d)"
    "mail = queued_row m a t' d1"
    by auto
  with 2 assms(1-3) show ?case by (auto intro!: assms(5) registeredI)
qed (rule assms(4))

text \<open>
  C10: registration validates the address and the password first, and then either leaves the
  database alone and returns the empty user (the neutral answer for an address that is taken) or
  adds exactly one unverified account with a hash of the password, one verification token of that
  account and one pending message to its address.
\<close>

theorem Register_wp:
  "wp (Register L s em pw)
     (\<lambda>r d'. case r of
        Inl e \<Rightarrow> d' = d
      | Inr u \<Rightarrow> isValidEmail L (normalizeEmail L em) \<and> validatePassword s pw = None \<and>
          (d' = d \<and> u = zero_User \<or> registered L s (normalizeEmail L em) pw u d d')) d"
  unfolding Register_def Let_def NewAccountConfirmationMessage_def
  by (intro wp_rules wp_store_GetUserByEmail wp_generateToken; (simp; fail)?)
    (auto simp: hashed_as_def intro!: wp_store_Create_registered wp_rules)




end
