(* ===== verification/Fixtures.thy ===== *)
theory Fixtures
  imports Auth_Properties
begin

text \<open>
  A concrete instance on which the theorems are exercised: package functions that satisfy what the
  program relies on, a service configuration, one account, and a world in which the driver never
  fails, the clock stands still and every random byte is the same.
\<close>

definition ex_libs :: libs where
  "ex_libs = \<lparr>
     lib_IDKey = (\<lambda>p s t m n k. take k (p @ replicate k (CHR 0x00))),
     lib_Seal = (\<lambda>k n p. p),
     lib_Open = (\<lambda>k n c. Some c),
     lib_ParseAddress = (\<lambda>a. Some \<lparr>adr_Name = [], adr_Address = a, adr_String = ''<'' @ a @ ''>''\<rparr>),
     lib_ToLower = id,
     lib_ToUpper = id,
     lib_GenerateCode = (\<lambda>secr t. Some ''123456''),
     lib_ParseURL = (\<lambda>u. Some (''https'', ''app.example'')),
     lib_token_link = (\<lambda>base path tok. base @ ''/'' @ path @ ''?token='' @ tok),
     lib_Execute = (\<lambda>name link. Some (name @ link)),
     lib_MarshalStrings = (\<lambda>_. ''[]''),
     lib_UnmarshalStrings = (\<lambda>_. Some [])\<rparr>"

definition ex_service :: AuthService where
  "ex_service = \<lparr>
     svc_totpSecretKey = replicate 32 (CHR ''k''),
     svc_emailChangeNoticeEnabled = True,
     svc_sessionDuration = 7 * 24 * hour,
     svc_emailVerificationTokenDuration = DefaultEmailVerificationTokenTimeout,
     svc_passwordResetTokenDuration = DefaultPasswordResetTokenTimeout,
     svc_emailOptions = \<lparr>mo_AppBaseURL = ''https://app.example'', mo_From = ''app@app.example''\<rparr>,
     svc_passwordHasher = newArgon2idHasher 0 0 0 [],
     svc_dummyPasswordHash = [],
     svc_tokenBytes = 32,
     svc_passwordMinLen = DefaultPasswordMinLength,
     svc_totpIssuer = ''app'',
     svc_backupCodeKey = replicate 32 (CHR ''b''),
     svc_webAuthn = None\<rparr>"

definition ex_salt :: bytes where
  "ex_salt = replicate 16 (CHR 0x01)"

definition ex_hash :: "string \<Rightarrow> string" where
  "ex_hash pw = encodeArgon2idHash (svc_passwordHasher ex_service) ex_salt
     (lib_IDKey ex_libs pw ex_salt (iterations (svc_passwordHasher ex_service))
        (memoryKiB (svc_passwordHasher ex_service)) (threads (svc_passwordHasher ex_service))
        argon2idKeyLength)"

definition ex_user :: user_row where
  "ex_user = \<lparr>usr_ID = 1, usr_Email = ''ada@example.com'', usr_PasswordHash = ex_hash ''correct horse'',
     usr_EmailVerifiedAt = None, usr_CreatedAt = 0, usr_Handle = replicate 64 (CHR 0x02)\<rparr>"

definition ex_db :: db where
  "ex_db = empty_db\<lparr>users := [ex_user]\<rparr>"

definition ex_world :: "db \<Rightarrow> world" where
  "ex_world d = \<lparr>wdb = d, wclock = (\<lambda>_. 1000 * second), wrand = (\<lambda>_. Some (\<lambda>_. CHR 0x01)),
     wfault = (\<lambda>_. False)\<rparr>"

definition ex_token :: string where
  "ex_token = hex_encode (replicate 32 (CHR 0x01))"

text \<open>What the instance satisfies.\<close>

lemma ex_libs_argon2 [simp]: "argon2_key_length ex_libs"
  by (simp add: argon2_key_length_def ex_libs_def min_def)

lemma ex_libs_aead [simp]: "aead_correct ex_libs"
  by (simp add: aead_correct_def ex_libs_def)

lemma ex_hasher_ok [simp]: "hasher_ok (svc_passwordHasher ex_service)"
  by (simp add: ex_service_def)

lemma ex_hashed [simp]: "hashed_as ex_libs ex_service pw (ex_hash pw)"
  by (auto simp: hashed_as_def ex_hash_def passwordInput_def ex_service_def newArgon2idHasher_def
      ex_salt_def argon2idSaltLength_def intro!: exI [of _ "replicate 16 (CHR 0x01)"])

lemma ex_matches [simp]: "password_matches ex_libs ex_service (ex_hash pw) pw"
  by (rule hashed_as_matches) simp_all

lemma ex_db_inv [simp]: "db_inv ex_db"
  by (simp add: ex_db_def db_inv_def empty_db_def pk_ok_def uq_ok_def fk_ok_def ex_user_def)

lemma ex_world_simps [simp]:
  "wdb (ex_world d) = d" "wclock (ex_world d) n = 1000 * second" "\<not> wfault (ex_world d) n"
  "wrand (ex_world d) n = Some (\<lambda>_. CHR 0x01)"
  by (simp_all add: ex_world_def)

lemma ex_normalize [simp]: "normalizeEmail ex_libs ''ada@example.com'' = ''ada@example.com''"
  by (simp add: normalizeEmail_def TrimSpace_visible visible_def ToLower_def is_ascii_def lower_char_def)

lemma ex_token_trim [simp]: "TrimSpace ex_token = ex_token" "ex_token \<noteq> []"
  by (simp add: ex_token_def) code_simp

lemma ex_db_simps [simp]:
  "users ex_db = [ex_user]" "sessions ex_db = []" "totps ex_db = []" "pr_tokens ex_db = []"
  by (simp_all add: ex_db_def empty_db_def)

lemma ex_user_simps [simp]:
  "usr_ID ex_user = 1" "usr_Email ex_user = ''ada@example.com''"
  "usr_PasswordHash ex_user = ex_hash ''correct horse''"
  by (simp_all add: ex_user_def)

text \<open>Running the primitives in a world that never changes but for its database.\<close>

definition ex_now :: time where
  "ex_now = 1000 * second"

lemma ex_world_update:
  "(ex_world d)\<lparr>wdb := d'\<rparr> = ex_world d'"
  "(ex_world d)\<lparr>wclock := \<lambda>n. wclock (ex_world d) (Suc n)\<rparr> = ex_world d"
  "(ex_world d)\<lparr>wrand := \<lambda>n. wrand (ex_world d) (Suc n)\<rparr> = ex_world d"
  "(ex_world d)\<lparr>wfault := \<lambda>n. wfault (ex_world d) (Suc n)\<rparr> = ex_world d"
  "(ex_world d)\<lparr>wclock := \<lambda>n. wclock (ex_world d) (Suc n),
     wfault := \<lambda>n. wfault (ex_world d) (Suc n)\<rparr> = ex_world d"
  "(ex_world d)\<lparr>wfault := \<lambda>n. False\<rparr> = ex_world d"
  by (simp_all add: ex_world_def)

lemma ex_run:
  "run_state time_now (ex_world d) = (ex_now, ex_world d)"
  "run_state (rand_Read n) (ex_world d) = (Inr (replicate n (CHR 0x01)), ex_world d)"
  "run_state (exec q) (ex_world d) = (case q ex_now d of (r, d') \<Rightarrow> (r, ex_world d'))"
  "run_state (withTx oper fn) (ex_world d) = (case run_state fn (ex_world d) of
     (Inl e, w) \<Rightarrow> (Inl e, w\<lparr>wdb := d\<rparr>)
   | (Inr x, w) \<Rightarrow> if wfault w 0
       then (Inl (Errorf (''commit '' @ oper @ '' transaction'') ErrDriver),
             w\<lparr>wfault := \<lambda>n. wfault w (Suc n), wdb := d\<rparr>)
       else (Inr x, w\<lparr>wfault := \<lambda>n. wfault w (Suc n)\<rparr>))"
  unfolding run_time_now run_rand_Read run_exec run_withTx ex_world_update
  by (simp_all add: ex_now_def current_timestamp_def second_def map_replicate_const Let_def ex_world_update
      split: prod.splits sum.splits)

lemmas ex_eval = run_bind run_try_op run_wrapped ex_run ex_world_update Let_def one_row_def

text \<open>The same world with a driver that fails where \<open>f\<close> says.\<close>

definition ex_faulty :: "(nat \<Rightarrow> bool) \<Rightarrow> db \<Rightarrow> world" where
  "ex_faulty f d = (ex_world d)\<lparr>wfault := f\<rparr>"

lemma ex_run_faulty:
  "run_state time_now (ex_faulty f d) = (ex_now, ex_faulty f d)"
  "run_state (rand_Read n) (ex_faulty f d) = (Inr (replicate n (CHR 0x01)), ex_faulty f d)"
  "run_state (exec q) (ex_faulty f d) =
     (if f 0 then (Inl ErrDriver, ex_faulty (\<lambda>n. f (Suc n)) d)
      else case q ex_now d of (r, d') \<Rightarrow> (r, ex_faulty (\<lambda>n. f (Suc n)) d'))"
  "f 0 \<Longrightarrow> run_state (withTx oper fn) (ex_faulty f d) =
     (Inl (Errorf (''begin '' @ oper @ '' transaction'') ErrDriver), ex_faulty (\<lambda>n. f (Suc n)) d)"
  by (simp_all add: run_time_now run_rand_Read run_exec run_withTx ex_faulty_def ex_world_def ex_now_def
      current_timestamp_def second_def map_replicate_const Let_def split: prod.splits)

lemma ex_login:
  "run_state (Login ex_libs ex_service ''ada@example.com'' ''correct horse'') (ex_world ex_db) =
     ((public_user ex_user,
       \<lparr>as_Token = ex_token, as_ExpiresAt = ex_now + svc_sessionDuration ex_service\<rparr>, None),
      ex_world (add_session 1 (hashToken ex_token) (ex_now + svc_sessionDuration ex_service) ex_now ex_db))"
proof -
  have user: "run_state (store_GetUserByEmail ''ada@example.com'') (ex_world ex_db) =
      (Inr (userRecordFromGetUserByEmailRow (user_cols.truncate ex_user)), ex_world ex_db)"
    by (simp add: store_GetUserByEmail_def Q_GetUserByEmail_def ex_eval)
  have totp: "run_state (store_GetEnabledTOTPByUserID ex_libs k 1) (ex_world ex_db) =
      (Inl (Errorf ''get enabled TOTP by user ID'' ErrNoRows), ex_world ex_db)" for k
    by (simp add: store_GetEnabledTOTPByUserID_def Q_GetEnabledTOTPByUserID_def ex_eval)
  have token: "run_state (generateToken (svc_tokenBytes ex_service)) (ex_world ex_db) = (Inr ex_token, ex_world ex_db)"
    by (simp add: generateToken_def ex_eval ex_token_def ex_service_def)
  have session: "run_state (createSessionForUser ex_service 1) (ex_world ex_db) =
      (Inr \<lparr>as_Token = ex_token, as_ExpiresAt = ex_now + svc_sessionDuration ex_service\<rparr>,
       ex_world (add_session 1 (hashToken ex_token) (ex_now + svc_sessionDuration ex_service) ex_now ex_db))"
    by (simp add: createSessionForUser_def store_CreateSession_def token ex_eval Q_CreateSession_def
        user_exists_def add_session_def)
  show ?thesis
    by (simp add: Login_def run_bind user totp session row_conversions User.truncate_def public_user_def)
qed

end
