(* ===== verification/Auth_Claims.thy ===== *)
theory Auth_Claims
  imports Fixtures
begin

text \<open>
  The security properties of the authentication service that span several of its methods:
  sessions, the second factor, password-reset tokens, password hashes and email addresses, each
  with an instance on the concrete account of \<open>Fixtures\<close>.
\<close>

section \<open>Sessions\<close>

text \<open>
  C1: a session token is accepted exactly when it is not blank and some unexpired session row
  carries its hash; the user returned is the owner of that session, without the password hash.
\<close>

theorem session_lookup_iff:
  assumes "db_inv (wdb w)" and "\<not> wfault w 0"
  shows "fst (run_state (UserBySessionToken tok) w) = Inr u \<longleftrightarrow>
    TrimSpace tok \<noteq> [] \<and>
    (\<exists>row ses. row \<in> set (users (wdb w)) \<and> ses \<in> set (sessions (wdb w)) \<and>
       ses_UserID ses = usr_ID row \<and> ses_TokenHash ses = hashToken (TrimSpace tok) \<and>
       current_timestamp (wclock w 0) < ses_ExpiresAt ses \<and> u = public_user row)"
proof (cases "TrimSpace tok = []")
  case True
  then show ?thesis by (simp add: UserBySessionToken_def)
next
  case False
  with assms show ?thesis
    by (auto simp: UserBySessionToken_run session_query_iff session_live_def)
      (blast, metis userFromCreateUserRow_public)
qed

theorem session_lookup_iff_witness:
  "fst (run_state (UserBySessionToken ex_token)
     (ex_world (add_session 1 (hashToken ex_token) (2000 * second) 0 ex_db))) = Inr (public_user ex_user)"
proof -
  let ?d = "add_session 1 (hashToken ex_token) (2000 * second) 0 ex_db"
  have "db_inv ?d"
    by (simp add: add_session_def ex_db_def db_inv_def empty_db_def pk_ok_def uq_ok_def fk_ok_def next_id_def)
  then show ?thesis
    using session_lookup_iff [of "ex_world ?d" ex_token "public_user ex_user"]
    by (auto simp: add_session_def current_timestamp_def second_def)
qed

text \<open>
  After a successful login the returned token authenticates the same user until the returned
  expiry, whatever else the clock and the random source do.
\<close>

theorem login_session_roundtrip:
  assumes "db_inv (wdb w)" and "run_state (Login L s em pw) w = ((u, sess, None), w')"
    and "wdb v = wdb w'" and "\<not> wfault v 0" and "current_timestamp (wclock v 0) < as_ExpiresAt sess"
  shows "fst (run_state (UserBySessionToken (as_Token sess)) v) = Inr u"
proof -
  from wpD [OF Login_wp assms(2)] obtain row where row: "row \<in> set (users (wdb w))" "u = public_user row"
    "opened s (usr_ID row) sess (wdb w) (wdb w')"
    by auto
  have "db_inv (wdb w')"
    by (rule preservesD [OF Login_inv]) (use assms(1,2) in auto)
  with row assms(3-5) show ?thesis by (auto intro: opened_authenticates)
qed

theorem login_session_roundtrip_witness:
  "fst (run_state (UserBySessionToken ex_token) (ex_world (wdb (snd
     (run_state (Login ex_libs ex_service ''ada@example.com'' ''correct horse'') (ex_world ex_db)))))) =
   Inr (public_user ex_user)"
proof -
  let ?w = "ex_world (wdb (snd
     (run_state (Login ex_libs ex_service ''ada@example.com'' ''correct horse'') (ex_world ex_db))))"
  have "svc_sessionDuration ex_service = 7 * 24 * hour" by (simp add: ex_service_def)
  then show ?thesis
    using login_session_roundtrip [OF _ ex_login, of ?w]
    by (simp add: ex_login ex_now_def current_timestamp_def second_def hour_def)
qed

text \<open>
  C6: the password alone opens no session for an account with an enabled second factor: whatever
  password is given, login returns an error and an empty session, and leaves the database alone.
\<close>

theorem login_needs_second_factor:
  assumes "db_inv (wdb w)" and "row \<in> set (users (wdb w))" and "usr_Email row = normalizeEmail L em"
    and "r \<in> set (totps (wdb w))" and "totp_UserID r = usr_ID row" and "totp_EnabledAt r \<noteq> None"
    and "run_state (Login L s em pw) w = ((u, sess, err), w')"
  shows "err \<noteq> None \<and> sess = zero_AuthSession \<and> wdb w' = wdb w"
proof (cases err)
  case (Some e)
  with wpD [OF Login_wp assms(7)] show ?thesis by simp
next
  case None
  with wpD [OF Login_wp assms(7)] obtain row' where "row' \<in> set (users (wdb w))"
    "usr_Email row' = normalizeEmail L em" "no_second_factor (usr_ID row') (wdb w)"
    by auto
  with unique_rows(2) [OF assms(1)] assms(2-6) show ?thesis
    by (metis no_second_factor_def)
qed

definition ex_totp_row :: totp_row where
  "ex_totp_row = \<lparr>totp_ID = 1, totp_UserID = 1, totp_Secret = b64_encode std_alphabet (replicate 12 (CHR 0x01)),
     totp_EnabledAt = Some 0, totp_CreatedAt = 0, totp_LastUsedCounter = None\<rparr>"

theorem login_needs_second_factor_witness:
  "(case run_state (Login ex_libs ex_service ''ada@example.com'' ''correct horse'')
      (ex_world (ex_db\<lparr>totps := [ex_totp_row]\<rparr>)) of
     ((u, sess, err), w') \<Rightarrow> err \<noteq> None \<and> sess = zero_AuthSession \<and> wdb w' = ex_db\<lparr>totps := [ex_totp_row]\<rparr>)"
proof -
  let ?d = "ex_db\<lparr>totps := [ex_totp_row]\<rparr>"
  obtain u sess err w' where run:
    "run_state (Login ex_libs ex_service ''ada@example.com'' ''correct horse'') (ex_world ?d) = ((u, sess, err), w')"
    by (metis prod.exhaust)
  have "db_inv ?d"
    by (simp add: ex_db_def db_inv_def empty_db_def pk_ok_def uq_ok_def fk_ok_def ex_totp_row_def)
  with login_needs_second_factor [OF _ _ _ _ _ _ run, of ex_user ex_totp_row] run show ?thesis
    by (simp add: ex_totp_row_def)
qed

section \<open>Password hashes\<close>

text \<open>
  A stored hash verifies under the password it was made from, and under another password only
  if the key derivation maps both to the same key: decoding recovers the parameters, the salt and
  the key from the encoded string.
\<close>

theorem verify_hash_roundtrip:
  assumes "argon2_key_length L" and "run_state (Hash L (newArgon2idHasher m t p pep) pw) w = (Inr e, w')"
  shows "Verify L (newArgon2idHasher m t p pep) e pw = Inr True \<and>
    (\<exists>salt. length salt = argon2idSaltLength \<and>
       (\<forall>q. Verify L (newArgon2idHasher m t p pep) e q = Inr (
          (let h = newArgon2idHasher m t p pep; key = (\<lambda>x. lib_IDKey L (passwordInput h x) salt
             (iterations h) (memoryKiB h) (threads h) argon2idKeyLength) in key pw = key q))))"
proof -
  let ?h = "newArgon2idHasher m t p pep"
  from assms(2) obtain salt where salt: "length salt = argon2idSaltLength"
    and e: "e = encodeArgon2idHash ?h salt (lib_IDKey L (passwordInput ?h pw) salt
       (iterations ?h) (memoryKiB ?h) (threads ?h) argon2idKeyLength)"
    by (rule Hash_InrE)
  have len: "length (lib_IDKey L a b c d f argon2idKeyLength) = argon2idKeyLength" for a b c d f
    using assms(1) by (simp add: argon2_key_length_def)
  then have "lib_IDKey L a b c d f argon2idKeyLength \<noteq> []" for a b c d f
    by (metis argon2idKeyLength_def list.size(3) zero_neq_numeral)
  moreover from salt have "salt \<noteq> []" by (auto simp: argon2idSaltLength_def)
  ultimately have "Verify L ?h e q = Inr (lib_IDKey L (passwordInput ?h pw) salt (iterations ?h)
      (memoryKiB ?h) (threads ?h) argon2idKeyLength = lib_IDKey L (passwordInput ?h q) salt (iterations ?h)
      (memoryKiB ?h) (threads ?h) argon2idKeyLength)" for q
    by (simp add: e Verify_encoded len)
  with salt show ?thesis by (auto simp: Let_def)
qed

theorem verify_hash_roundtrip_witness:
  "Verify ex_libs (newArgon2idHasher 0 0 0 [])
     (encodeArgon2idHash (newArgon2idHasher 0 0 0 []) (replicate 16 (CHR 0x01))
        (lib_IDKey ex_libs ''correct horse'' (replicate 16 (CHR 0x01)) 2 19456 1 32)) ''correct horse'' = Inr True"
proof -
  have "run_state (Hash ex_libs (newArgon2idHasher 0 0 0 []) ''correct horse'') (ex_world ex_db) =
     (Inr (encodeArgon2idHash (newArgon2idHasher 0 0 0 []) (replicate 16 (CHR 0x01))
        (lib_IDKey ex_libs ''correct horse'' (replicate 16 (CHR 0x01)) 2 19456 1 32)), ex_world ex_db)"
    by (simp add: Hash_def ex_eval argon2idSaltLength_def argon2idKeyLength_def passwordInput_def
        newArgon2idHasher_def)
  from verify_hash_roundtrip [OF ex_libs_argon2 this] show ?thesis by simp
qed

section \<open>Password reset tokens\<close>

lemma spend_reset_unusable:
  assumes "uq_ok tok_TokenHash (pr_tokens d)" and "row \<in> set (pr_tokens d)" and "token_usable h now row"
    and "r \<in> set (pr_tokens (spend_reset h now d))"
  shows "\<not> token_usable h t r"
proof -
  obtain x where q: "Q_ConsumePasswordResetToken (Some now) h now 0 d = (x, spend_reset h now d)"
    by (simp add: Q_ConsumePasswordResetToken_def spend_reset_def case_prod_unfold)
  moreover from assms(2,3) pr.consume_Inl(3) [of "Some now" h now 0 d] q obtain y where "x = Inr y"
    by (cases x) blast+
  ultimately show ?thesis using pr.consumed_unusable [of d now h now 0 y] assms(1,4) by blast
qed

lemma ResetPasswordWithToken_rejected:
  assumes "\<And>t r. r \<in> set (pr_tokens (wdb w)) \<Longrightarrow> \<not> token_usable (hashToken (TrimSpace tok)) t r"
    and "run_state (ResetPasswordWithToken L s tok new) w = (r, w')"
  shows "wdb w' = wdb w \<and> (\<exists>e. r = Inl e)"
proof -
  have "spend_reset (hashToken (TrimSpace tok)) now (wdb w) = wdb w" for now
    using assms(1) by (simp add: spend_reset_def consume_token_def update_where_cong)
  with wpD [OF ResetPasswordWithToken_wp assms(2)] assms(1) show ?thesis
    by (cases r) auto
qed

text \<open>
  C8: a password-reset token works once.  After it reset a password, every further attempt with it
  (whatever the new password, the clock or the driver do) fails and leaves the database alone.
\<close>

theorem reset_token_single_use:
  assumes "db_inv (wdb w)" and "run_state (ResetPasswordWithToken L s tok new) w = (Inr (), w')"
    and "wdb v = wdb w'" and "run_state (ResetPasswordWithToken L s tok new') v = (r, v')"
  shows "wdb v' = wdb v \<and> (\<exists>e. r = Inl e)"
proof (rule ResetPasswordWithToken_rejected [OF _ assms(4)])
  fix t q
  assume q: "q \<in> set (pr_tokens (wdb v))"
  from wpD [OF ResetPasswordWithToken_wp assms(2)] obtain row now h where
    "row \<in> set (pr_tokens (wdb w))" "token_usable (hashToken (TrimSpace tok)) now row"
    "wdb w' = set_password_db (tok_UserID row) h (spend_reset (hashToken (TrimSpace tok)) now (wdb w))"
    by auto
  with q assms(1,3) show "\<not> token_usable (hashToken (TrimSpace tok)) t q"
    by (intro spend_reset_unusable [of "wdb w" row]) (auto simp: set_password_db_def db_inv_def)
qed

definition ex_reset_row :: token_row where
  "ex_reset_row = \<lparr>tok_ID = 1, tok_UserID = 1, tok_TokenHash = hashToken ex_token,
     tok_ExpiresAt = 2000 * second, tok_ConsumedAt = None, tok_CreatedAt = 0\<rparr>"

definition ex_reset_db :: db where
  "ex_reset_db = ex_db\<lparr>pr_tokens := [ex_reset_row]\<rparr>"

lemma ex_reset_inv [simp]: "db_inv ex_reset_db"
  by (simp add: ex_reset_db_def ex_db_def db_inv_def empty_db_def pk_ok_def uq_ok_def fk_ok_def ex_reset_row_def)

lemma ex_usable [simp]: "token_usable (hashToken ex_token) ex_now ex_reset_row"
  by (simp add: token_usable_def ex_reset_row_def ex_now_def second_def)

lemma ex_valid_password [simp]: "validatePassword ex_service ''a new passphrase'' = None"
  by (simp add: validatePassword_def ex_service_def DefaultPasswordMinLength_def PasswordMaxLength_def
      RuneCount_ascii is_ascii_def)

lemma ex_reset:
  "run_state (ResetPasswordWithToken ex_libs ex_service ex_token ''a new passphrase'') (ex_world ex_reset_db) =
     (Inr (), ex_world (set_password_db 1 (ex_hash ''a new passphrase'')
        (spend_reset (hashToken ex_token) ex_now ex_reset_db)))"
proof -
  have consume: "run_state (store_ConsumePasswordResetToken (hashToken ex_token) ex_now) (ex_world ex_reset_db) =
      (Inr (passwordResetTokenFromDB (ex_reset_row\<lparr>tok_ConsumedAt := Some ex_now\<rparr>)),
       ex_world (spend_reset (hashToken ex_token) ex_now ex_reset_db))"
    by (simp add: store_ConsumePasswordResetToken_def Q_ConsumePasswordResetToken_def consume_token_def
        spend_reset_def ex_reset_db_def ex_eval)
  have hash: "run_state (Hash ex_libs (svc_passwordHasher ex_service) ''a new passphrase'') (ex_world d) =
      (Inr (ex_hash ''a new passphrase''), ex_world d)" for d
    by (simp add: Hash_def ex_eval ex_hash_def ex_salt_def argon2idSaltLength_def passwordInput_def
        ex_service_def newArgon2idHasher_def)
  show ?thesis
    by (simp add: ResetPasswordWithToken_def guard_err_def on_no_rows_def consume hash
        setPasswordAndRevokeSessions_def store_SetPasswordAndRevokeSessions_def ex_eval
        Q_UpdateUserPasswordHash_def Q_DeleteSessionsByUserID_def delete_sessions_def set_password_db_def
        passwordResetTokenFromDB_def ex_reset_row_def)
qed

theorem reset_token_single_use_witness:
  "(case run_state (ResetPasswordWithToken ex_libs ex_service ex_token ''another passphrase'')
      (ex_world (set_password_db 1 (ex_hash ''a new passphrase'')
        (spend_reset (hashToken ex_token) ex_now ex_reset_db))) of (r, v') \<Rightarrow> \<exists>e. r = Inl e)"
proof -
  let ?w = "ex_world (set_password_db 1 (ex_hash ''a new passphrase'')
        (spend_reset (hashToken ex_token) ex_now ex_reset_db))"
  obtain r v' where run:
    "run_state (ResetPasswordWithToken ex_libs ex_service ex_token ''another passphrase'') ?w = (r, v')"
    by (metis prod.exhaust)
  have inv: "db_inv (wdb (ex_world ex_reset_db))" by simp
  from reset_token_single_use [OF inv ex_reset refl run] show ?thesis unfolding run by simp
qed

lemma consume_reset_run:
  assumes "row \<in> set (pr_tokens (wdb w))" and "token_usable h t row" and "\<not> wfault w 0"
  shows "\<exists>token. run_state (store_ConsumePasswordResetToken h t) w = (Inr token,
    w\<lparr>wclock := \<lambda>n. wclock w (Suc n), wfault := \<lambda>n. wfault w (Suc n), wdb := spend_reset h t (wdb w)\<rparr>)"
proof -
  obtain r where "find (token_usable h t) (pr_tokens (wdb w)) = Some r"
    using assms(1,2) by (cases "find (token_usable h t) (pr_tokens (wdb w))") auto
  with assms(3) show ?thesis
    by (simp add: store_ConsumePasswordResetToken_def Q_ConsumePasswordResetToken_def consume_token_def spend_reset_def
        run_try_op run_wrapped run_exec one_row_def)
qed

text \<open>Setting the password fails as a whole when the salt cannot be drawn or a call of the transaction fails.\<close>

lemma set_password_fails:
  assumes "wrand w 0 = None \<or> wfault w 0 \<or> wfault w 1 \<or> wfault w 2 \<or> wfault w 3"
    and "run_state (setPasswordAndRevokeSessions L s uid pw) w = (r, w')"
  shows "(\<exists>e. r = Inl e) \<and> wdb w' = wdb w"
proof (cases "wrand w 0")
  case None
  with assms(2) show ?thesis
    by (auto simp: setPasswordAndRevokeSessions_def Hash_def run_try_op run_wrapped run_rand_Read)
next
  case (Some f)
  obtain h where "run_state (Hash L (svc_passwordHasher s) pw) w = (Inr h, w\<lparr>wrand := \<lambda>k. wrand w (Suc k)\<rparr>)"
    using Some by (simp add: Hash_def run_try_op run_wrapped run_rand_Read)
  with assms(2) have tx: "run_state (wrapped ''set password and revoke sessions''
      (store_SetPasswordAndRevokeSessions uid h)) (w\<lparr>wrand := \<lambda>k. wrand w (Suc k)\<rparr>) = (r, w')"
    by (simp add: setPasswordAndRevokeSessions_def run_try_op run_wrapped)
  show ?thesis
  proof (cases "wfault w 0 \<or> wfault w 1 \<or> wfault w 2")
    case True
    then show ?thesis
      using tx by (cases "wfault w 0"; cases "wfault w 1")
        (auto simp: store_SetPasswordAndRevokeSessions_def run_wrapped run_withTx run_try_op run_exec Let_def numeral_2_eq_2
          Q_UpdateUserPasswordHash_def)
  next
    case False
    with Some assms(1) tx show ?thesis
      by (auto simp: store_SetPasswordAndRevokeSessions_def run_wrapped run_withTx run_try_op run_exec Let_def numeral_2_eq_2
          numeral_3_eq_3 Q_UpdateUserPasswordHash_def Q_DeleteSessionsByUserID_def)
  qed
qed

text \<open>
  C14: the token is spent in a statement of its own, before the password is set.  Whenever the token is
  usable, the new password is acceptable and the statement that spends the token goes through, but then
  the random source fails or the driver fails at any call of the transaction that sets the password
  (BEGIN, the two statements or COMMIT), the call returns an error, nothing but the token has changed, so
  the old password stays, and the link that was mailed is dead for good.
\<close>

theorem reset_failure_spends_token:
  assumes "db_inv (wdb w)" and "TrimSpace tok \<noteq> []" and "validatePassword s new = None"
    and "row \<in> set (pr_tokens (wdb w))" and "token_usable (hashToken (TrimSpace tok)) (wclock w 0) row"
    and "\<not> wfault w 0" and "wrand w 0 = None \<or> wfault w 1 \<or> wfault w 2 \<or> wfault w 3 \<or> wfault w 4"
    and "run_state (ResetPasswordWithToken L s tok new) w = (r, w')"
  shows "(\<exists>e. r = Inl e) \<and> wdb w' = (wdb w)\<lparr>pr_tokens := pr_tokens (wdb w')\<rparr> \<and>
    (\<forall>t. find (token_usable (hashToken (TrimSpace tok)) t) (pr_tokens (wdb w')) = None)"
proof -
  let ?h = "hashToken (TrimSpace tok)" and ?t = "wclock w 0"
  let ?v = "w\<lparr>wclock := \<lambda>n. wclock w (Suc n)\<rparr>"
  from assms(4-6) obtain token where consume: "run_state (store_ConsumePasswordResetToken ?h ?t) ?v =
      (Inr token, ?v\<lparr>wclock := \<lambda>n. wclock ?v (Suc n), wfault := \<lambda>n. wfault ?v (Suc n), wdb := spend_reset ?h ?t (wdb ?v)\<rparr>)"
      (is "_ = (_, ?u)") using consume_reset_run [of row ?v ?h ?t] by auto
  have run: "run_state (setPasswordAndRevokeSessions L s (prt_UserID token) new) ?u = (r, w')"
    using assms(2,3,8) consume
    by (simp add: ResetPasswordWithToken_def guard_err_def on_no_rows_def run_bind run_time_now)
  have broken: "wrand ?u 0 = None \<or> wfault ?u 0 \<or> wfault ?u 1 \<or> wfault ?u 2 \<or> wfault ?u 3"
    using assms(7) by (simp add: eval_nat_numeral)
  from set_password_fails [OF broken run] have err: "\<exists>e. r = Inl e" and db: "wdb w' = spend_reset ?h ?t (wdb w)"
    by simp_all
  have "find (token_usable ?h t) (pr_tokens (spend_reset ?h ?t (wdb w))) = None" for t
    using spend_reset_unusable [OF _ assms(4,5)] assms(1) by (auto simp: db_inv_def)
  moreover have "spend_reset ?h ?t (wdb w) = (wdb w)\<lparr>pr_tokens := pr_tokens (spend_reset ?h ?t (wdb w))\<rparr>"
    by (simp add: spend_reset_def)
  ultimately show ?thesis unfolding db using err by blast
qed

theorem reset_failure_spends_token_witness:
  "case run_state (ResetPasswordWithToken ex_libs ex_service ex_token ''a new passphrase'')
      (ex_faulty (\<lambda>n. n = Suc 0) ex_reset_db) of
     (r, w') \<Rightarrow> (\<exists>e. r = Inl e) \<and> wdb w' = ex_reset_db\<lparr>pr_tokens := pr_tokens (wdb w')\<rparr> \<and>
       find (token_usable (hashToken ex_token) ex_now) (pr_tokens ex_reset_db) \<noteq> None \<and>
       find (token_usable (hashToken ex_token) ex_now) (pr_tokens (wdb w')) = None"
proof -
  let ?w = "ex_faulty (\<lambda>n. n = Suc 0) ex_reset_db"
  obtain r w' where run: "run_state (ResetPasswordWithToken ex_libs ex_service ex_token ''a new passphrase'') ?w = (r, w')"
    by (metis prod.exhaust)
  have w: "db_inv (wdb ?w)" "ex_reset_row \<in> set (pr_tokens (wdb ?w))" "wclock ?w 0 = ex_now" "wfault ?w 1" "\<not> wfault ?w 0"
    by (simp_all add: ex_faulty_def, simp_all add: ex_reset_db_def ex_world_def ex_now_def)
  from reset_failure_spends_token [OF w(1) _ _ w(2) _ w(5) _ run] w(3,4) run show ?thesis
    by (simp add: ex_faulty_def ex_reset_db_def)
qed

end
