(* ===== verification/TOTP_Service.thy ===== *)
theory TOTP_Service
  imports Auth_Properties
begin

text \<open>
  The second factor (\<^verbatim>\<open>internal/auth/totp.go\<close>): setup, confirmation with backup codes,
  verification at login, regeneration and removal.
\<close>

section \<open>Codes\<close>

definition totpBackupCodeCount :: nat where
  "totpBackupCodeCount = 8"

definition generateTOTPSecret :: "string op" where
  "generateTOTPSecret = try_op (rand_Read 20) (\<lambda>b. ret (Inr (b32_encode b)))"

definition normaliseBackupCode :: "libs \<Rightarrow> string \<Rightarrow> string" where
  "normaliseBackupCode L input = ToUpper L (filter (\<lambda>c. c \<noteq> CHR ''-'') (remove_spaces input))"

definition hashBackupCode :: "libs \<Rightarrow> string \<Rightarrow> bytes \<Rightarrow> string" where
  "hashBackupCode L input key = hex_encode (hmac_sha256 key (normaliseBackupCode L input))"

definition formatBackupCode :: "libs \<Rightarrow> bytes \<Rightarrow> string" where
  "formatBackupCode L b =
     (let raw = ToUpper L (hex_encode b)
      in take 8 raw @ ''-'' @ take 8 (drop 8 raw) @ ''-'' @ take 8 (drop 16 raw) @ ''-'' @ take 8 (drop 24 raw))"

fun generateBackupCodes :: "libs \<Rightarrow> nat \<Rightarrow> bytes \<Rightarrow> (string list \<times> string list) op" where
  "generateBackupCodes L 0 key = ret (Inr ([], []))"
| "generateBackupCodes L (Suc n) key =
     try_op (rand_Read 16) (\<lambda>b.
     let input = formatBackupCode L b
     in try_op (generateBackupCodes L n key) (\<lambda>(codes, hashes).
        ret (Inr (input # codes, hashBackupCode L input key # hashes))))"

section \<open>Verification\<close>

definition verifyTOTPCode :: "libs \<Rightarrow> TOTPRecord \<Rightarrow> string \<Rightarrow> bool op" where
  "verifyTOTPCode L record input = do {
     (counter, ok) \<leftarrow> VerifyWithCounter L (tr_Secret record) input;
     if \<not> ok then ret (Inr False)
     else wrapped ''claim TOTP counter'' (store_ClaimTOTPCounter (tr_UserID record) counter)
   }"

text \<open>The step \<^verbatim>\<open>DisableTOTP\<close>, \<^verbatim>\<open>RegenerateBackupCodes\<close> and \<^verbatim>\<open>VerifyTOTPLogin\<close> share: a TOTP
  code, or else a backup code that is consumed.\<close>

definition verifyFactor :: "libs \<Rightarrow> AuthService \<Rightarrow> TOTPRecord \<Rightarrow> int \<Rightarrow> string \<Rightarrow> bool op" where
  "verifyFactor L s record userID input =
     try_op (verifyTOTPCode L record input) (\<lambda>verified.
     if verified then ret (Inr True)
     else do {
       now \<leftarrow> time_now;
       wrapped ''consume backup code''
         (store_ConsumeTOTPBackupCode userID (hashBackupCode L input (svc_backupCodeKey s)) now)
     })"

definition VerifyTOTPLogin :: "libs \<Rightarrow> AuthService \<Rightarrow> int \<Rightarrow> string \<Rightarrow> AuthSession op" where
  "VerifyTOTPLogin L s userID input =
     on_no_rows (store_GetEnabledTOTPByUserID L (svc_totpSecretKey s) userID)
       (ret (Inl ErrTOTPNotEnabled)) ''get TOTP'' (\<lambda>record.
     try_op (verifyFactor L s record userID input) (\<lambda>accepted.
     if accepted then createSessionForUser s userID else ret (Inl ErrInvalidTOTPCode)))"

section \<open>Setup\<close>

definition BeginTOTPSetup :: "libs \<Rightarrow> AuthService \<Rightarrow> int \<Rightarrow> (string \<times> string) op" where
  "BeginTOTPSetup L s userID =
     on_no_rows (store_GetUserByID userID) (ret (Inl ErrInvalidCredentials)) ''get user'' (\<lambda>user. do {
       r \<leftarrow> store_GetTOTPByUserID L (svc_totpSecretKey s) userID;
       if (case r of Inl e \<Rightarrow> \<not> errors_Is e ErrNoRows | Inr _ \<Rightarrow> False)
       then ret (Inl (Errorf ''get TOTP record'' (projl r)))
       else if (case r of Inl _ \<Rightarrow> False | Inr existing \<Rightarrow> tr_EnabledAt existing \<noteq> None)
       then ret (Inl ErrTOTPAlreadyEnabled)
       else
         try_op (wrapped ''generate TOTP secret'' generateTOTPSecret) (\<lambda>rawSecret.
         try_op (wrapped ''store pending TOTP''
                   (store_UpsertPendingTOTP L (svc_totpSecretKey s) userID rawSecret)) (\<lambda>_.
         ret (Inr (rawSecret, BuildURI (svc_totpIssuer s) (u_Email user) rawSecret))))
     })"

definition GetTOTPSetupInfo :: "libs \<Rightarrow> AuthService \<Rightarrow> int \<Rightarrow> (string \<times> string) op" where
  "GetTOTPSetupInfo L s userID =
     on_no_rows (store_GetUserByID userID) (ret (Inl ErrInvalidCredentials)) ''get user'' (\<lambda>user.
     on_no_rows (store_GetTOTPByUserID L (svc_totpSecretKey s) userID)
       (ret (Inl ErrTOTPSetupNotStarted)) ''get TOTP record'' (\<lambda>record.
     if tr_EnabledAt record \<noteq> None then ret (Inl ErrTOTPSetupNotStarted)
     else ret (Inr (tr_Secret record, BuildURI (svc_totpIssuer s) (u_Email user) (tr_Secret record)))))"

definition ConfirmTOTPSetup :: "libs \<Rightarrow> AuthService \<Rightarrow> int \<Rightarrow> string \<Rightarrow> string list op" where
  "ConfirmTOTPSetup L s userID input =
     on_no_rows (store_GetTOTPByUserID L (svc_totpSecretKey s) userID)
       (ret (Inl ErrTOTPSetupNotStarted)) ''get TOTP record'' (\<lambda>record.
     if tr_EnabledAt record \<noteq> None then ret (Inl ErrTOTPAlreadyEnabled)
     else
       try_op (verifyTOTPCode L record input) (\<lambda>verified.
       if \<not> verified then ret (Inl ErrInvalidTOTPCode)
       else
         try_op (wrapped ''generate backup codes''
                   (generateBackupCodes L totpBackupCodeCount (svc_backupCodeKey s))) (\<lambda>(codes, hashes). do {
         now \<leftarrow> time_now;
         try_op (wrapped ''enable TOTP'' (store_EnableTOTPWithBackupCodes userID now hashes)) (\<lambda>_.
         ret (Inr codes))
       })))"

definition DisableTOTP :: "libs \<Rightarrow> AuthService \<Rightarrow> int \<Rightarrow> string \<Rightarrow> unit op" where
  "DisableTOTP L s userID input =
     on_no_rows (store_GetEnabledTOTPByUserID L (svc_totpSecretKey s) userID)
       (ret (Inl ErrTOTPNotEnabled)) ''get TOTP'' (\<lambda>record.
     try_op (verifyFactor L s record userID input) (\<lambda>accepted.
     if accepted then wrapped ''delete TOTP'' (store_DeleteTOTPAndBackupCodes userID)
     else ret (Inl ErrInvalidTOTPCode)))"

definition RegenerateBackupCodes :: "libs \<Rightarrow> AuthService \<Rightarrow> int \<Rightarrow> string \<Rightarrow> string list op" where
  "RegenerateBackupCodes L s userID input =
     on_no_rows (store_GetEnabledTOTPByUserID L (svc_totpSecretKey s) userID)
       (ret (Inl ErrTOTPNotEnabled)) ''get TOTP'' (\<lambda>record.
     try_op (verifyFactor L s record userID input) (\<lambda>accepted.
     if \<not> accepted then ret (Inl ErrInvalidTOTPCode)
     else
       try_op (wrapped ''generate backup codes''
                 (generateBackupCodes L totpBackupCodeCount (svc_backupCodeKey s))) (\<lambda>(codes, hashes).
       try_op (wrapped ''replace backup codes'' (store_ReplaceBackupCodes userID hashes)) (\<lambda>_.
       ret (Inr codes)))))"

section \<open>State\<close>

definition GetTOTPStatus :: "libs \<Rightarrow> AuthService \<Rightarrow> int \<Rightarrow> (bool \<times> int) op" where
  "GetTOTPStatus L s userID =
     on_no_rows (store_GetEnabledTOTPByUserID L (svc_totpSecretKey s) userID)
       (ret (Inr (False, 0))) ''get TOTP'' (\<lambda>_.
     try_op (wrapped ''count backup codes'' (store_CountUnusedTOTPBackupCodes userID)) (\<lambda>count.
     ret (Inr (True, count))))"

definition TOTPSetupState :: "libs \<Rightarrow> AuthService \<Rightarrow> int \<Rightarrow> (bool \<times> bool) op" where
  "TOTPSetupState L s userID =
     on_no_rows (store_GetTOTPByUserID L (svc_totpSecretKey s) userID)
       (ret (Inr (False, False))) ''get TOTP'' (\<lambda>record.
     ret (Inr (tr_EnabledAt record = None, tr_EnabledAt record \<noteq> None)))"

section \<open>Every method keeps the schema invariant\<close>

lemma keeps_VerifyWithCounter [preserves_rules]: "keeps P (VerifyWithCounter L secr c)"
  unfolding VerifyWithCounter_def by (intro preserves_rules)

lemma keeps_generateBackupCodes [preserves_rules]: "keeps P (generateBackupCodes L n key)"
  by (induction n) (auto intro!: preserves_rules simp: Let_def)

lemma keeps_generateTOTPSecret [preserves_rules]: "keeps P generateTOTPSecret"
  unfolding generateTOTPSecret_def by (intro preserves_rules)

lemma factor_inv [preserves_rules]:
  "keeps db_inv (verifyTOTPCode L r c)"
  "keeps db_inv (verifyFactor L s r i c)"
  unfolding verifyFactor_def verifyTOTPCode_def by (intro preserves_rules)+

lemma totp_methods_inv [preserves_rules]:
  "keeps db_inv (VerifyTOTPLogin L s i c)"
  "keeps db_inv (BeginTOTPSetup L s i)"
  "keeps db_inv (ConfirmTOTPSetup L s i c)"
  "keeps db_inv (DisableTOTP L s i c)"
  "keeps db_inv (RegenerateBackupCodes L s i c)"
  unfolding VerifyTOTPLogin_def BeginTOTPSetup_def ConfirmTOTPSetup_def DisableTOTP_def
    RegenerateBackupCodes_def
  by (intro preserves_rules)+

lemma totp_reads_keep [preserves_rules]:
  "keeps P (GetTOTPSetupInfo L s i)"
  "keeps P (GetTOTPStatus L s i)"
  "keeps P (TOTPSetupState L s i)"
  unfolding GetTOTPSetupInfo_def GetTOTPStatus_def TOTPSetupState_def by (intro preserves_rules)+

end
