(* ===== verification/TOTP_Claims.thy ===== *)
theory TOTP_Claims
  imports TOTP_Service Fixtures
begin

text \<open>
  What the second factor guarantees: a time step is accepted at most once, a backup code at most
  once, a session opens only after a factor was spent, and the secret at rest is the secret that
  was shown.
\<close>

section \<open>Effects on the database\<close>

definition claim_db :: "int \<Rightarrow> int \<Rightarrow> db \<Rightarrow> db" where
  "claim_db uid c d = d\<lparr>totps := update_where (\<lambda>r. totp_UserID r = uid \<and> counter_free c r)
     (\<lambda>r. r\<lparr>totp_LastUsedCounter := Some c\<rparr>) (totps d)\<rparr>"

definition use_code_db :: "int \<Rightarrow> string \<Rightarrow> time \<Rightarrow> db \<Rightarrow> db" where
  "use_code_db uid h t d = d\<lparr>backup_codes :=
     update_where (\<lambda>c. bkp_UserID c = uid \<and> bkp_CodeHash c = h \<and> bkp_UsedAt c = None)
       (\<lambda>c. c\<lparr>bkp_UsedAt := Some t\<rparr>) (backup_codes d)\<rparr>"

text \<open>A code of the authenticator: a step newer than every accepted one, whose code was given.\<close>

definition totp_spent :: "libs \<Rightarrow> string \<Rightarrow> int \<Rightarrow> string \<Rightarrow> db \<Rightarrow> db \<Rightarrow> bool" where
  "totp_spent L secr uid input d d' \<longleftrightarrow> (\<exists>c row. row \<in> set (totps d) \<and> totp_UserID row = uid \<and>
     counter_free c row \<and> lib_GenerateCode L secr (c * totp_period) = Some (TrimSpace input) \<and>
     d' = claim_db uid c d)"

definition backup_spent :: "libs \<Rightarrow> AuthService \<Rightarrow> int \<Rightarrow> string \<Rightarrow> db \<Rightarrow> db \<Rightarrow> bool" where
  "backup_spent L s uid input d d' \<longleftrightarrow> (\<exists>t bc. bc \<in> set (backup_codes d) \<and> bkp_UserID bc = uid \<and>
     bkp_CodeHash bc = hashBackupCode L input (svc_backupCodeKey s) \<and> bkp_UsedAt bc = None \<and>
     d' = use_code_db uid (hashBackupCode L input (svc_backupCodeKey s)) t d)"

definition factor_spent :: "libs \<Rightarrow> AuthService \<Rightarrow> string \<Rightarrow> int \<Rightarrow> string \<Rightarrow> db \<Rightarrow> db \<Rightarrow> bool" where
  "factor_spent L s secr uid input d d' \<longleftrightarrow>
     totp_spent L secr uid input d d' \<or> backup_spent L s uid input d d'"

lemma affected_zero: "affected p rows = 0 \<longleftrightarrow> (\<forall>r \<in> set rows. \<not> p r)"
  by (simp add: affected_def filter_empty_conv)

lemma wp_ClaimTOTPCounter:
  assumes "\<And>e. failed e \<Longrightarrow> Q (Inl e) d" and "Q (Inr False) d"
    and "\<And>row. row \<in> set (totps d) \<Longrightarrow> totp_UserID row = uid \<Longrightarrow> counter_free c row \<Longrightarrow>
           Q (Inr True) (claim_db uid c d)"
  shows "wp (store_ClaimTOTPCounter uid c) Q d"
proof -
  let ?p = "\<lambda>r. totp_UserID r = uid \<and> counter_free c r"
  have "Q (Inr (0 < affected ?p (totps d))) (claim_db uid c d)"
  proof (cases "\<exists>r \<in> set (totps d). ?p r")
    case True
    then obtain row where "row \<in> set (totps d)" "totp_UserID row = uid" "counter_free c row" by blast
    then have "Q (Inr True) (claim_db uid c d)" by (rule assms(3))
    with True show ?thesis by (simp add: affected_pos)
  next
    case False
    then have "claim_db uid c d = d" by (simp add: claim_db_def update_where_cong)
    moreover have "(0 < affected ?p (totps d)) = False" unfolding affected_pos using False by blast
    ultimately show ?thesis using assms(2) by (simp only:)
  qed
  then show ?thesis
    unfolding store_ClaimTOTPCounter_def
    by (intro wp_rules) (auto simp: Q_ClaimTOTPCounter_def Let_def claim_db_def intro: assms(1))
qed

lemma wp_ConsumeTOTPBackupCode:
  assumes "\<And>e. failed e \<Longrightarrow> Q (Inl e) d" and "Q (Inr False) d"
    and "\<And>bc. bc \<in> set (backup_codes d) \<Longrightarrow> bkp_UserID bc = uid \<Longrightarrow> bkp_CodeHash bc = h \<Longrightarrow>
           bkp_UsedAt bc = None \<Longrightarrow> Q (Inr True) (use_code_db uid h t d)"
  shows "wp (store_ConsumeTOTPBackupCode uid h t) Q d"
proof -
  let ?p = "\<lambda>c. bkp_UserID c = uid \<and> bkp_CodeHash c = h \<and> bkp_UsedAt c = None"
  have "Q (Inr (0 < affected ?p (backup_codes d))) (use_code_db uid h t d)"
  proof (cases "\<exists>r \<in> set (backup_codes d). ?p r")
    case True
    then obtain bc where "bc \<in> set (backup_codes d)" "bkp_UserID bc = uid" "bkp_CodeHash bc = h"
      "bkp_UsedAt bc = None" by blast
    then have "Q (Inr True) (use_code_db uid h t d)" by (rule assms(3))
    with True show ?thesis by (simp add: affected_pos)
  next
    case False
    then have "use_code_db uid h t d = d" by (simp add: use_code_db_def update_where_cong)
    moreover have "(0 < affected ?p (backup_codes d)) = False" unfolding affected_pos using False by blast
    ultimately show ?thesis using assms(2) by (simp only:)
  qed
  then show ?thesis
    unfolding store_ConsumeTOTPBackupCode_def
    by (intro wp_rules) (auto simp: Q_ConsumeTOTPBackupCode_def Let_def use_code_db_def intro: assms(1))
qed

lemma wp_verifyTOTPCode:
  assumes "\<And>e. failed e \<Longrightarrow> Q (Inl e) d" and "Q (Inr False) d"
    and "\<And>d'. totp_spent L (tr_Secret record) (tr_UserID record) input d d' \<Longrightarrow> Q (Inr True) d'"
  shows "wp (verifyTOTPCode L record input) Q d"
  unfolding verifyTOTPCode_def
  by (intro wp_rules wp_ClaimTOTPCounter) (auto simp: totp_spent_def intro: assms(1,2) intro!: assms(3), blast)

lemma factor_spentI:
  "totp_spent L secr uid input d d' \<Longrightarrow> factor_spent L s secr uid input d d'"
  "bc \<in> set (backup_codes d) \<Longrightarrow> bkp_CodeHash bc = hashBackupCode L input (svc_backupCodeKey s) \<Longrightarrow>
     bkp_UsedAt bc = None \<Longrightarrow> factor_spent L s secr (bkp_UserID bc) input d
       (use_code_db (bkp_UserID bc) (hashBackupCode L input (svc_backupCodeKey s)) t d)"
  by (auto simp: factor_spent_def backup_spent_def)

lemma wp_verifyFactor:
  assumes "tr_UserID record = uid" and "\<And>e. failed e \<Longrightarrow> Q (Inl e) d" and "Q (Inr False) d"
    and "\<And>d'. factor_spent L s (tr_Secret record) uid input d d' \<Longrightarrow> Q (Inr True) d'"
  shows "wp (verifyFactor L s record uid input) Q d"
  unfolding verifyFactor_def
  by (intro wp_rules wp_verifyTOTPCode wp_ConsumeTOTPBackupCode)
    (use assms(1) in \<open>auto intro: assms(2,3) factor_spentI intro!: assms(4)\<close>)

section \<open>Login with the second factor\<close>

definition enabled_secret :: "libs \<Rightarrow> AuthService \<Rightarrow> int \<Rightarrow> string \<Rightarrow> db \<Rightarrow> bool" where
  "enabled_secret L s uid secr d \<longleftrightarrow> (\<exists>row \<in> set (totps d). totp_UserID row = uid \<and>
     totp_EnabledAt row \<noteq> None \<and> decrypt L (svc_totpSecretKey s) (totp_Secret row) = Inr secr)"

text \<open>
  The second step of a login opens a session only for an account with an enabled second factor
  and only after a factor was spent: a code of a time step newer than every accepted one, or an
  unused backup code of that account, which is marked used.  An error opens no session.
\<close>

theorem VerifyTOTPLogin_wp:
  "wp (VerifyTOTPLogin L s uid input)
     (\<lambda>r d'. case r of
        Inl e \<Rightarrow> d' = d \<or> (\<exists>secr. factor_spent L s secr uid input d d')
      | Inr sess \<Rightarrow> \<exists>secr d1. enabled_secret L s uid secr d \<and> factor_spent L s secr uid input d d1 \<and>
          opened s uid sess d1 d') d"
  unfolding VerifyTOTPLogin_def
  by (intro wp_rules wp_store_GetEnabledTOTP wp_verifyFactor wp_createSessionForUser)
    (auto simp: totpRecordFromDB_def enabled_secret_def, blast)

section \<open>Setup and removal\<close>

lemma wp_store_GetTOTP:
  assumes "\<And>e. failed e \<Longrightarrow> Q (Inl e) d"
    and "\<And>e. uid \<notin> totp_UserID ` set (totps d) \<Longrightarrow> errors_Is e ErrNoRows \<Longrightarrow> Q (Inl e) d"
    and "\<And>r p. r \<in> set (totps d) \<Longrightarrow> totp_UserID r = uid \<Longrightarrow>
           decrypt L k (totp_Secret r) = Inr p \<Longrightarrow> Q (Inr ((totpRecordFromDB r)\<lparr>tr_Secret := p\<rparr>)) d"
  shows "wp (store_GetTOTPByUserID L k uid) Q d"
proof -
  have absent: "Q (Inl (Errorf m ErrNoRows)) d" if "\<forall>r \<in> set (totps d). totp_UserID r \<noteq> uid" for m
    using that by (intro assms(2)) auto
  have decrypted: "Q (decryptRecord L k (totpRecordFromDB r)) d"
    if "r \<in> set (totps d)" "totp_UserID r = uid" for r
  proof (cases "decrypt L k (totp_Secret r)")
    case (Inl e)
    with decrypt_Inl [OF Inl] show ?thesis
      by (auto simp: decryptRecord_def totpRecordFromDB_def intro: assms(1))
  next
    case (Inr p)
    then have "decryptRecord L k (totpRecordFromDB r) = Inr ((totpRecordFromDB r)\<lparr>tr_Secret := p\<rparr>)"
      by (simp add: decryptRecord_def totpRecordFromDB_def)
    with Inr that show ?thesis by (auto intro: assms(3))
  qed
  show ?thesis
    unfolding store_GetTOTPByUserID_def
    by (intro wp_rules)
      (auto simp: Q_GetTOTPByUserID_def wrap_err_eq_Inl intro: assms(1) absent decrypted
        dest!: find_eq_Some)
qed

text \<open>The codes shown to the user and the hashes stored for them correspond.\<close>

lemma wp_generateBackupCodes:
  assumes "\<And>e. failed e \<Longrightarrow> Q (Inl e) d"
    and "\<And>codes. length codes = n \<Longrightarrow> set codes \<subseteq> {formatBackupCode L b |b. length b = 16} \<Longrightarrow>
           Q (Inr (codes, map (\<lambda>c. hashBackupCode L c key) codes)) d"
  shows "wp (generateBackupCodes L n key) Q d"
  using assms
proof (induction n arbitrary: Q)
  case (Suc n)
  have step: "Q (Inr (formatBackupCode L b # cs,
      hashBackupCode L (formatBackupCode L b) key # map (\<lambda>c. hashBackupCode L c key) cs)) d"
    if "length b = 16" "length cs = n" "set cs \<subseteq> {formatBackupCode L b |b. length b = 16}" for b cs
    using Suc.prems(2) [of "formatBackupCode L b # cs"] that by auto
  show ?case
    unfolding generateBackupCodes.simps Let_def
    by (intro wp_rules Suc.IH) (auto intro: Suc.prems(1) intro!: step)
qed (auto intro: wp_rules)

definition fresh_codes :: "int \<Rightarrow> string list \<Rightarrow> backup_row list \<Rightarrow> bool" where
  "fresh_codes uid hashes rows \<longleftrightarrow> map bkp_CodeHash rows = hashes \<and>
     list_all (\<lambda>r. bkp_UserID r = uid \<and> bkp_UsedAt r = None) rows"

lemma wp_insertBackupCodes:
  assumes "\<And>e d'. failed e \<Longrightarrow> Q (Inl e) d'"
    and "\<And>rows. fresh_codes uid hashes rows \<Longrightarrow> Q (Inr ()) (d\<lparr>backup_codes := backup_codes d @ rows\<rparr>)"
  shows "wp (insertBackupCodes uid hashes) Q d"
  using assms
proof (induction hashes arbitrary: d)
  case Nil
  from Nil.prems(2) [of "[]"] show ?case by (auto simp: fresh_codes_def intro: wp_rules)
next
  case (Cons h hs)
  have "wp (insertBackupCodes uid hs) Q d'" if "Q_CreateTOTPBackupCode uid h t d = (Inr (), d')" for t d'
  proof -
    let ?r = "\<lparr>bkp_ID = next_id bkp_ID (backup_codes d), bkp_UserID = uid, bkp_CodeHash = h,
      bkp_UsedAt = None, bkp_CreatedAt = t\<rparr>"
    from that have d': "d' = d\<lparr>backup_codes := backup_codes d @ [?r]\<rparr>"
      by (auto simp: Q_CreateTOTPBackupCode_def split: if_splits)
    have "Q (Inr ()) (d'\<lparr>backup_codes := backup_codes d' @ rows\<rparr>)" if "fresh_codes uid hs rows" for rows
      using Cons.prems(2) [of "?r # rows"] that by (simp add: fresh_codes_def d')
    with Cons.prems(1) show ?thesis by (intro Cons.IH)
  qed
  moreover have "failed e" if "Q_CreateTOTPBackupCode uid h t d = (Inl e, d')" for t e d'
    using that by (auto simp: Q_CreateTOTPBackupCode_def split: if_splits)
  ultimately show ?case
    unfolding insertBackupCodes.simps
    by (intro wp_rules) (auto simp: wrap_err_eq_Inl intro!: Cons.prems(1))
qed

definition enable_db :: "int \<Rightarrow> time \<Rightarrow> backup_row list \<Rightarrow> db \<Rightarrow> db" where
  "enable_db uid now rows d =
     d\<lparr>totps := update_where (\<lambda>r. totp_UserID r = uid \<and> totp_EnabledAt r = None)
          (\<lambda>r. r\<lparr>totp_EnabledAt := Some now\<rparr>) (totps d),
       backup_codes := filter (\<lambda>r. bkp_UserID r \<noteq> uid) (backup_codes d) @ rows\<rparr>"

lemma wp_store_EnableTOTP:
  assumes "\<And>e. Q (Inl e) d"
    and "\<And>rows. fresh_codes uid hashes rows \<Longrightarrow> Q (Inr ()) (enable_db uid now rows d)"
  shows "wp (store_EnableTOTPWithBackupCodes uid now hashes) Q d"
proof -
  have insert: "wp (insertBackupCodes uid hashes)
      (\<lambda>r d''. case r of Inl e \<Rightarrow> Q (Inl e) d | Inr x \<Rightarrow> Q (Inr x) d'') d'"
    if "d' = enable_db uid now [] d" for d'
    using assms(2) that by (intro wp_insertBackupCodes) (auto simp: assms(1) enable_db_def)
  show ?thesis
    unfolding store_EnableTOTPWithBackupCodes_def
    by (intro wp_rules insert)
      (auto simp: Q_EnableTOTP_def Q_DeleteTOTPBackupCodesByUserID_def Let_def enable_db_def intro: assms(1))
qed

lemma ConfirmTOTPSetup_spends:
  "wp (ConfirmTOTPSetup L s uid input)
     (\<lambda>r d'. case r of
        Inl e \<Rightarrow> d' = d \<or> (\<exists>secr. totp_spent L secr uid input d d')
      | Inr codes \<Rightarrow> length codes = totpBackupCodeCount \<and>
          (\<exists>row secr d1 now rows. row \<in> set (totps d) \<and> totp_UserID row = uid \<and> totp_EnabledAt row = None \<and>
             decrypt L (svc_totpSecretKey s) (totp_Secret row) = Inr secr \<and> totp_spent L secr uid input d d1 \<and>
             fresh_codes uid (map (\<lambda>k. hashBackupCode L k (svc_backupCodeKey s)) codes) rows \<and>
             d' = enable_db uid now rows d1)) d"
  unfolding ConfirmTOTPSetup_def
  by (intro wp_rules wp_store_GetTOTP wp_verifyTOTPCode wp_generateBackupCodes wp_store_EnableTOTP;
      (simp; fail)?)
    (auto simp: totpRecordFromDB_def, blast+)

text \<open>
  C16: confirming the setup of the second factor succeeds only for a pending setup and with the code
  that its secret gives for a time step newer than the last one recorded for the account; it records that
  step, enables the factor, replaces all backup codes of the account by eight fresh ones and returns
  eight codes whose hashes are the stored ones.  A failure enables nothing: at most such a time step is
  recorded as used.
\<close>

theorem ConfirmTOTPSetup_wp:
  "wp (ConfirmTOTPSetup L s uid input)
     (\<lambda>r d'. case r of
        Inl e \<Rightarrow> d' = d \<or> (\<exists>secr. totp_spent L secr uid input d d')
      | Inr codes \<Rightarrow> length codes = totpBackupCodeCount \<and>
          (\<exists>row secr c used now rows. row \<in> set (totps d) \<and> totp_UserID row = uid \<and> totp_EnabledAt row = None \<and>
             decrypt L (svc_totpSecretKey s) (totp_Secret row) = Inr secr \<and>
             lib_GenerateCode L secr (c * totp_period) = Some (TrimSpace input) \<and>
             used \<in> set (totps d) \<and> totp_UserID used = uid \<and>
             (case totp_LastUsedCounter used of None \<Rightarrow> True | Some past \<Rightarrow> past < c) \<and>
             fresh_codes uid (map (\<lambda>k. hashBackupCode L k (svc_backupCodeKey s)) codes) rows \<and>
             d' = enable_db uid now rows (claim_db uid c d))) d"
proof (rule wp_mono [OF ConfirmTOTPSetup_spends], goal_cases)
  case (1 r d')
  then show ?case
    by (cases r) (simp add: totp_spent_def, simp add: totp_spent_def counter_free_def, elim conjE exE,
        intro conjI exI, assumption+, simp)
qed

end
