(* ===== verification/Reliable_Runs.thy ===== *)
theory Reliable_Runs
  imports Database
begin

text \<open>
  Runs in a world in which the driver and the random source do not fail.  \<open>live m Q d\<close> is the
  counterpart of \<open>wp\<close> for such runs: it is by these rules that the development proves that an
  operation does succeed, not only what holds if it does.  \<open>live_in T m Q d\<close> is the same when every
  reading of the clock is in the set \<open>T\<close>, so that what an operation stores can be tied to its clock.
\<close>

definition reliable :: "world \<Rightarrow> bool" where
  "reliable w \<longleftrightarrow> wfault w = (\<lambda>_. False) \<and> (\<forall>n. wrand w n \<noteq> None)"

lemma reliable_updates [simp]:
  "reliable (w\<lparr>wclock := c\<rparr>) \<longleftrightarrow> reliable w"
  "reliable (w\<lparr>wdb := d\<rparr>) \<longleftrightarrow> reliable w"
  "reliable w \<Longrightarrow> reliable (w\<lparr>wfault := \<lambda>n. False\<rparr>)"
  "reliable w \<Longrightarrow> reliable (w\<lparr>wclock := c, wfault := \<lambda>n. False\<rparr>)"
  "reliable w \<Longrightarrow> reliable (w\<lparr>wrand := \<lambda>k. wrand w (Suc k)\<rparr>)"
  by (simp_all add: reliable_def)

lemma reliable_fault [simp]: "reliable w \<Longrightarrow> wfault w n = False"
  by (simp add: reliable_def)

lemma reliable_rand: "reliable w \<Longrightarrow> \<exists>f. wrand w n = Some f"
  by (simp add: reliable_def)

definition steady :: "time set \<Rightarrow> world \<Rightarrow> bool" where
  "steady T w \<longleftrightarrow> reliable w \<and> (\<forall>n. wclock w n \<in> T)"

lemma steady_UNIV [simp]: "steady UNIV w \<longleftrightarrow> reliable w"
  by (simp add: steady_def)

lemma steady_reliable: "steady T w \<Longrightarrow> reliable w"
  by (simp add: steady_def)

definition live_in :: "time set \<Rightarrow> (world, 'a) state \<Rightarrow> ('a \<Rightarrow> db \<Rightarrow> bool) \<Rightarrow> db \<Rightarrow> bool" where
  "live_in T m Q d \<longleftrightarrow> (\<forall>w. steady T w \<longrightarrow> wdb w = d \<longrightarrow>
     (case run_state m w of (r, w') \<Rightarrow> Q r (wdb w') \<and> steady T w'))"

abbreviation live :: "(world, 'a) state \<Rightarrow> ('a \<Rightarrow> db \<Rightarrow> bool) \<Rightarrow> db \<Rightarrow> bool" where
  "live \<equiv> live_in UNIV"

named_theorems live_rules \<open>rules for runs in a reliable world\<close>

lemma live_inI:
  "(\<And>w r w'. steady T w \<Longrightarrow> wdb w = d \<Longrightarrow> run_state m w = (r, w') \<Longrightarrow> Q r (wdb w') \<and> steady T w') \<Longrightarrow> live_in T m Q d"
  by (auto simp: live_in_def)

lemma live_primitiveI:
  "(\<And>w. steady T w \<Longrightarrow> wdb w = d \<Longrightarrow>
      Q (fst (run_state m w)) (wdb (snd (run_state m w))) \<and> steady T (snd (run_state m w))) \<Longrightarrow> live_in T m Q d"
  by (simp add: live_in_def case_prod_unfold)

lemma live_inD:
  "live_in T m Q (wdb w) \<Longrightarrow> steady T w \<Longrightarrow> run_state m w = (r, w') \<Longrightarrow> Q r (wdb w')"
  "live_in T m Q (wdb w) \<Longrightarrow> steady T w \<Longrightarrow> run_state m w = (r, w') \<Longrightarrow> steady T w'"
  by (auto simp: live_in_def)

lemma liveD:
  "live m Q (wdb w) \<Longrightarrow> reliable w \<Longrightarrow> run_state m w = (r, w') \<Longrightarrow> Q r (wdb w')"
  "live m Q (wdb w) \<Longrightarrow> reliable w \<Longrightarrow> run_state m w = (r, w') \<Longrightarrow> reliable w'"
  using live_inD [of UNIV m Q w r w'] by simp_all

lemma live_mono:
  assumes "live_in T m P d" and "\<And>r d'. P r d' \<Longrightarrow> Q r d'"
  shows "live_in T m Q d"
proof (rule live_inI)
  fix w r w'
  assume "steady T w" "wdb w = d" "run_state m w = (r, w')"
  with assms(1) have "P r (wdb w')" "steady T w'" by (auto dest: live_inD)
  with assms(2) show "Q r (wdb w') \<and> steady T w'" by blast
qed

lemma live_ret [live_rules]: "Q x d \<Longrightarrow> live_in T (ret x) Q d"
  by (simp add: live_in_def)

lemma live_bind [live_rules]:
  assumes "live_in T m (\<lambda>x. live_in T (f x) Q) d"
  shows "live_in T (State_Monad.bind m f) Q d"
proof (rule live_inI)
  fix w r w'
  assume w: "steady T w" "wdb w = d" "run_state (State_Monad.bind m f) w = (r, w')"
  from w(3) obtain x w1 where m: "run_state m w = (x, w1)" and f: "run_state (f x) w1 = (r, w')"
    unfolding run_bind_iff by blast
  from assms w(1,2) m have "live_in T (f x) Q (wdb w1)" "steady T w1" by (auto dest: live_inD)
  with f show "Q r (wdb w') \<and> steady T w'" by (auto dest: live_inD)
qed

lemma live_try_op [live_rules]:
  "live_in T m (\<lambda>r d'. case r of Inl e \<Rightarrow> Q (Inl e) d' | Inr x \<Rightarrow> live_in T (f x) Q d') d \<Longrightarrow> live_in T (try_op m f) Q d"
  unfolding try_op_def
  by (rule live_bind, erule live_mono) (auto intro: live_ret split: sum.splits)

lemma live_wrapped [live_rules]:
  "live_in T m (\<lambda>r d'. Q (wrap_err msg r) d') d \<Longrightarrow> live_in T (wrapped msg m) Q d"
  unfolding wrapped_def by (rule live_bind, erule live_mono) (auto intro: live_ret)

lemma live_time_now [live_rules]: "(\<And>t. t \<in> T \<Longrightarrow> Q t d) \<Longrightarrow> live_in T time_now Q d"
  by (rule live_primitiveI) (auto simp: run_time_now steady_def)

lemma live_rand_Read [live_rules]:
  assumes "\<And>b. length b = n \<Longrightarrow> Q (Inr b) d"
  shows "live_in T (rand_Read n) Q d"
proof (rule live_primitiveI)
  fix w
  assume w: "steady T w" "wdb w = d"
  from reliable_rand [OF steady_reliable [OF w(1)]] obtain f where "wrand w 0 = Some f" by blast
  with w assms [of "map f [0..<n]"]
  show "Q (fst (run_state (rand_Read n) w)) (wdb (snd (run_state (rand_Read n) w))) \<and>
      steady T (snd (run_state (rand_Read n) w))"
    by (simp add: run_rand_Read steady_def)
qed

lemma live_exec [live_rules]:
  assumes "\<And>t r d'. q t d = (r, d') \<Longrightarrow> Q r d'"
  shows "live_in T (exec q) Q d"
proof (rule live_inI)
  fix w r w'
  assume w: "steady T w" "wdb w = d" "run_state (exec q) w = (r, w')"
  obtain x d' where "q (current_timestamp (wclock w 0)) d = (x, d')" by fastforce
  with w assms [OF this] show "Q r (wdb w') \<and> steady T w'" by (auto simp: run_exec Let_def steady_def)
qed

lemma live_withTx [live_rules]:
  assumes "live_in T fn (\<lambda>r d'. case r of Inl e \<Rightarrow> Q (Inl e) d | Inr x \<Rightarrow> Q (Inr x) d') d"
  shows "live_in T (withTx oper fn) Q d"
proof (rule live_inI)
  fix w r w'
  assume w: "steady T w" "wdb w = d" "run_state (withTx oper fn) w = (r, w')"
  let ?w = "w\<lparr>wfault := \<lambda>n. wfault w (Suc n)\<rparr>"
  obtain x w2 where fn: "run_state fn ?w = (x, w2)" by fastforce
  from w(1,2) have v: "steady T ?w" "wdb ?w = d" by (simp_all add: steady_def)
  from assms v(2) have "live_in T fn (\<lambda>r d'. case r of Inl e \<Rightarrow> Q (Inl e) d | Inr x \<Rightarrow> Q (Inr x) d') (wdb ?w)" by simp
  from live_inD [OF this v(1) fn]
  have "case x of Inl e \<Rightarrow> Q (Inl e) d | Inr y \<Rightarrow> Q (Inr y) (wdb w2)" "steady T w2" .
  with w fn show "Q r (wdb w') \<and> steady T w'"
    by (cases x) (auto simp: run_withTx Let_def steady_def)
qed

lemma live_if [live_rules]:
  "(b \<Longrightarrow> live_in T m Q d) \<Longrightarrow> (\<not> b \<Longrightarrow> live_in T n Q d) \<Longrightarrow> live_in T (if b then m else n) Q d"
  by simp

lemma live_case_sum [live_rules]:
  "(\<And>e. r = Inl e \<Longrightarrow> live_in T (f e) Q d) \<Longrightarrow> (\<And>x. r = Inr x \<Longrightarrow> live_in T (g x) Q d) \<Longrightarrow>
     live_in T (case r of Inl e \<Rightarrow> f e | Inr x \<Rightarrow> g x) Q d"
  by (cases r) simp_all

lemma live_case_option [live_rules]:
  "(r = None \<Longrightarrow> live_in T f Q d) \<Longrightarrow> (\<And>x. r = Some x \<Longrightarrow> live_in T (g x) Q d) \<Longrightarrow>
     live_in T (case r of None \<Rightarrow> f | Some x \<Rightarrow> g x) Q d"
  by (cases r) simp_all

lemma live_case_prod [live_rules]:
  "(\<And>x y. p = (x, y) \<Longrightarrow> live_in T (f x y) Q d) \<Longrightarrow> live_in T (case p of (x, y) \<Rightarrow> f x y) Q d"
  by (cases p) simp

lemma live_let [live_rules]: "live_in T (f x) Q d \<Longrightarrow> live_in T (let y = x in f y) Q d"
  by simp

lemmas [live_rules] = case_sumI ifI

end
