(* ===== verification/Second_Factor.thy ===== *)
theory Second_Factor
  imports TOTP_Claims Reliable_Runs
begin

text \<open>
  Properties of the second factor that span several calls: removal, replay of codes, single use of
  backup codes and their spellings, and the secret at rest.
\<close>

section \<open>Removal\<close>

lemma filter_update_where:
  "(\<And>r. p r \<Longrightarrow> \<not> q r \<and> \<not> q (f r)) \<Longrightarrow> filter q (update_where p f rows) = filter q rows"
  by (induction rows) (auto simp: update_where_def)

definition removed_factors :: "int \<Rightarrow> db \<Rightarrow> db" where
  "removed_factors uid d = d\<lparr>backup_codes := filter (\<lambda>c. bkp_UserID c \<noteq> uid) (backup_codes d),
     totps := filter (\<lambda>r. totp_UserID r \<noteq> uid) (totps d)\<rparr>"

lemma in_update_whereE:
  assumes "r \<in> set (update_where p f rows)"
  obtains q where "q \<in> set rows" "r = (if p q then f q else q)"
  using assms unfolding set_update_where by blast

lemma claimed_rows:
  "totps (claim_db uid c d) = update_where (\<lambda>r. totp_UserID r = uid \<and> counter_free c r)
     (\<lambda>r. r\<lparr>totp_LastUsedCounter := Some c\<rparr>) (totps d)"
  "backup_codes (use_code_db uid h t d) =
     update_where (\<lambda>c. bkp_UserID c = uid \<and> bkp_CodeHash c = h \<and> bkp_UsedAt c = None)
       (\<lambda>c. c\<lparr>bkp_UsedAt := Some t\<rparr>) (backup_codes d)"
  by (simp_all add: claim_db_def use_code_db_def)

lemma filter_spent:
  "filter (\<lambda>r. totp_UserID r \<noteq> uid) (totps (claim_db uid c d)) = filter (\<lambda>r. totp_UserID r \<noteq> uid) (totps d)"
  "filter (\<lambda>r. bkp_UserID r \<noteq> uid) (backup_codes (use_code_db uid h t d)) =
     filter (\<lambda>r. bkp_UserID r \<noteq> uid) (backup_codes d)"
  unfolding claimed_rows by (rule filter_update_where, simp)+

lemma removed_after_spent:
  "factor_spent L s secr uid input d d' \<Longrightarrow> removed_factors uid d' = removed_factors uid d"
  by (auto simp: factor_spent_def totp_spent_def backup_spent_def removed_factors_def filter_spent)
    (simp_all add: claim_db_def use_code_db_def)

lemma wp_store_DeleteTOTP:
  assumes "\<And>e. Q (Inl e) d" and "Q (Inr ()) (removed_factors uid d)"
  shows "wp (store_DeleteTOTPAndBackupCodes uid) Q d"
  unfolding store_DeleteTOTPAndBackupCodes_def
  by (intro wp_rules) (use assms in \<open>auto simp: Q_DeleteTOTPByUserID_def
      Q_DeleteTOTPBackupCodesByUserID_def removed_factors_def\<close>)

text \<open>
  C17: the second factor of an account is removed only when a factor of that account was given: a
  code of a fresh time step or an unused backup code.  Removal deletes exactly the TOTP row and the
  backup codes of that account; a failure removes nothing.
\<close>

theorem DisableTOTP_wp:
  "wp (DisableTOTP L s uid input)
     (\<lambda>r d'. case r of
        Inl e \<Rightarrow> d' = d \<or> (\<exists>secr. factor_spent L s secr uid input d d')
      | Inr _ \<Rightarrow> d' = removed_factors uid d \<and>
          (\<exists>secr d1. enabled_secret L s uid secr d \<and> factor_spent L s secr uid input d d1)) d"
  unfolding DisableTOTP_def
  by (intro wp_rules wp_store_GetEnabledTOTP wp_verifyFactor wp_store_DeleteTOTP; (simp; fail)?)
    (auto simp: totpRecordFromDB_def enabled_secret_def removed_after_spent, blast)

section \<open>Regeneration of the backup codes\<close>

definition replace_codes_db :: "int \<Rightarrow> backup_row list \<Rightarrow> db \<Rightarrow> db" where
  "replace_codes_db uid rows d =
     d\<lparr>backup_codes := filter (\<lambda>r. bkp_UserID r \<noteq> uid) (backup_codes d) @ rows\<rparr>"

lemma wp_store_ReplaceBackupCodes:
  assumes "\<And>e. Q (Inl e) d"
    and "\<And>rows. fresh_codes uid hashes rows \<Longrightarrow> Q (Inr ()) (replace_codes_db uid rows d)"
  shows "wp (store_ReplaceBackupCodes uid hashes) Q d"
proof -
  have insert: "wp (insertBackupCodes uid hashes)
      (\<lambda>r d''. case r of Inl e \<Rightarrow> Q (Inl e) d | Inr x \<Rightarrow> Q (Inr x) d'') d'"
    if "d' = replace_codes_db uid [] d" for d'
    using assms(2) that by (intro wp_insertBackupCodes) (auto simp: assms(1) replace_codes_db_def)
  show ?thesis
    unfolding store_ReplaceBackupCodes_def
    by (intro wp_rules insert)
      (auto simp: Q_DeleteTOTPBackupCodesByUserID_def replace_codes_db_def intro: assms(1))
qed

text \<open>
  Regenerating the backup codes needs a factor of the account; it then leaves exactly the eight
  codes it returns as the unused codes of that account (every earlier code is deleted, used or
  not), and changes the codes of nobody else.
\<close>

theorem RegenerateBackupCodes_wp:
  "wp (RegenerateBackupCodes L s uid input)
     (\<lambda>r d'. case r of
        Inl e \<Rightarrow> d' = d \<or> (\<exists>secr. factor_spent L s secr uid input d d')
      | Inr codes \<Rightarrow> length codes = totpBackupCodeCount \<and>
          (\<exists>secr d1 rows. enabled_secret L s uid secr d \<and> factor_spent L s secr uid input d d1 \<and>
             fresh_codes uid (map (\<lambda>k. hashBackupCode L k (svc_backupCodeKey s)) codes) rows \<and>
             d' = replace_codes_db uid rows d1)) d"
  unfolding RegenerateBackupCodes_def
  by (intro wp_rules wp_store_GetEnabledTOTP wp_verifyFactor wp_generateBackupCodes
      wp_store_ReplaceBackupCodes; (simp; fail)?)
    (auto simp: totpRecordFromDB_def enabled_secret_def, blast+)

section \<open>Replay\<close>

lemma claim_db_counter:
  assumes "uq_ok totp_UserID (totps d)" and "row \<in> set (totps d)" and "totp_UserID row = uid"
    and "counter_free c row" and "r \<in> set (totps (claim_db uid c d))" and "totp_UserID r = uid"
  shows "totp_LastUsedCounter r = Some c"
proof -
  from assms(5) obtain q where q: "q \<in> set (totps d)"
    and r: "r = (if totp_UserID q = uid \<and> counter_free c q then q\<lparr>totp_LastUsedCounter := Some c\<rparr> else q)"
    unfolding claimed_rows by (rule in_update_whereE)
  from r assms(6) have "totp_UserID q = uid" by (simp split: if_splits)
  with assms(1-3) q have "q = row" unfolding uq_ok_def by (metis distinct_map_eq)
  with r assms(3,4) show ?thesis by simp
qed

lemma verifyTOTPCode_run:
  assumes "run_state (verifyTOTPCode L record input) w = (Inr True, w')"
  shows "totp_spent L (tr_Secret record) (tr_UserID record) input (wdb w) (wdb w')"
proof -
  have "wp (verifyTOTPCode L record input)
    (\<lambda>r d'. r = Inr True \<longrightarrow> totp_spent L (tr_Secret record) (tr_UserID record) input (wdb w) d') (wdb w)"
    by (rule wp_verifyTOTPCode) auto
  from wpD [OF this assms] show ?thesis by simp
qed

text \<open>
  C15: a time step is accepted at most once.  Two successful verifications of an authenticator code
  of the same account, the second from the database the first left, matched codes of two different
  time steps, the second strictly later; the code just used cannot be replayed in its own window.
\<close>

theorem totp_no_replay:
  assumes "db_inv (wdb w)" and "run_state (verifyTOTPCode L record input) w = (Inr True, w')"
    and "wdb v = wdb w'" and "run_state (verifyTOTPCode L record input') v = (Inr True, v')"
  shows "\<exists>c c'. c < c' \<and>
    lib_GenerateCode L (tr_Secret record) (c * totp_period) = Some (TrimSpace input) \<and>
    lib_GenerateCode L (tr_Secret record) (c' * totp_period) = Some (TrimSpace input') \<and>
    wdb w' = claim_db (tr_UserID record) c (wdb w) \<and> wdb v' = claim_db (tr_UserID record) c' (wdb v)"
proof -
  obtain c row where c: "row \<in> set (totps (wdb w))" "totp_UserID row = tr_UserID record" "counter_free c row"
    "lib_GenerateCode L (tr_Secret record) (c * totp_period) = Some (TrimSpace input)"
    "wdb w' = claim_db (tr_UserID record) c (wdb w)"
    using verifyTOTPCode_run [OF assms(2)] unfolding totp_spent_def by blast
  obtain c' row' where c': "row' \<in> set (totps (wdb v))" "totp_UserID row' = tr_UserID record"
    "counter_free c' row'" "lib_GenerateCode L (tr_Secret record) (c' * totp_period) = Some (TrimSpace input')"
    "wdb v' = claim_db (tr_UserID record) c' (wdb v)"
    using verifyTOTPCode_run [OF assms(4)] unfolding totp_spent_def by blast
  have "totp_LastUsedCounter row' = Some c"
    using assms(1,3) c c' by (intro claim_db_counter [of "wdb w" row]) (auto simp: db_inv_def)
  with c'(3) have "c < c'" by (simp add: counter_free_def)
  with c c' show ?thesis by blast
qed

text \<open>
  A backup code works once: after it was consumed for an account, consuming it again for that
  account reports that no unused code matched and changes nothing, whenever it is tried.
\<close>

theorem backup_code_single_use:
  assumes "run_state (store_ConsumeTOTPBackupCode uid h t) w = (Inr True, w')"
    and "wdb v = wdb w'" and "run_state (store_ConsumeTOTPBackupCode uid h t') v = (Inr b, v')"
  shows "\<not> b \<and> wdb v' = wdb v"
proof -
  have "wp (store_ConsumeTOTPBackupCode uid h t) (\<lambda>r d'. r = Inr True \<longrightarrow> d' = use_code_db uid h t (wdb w)) (wdb w)"
    by (rule wp_ConsumeTOTPBackupCode) auto
  from wpD [OF this assms(1)] have w': "wdb w' = use_code_db uid h t (wdb w)" by simp
  have used: "\<not> (bkp_UserID bc = uid \<and> bkp_CodeHash bc = h \<and> bkp_UsedAt bc = None)"
    if "bc \<in> set (backup_codes (wdb v))" for bc
  proof -
    from that obtain q where "bc = (if bkp_UserID q = uid \<and> bkp_CodeHash q = h \<and> bkp_UsedAt q = None
        then q\<lparr>bkp_UsedAt := Some t\<rparr> else q)"
      unfolding assms(2) w' claimed_rows by (rule in_update_whereE)
    then show ?thesis by (cases "bkp_UserID q = uid \<and> bkp_CodeHash q = h \<and> bkp_UsedAt q = None") simp_all
  qed
  have "wp (store_ConsumeTOTPBackupCode uid h t') (\<lambda>r d'. \<not> (r = Inr True) \<and> d' = wdb v) (wdb v)"
    by (rule wp_ConsumeTOTPBackupCode) (auto dest: used)
  from wpD [OF this assms(3)] show ?thesis by (cases b) auto
qed

section \<open>Spellings of a backup code\<close>

lemma upper_hex_char:
  assumes "c \<in> set (hex_encode b)"
  shows "is_ascii c" "is_ascii (upper_char c)" "c \<noteq> CHR ''-''" "upper_char c \<noteq> CHR ''-''"
    "visible c" "visible (upper_char c)"
proof -
  have "code (upper_char c) = (if 97 \<le> code c then code c - 32 else code c)"
    using hex_encode_range [OF assms] by (auto simp: upper_char_def)
  then have upper: "48 \<le> code (upper_char c)" "code (upper_char c) < 127"
    using hex_encode_range [OF assms] by auto
  have dash: "x \<noteq> CHR ''-''" if "48 \<le> code x" for x
    using that by (cases "x = CHR ''-''") simp_all
  from upper(1) show "upper_char c \<noteq> CHR ''-''" by (rule dash)
  from hex_encode_range [OF assms] show "c \<noteq> CHR ''-''" by (intro dash) simp
  from upper hex_encode_range [OF assms]
  show "is_ascii c" "is_ascii (upper_char c)" "visible c" "visible (upper_char c)"
    by (auto simp: is_ascii_def visible_def)
qed

lemma remove_spaces_visible: "list_all visible s \<Longrightarrow> remove_spaces s = s"
  by (induction s) (simp_all add: remove_spaces.simps strip_one_none)

lemma take_drop_groups:
  assumes "length raw = 32"
  shows "take 8 raw @ take 8 (drop 8 raw) @ take 8 (drop 16 raw) @ take 8 (drop 24 raw) = raw"
proof -
  have split: "drop n raw = take 8 (drop n raw) @ drop (n + 8) raw" for n
    by (metis append_take_drop_id drop_drop add.commute)
  show ?thesis using split [of 0] split [of 8] split [of 16] split [of 24] assms by simp
qed

text \<open>
  C18: a backup code may be typed as it was shown, in groups joined by dashes and in capitals, or as
  the plain lower-case digits: both spellings have the hash that was stored.
\<close>

theorem backup_code_spellings:
  assumes "length b = 16"
  shows "hashBackupCode L (formatBackupCode L b) key = hashBackupCode L (hex_encode b) key"
proof -
  let ?raw = "map upper_char (hex_encode b)"
  have raw: "ToUpper L (hex_encode b) = ?raw"
    using upper_hex_char(1) by (auto simp: ToUpper_def list_all_iff)
  have vis: "list_all visible (take n (drop m ?raw))" for n m
    using upper_hex_char(6) by (auto simp: list_all_iff dest!: in_set_takeD in_set_dropD)
  have dash: "c \<noteq> CHR ''-''" if "c \<in> set ?raw" for c
    using that upper_hex_char(4) by (metis imageE set_map)
  have keep: "filter (\<lambda>c. c \<noteq> CHR ''-'') (take n (drop m ?raw)) = take n (drop m ?raw)" for n m
    using dash by (auto simp only: filter_id_conv dest!: in_set_takeD in_set_dropD)
  have fmt: "formatBackupCode L b = take 8 (drop 0 ?raw) @ ''-'' @ take 8 (drop 8 ?raw) @ ''-'' @
      take 8 (drop 16 ?raw) @ ''-'' @ take 8 (drop 24 ?raw)"
    by (simp add: formatBackupCode_def raw Let_def)
  have "visible (CHR ''-'')" by (simp add: visible_def)
  then have "remove_spaces (formatBackupCode L b) = formatBackupCode L b"
    using vis [of 8 0] unfolding fmt by (intro remove_spaces_visible) (simp add: vis)
  then have "filter (\<lambda>c. c \<noteq> CHR ''-'') (remove_spaces (formatBackupCode L b)) =
      take 8 ?raw @ take 8 (drop 8 ?raw) @ take 8 (drop 16 ?raw) @ take 8 (drop 24 ?raw)"
    using keep [of _ 0] unfolding fmt by (simp add: keep del: take_map drop_map)
  also have "\<dots> = ?raw" using assms by (intro take_drop_groups) simp
  finally have "normaliseBackupCode L (formatBackupCode L b) = ToUpper L ?raw"
    by (simp only: normaliseBackupCode_def)
  also have "\<dots> = ?raw"
    using upper_hex_char(2) by (auto simp: ToUpper_def list_all_iff)
  also have "\<dots> = normaliseBackupCode L (hex_encode b)"
  proof -
    have "remove_spaces (hex_encode b) = hex_encode b"
      using upper_hex_char(5) by (intro remove_spaces_visible) (auto simp: list_all_iff)
    moreover have "filter (\<lambda>c. c \<noteq> CHR ''-'') (hex_encode b) = hex_encode b"
      using upper_hex_char(3) by (auto simp: filter_id_conv)
    ultimately show ?thesis by (simp only: normaliseBackupCode_def raw)
  qed
  finally show ?thesis by (simp add: hashBackupCode_def)
qed

theorem backup_code_spellings_witness:
  "hashBackupCode ex_libs (formatBackupCode ex_libs (replicate 16 (CHR 0xAB))) (replicate 32 (CHR ''b'')) =
   hashBackupCode ex_libs (hex_encode (replicate 16 (CHR 0xAB))) (replicate 32 (CHR ''b''))"
  by (rule backup_code_spellings) simp

section \<open>The secret at rest\<close>

definition pending_secret :: "libs \<Rightarrow> AuthService \<Rightarrow> int \<Rightarrow> string \<Rightarrow> db \<Rightarrow> bool" where
  "pending_secret L s uid secr d \<longleftrightarrow> uid \<in> totp_UserID ` set (totps d) \<and>
     list_all (\<lambda>r. totp_UserID r = uid \<longrightarrow> totp_EnabledAt r = None \<and>
       decrypt L (svc_totpSecretKey s) (totp_Secret r) = Inr secr) (totps d)"

lemma pending_upsert:
  assumes "Q_UpsertPendingTOTP uid c t d = (Inr (), d')"
    and "decrypt L (svc_totpSecretKey s) c = Inr secr"
  shows "users d' = users d \<and> pending_secret L s uid secr d'"
proof (cases "uid \<in> totp_UserID ` set (totps d)")
  case True
  let ?upd = "update_where (\<lambda>r. totp_UserID r = uid) (\<lambda>r. r\<lparr>totp_Secret := c, totp_EnabledAt := None\<rparr>) (totps d)"
  from True assms(1) have d': "d' = d\<lparr>totps := ?upd\<rparr>" by (simp add: Q_UpsertPendingTOTP_def)
  have "totp_UserID ` set ?upd = totp_UserID ` set (totps d)" by (rule image_update_where) simp
  with True assms(2) show ?thesis
    by (auto simp: d' pending_secret_def list_all_iff elim!: in_update_whereE split: if_splits)
next
  case False
  let ?row = "\<lparr>totp_ID = next_id totp_ID (totps d), totp_UserID = uid, totp_Secret = c,
    totp_EnabledAt = None, totp_CreatedAt = t, totp_LastUsedCounter = None\<rparr>"
  from assms(1) False have "d' = d\<lparr>totps := totps d @ [?row]\<rparr>"
    by (simp add: Q_UpsertPendingTOTP_def split: if_splits)
  with assms(2) False show ?thesis
    by (simp add: pending_secret_def) (auto simp: list_all_iff)
qed

lemma upsert_fails: "Q_UpsertPendingTOTP uid c t d = (Inl e, d') \<Longrightarrow> failed e \<and> d' = d"
  by (auto simp: Q_UpsertPendingTOTP_def split: if_splits)

lemma wp_store_UpsertPendingTOTP:
  assumes "\<And>e. failed e \<Longrightarrow> Q (Inl e) d"
    and "\<And>d'. users d' = users d \<Longrightarrow> pending_secret L s uid secr d' \<Longrightarrow> Q (Inr ()) d'"
    and "aead_correct L"
  shows "wp (store_UpsertPendingTOTP L (svc_totpSecretKey s) uid secr) Q d"
proof -
  have stored: "Q (wrap_err m r) d'"
    if "Q_UpsertPendingTOTP uid c t d = (r, d')" "decrypt L (svc_totpSecretKey s) c = Inr secr" for r d' c t m
  proof (cases r)
    case (Inl e)
    with that upsert_fails [of uid c t d e d'] show ?thesis by (auto intro!: assms(1))
  next
    case (Inr u)
    with that pending_upsert [of uid c t d d'] show ?thesis by (auto intro!: assms(2))
  qed
  show ?thesis
    unfolding store_UpsertPendingTOTP_def
    by (intro wp_rules wp_encrypt) (auto simp: assms(3) intro!: assms(1) stored)
qed

text \<open>
  The secret shown while the setup is pending is the one that was generated: after
  \<^verbatim>\<open>BeginTOTPSetup\<close> returned a secret and its URI, \<^verbatim>\<open>GetTOTPSetupInfo\<close> decrypts the stored row
  and returns the same pair.
\<close>

theorem totp_secret_roundtrip:
  assumes "db_inv (wdb w)" and "aead_correct L"
    and "run_state (BeginTOTPSetup L s uid) w = (Inr (secr, uri), w')"
    and "wdb v = wdb w'" and "reliable v"
  shows "fst (run_state (GetTOTPSetupInfo L s uid) v) = Inr (secr, uri)"
proof -
  have "wp (BeginTOTPSetup L s uid)
     (\<lambda>r d'. case r of Inl e \<Rightarrow> True
      | Inr (secr, uri) \<Rightarrow> \<exists>row. row \<in> set (users (wdb w)) \<and> usr_ID row = uid \<and> users d' = users (wdb w) \<and>
          uri = BuildURI (svc_totpIssuer s) (usr_Email row) secr \<and> pending_secret L s uid secr d') (wdb w)"
    unfolding BeginTOTPSetup_def generateTOTPSecret_def
    by (intro wp_rules wp_store_GetUserByID wp_store_GetTOTP wp_store_UpsertPendingTOTP;
        (simp add: assms(2); fail)?)
      (fastforce simp: row_conversions)+
  from wpD [OF this assms(3)] obtain row where row: "row \<in> set (users (wdb w))" "usr_ID row = uid"
    and users: "users (wdb v) = users (wdb w)" and uri: "uri = BuildURI (svc_totpIssuer s) (usr_Email row) secr"
    and pend: "pending_secret L s uid secr (wdb v)"
    by (auto simp: assms(4))
  have find_user: "find (\<lambda>r. usr_ID r = uid) (users (wdb v)) = Some row"
    using row assms(1) by (simp add: users db_inv_def pk_ok_def find_unique)
  obtain r where r: "find (\<lambda>r. totp_UserID r = uid) (totps (wdb v)) = Some r"
    using pend by (cases "find (\<lambda>r. totp_UserID r = uid) (totps (wdb v))")
      (auto simp: pending_secret_def)
  from find_eq_Some [OF r] pend have "totp_EnabledAt r = None"
    "decrypt L (svc_totpSecretKey s) (totp_Secret r) = Inr secr"
    by (auto simp: pending_secret_def list_all_iff)
  then have "live (GetTOTPSetupInfo L s uid) (\<lambda>res d'. res = Inr (secr, uri)) (wdb v)"
    unfolding GetTOTPSetupInfo_def on_no_rows_def store_GetUserByID_def store_GetTOTPByUserID_def
    by (intro live_rules) (auto simp: Q_GetUserByID_def Q_GetTOTPByUserID_def one_row_def find_user r
        decryptRecord_def totpRecordFromDB_def row_conversions uri)
  from liveD [OF this assms(5)] show ?thesis by (metis prod.collapse)
qed

section \<open>Instances\<close>

definition ex_totp_db :: db where
  "ex_totp_db = ex_db\<lparr>totps := [\<lparr>totp_ID = 1, totp_UserID = 1,
     totp_Secret = b64_encode std_alphabet (replicate 12 (CHR 0x01)), totp_EnabledAt = Some 0,
     totp_CreatedAt = 0, totp_LastUsedCounter = None\<rparr>]\<rparr>"

definition ex_record :: TOTPRecord where
  "ex_record = totpRecordFromDB \<lparr>totp_ID = 1, totp_UserID = 1, totp_Secret = ''S'', totp_EnabledAt = Some 0,
     totp_CreatedAt = 0, totp_LastUsedCounter = None\<rparr>"

definition ex_later :: "db \<Rightarrow> world" where
  "ex_later d = (ex_world d)\<lparr>wclock := \<lambda>_. 2000 * second\<rparr>"

lemma ex_code_trim [simp]: "TrimSpace ''123456'' = ''123456''"
  by (rule TrimSpace_visible) (simp add: visible_def)

lemma ex_verify:
  "run_state (verifyTOTPCode ex_libs ex_record ''123456'') (ex_world ex_totp_db) =
     (Inr True, ex_world (claim_db 1 32 ex_totp_db))"
  by (simp add: verifyTOTPCode_def VerifyWithCounter_def Let_def totp_digits_def ex_eval ex_now_def
      time_Unix_def go_quot_def second_def totp_period_def ex_libs_def ex_record_def totpRecordFromDB_def
      store_ClaimTOTPCounter_def Q_ClaimTOTPCounter_def claim_db_def ex_totp_db_def affected_def
      counter_free_def)

lemma ex_verify_later:
  "\<exists>v'. run_state (verifyTOTPCode ex_libs ex_record ''123456'') (ex_later (claim_db 1 32 ex_totp_db)) =
     (Inr True, v')"
  by (simp add: verifyTOTPCode_def VerifyWithCounter_def Let_def totp_digits_def run_simps ex_later_def
      time_Unix_def go_quot_def second_def totp_period_def ex_libs_def ex_record_def totpRecordFromDB_def
      store_ClaimTOTPCounter_def Q_ClaimTOTPCounter_def claim_db_def ex_totp_db_def affected_def
      counter_free_def update_where_def)

theorem totp_no_replay_witness:
  "\<exists>v' c c'. run_state (verifyTOTPCode ex_libs ex_record ''123456'') (ex_later (claim_db 1 32 ex_totp_db)) =
     (Inr True, v') \<and> c < c' \<and> wdb v' = claim_db 1 c' (claim_db 1 32 ex_totp_db) \<and>
     claim_db 1 32 ex_totp_db = claim_db 1 c ex_totp_db"
proof -
  from ex_verify_later obtain v' where later:
    "run_state (verifyTOTPCode ex_libs ex_record ''123456'') (ex_later (claim_db 1 32 ex_totp_db)) = (Inr True, v')"
    by blast
  have inv: "db_inv (wdb (ex_world ex_totp_db))"
    by (simp add: ex_totp_db_def ex_db_def db_inv_def empty_db_def pk_ok_def uq_ok_def fk_ok_def)
  have uid: "tr_UserID ex_record = 1" by (simp add: ex_record_def totpRecordFromDB_def)
  from totp_no_replay [OF inv ex_verify _ later] later show ?thesis
    by (auto simp: ex_later_def uid)
qed

definition ex_code_db :: db where
  "ex_code_db = ex_db\<lparr>backup_codes := [\<lparr>bkp_ID = 1, bkp_UserID = 1, bkp_CodeHash = ''h'',
     bkp_UsedAt = None, bkp_CreatedAt = 0\<rparr>]\<rparr>"

theorem backup_code_single_use_witness:
  "(case run_state (store_ConsumeTOTPBackupCode 1 ''h'' 6) (ex_world (use_code_db 1 ''h'' 5 ex_code_db)) of
     (r, v') \<Rightarrow> r = Inr False \<and> wdb v' = use_code_db 1 ''h'' 5 ex_code_db)"
proof -
  have first: "run_state (store_ConsumeTOTPBackupCode 1 ''h'' 5) (ex_world ex_code_db) =
      (Inr True, ex_world (use_code_db 1 ''h'' 5 ex_code_db))"
    by (simp add: store_ConsumeTOTPBackupCode_def Q_ConsumeTOTPBackupCode_def ex_eval use_code_db_def
        ex_code_db_def affected_def)
  obtain b v' where second: "run_state (store_ConsumeTOTPBackupCode 1 ''h'' 6)
      (ex_world (use_code_db 1 ''h'' 5 ex_code_db)) = (Inr b, v')"
    by (simp add: store_ConsumeTOTPBackupCode_def Q_ConsumeTOTPBackupCode_def ex_eval)
  from backup_code_single_use [OF first refl second] second show ?thesis by simp
qed

theorem totp_secret_roundtrip_witness:
  "\<exists>secr uri w'. run_state (BeginTOTPSetup ex_libs ex_service 1) (ex_world ex_db) = (Inr (secr, uri), w') \<and>
     fst (run_state (GetTOTPSetupInfo ex_libs ex_service 1) (ex_world (wdb w'))) = Inr (secr, uri)"
proof -
  have "live (BeginTOTPSetup ex_libs ex_service 1) (\<lambda>r d'. \<exists>x. r = Inr x) ex_db"
    unfolding BeginTOTPSetup_def on_no_rows_def store_GetUserByID_def store_GetTOTPByUserID_def
      generateTOTPSecret_def store_UpsertPendingTOTP_def encrypt_def
    by (intro live_rules) (auto simp: Q_GetUserByID_def Q_GetTOTPByUserID_def one_row_def
        Q_UpsertPendingTOTP_def user_exists_def)
  moreover have rel: "reliable (ex_world d)" for d by (simp add: reliable_def ex_world_def)
  moreover obtain r w' where run: "run_state (BeginTOTPSetup ex_libs ex_service 1) (ex_world ex_db) = (r, w')"
    by fastforce
  ultimately obtain x where "r = Inr x" using liveD(1) [of _ _ "ex_world ex_db" r w'] by fastforce
  with run obtain secr uri where "run_state (BeginTOTPSetup ex_libs ex_service 1) (ex_world ex_db) = (Inr (secr, uri), w')"
    by (cases x) auto
  moreover from totp_secret_roundtrip [OF _ ex_libs_aead this _ rel] 
  have "fst (run_state (GetTOTPSetupInfo ex_libs ex_service 1) (ex_world (wdb w'))) = Inr (secr, uri)" by simp
  ultimately show ?thesis by blast
qed

end
