(* ===== verification/Projects.thy ===== *)
theory Projects
  imports Auth_Properties Reliable_Runs
begin

text \<open>
  The example feature (\<^verbatim>\<open>internal/project/project.go\<close>), and the contract of a delete that is scoped
  to its owner, which projects and passkeys share.
\<close>

section \<open>Rows deleted by key and owner\<close>

text \<open>
  \<open>query key owner\<close> is a statement \<^verbatim>\<open>DELETE FROM t WHERE id = ? AND user_id = ?\<close> that reports the
  number of rows.
\<close>

locale owned_delete =
  fixes rows :: "db \<Rightarrow> 'r list" and put :: "'r list \<Rightarrow> db \<Rightarrow> db"
    and key :: "'r \<Rightarrow> int" and owner :: "'r \<Rightarrow> int" and query :: "int \<Rightarrow> int \<Rightarrow> int query"
  assumes rows_put: "rows (put xs d) = xs"
    and put_rows: "put (rows d) d = d"
    and query_eq: "query k u now d =
      (Inr (affected (\<lambda>r. key r = k \<and> owner r = u) (rows d)),
       put (filter (\<lambda>r. \<not> (key r = k \<and> owner r = u)) (rows d)) d)"
begin

lemma no_error: "query k u now d \<noteq> (Inl e, d')"
  by (simp add: query_eq)

lemma miss_keeps:
  assumes "query k u now d = (Inr 0, d')"
  shows "d' = d"
proof -
  from assms have none: "\<forall>r \<in> set (rows d). \<not> (key r = k \<and> owner r = u)"
    by (simp add: query_eq affected_def filter_empty_conv)
  then have "filter (\<lambda>r. \<not> (key r = k \<and> owner r = u)) (rows d) = rows d"
    by (intro filter_True) blast
  with assms put_rows [of d] show ?thesis by (simp add: query_eq)
qed

lemma hit_is_owned:
  assumes "query k u now d = (Inr n, d')" and "n \<noteq> 0"
  shows "\<exists>r \<in> set (rows d). key r = k \<and> owner r = u"
  using assms by (auto simp: query_eq affected_def filter_empty_conv)

lemma others_kept:
  assumes "query k u now d = (Inr n, d')"
  shows "filter (\<lambda>r. owner r \<noteq> u) (rows d') = filter (\<lambda>r. owner r \<noteq> u) (rows d)"
proof -
  have "filter (\<lambda>r. owner r \<noteq> u) (filter (\<lambda>r. \<not> (key r = k \<and> owner r = u)) xs) =
      filter (\<lambda>r. owner r \<noteq> u) xs" for xs
    by (induction xs) auto
  with assms show ?thesis by (auto simp: query_eq rows_put)
qed

lemma second_misses:
  assumes "query k u now d = (Inr n, d')"
  shows "query k u now' d' = (Inr 0, d')"
  using assms put_rows [of d'] by (auto simp: query_eq affected_def rows_put filter_empty_conv)

end

interpretation prj: owned_delete projects "\<lambda>xs d. d\<lparr>projects := xs\<rparr>" prj_ID prj_UserID Q_DeleteProjectByIDAndUserID
  by unfold_locales (simp_all add: Q_DeleteProjectByIDAndUserID_def Let_def)

interpretation crd: owned_delete credentials "\<lambda>xs d. d\<lparr>credentials := xs\<rparr>" crd_ID crd_UserID
    Q_DeleteWebAuthnCredentialByIDAndUserID
  by unfold_locales (simp_all add: Q_DeleteWebAuthnCredentialByIDAndUserID_def Let_def)

section \<open>The service\<close>

definition ProjectNameMaxLength :: nat where
  "ProjectNameMaxLength = 100"

record Project =
  pj_ID :: int
  pj_UserID :: int
  pj_Name :: string
  pj_CreatedAt :: time

definition toProject :: "project_row \<Rightarrow> Project" where
  "toProject row = \<lparr>pj_ID = prj_ID row, pj_UserID = prj_UserID row, pj_Name = prj_Name row,
     pj_CreatedAt = prj_CreatedAt row\<rparr>"

definition project_Create :: "int \<Rightarrow> string \<Rightarrow> Project op" where
  "project_Create userID name =
     (let name = TrimSpace name
      in if name = [] then ret (Inl ErrProjectNameRequired)
         else if ProjectNameMaxLength < RuneCountInString name then ret (Inl ErrProjectNameTooLong)
         else try_op (wrapped ''create project'' (exec (Q_CreateProject userID name))) (\<lambda>row.
              ret (Inr (toProject row))))"

definition project_List :: "int \<Rightarrow> Project list op" where
  "project_List userID =
     try_op (wrapped ''list projects'' (exec (Q_ListProjectsByUserID userID))) (\<lambda>rows.
     ret (Inr (map toProject rows)))"

definition project_Delete :: "int \<Rightarrow> int \<Rightarrow> unit op" where
  "project_Delete projectID userID =
     try_op (wrapped ''delete project'' (exec (Q_DeleteProjectByIDAndUserID projectID userID))) (\<lambda>rows.
     if rows = 0 then ret (Inl ErrProjectNotFound) else ret (Inr ()))"

lemma project_inv [preserves_rules]:
  "keeps db_inv (project_Create uid name)"
  "keeps db_inv (project_Delete pid uid)"
  "keeps P (project_List uid)"
  unfolding project_Create_def project_Delete_def project_List_def by (intro preserves_rules)+

section \<open>What it promises\<close>

text \<open>The abstract state of the feature: for every user a finite map from project to name.\<close>

definition projects_of :: "db \<Rightarrow> int \<Rightarrow> int \<rightharpoonup> string" where
  "projects_of d uid pid = map_option prj_Name (find (\<lambda>r. prj_ID r = pid \<and> prj_UserID r = uid) (projects d))"

lemma find_append: "find p (xs @ ys) = (case find p xs of None \<Rightarrow> find p ys | Some x \<Rightarrow> Some x)"
  by (induction xs) auto

lemma projects_of_insert:
  assumes "Q_CreateProject uid name t d = (Inr row, d')"
  shows "projects_of d' = (projects_of d)(uid := (projects_of d uid)(prj_ID row \<mapsto> name)) \<and>
    prj_ID row \<notin> prj_ID ` set (projects d) \<and> prj_UserID row = uid \<and> prj_Name row = name"
proof -
  from assms have row: "prj_ID row = next_id prj_ID (projects d)" "prj_UserID row = uid" "prj_Name row = name"
    and d': "d' = d\<lparr>projects := projects d @ [row]\<rparr>"
    by (auto simp: Q_CreateProject_def Let_def split: if_splits)
  have fresh: "prj_ID row \<notin> prj_ID ` set (projects d)"
    unfolding row by (rule next_id_fresh)
  then have "find (\<lambda>r. prj_ID r = prj_ID row \<and> prj_UserID r = u) (projects d) = None" for u by (auto simp: image_iff)
  with row fresh show ?thesis
    by (auto simp: d' projects_of_def find_append fun_eq_iff simp del: find_eq_None split: option.splits)
qed

lemma projects_of_delete:
  assumes "Q_DeleteProjectByIDAndUserID pid uid t d = (Inr n, d')"
  shows "projects_of d' = (projects_of d)(uid := (projects_of d uid)(pid := None))"
proof -
  have found: "find (\<lambda>r. prj_ID r = i \<and> prj_UserID r = u) (filter (\<lambda>r. \<not> (prj_ID r = pid \<and> prj_UserID r = uid)) xs) =
      (if i = pid \<and> u = uid then None else find (\<lambda>r. prj_ID r = i \<and> prj_UserID r = u) xs)" for i u xs
    by (induction xs) auto
  from assms have "projects d' = filter (\<lambda>r. \<not> (prj_ID r = pid \<and> prj_UserID r = uid)) (projects d)"
    by (auto simp: Q_DeleteProjectByIDAndUserID_def Let_def)
  then show ?thesis by (simp only: projects_of_def found fun_eq_iff) (auto simp: projects_of_def)
qed

lemma projects_of_fresh: "pid \<notin> prj_ID ` set (projects d) \<Longrightarrow> projects_of d uid pid = None"
  by (auto simp: projects_of_def image_iff)

lemma projects_of_hit:
  "Q_DeleteProjectByIDAndUserID pid uid t d = (Inr n, d') \<Longrightarrow> n \<noteq> 0 \<Longrightarrow> \<exists>name. projects_of d uid pid = Some name"
  using prj.hit_is_owned [of pid uid t d n d'] not_None_eq by (fastforce simp: projects_of_def)

text \<open>
  C21: the project service refines a map from users to their named projects.  Creating adds, under
  a new number and for the caller only, the trimmed name, which is not empty and has at most one
  hundred characters; deleting removes the caller's project of that number and never another
  user's; an error of either leaves every user's projects as they were.
\<close>

theorem project_refinement:
  "wp (project_Create uid name)
     (\<lambda>r d'. case r of
        Inl e \<Rightarrow> projects_of d' = projects_of d
      | Inr p \<Rightarrow> pj_UserID p = uid \<and> pj_Name p = TrimSpace name \<and> pj_Name p \<noteq> [] \<and>
          RuneCountInString (pj_Name p) \<le> ProjectNameMaxLength \<and> projects_of d uid (pj_ID p) = None \<and>
          projects_of d' = (projects_of d)(uid := (projects_of d uid)(pj_ID p \<mapsto> pj_Name p))) d \<and>
   wp (project_Delete pid uid)
     (\<lambda>r d'. case r of
        Inl e \<Rightarrow> projects_of d' = projects_of d
      | Inr _ \<Rightarrow> projects_of d uid pid \<noteq> None \<and>
          projects_of d' = (projects_of d)(uid := (projects_of d uid)(pid := None))) d"
proof
  have created: "Q_CreateProject uid n t d = (Inl e, d') \<Longrightarrow> d' = d" for n t e d'
    by (auto simp: Q_CreateProject_def Let_def split: if_splits)
  show "wp (project_Create uid name)
     (\<lambda>r d'. case r of
        Inl e \<Rightarrow> projects_of d' = projects_of d
      | Inr p \<Rightarrow> pj_UserID p = uid \<and> pj_Name p = TrimSpace name \<and> pj_Name p \<noteq> [] \<and>
          RuneCountInString (pj_Name p) \<le> ProjectNameMaxLength \<and> projects_of d uid (pj_ID p) = None \<and>
          projects_of d' = (projects_of d)(uid := (projects_of d uid)(pj_ID p \<mapsto> pj_Name p))) d"
    unfolding project_Create_def Let_def
    by (intro wp_rules)
      (auto simp: toProject_def wrap_err_eq_Inl projects_of_fresh dest: created projects_of_insert)
  show "wp (project_Delete pid uid)
     (\<lambda>r d'. case r of
        Inl e \<Rightarrow> projects_of d' = projects_of d
      | Inr _ \<Rightarrow> projects_of d uid pid \<noteq> None \<and>
          projects_of d' = (projects_of d)(uid := (projects_of d uid)(pid := None))) d"
    unfolding project_Delete_def
    by (intro wp_rules)
      (auto simp: wrap_err_eq_Inl prj.no_error dest: prj.miss_keeps projects_of_delete projects_of_hit)
qed

end
