(* ===== verification/WebAuthn_Service.thy ===== *)
theory WebAuthn_Service
  imports Projects Fixtures
begin

text \<open>
  Passkeys (\<^verbatim>\<open>internal/auth/webauthn.go\<close>).  The ceremonies themselves are those of the package
  \<^verbatim>\<open>go-webauthn\<close>; its entry points are the fields of \<open>webauthn_lib\<close>, over arbitrary types of
  creation options, assertion options, session data and parsed responses.
\<close>

section \<open>The package\<close>

text \<open>\<^verbatim>\<open>webauthn.Credential\<close> as far as the program reads or writes it.\<close>

record lib_credential =
  lc_ID :: bytes
  lc_PublicKey :: bytes
  lc_AttestationType :: string
  lc_Transport :: "string list"
  lc_BackupEligible :: bool
  lc_BackupState :: bool
  lc_AAGUID :: bytes
  lc_SignCount :: "32 word"

record webAuthnUser =
  wu_id :: int
  wu_email :: string
  wu_handle :: bytes
  wu_credentials :: "lib_credential list"

text \<open>
  \<open>wl_BeginRegistration\<close> gets the credentials whose descriptors are excluded;
  \<open>wl_ValidatePasskeyLogin\<close> gets the handler that looks a user up by the handle in the response;
  \<open>None\<close> is a user that is not a \<^verbatim>\<open>*webAuthnUser\<close>.
\<close>

record ('opts, 'ask, 'sd, 'att, 'asr) webauthn_lib =
  wl_BeginRegistration :: "webauthn_config \<Rightarrow> webAuthnUser \<Rightarrow> lib_credential list \<Rightarrow> ('opts \<times> 'sd) op"
  wl_CreateCredential :: "webauthn_config \<Rightarrow> webAuthnUser \<Rightarrow> 'sd \<Rightarrow> 'att \<Rightarrow> lib_credential op"
  wl_BeginDiscoverableLogin :: "webauthn_config \<Rightarrow> ('ask \<times> 'sd) op"
  wl_ValidatePasskeyLogin :: "webauthn_config \<Rightarrow> (bytes \<Rightarrow> bytes \<Rightarrow> webAuthnUser op) \<Rightarrow> 'sd \<Rightarrow> 'asr \<Rightarrow>
      (webAuthnUser option \<times> lib_credential) op"

text \<open>
  What is documented of the package and relied on: it has no access to the database but through
  the handler, and a validated login is for the user the handler returned and for one of that
  user's credentials.
\<close>

definition no_db :: "('a) op \<Rightarrow> bool" where
  "no_db m \<longleftrightarrow> (\<forall>w r w'. run_state m w = (r, w') \<longrightarrow> wdb w' = wdb w)"

definition webauthn_documented :: "('opts, 'ask, 'sd, 'att, 'asr) webauthn_lib \<Rightarrow> bool" where
  "webauthn_documented W \<longleftrightarrow>
     (\<forall>cfg u ex. no_db (wl_BeginRegistration W cfg u ex)) \<and>
     (\<forall>cfg u sd r. no_db (wl_CreateCredential W cfg u sd r)) \<and>
     (\<forall>cfg. no_db (wl_BeginDiscoverableLogin W cfg)) \<and>
     (\<forall>cfg h sd r. (\<forall>a b. no_db (h a b)) \<longrightarrow> no_db (wl_ValidatePasskeyLogin W cfg h sd r)) \<and>
     (\<forall>cfg h sd r w u c w'. run_state (wl_ValidatePasskeyLogin W cfg h sd r) w = (Inr (Some u, c), w') \<longrightarrow>
        (\<exists>raw handle v v'. wdb v = wdb w \<and> run_state (h raw handle) v = (Inr u, v') \<and>
           lc_ID c \<in> lc_ID ` set (wu_credentials u)))"

section \<open>Conversions\<close>

definition DefaultPasskeyName :: string where
  "DefaultPasskeyName = ''Passkey''"

definition toLibraryCredential :: "WebAuthnCredential \<Rightarrow> lib_credential" where
  "toLibraryCredential c =
     \<lparr>lc_ID = wc_CredentialID c, lc_PublicKey = wc_PublicKey c, lc_AttestationType = wc_AttestationType c,
      lc_Transport = wc_Transports c, lc_BackupEligible = wc_BackupEligible c,
      lc_BackupState = wc_BackupState c, lc_AAGUID = wc_AAGUID c, lc_SignCount = wc_SignCount c\<rparr>"

definition credentialToCreateParams :: "int \<Rightarrow> lib_credential \<Rightarrow> string \<Rightarrow> CreateWebAuthnCredentialParams" where
  "credentialToCreateParams userID credential name =
     \<lparr>cw_UserID = userID, cw_CredentialID = lc_ID credential, cw_PublicKey = lc_PublicKey credential,
      cw_AttestationType = lc_AttestationType credential, cw_AAGUID = lc_AAGUID credential,
      cw_SignCount = lc_SignCount credential, cw_Transports = lc_Transport credential,
      cw_BackupEligible = lc_BackupEligible credential, cw_BackupState = lc_BackupState credential,
      cw_Name = name\<rparr>"

definition passkey_name :: "string \<Rightarrow> string" where
  "passkey_name name = (let name = TrimSpace name in if name = [] then DefaultPasskeyName else name)"

text \<open>\<^verbatim>\<open>fmt.Errorf("%w: %v", ErrPasskeyCeremony, err)\<close>: the cause is text only.\<close>

definition ceremony :: "'a op \<Rightarrow> 'a op" where
  "ceremony m = do { r \<leftarrow> m; ret (case r of Inl _ \<Rightarrow> Inl (Errorf ''%v'' ErrPasskeyCeremony) | Inr x \<Rightarrow> Inr x) }"

section \<open>The methods\<close>

definition PasskeysEnabled :: "AuthService \<Rightarrow> bool" where
  "PasskeysEnabled s \<longleftrightarrow> svc_webAuthn s \<noteq> None"

definition loadCredentials :: "libs \<Rightarrow> int \<Rightarrow> lib_credential list op" where
  "loadCredentials L userID =
     try_op (wrapped ''list webauthn credentials'' (store_ListWebAuthnCredentialsByUserID L userID)) (\<lambda>stored.
     ret (Inr (map toLibraryCredential stored)))"

definition webAuthnUserByID :: "libs \<Rightarrow> int \<Rightarrow> webAuthnUser op" where
  "webAuthnUserByID L userID =
     on_no_rows (store_GetUserByID userID) (ret (Inl ErrInvalidCredentials)) ''get user'' (\<lambda>user.
     try_op (wrapped ''get webauthn handle'' (store_GetWebAuthnHandleByUserID userID)) (\<lambda>handle.
     try_op (loadCredentials L userID) (\<lambda>credentials.
     ret (Inr \<lparr>wu_id = userID, wu_email = u_Email user, wu_handle = handle, wu_credentials = credentials\<rparr>))))"

definition BeginPasskeyRegistration ::
  "('opts, 'ask, 'sd, 'att, 'asr) webauthn_lib \<Rightarrow> libs \<Rightarrow> AuthService \<Rightarrow> int \<Rightarrow> ('opts \<times> 'sd) op" where
  "BeginPasskeyRegistration W L s userID =
     (case svc_webAuthn s of None \<Rightarrow> ret (Inl ErrPasskeysDisabled) | Some cfg \<Rightarrow>
        try_op (webAuthnUserByID L userID) (\<lambda>user.
        ceremony (wl_BeginRegistration W cfg user (wu_credentials user))))"

definition FinishPasskeyRegistration ::
  "('opts, 'ask, 'sd, 'att, 'asr) webauthn_lib \<Rightarrow> libs \<Rightarrow> AuthService \<Rightarrow> int \<Rightarrow> 'sd \<Rightarrow> 'att \<Rightarrow> string \<Rightarrow> unit op" where
  "FinishPasskeyRegistration W L s userID session response name =
     (case svc_webAuthn s of None \<Rightarrow> ret (Inl ErrPasskeysDisabled) | Some cfg \<Rightarrow>
        try_op (webAuthnUserByID L userID) (\<lambda>user.
        try_op (ceremony (wl_CreateCredential W cfg user session response)) (\<lambda>credential.
        wrapped ''create webauthn credential''
          (store_CreateWebAuthnCredential L (credentialToCreateParams userID credential (passkey_name name))))))"

definition BeginPasskeyLogin ::
  "('opts, 'ask, 'sd, 'att, 'asr) webauthn_lib \<Rightarrow> AuthService \<Rightarrow> ('ask \<times> 'sd) op" where
  "BeginPasskeyLogin W s =
     (case svc_webAuthn s of None \<Rightarrow> ret (Inl ErrPasskeysDisabled)
      | Some cfg \<Rightarrow> ceremony (wl_BeginDiscoverableLogin W cfg))"

definition passkey_handler :: "libs \<Rightarrow> bytes \<Rightarrow> bytes \<Rightarrow> webAuthnUser op" where
  "passkey_handler L rawID userHandle = do {
     r \<leftarrow> store_GetUserByWebAuthnHandle userHandle;
     case r of
       Inl e \<Rightarrow> ret (Inl (if errors_Is e ErrNoRows then ErrPasskeyNotFound else e))
     | Inr user \<Rightarrow>
         try_op (loadCredentials L (u_ID user)) (\<lambda>credentials.
         ret (Inr \<lparr>wu_id = u_ID user, wu_email = u_Email user, wu_handle = userHandle,
                   wu_credentials = credentials\<rparr>))
   }"

definition FinishPasskeyLogin ::
  "('opts, 'ask, 'sd, 'att, 'asr) webauthn_lib \<Rightarrow> libs \<Rightarrow> AuthService \<Rightarrow> 'sd \<Rightarrow> 'asr \<Rightarrow> (User \<times> AuthSession) op" where
  "FinishPasskeyLogin W L s session response =
     (case svc_webAuthn s of None \<Rightarrow> ret (Inl ErrPasskeysDisabled) | Some cfg \<Rightarrow>
        try_op (ceremony (wl_ValidatePasskeyLogin W cfg (passkey_handler L) session response)) (\<lambda>(waUser, credential).
        case waUser of None \<Rightarrow> ret (Inl ErrPasskeyCeremony) | Some resolved \<Rightarrow> do {
          now \<leftarrow> time_now;
          try_op (wrapped ''update webauthn credential'' (store_UpdateWebAuthnCredentialOnLogin
              \<lparr>uw_CredentialID = lc_ID credential, uw_SignCount = lc_SignCount credential,
               uw_BackupState = lc_BackupState credential, uw_LastUsedAt = now\<rparr>)) (\<lambda>_.
          try_op (wrapped ''get user'' (store_GetUserByID (wu_id resolved))) (\<lambda>user.
          try_op (createSessionForUser s (wu_id resolved)) (\<lambda>authSession.
          ret (Inr (User.truncate user, authSession)))))
        }))"

definition ListPasskeys :: "libs \<Rightarrow> int \<Rightarrow> WebAuthnCredential list op" where
  "ListPasskeys L userID =
     wrapped ''list webauthn credentials'' (store_ListWebAuthnCredentialsByUserID L userID)"

definition CountPasskeys :: "int \<Rightarrow> int op" where
  "CountPasskeys userID =
     wrapped ''count webauthn credentials'' (store_CountWebAuthnCredentialsByUserID userID)"

definition RenamePasskey :: "int \<Rightarrow> int \<Rightarrow> string \<Rightarrow> unit op" where
  "RenamePasskey userID credentialDBID name =
     try_op (wrapped ''rename webauthn credential''
              (store_RenameWebAuthnCredential userID credentialDBID (passkey_name name))) (\<lambda>updated.
     if updated then ret (Inr ()) else ret (Inl ErrPasskeyNotFound))"

definition DeletePasskey :: "int \<Rightarrow> int \<Rightarrow> unit op" where
  "DeletePasskey userID credentialDBID =
     try_op (wrapped ''delete webauthn credential''
              (store_DeleteWebAuthnCredential userID credentialDBID)) (\<lambda>deleted.
     if deleted then ret (Inr ()) else ret (Inl ErrPasskeyNotFound))"

section \<open>Every method keeps the schema invariant\<close>

lemma keeps_loadCredentials [preserves_rules]: "keeps P (loadCredentials L uid)"
  unfolding loadCredentials_def by (intro preserves_rules)

lemma keeps_webAuthnUserByID [preserves_rules]: "keeps P (webAuthnUserByID L uid)"
  unfolding webAuthnUserByID_def by (intro preserves_rules)

lemma keeps_passkey_handler [preserves_rules]: "keeps P (passkey_handler L raw handle)"
  unfolding passkey_handler_def by (intro preserves_rules)

lemma no_dbI: "(\<And>P. keeps P m) \<Longrightarrow> no_db m"
  unfolding no_db_def
proof (intro allI impI)
  fix w r w'
  assume k: "\<And>P. keeps P m" and run: "run_state m w = (r, w')"
  from preservesD [OF k [of "\<lambda>d. d = wdb w"] _ run] show "wdb w' = wdb w" by simp
qed

lemma keeps_no_db: "no_db m \<Longrightarrow> keeps P m"
  by (rule preservesI) (simp add: no_db_def)

lemma keeps_ceremony [preserves_rules]: "keeps P m \<Longrightarrow> keeps P (ceremony m)"
  unfolding ceremony_def by (intro preserves_rules)

lemma documented_no_db:
  assumes "webauthn_documented W"
  shows "no_db (wl_BeginRegistration W cfg u ex)" "no_db (wl_CreateCredential W cfg u sd r)"
    "no_db (wl_BeginDiscoverableLogin W cfg)" "no_db (wl_ValidatePasskeyLogin W cfg (passkey_handler L) sd r2)"
proof -
  have "no_db (passkey_handler L a b)" for a b by (rule no_dbI) (rule keeps_passkey_handler)
  with assms show "no_db (wl_BeginRegistration W cfg u ex)" "no_db (wl_CreateCredential W cfg u sd r)"
    "no_db (wl_BeginDiscoverableLogin W cfg)" "no_db (wl_ValidatePasskeyLogin W cfg (passkey_handler L) sd r2)"
    unfolding webauthn_documented_def by blast+
qed

lemma documented_user:
  assumes "webauthn_documented W"
    and "run_state (wl_ValidatePasskeyLogin W cfg h sd r) w = (Inr (Some u, c), w')"
  shows "\<exists>raw handle v v'. wdb v = wdb w \<and> run_state (h raw handle) v = (Inr u, v') \<and>
    lc_ID c \<in> lc_ID ` set (wu_credentials u)"
  using assms(2) assms(1) [unfolded webauthn_documented_def, THEN conjunct2, THEN conjunct2, THEN conjunct2,
      THEN conjunct2, rule_format] by simp

lemma passkey_inv:
  assumes "webauthn_documented W"
  shows "keeps db_inv (BeginPasskeyRegistration W L s uid)"
    and "keeps db_inv (FinishPasskeyRegistration W L s uid sd r name)"
    and "keeps db_inv (BeginPasskeyLogin W s)"
    and "keeps db_inv (FinishPasskeyLogin W L s sd r2)"
  unfolding BeginPasskeyRegistration_def FinishPasskeyRegistration_def BeginPasskeyLogin_def
    FinishPasskeyLogin_def
  by (intro preserves_rules keeps_no_db documented_no_db [OF assms])+

lemma passkey_owner_inv [preserves_rules]:
  "keeps db_inv (RenamePasskey uid cid name)"
  "keeps db_inv (DeletePasskey uid cid)"
  "keeps P (ListPasskeys L uid)"
  "keeps P (CountPasskeys uid)"
  unfolding RenamePasskey_def DeletePasskey_def ListPasskeys_def CountPasskeys_def
  by (intro preserves_rules)+

section \<open>Logging in with a passkey\<close>

lemma wp_no_db: "no_db m \<Longrightarrow> (\<And>r. Q r d) \<Longrightarrow> wp m Q d"
  by (rule wpI) (auto simp: no_db_def)

lemma wp_ceremony [wp_rules]:
  "wp m (\<lambda>r d'. case r of Inl e \<Rightarrow> Q (Inl (Errorf ''%v'' ErrPasskeyCeremony)) d' | Inr x \<Rightarrow> Q (Inr x) d') d \<Longrightarrow>
     wp (ceremony m) Q d"
  unfolding ceremony_def by (rule wp_bind, erule wp_mono) (auto intro: wp_ret split: sum.splits)

definition owns_passkey :: "int \<Rightarrow> bytes \<Rightarrow> db \<Rightarrow> bool" where
  "owns_passkey uid cid d \<longleftrightarrow> (\<exists>c \<in> set (credentials d). crd_UserID c = uid \<and> crd_CredentialID c = cid)"

lemma credentialsFromDB_ids:
  "credentialsFromDB L rows = Inr cs \<Longrightarrow> map wc_CredentialID cs = map crd_CredentialID rows"
  by (induction rows arbitrary: cs)
    (auto simp: webAuthnCredentialFromDB_def split: sum.splits option.splits if_splits)

lemma wp_loadCredentials:
  assumes "\<And>e. Q (Inl e) d"
    and "\<And>cs. \<forall>c \<in> set cs. owns_passkey uid (lc_ID c) d \<Longrightarrow> Q (Inr cs) d"
  shows "wp (loadCredentials L uid) Q d"
proof -
  have "owns_passkey uid (wc_CredentialID c) d"
    if "credentialsFromDB L (newest_first crd_CreatedAt crd_ID (filter (\<lambda>c. crd_UserID c = uid) (credentials d))) = Inr cs"
      "c \<in> set cs" for cs c
  proof -
    from that credentialsFromDB_ids [OF that(1)] have "wc_CredentialID c \<in> crd_CredentialID ` set
        (newest_first crd_CreatedAt crd_ID (filter (\<lambda>c. crd_UserID c = uid) (credentials d)))"
      by (metis image_eqI list.set_map)
    then show ?thesis by (auto simp: owns_passkey_def newest_first_def)
  qed
  then show ?thesis
    unfolding loadCredentials_def store_ListWebAuthnCredentialsByUserID_def
    by (intro wp_rules) (auto simp: Q_ListWebAuthnCredentialsByUserID_def wrap_err_eq_Inl
        toLibraryCredential_def assms(1) intro!: assms(2))
qed

lemma passkey_handler_wp:
  "wp (passkey_handler L raw handle)
     (\<lambda>r d'. case r of Inl _ \<Rightarrow> True | Inr u \<Rightarrow>
        (\<forall>c \<in> set (wu_credentials u). owns_passkey (wu_id u) (lc_ID c) d)) d"
  unfolding passkey_handler_def store_GetUserByWebAuthnHandle_def
  by (intro wp_rules wp_loadCredentials) (auto simp: Q_GetUserByWebAuthnHandle_def wrap_err_eq_Inl)

end
