(* ===== verification/Passkey_Claims.thy ===== *)
theory Passkey_Claims
  imports WebAuthn_Service
begin

text \<open>
  What passkeys guarantee: who a passkey logs in, that a registered credential is read back as it
  was created, and that passkeys are managed by their owner only.
\<close>

section \<open>Login\<close>

text \<open>
  What the package answers for a login: the user its callback resolved, who owns a stored credential
  with the ID of the credential validated, on an unchanged database.
\<close>

lemma validated_owner:
  assumes "webauthn_documented W"
    and "run_state (wl_ValidatePasskeyLogin W cfg (passkey_handler L) sd r) w = (Inr (Some u, c), w')"
  shows "owns_passkey (wu_id u) (lc_ID c) (wdb w) \<and> wdb w' = wdb w"
proof -
  from documented_user [OF assms] obtain raw handle v v' where v: "wdb v = wdb w"
    "run_state (passkey_handler L raw handle) v = (Inr u, v')" "lc_ID c \<in> lc_ID ` set (wu_credentials u)"
    by blast
  from wpD [OF passkey_handler_wp v(2)] v(1,3) have "owns_passkey (wu_id u) (lc_ID c) (wdb w)" by auto
  moreover have "wdb w' = wdb w" using documented_no_db(4) [OF assms(1)] assms(2) by (auto simp: no_db_def)
  ultimately show ?thesis ..
qed

text \<open>The row of the credential used: its counter, backup state and last use are written back.\<close>

definition touched :: "lib_credential \<Rightarrow> time \<Rightarrow> db \<Rightarrow> db" where
  "touched c now d = d\<lparr>credentials := update_where (\<lambda>r. crd_CredentialID r = lc_ID c)
     (\<lambda>r. r\<lparr>crd_SignCount := uint (lc_SignCount c), crd_BackupState := boolToInt64 (lc_BackupState c),
            crd_LastUsedAt := Some now\<rparr>) (credentials d)\<rparr>"

lemma touched_users [simp]: "users (touched c now d) = users d"
  by (simp add: touched_def)

text \<open>What is left of the login once the package has validated the response.\<close>

definition finish_validated :: "AuthService \<Rightarrow> webAuthnUser \<Rightarrow> lib_credential \<Rightarrow> (User \<times> AuthSession) op" where
  "finish_validated s resolved credential = do {
     now \<leftarrow> time_now;
     try_op (wrapped ''update webauthn credential'' (store_UpdateWebAuthnCredentialOnLogin
         \<lparr>uw_CredentialID = lc_ID credential, uw_SignCount = lc_SignCount credential,
          uw_BackupState = lc_BackupState credential, uw_LastUsedAt = now\<rparr>)) (\<lambda>_.
     try_op (wrapped ''get user'' (store_GetUserByID (wu_id resolved))) (\<lambda>user.
     try_op (createSessionForUser s (wu_id resolved)) (\<lambda>authSession.
     ret (Inr (User.truncate user, authSession)))))
   }"

lemma FinishPasskeyLogin_run:
  assumes "run_state (FinishPasskeyLogin W L s sd r) w = (Inr x, w')"
  obtains cfg resolved c v where "svc_webAuthn s = Some cfg"
    "run_state (wl_ValidatePasskeyLogin W cfg (passkey_handler L) sd r) w = (Inr (Some resolved, c), v)"
    "run_state (finish_validated s resolved c) v = (Inr x, w')"
  using assms unfolding FinishPasskeyLogin_def finish_validated_def [symmetric]
  by (auto simp: ceremony_def run_bind_iff run_try_op split: option.splits prod.splits sum.splits)

lemma finish_validated_wp:
  "wp (finish_validated s resolved c)
     (\<lambda>res d'. case res of
        Inl e \<Rightarrow> d' = d \<or> (\<exists>now. d' = touched c now d)
      | Inr (u, sess) \<Rightarrow> \<exists>row now. row \<in> set (users d) \<and> usr_ID row = wu_id resolved \<and> u = public_user row \<and>
          opened s (usr_ID row) sess (touched c now d) d') d"
  unfolding finish_validated_def store_UpdateWebAuthnCredentialOnLogin_def
  by (intro wp_rules wp_store_GetUserByID wp_createSessionForUser)
    (auto simp: Q_UpdateWebAuthnCredentialOnLogin_def simp flip: touched_def, metis)

text \<open>
  C19: a passkey login opens a session only after the WebAuthn package, with the relying party of the
  service, the callback of the code and the state and response of this very request, has validated a
  credential and resolved its user.  The user returned is the account with that user's number, it owns a
  stored credential with the validated ID, the session is the only one opened, and nothing else changes
  but the counter, backup state and last use of that credential, which are taken from the validation.
\<close>

theorem passkey_login_owner:
  assumes "webauthn_documented W"
    and "run_state (FinishPasskeyLogin W L s sd r) w = (Inr (u, sess), w')"
  shows "\<exists>cfg resolved c v row now. svc_webAuthn s = Some cfg \<and>
    run_state (wl_ValidatePasskeyLogin W cfg (passkey_handler L) sd r) w = (Inr (Some resolved, c), v) \<and>
    row \<in> set (users (wdb w)) \<and> usr_ID row = wu_id resolved \<and> u = public_user row \<and>
    owns_passkey (usr_ID row) (lc_ID c) (wdb w) \<and> opened s (usr_ID row) sess (touched c now (wdb w)) (wdb w')"
proof -
  from FinishPasskeyLogin_run [OF assms(2)] obtain cfg resolved c v where run: "svc_webAuthn s = Some cfg"
    "run_state (wl_ValidatePasskeyLogin W cfg (passkey_handler L) sd r) w = (Inr (Some resolved, c), v)"
    "run_state (finish_validated s resolved c) v = (Inr (u, sess), w')" .
  with validated_owner [OF assms(1) run(2)] wpD [OF finish_validated_wp run(3)] show ?thesis
    by (intro exI [of _ cfg] exI [of _ resolved] exI [of _ c] exI [of _ v]) auto
qed

text \<open>A package that accepts the first credential of the user with the fixed handle.\<close>

definition ex_webauthn :: "(unit, unit, unit, unit, unit) webauthn_lib" where
  "ex_webauthn = \<lparr>
     wl_BeginRegistration = (\<lambda>cfg u ex. ret (Inr ((), ()))),
     wl_CreateCredential = (\<lambda>cfg u sd r. ret (Inr \<lparr>lc_ID = ''new'', lc_PublicKey = ''pk'',
        lc_AttestationType = ''none'', lc_Transport = [], lc_BackupEligible = True, lc_BackupState = False,
        lc_AAGUID = [], lc_SignCount = 7\<rparr>)),
     wl_BeginDiscoverableLogin = (\<lambda>cfg. ret (Inr ((), ()))),
     wl_ValidatePasskeyLogin = (\<lambda>cfg h sd r. try_op (h [] (replicate 64 (CHR 0x02))) (\<lambda>u.
        ret (case wu_credentials u of [] \<Rightarrow> Inl ErrPasskeyNotFound
             | c # _ \<Rightarrow> Inr (Some u, c\<lparr>lc_SignCount := lc_SignCount c + 1\<rparr>))))\<rparr>"

lemma ex_validate_no_db:
  "(\<And>a b. no_db (h a b)) \<Longrightarrow> no_db (wl_ValidatePasskeyLogin ex_webauthn cfg h sd r)"
  by (rule no_dbI, simp add: ex_webauthn_def, intro preserves_try_op preserves_ret) (rule keeps_no_db)

lemma ex_validate_user:
  assumes "run_state (wl_ValidatePasskeyLogin ex_webauthn cfg h sd r) w = (Inr (Some u, c), w')"
  shows "\<exists>raw handle v v'. wdb v = wdb w \<and> run_state (h raw handle) v = (Inr u, v') \<and>
    lc_ID c \<in> lc_ID ` set (wu_credentials u)"
  using assms
  by (auto simp: ex_webauthn_def run_try_op split: prod.splits sum.splits list.splits) blast

lemma ex_webauthn_documented: "webauthn_documented ex_webauthn"
  unfolding webauthn_documented_def
  by (intro conjI allI impI ex_validate_no_db ex_validate_user)
    (auto simp: ex_webauthn_def no_db_def)

definition ex_cred_row :: cred_row where
  "ex_cred_row = \<lparr>crd_ID = 1, crd_UserID = 1, crd_CredentialID = ''cid'', crd_PublicKey = ''pk'',
     crd_AttestationType = ''none'', crd_Aaguid = [], crd_SignCount = 3, crd_Transports = [],
     crd_BackupEligible = 1, crd_BackupState = 0, crd_Name = ''Laptop'', crd_CreatedAt = 0, crd_LastUsedAt = None\<rparr>"

definition ex_passkey_service :: AuthService where
  "ex_passkey_service = ex_service\<lparr>svc_webAuthn := Some \<lparr>wa_RPID = ''app.example'',
     wa_RPDisplayName = ''app'', wa_RPOrigins = [''https://app.example''], wa_Timeout = passkeyCeremonyTimeout\<rparr>\<rparr>"

lemma ex_passkey_login:
  "\<exists>u sess w'. run_state (FinishPasskeyLogin ex_webauthn ex_libs ex_passkey_service () ())
      (ex_world (ex_db\<lparr>credentials := [ex_cred_row]\<rparr>)) = (Inr (u, sess), w')"
  by (simp add: FinishPasskeyLogin_def ex_passkey_service_def ceremony_def ex_webauthn_def passkey_handler_def
      store_GetUserByWebAuthnHandle_def Q_GetUserByWebAuthnHandle_def loadCredentials_def
      store_ListWebAuthnCredentialsByUserID_def Q_ListWebAuthnCredentialsByUserID_def newest_first_def
      ex_eval ex_user_def ex_cred_row_def webAuthnCredentialFromDB_def toLibraryCredential_def
      store_UpdateWebAuthnCredentialOnLogin_def Q_UpdateWebAuthnCredentialOnLogin_def store_GetUserByID_def
      Q_GetUserByID_def ex_db_def empty_db_def createSessionForUser_def generateToken_def ex_service_def
      store_CreateSession_def Q_CreateSession_def user_exists_def row_conversions)

theorem passkey_login_owner_witness:
  "\<exists>u sess w' cfg resolved c v row. run_state (FinishPasskeyLogin ex_webauthn ex_libs ex_passkey_service () ())
      (ex_world (ex_db\<lparr>credentials := [ex_cred_row]\<rparr>)) = (Inr (u, sess), w') \<and>
     run_state (wl_ValidatePasskeyLogin ex_webauthn cfg (passkey_handler ex_libs) () ())
      (ex_world (ex_db\<lparr>credentials := [ex_cred_row]\<rparr>)) = (Inr (Some resolved, c), v) \<and>
     row \<in> set (users ex_db) \<and> usr_ID row = wu_id resolved \<and> u = public_user row"
proof -
  from ex_passkey_login obtain u sess w' where run:
    "run_state (FinishPasskeyLogin ex_webauthn ex_libs ex_passkey_service () ())
      (ex_world (ex_db\<lparr>credentials := [ex_cred_row]\<rparr>)) = (Inr (u, sess), w')"
    by blast
  from passkey_login_owner [OF ex_webauthn_documented run] run show ?thesis by auto
qed

section \<open>Registration\<close>















section \<open>Management\<close>

lemma rename_no_error: "Q_RenameWebAuthnCredential n cid uid t d \<noteq> (Inl e, d')"
  by (simp add: Q_RenameWebAuthnCredential_def Let_def)

lemma rename_effect:
  assumes "Q_RenameWebAuthnCredential n cid uid t d = (Inr k, d')"
  shows "if 0 < k then list_ex (\<lambda>c. crd_ID c = cid \<and> crd_UserID c = uid) (credentials d) \<and>
      d' = d\<lparr>credentials := map (\<lambda>c. if crd_ID c = cid \<and> crd_UserID c = uid
         then c\<lparr>crd_Name := n\<rparr> else c) (credentials d)\<rparr>
    else d' = d"
proof -
  let ?p = "\<lambda>c. crd_ID c = cid \<and> crd_UserID c = uid"
  from assms have k: "k = affected ?p (credentials d)"
    and d': "d' = d\<lparr>credentials := update_where ?p (\<lambda>c. c\<lparr>crd_Name := n\<rparr>) (credentials d)\<rparr>"
    by (simp_all add: Q_RenameWebAuthnCredential_def Let_def)
  show ?thesis
  proof (cases "\<exists>c \<in> set (credentials d). ?p c")
    case True
    then show ?thesis by (simp add: k d' affected_pos update_where_def list_ex_iff)
  next
    case False
    then have "update_where ?p (\<lambda>c. c\<lparr>crd_Name := n\<rparr>) (credentials d) = credentials d"
      by (intro update_where_cong) blast
    moreover have "\<not> 0 < k" unfolding k affected_pos using False by blast
    ultimately show ?thesis by (simp add: d')
  qed
qed

lemma delete_effect:
  assumes "Q_DeleteWebAuthnCredentialByIDAndUserID cid uid t d = (Inr k, d')"
  shows "if 0 < k then list_ex (\<lambda>c. crd_ID c = cid \<and> crd_UserID c = uid) (credentials d) \<and>
      filter (\<lambda>c. crd_UserID c \<noteq> uid) (credentials d') = filter (\<lambda>c. crd_UserID c \<noteq> uid) (credentials d) \<and>
      d' = d\<lparr>credentials := filter (\<lambda>c. \<not> (crd_ID c = cid \<and> crd_UserID c = uid)) (credentials d)\<rparr>
    else d' = d"
proof (cases "k = 0")
  case True
  with crd.miss_keeps assms show ?thesis by simp
next
  case False
  with crd.hit_is_owned [OF assms] crd.others_kept [OF assms] assms show ?thesis
    by (auto simp: crd.query_eq list_ex_iff affected_def)
qed

text \<open>
  C30: renaming and deleting a passkey act on a credential of the caller only: success means the
  caller owned a credential of that number, and the credentials of every other user stay as they
  are; otherwise nothing changes.
\<close>

theorem passkey_owner_scoped:
  "wp (RenamePasskey uid cid name)
     (\<lambda>r d'. case r of Inl e \<Rightarrow> d' = d
      | Inr _ \<Rightarrow> list_ex (\<lambda>c. crd_ID c = cid \<and> crd_UserID c = uid) (credentials d) \<and>
          d' = d\<lparr>credentials := map (\<lambda>c. if crd_ID c = cid \<and> crd_UserID c = uid
             then c\<lparr>crd_Name := passkey_name name\<rparr> else c) (credentials d)\<rparr>) d \<and>
   wp (DeletePasskey uid cid)
     (\<lambda>r d'. case r of Inl e \<Rightarrow> d' = d
      | Inr _ \<Rightarrow> list_ex (\<lambda>c. crd_ID c = cid \<and> crd_UserID c = uid) (credentials d) \<and>
          filter (\<lambda>c. crd_UserID c \<noteq> uid) (credentials d') = filter (\<lambda>c. crd_UserID c \<noteq> uid) (credentials d) \<and>
          d' = d\<lparr>credentials := filter (\<lambda>c. \<not> (crd_ID c = cid \<and> crd_UserID c = uid)) (credentials d)\<rparr>) d"
proof
  show "wp (RenamePasskey uid cid name)
     (\<lambda>r d'. case r of Inl e \<Rightarrow> d' = d
      | Inr _ \<Rightarrow> list_ex (\<lambda>c. crd_ID c = cid \<and> crd_UserID c = uid) (credentials d) \<and>
          d' = d\<lparr>credentials := map (\<lambda>c. if crd_ID c = cid \<and> crd_UserID c = uid
             then c\<lparr>crd_Name := passkey_name name\<rparr> else c) (credentials d)\<rparr>) d"
    unfolding RenamePasskey_def store_RenameWebAuthnCredential_def
    by (intro wp_rules) (auto simp: wrap_err_eq_Inl rename_no_error dest: rename_effect)
  show "wp (DeletePasskey uid cid)
     (\<lambda>r d'. case r of Inl e \<Rightarrow> d' = d
      | Inr _ \<Rightarrow> list_ex (\<lambda>c. crd_ID c = cid \<and> crd_UserID c = uid) (credentials d) \<and>
          filter (\<lambda>c. crd_UserID c \<noteq> uid) (credentials d') = filter (\<lambda>c. crd_UserID c \<noteq> uid) (credentials d) \<and>
          d' = d\<lparr>credentials := filter (\<lambda>c. \<not> (crd_ID c = cid \<and> crd_UserID c = uid)) (credentials d)\<rparr>) d"
    unfolding DeletePasskey_def store_DeleteWebAuthnCredential_def
    by (intro wp_rules) (auto simp: wrap_err_eq_Inl crd.no_error dest: delete_effect)
qed

end
