(* ===== verification/Rate_Limit.thy ===== *)
theory Rate_Limit
  imports Credentials "HOL-Library.AList"
begin

text \<open>
  Rate limiting: the vocabulary of actions and policies (\<^verbatim>\<open>internal/ratelimit/ratelimit.go\<close>) and
  the in-memory fixed-window counter of the server (\<^verbatim>\<open>fixedWindowRateLimiter\<close> of
  \<^verbatim>\<open>internal/server/rate_limit.go\<close>).  The counter is proved to refine one independent window per
  key, whatever the cleaning of expired entries does.
\<close>

section \<open>Policies\<close>

record Policy =
  MaxRequests :: int
  Window :: time

definition minute :: time where
  "minute = 60 * second"

datatype Name =
    RL_Login | RL_LoginPerIP | RL_Register | RL_RegisterPerIP | RL_ForgotPassword
  | RL_ForgotPasswordPerIP | RL_ResetPassword | RL_PublicResendVerification
  | RL_PublicResendVerifyPerIP | RL_AccountResendVerification | RL_ChangePassword | RL_ChangeEmail
  | RL_RevokeSession | RL_RevokeOtherSessions | RL_DeleteAccount | RL_TOTPChallenge | RL_TOTPDisable
  | RL_TOTPConfirm | RL_TOTPRegenerateCodes | RL_PasskeyRegister | RL_PasskeyLogin | RL_PasskeyManage

fun Name_string :: "Name \<Rightarrow> string" where
  "Name_string RL_Login = ''login''"
| "Name_string RL_LoginPerIP = ''login_per_ip''"
| "Name_string RL_Register = ''register''"
| "Name_string RL_RegisterPerIP = ''register_per_ip''"
| "Name_string RL_ForgotPassword = ''forgot_password''"
| "Name_string RL_ForgotPasswordPerIP = ''forgot_password_per_ip''"
| "Name_string RL_ResetPassword = ''reset_password''"
| "Name_string RL_PublicResendVerification = ''public_resend_verification''"
| "Name_string RL_PublicResendVerifyPerIP = ''public_resend_verification_per_ip''"
| "Name_string RL_AccountResendVerification = ''account_resend_verification''"
| "Name_string RL_ChangePassword = ''change_password''"
| "Name_string RL_ChangeEmail = ''change_email''"
| "Name_string RL_RevokeSession = ''revoke_session''"
| "Name_string RL_RevokeOtherSessions = ''revoke_other_sessions''"
| "Name_string RL_DeleteAccount = ''delete_account''"
| "Name_string RL_TOTPChallenge = ''totp_challenge''"
| "Name_string RL_TOTPDisable = ''totp_disable''"
| "Name_string RL_TOTPConfirm = ''totp_confirm''"
| "Name_string RL_TOTPRegenerateCodes = ''totp_regenerate_codes''"
| "Name_string RL_PasskeyRegister = ''passkey_register''"
| "Name_string RL_PasskeyLogin = ''passkey_login''"
| "Name_string RL_PasskeyManage = ''passkey_manage''"

definition Names :: "Name list" where
  "Names = [RL_Login, RL_LoginPerIP, RL_Register, RL_RegisterPerIP, RL_ForgotPassword,
     RL_ForgotPasswordPerIP, RL_ResetPassword, RL_PublicResendVerification,
     RL_PublicResendVerifyPerIP, RL_AccountResendVerification, RL_ChangePassword, RL_ChangeEmail,
     RL_RevokeSession, RL_RevokeOtherSessions, RL_DeleteAccount, RL_TOTPChallenge, RL_TOTPDisable,
     RL_TOTPConfirm, RL_TOTPRegenerateCodes, RL_PasskeyRegister, RL_PasskeyLogin, RL_PasskeyManage]"

definition EnvPrefix :: "Name \<Rightarrow> string" where
  "EnvPrefix name = ''RATE_LIMIT_'' @ map upper_char (Name_string name)"

definition per :: "int \<Rightarrow> int \<Rightarrow> Policy" where
  "per n minutes = \<lparr>MaxRequests = n, Window = minutes * minute\<rparr>"

fun Defaults :: "Name \<Rightarrow> Policy" where
  "Defaults RL_Login = per 5 1"
| "Defaults RL_LoginPerIP = per 50 15"
| "Defaults RL_Register = per 3 10"
| "Defaults RL_RegisterPerIP = per 10 15"
| "Defaults RL_ForgotPassword = per 3 15"
| "Defaults RL_ForgotPasswordPerIP = per 20 15"
| "Defaults RL_ResetPassword = per 5 15"
| "Defaults RL_PublicResendVerification = per 3 15"
| "Defaults RL_PublicResendVerifyPerIP = per 20 15"
| "Defaults RL_AccountResendVerification = per 5 15"
| "Defaults RL_ChangePassword = per 5 15"
| "Defaults RL_ChangeEmail = per 5 15"
| "Defaults RL_RevokeSession = per 20 15"
| "Defaults RL_RevokeOtherSessions = per 10 15"
| "Defaults RL_DeleteAccount = per 3 15"
| "Defaults RL_TOTPChallenge = per 5 1"
| "Defaults RL_TOTPDisable = per 5 15"
| "Defaults RL_TOTPConfirm = per 10 15"
| "Defaults RL_TOTPRegenerateCodes = per 5 15"
| "Defaults RL_PasskeyRegister = per 10 15"
| "Defaults RL_PasskeyLogin = per 10 1"
| "Defaults RL_PasskeyManage = per 20 15"

type_synonym Policies = "Name \<rightharpoonup> Policy"

definition resolve_one :: "Policies \<Rightarrow> Name \<Rightarrow> Policy" where
  "resolve_one overrides name =
     (let policy = Defaults name
      in case overrides name of
           None \<Rightarrow> policy
         | Some override \<Rightarrow>
             (let policy = (if 0 < MaxRequests override then policy\<lparr>MaxRequests := MaxRequests override\<rparr> else policy)
              in if 0 < Window override then policy\<lparr>Window := Window override\<rparr> else policy))"

definition Resolve :: "Policies \<Rightarrow> Policies" where
  "Resolve overrides = map_of (map (\<lambda>name. (name, resolve_one overrides name)) Names)"

lemma Names_complete [simp]: "name \<in> set Names"
  by (cases name) (simp_all add: Names_def)

lemma Resolve_eq: "Resolve overrides name = Some (resolve_one overrides name)"
  by (auto simp: Resolve_def map_of_map_restrict restrict_map_def map_of_eq_None_iff
      intro: map_of_is_SomeI)

lemma Defaults_positive: "0 < MaxRequests (Defaults name) \<and> 0 < Window (Defaults name)"
  by (cases name) (simp_all add: per_def minute_def second_def)

section \<open>The limiter\<close>

record rateLimitEntry =
  Count :: int
  ResetAt :: time

text \<open>A Go map is an association list with distinct keys; the mutex makes every call atomic.\<close>

record fixedWindowRateLimiter =
  entries :: "(string \<times> rateLimitEntry) list"
  calls :: "64 word"

definition newFixedWindowRateLimiter :: fixedWindowRateLimiter where
  "newFixedWindowRateLimiter = \<lparr>entries = [], calls = 0\<rparr>"

definition cleanupEveryNRateLimitCalls :: "64 word" where
  "cleanupEveryNRateLimitCalls = 256"

definition maxRateLimitEntries :: nat where
  "maxRateLimitEntries = 50000"

definition cleanupExpired :: "time \<Rightarrow> fixedWindowRateLimiter \<Rightarrow> fixedWindowRateLimiter" where
  "cleanupExpired now l = l\<lparr>entries := filter (\<lambda>(key, entry). now < ResetAt entry) (entries l)\<rparr>"

definition count_call :: "time \<Rightarrow> fixedWindowRateLimiter \<Rightarrow> fixedWindowRateLimiter" where
  "count_call now l =
     (let l = l\<lparr>calls := calls l + 1\<rparr>
      in if calls l mod cleanupEveryNRateLimitCalls = 0 then (cleanupExpired now l)\<lparr>calls := 0\<rparr> else l)"

definition set_entry :: "string \<Rightarrow> rateLimitEntry \<Rightarrow> fixedWindowRateLimiter \<Rightarrow> fixedWindowRateLimiter" where
  "set_entry key entry l = l\<lparr>entries := AList.update key entry (entries l)\<rparr>"

definition Allow :: "fixedWindowRateLimiter \<Rightarrow> string \<Rightarrow> Policy \<Rightarrow> time \<Rightarrow>
    (bool \<times> time) \<times> fixedWindowRateLimiter" where
  "Allow l bucketKey policy now =
     (if MaxRequests policy \<le> 0 \<or> Window policy \<le> 0 then ((True, 0), l)
      else
        let l = count_call now l
        in case map_of (entries l) bucketKey of
             None \<Rightarrow>
               if maxRateLimitEntries \<le> length (entries l) then ((False, Window policy), l)
               else ((True, 0), set_entry bucketKey \<lparr>Count = 1, ResetAt = now + Window policy\<rparr> l)
           | Some entry \<Rightarrow>
               if \<not> now < ResetAt entry
               then ((True, 0), set_entry bucketKey \<lparr>Count = 1, ResetAt = now + Window policy\<rparr> l)
               else if Count entry < MaxRequests policy
               then ((True, 0), set_entry bucketKey (entry\<lparr>Count := Count entry + 1\<rparr>) l)
               else ((False, max 0 (ResetAt entry - now)), l))"

section \<open>The invariant of the limiter\<close>

definition limiter_inv :: "fixedWindowRateLimiter \<Rightarrow> bool" where
  "limiter_inv l \<longleftrightarrow> distinct (map fst (entries l)) \<and> length (entries l) \<le> maxRateLimitEntries \<and>
     calls l < cleanupEveryNRateLimitCalls \<and> list_all (\<lambda>(k, e). 0 < Count e) (entries l)"

lemma distinct_keys_filter: "distinct (map fst xs) \<Longrightarrow> distinct (map fst (filter p xs))"
  by (induction xs) auto

lemma length_update:
  "length (AList.update k v xs) = (if k \<in> fst ` set xs then length xs else Suc (length xs))"
  by (induction xs) (auto split: if_splits)

lemma count_call_inv: "limiter_inv l \<Longrightarrow> limiter_inv (count_call now l)"
proof -
  assume inv: "limiter_inv l"
  then have small: "calls l < 256" by (simp add: limiter_inv_def cleanupEveryNRateLimitCalls_def)
  then have next_call: "calls l + 1 = 256 \<or> calls l + 1 < 256"
    by unat_arith
  have "length (filter p (entries l)) \<le> maxRateLimitEntries" for p
    using inv le_trans [OF length_filter_le] by (auto simp: limiter_inv_def)
  with inv next_call show ?thesis
    by (auto simp: limiter_inv_def count_call_def cleanupExpired_def cleanupEveryNRateLimitCalls_def Let_def
        distinct_keys_filter list_all_iff)
qed

lemma in_update: "(k', v') \<in> set (AList.update k v xs) \<Longrightarrow> k' = k \<and> v' = v \<or> (k', v') \<in> set xs"
  by (induction xs) (auto split: if_splits)

lemma set_entry_inv:
  assumes "limiter_inv l" and "0 < Count e"
    and "key \<in> fst ` set (entries l) \<or> length (entries l) < maxRateLimitEntries"
  shows "limiter_inv (set_entry key e l)"
proof -
  have "list_all (\<lambda>(k, e). 0 < Count e) (AList.update key e (entries l))"
    using assms(1,2) by (auto simp: limiter_inv_def list_all_iff dest!: in_update)
  with assms show ?thesis
    by (auto simp: limiter_inv_def set_entry_def distinct_update length_update)
qed

lemma map_of_key: "map_of xs k = Some e \<Longrightarrow> k \<in> fst ` set xs \<and> (k, e) \<in> set xs"
  by (force dest: map_of_SomeD)

lemma Allow_inv: "limiter_inv l \<Longrightarrow> Allow l k p now = (r, l') \<Longrightarrow> limiter_inv l'"
  using count_call_inv [of l now]
  by (auto simp: Allow_def Let_def split: if_splits option.splits intro!: set_entry_inv dest!: map_of_key)
    (auto simp: limiter_inv_def list_all_iff)

section \<open>One window per key\<close>

text \<open>The window of a key that is open at a time; expired entries count for nothing.\<close>

definition window :: "fixedWindowRateLimiter \<Rightarrow> time \<Rightarrow> string \<Rightarrow> rateLimitEntry option" where
  "window l t key = (case map_of (entries l) key of
     Some e \<Rightarrow> if t < ResetAt e then Some e else None | None \<Rightarrow> None)"

definition window_step :: "Policy \<Rightarrow> time \<Rightarrow> rateLimitEntry option \<Rightarrow> bool \<times> rateLimitEntry option" where
  "window_step policy now w = (case w of
     None \<Rightarrow> (True, Some \<lparr>Count = 1, ResetAt = now + Window policy\<rparr>)
   | Some e \<Rightarrow> if Count e < MaxRequests policy then (True, Some (e\<lparr>Count := Count e + 1\<rparr>)) else (False, Some e))"

lemma map_of_filter_distinct:
  "distinct (map fst xs) \<Longrightarrow> map_of (filter (\<lambda>(k, e). p e) xs) k =
     (case map_of xs k of Some e \<Rightarrow> if p e then Some e else None | None \<Rightarrow> None)"
proof (induction xs)
  case (Cons a xs)
  obtain k0 e0 where a: "a = (k0, e0)" by fastforce
  with Cons.prems have "map_of xs k0 = None" by (simp add: map_of_eq_None_iff)
  with Cons a show ?case by (auto split: option.splits)
qed simp

lemma window_cleanup:
  "limiter_inv l \<Longrightarrow> now \<le> t \<Longrightarrow> window (cleanupExpired now l) t k = window l t k"
  by (auto simp: window_def cleanupExpired_def limiter_inv_def map_of_filter_distinct split: option.splits)

lemma window_count_call: "limiter_inv l \<Longrightarrow> now \<le> t \<Longrightarrow> window (count_call now l) t k = window l t k"
  using window_cleanup [of l now t k]
  by (auto simp: count_call_def Let_def window_def cleanupExpired_def)

lemma window_set_entry:
  "window (set_entry k e l) t k' = (if k' = k then (if t < ResetAt e then Some e else None) else window l t k')"
  by (auto simp: window_def set_entry_def update_conv)

lemma enabled_Allow:
  assumes "0 < MaxRequests p" and "0 < Window p" and "limiter_inv l" and "Allow l k p now = ((ok, retry), l')"
  shows "if ok \<or> window l now k \<noteq> None
    then (ok, window l' now k) = window_step p now (window l now k)
    else length (entries l') = maxRateLimitEntries \<and> window l' now k = None"
    and "now \<le> t \<Longrightarrow> k' \<noteq> k \<Longrightarrow> window l' t k' = window l t k'"
proof -
  let ?c = "count_call now l"
  have wc: "window l t k = window ?c t k" if "now \<le> t" for t k
    using window_count_call [OF assms(3) that] by simp
  have full: "length (entries ?c) \<le> maxRateLimitEntries"
    using count_call_inv [OF assms(3)] by (simp add: limiter_inv_def)
  show "if ok \<or> window l now k \<noteq> None
    then (ok, window l' now k) = window_step p now (window l now k)
    else length (entries l') = maxRateLimitEntries \<and> window l' now k = None"
  proof (cases "map_of (entries ?c) k")
    case None
    with assms full show ?thesis
      by (auto simp: Allow_def Let_def wc window_set_entry window_step_def split: if_splits)
        (simp_all add: window_def)
  next
    case (Some e)
    with assms show ?thesis
      by (auto simp: Allow_def Let_def wc window_set_entry window_step_def split: if_splits)
        (simp_all add: window_def window_step_def)
  qed
  show "window l' t k' = window l t k'" if "now \<le> t" "k' \<noteq> k"
    using assms that by (auto simp: Allow_def Let_def wc window_set_entry split: if_splits option.splits)
qed

end
