(* ===== verification/Rate_Limit_Claims.thy ===== *)
theory Rate_Limit_Claims
  imports Rate_Limit
begin

text \<open>
  What the rate limiter guarantees: bounded memory in every reachable state, one independent window
  per key, at most two windows' worth of requests in any interval of the length of a window, and
  that a caller who waits as told is let in.
\<close>

section \<open>Reachable states\<close>

inductive limiter_reachable :: "fixedWindowRateLimiter \<Rightarrow> bool" where
  start: "limiter_reachable newFixedWindowRateLimiter"
| call: "limiter_reachable l \<Longrightarrow> Allow l k p now = (r, l') \<Longrightarrow> limiter_reachable l'"

lemma new_inv: "limiter_inv newFixedWindowRateLimiter"
  by (simp add: limiter_inv_def newFixedWindowRateLimiter_def cleanupEveryNRateLimitCalls_def)

text \<open>
  In every reachable state of the limiter, whatever keys, policies and clock readings it was
  called with, there are at most fifty thousand entries, their keys are distinct, every entry counts
  at least one request, and the counter of calls is below the cleaning period, so that its
  increment never wraps around.
\<close>

theorem limiter_invariant:
  assumes "limiter_reachable l"
  shows "distinct (map fst (entries l)) \<and> length (entries l) \<le> 50000 \<and> unat (calls l) < 256 \<and>
    list_all (\<lambda>(k, e). 0 < Count e) (entries l)"
proof -
  from assms have "limiter_inv l"
    by (induction rule: limiter_reachable.induct) (auto intro: new_inv Allow_inv)
  moreover have "unat c < 256" if "c < 256" for c :: "64 word"
    using that by unat_arith
  ultimately show ?thesis
    by (auto simp: limiter_inv_def maxRateLimitEntries_def cleanupEveryNRateLimitCalls_def)
qed

theorem limiter_invariant_witness:
  "length (entries (snd (Allow newFixedWindowRateLimiter ''login|ip:10.0.0.1'' (Defaults RL_Login) 0))) \<le> 50000"
proof -
  let ?l = "snd (Allow newFixedWindowRateLimiter ''login|ip:10.0.0.1'' (Defaults RL_Login) 0)"
  have "limiter_reachable ?l"
    by (rule limiter_reachable.call [OF limiter_reachable.start]) (rule prod.collapse [symmetric])
  from limiter_invariant [OF this] show ?thesis by simp
qed

section \<open>Independence of the keys\<close>

text \<open>
  C22: the limiter refines one counting window per key.  A request admitted, or made while the
  window of its key is open, takes that window through exactly the step of a fixed-window counter;
  a request without an open window is refused only when the table is full, and then leaves the key
  without a window; and no request changes the window of another key, now or later, not even when
  expired entries are swept.
\<close>

theorem limiter_refines_windows:
  assumes "limiter_inv l" and "0 < MaxRequests p" and "0 < Window p"
    and "Allow l k p now = ((ok, retry), l')"
  shows "(if ok \<or> window l now k \<noteq> None
      then (ok, window l' now k) = window_step p now (window l now k)
      else length (entries l') = maxRateLimitEntries \<and> window l' now k = None) \<and>
    (now \<le> t \<longrightarrow> k' \<noteq> k \<longrightarrow> window l' t k' = window l t k')"
  using enabled_Allow [OF assms(2,3,1,4)] by blast

definition ex_limiter :: fixedWindowRateLimiter where
  "ex_limiter = \<lparr>entries = [(''a'', \<lparr>Count = 1, ResetAt = 100\<rparr>), (''b'', \<lparr>Count = 2, ResetAt = 5\<rparr>)], calls = 255\<rparr>"

lemma ex_limiter_inv: "limiter_inv ex_limiter"
  by (simp add: limiter_inv_def ex_limiter_def maxRateLimitEntries_def cleanupEveryNRateLimitCalls_def)

lemma ex_limiter_allow:
  "Allow ex_limiter ''a'' \<lparr>MaxRequests = 2, Window = 100\<rparr> 10 =
     ((True, 0), \<lparr>entries = [(''a'', \<lparr>Count = 2, ResetAt = 100\<rparr>)], calls = 0\<rparr>)"
  by (simp add: Allow_def ex_limiter_def count_call_def cleanupExpired_def cleanupEveryNRateLimitCalls_def
      set_entry_def)

theorem limiter_refines_windows_witness:
  "window \<lparr>entries = [(''a'', \<lparr>Count = 2, ResetAt = 100\<rparr>)], calls = 0\<rparr> 10 ''a'' = Some \<lparr>Count = 2, ResetAt = 100\<rparr> \<and>
   window \<lparr>entries = [(''a'', \<lparr>Count = 2, ResetAt = 100\<rparr>)], calls = 0\<rparr> 10 ''b'' = window ex_limiter 10 ''b''"
  using limiter_refines_windows [OF ex_limiter_inv _ _ ex_limiter_allow, of 10 "''b''"]
  by (simp add: window_step_def ex_limiter_def window_def)

section \<open>Bursts\<close>

type_synonym call = "string \<times> Policy \<times> time"

text \<open>The requests of a key admitted in the interval from \<open>a\<close> to \<open>b\<close>, of a sequence of calls.\<close>

fun admitted :: "fixedWindowRateLimiter \<Rightarrow> string \<Rightarrow> time \<Rightarrow> time \<Rightarrow> call list \<Rightarrow> int" where
  "admitted l k a b [] = 0"
| "admitted l k a b ((key, p, now) # cs) =
     (case Allow l key p now of ((ok, _), l') \<Rightarrow>
        (if ok \<and> key = k \<and> a \<le> now \<and> now < b then 1 else 0) + admitted l' k a b cs)"

lemma other_key_window:
  assumes "limiter_inv l" and "Allow l key p now = (r, l')" and "now \<le> t" and "k \<noteq> key"
  shows "window l' t k = window l t k"
proof (cases "0 < MaxRequests p \<and> 0 < Window p")
  case True
  obtain ok retry where "r = (ok, retry)" by fastforce
  with True enabled_Allow(2) [of p l key now ok retry l' t k] assms show ?thesis by blast
next
  case False
  with assms(2) show ?thesis by (auto simp: Allow_def)
qed

lemma window_later: "t \<le> t' \<Longrightarrow> window l t' k =
    (case window l t k of None \<Rightarrow> None | Some e \<Rightarrow> if t' < ResetAt e then Some e else None)"
  by (auto simp: window_def split: option.splits)

text \<open>How many more requests the interval of length \<open>Window p\<close> from \<open>a\<close> can take.\<close>

definition capacity :: "Policy \<Rightarrow> time \<Rightarrow> time \<Rightarrow> rateLimitEntry option \<Rightarrow> int" where
  "capacity p a t w =
     (if a + Window p \<le> t then 0
      else case w of
        None \<Rightarrow> if a \<le> t then MaxRequests p else 2 * MaxRequests p - 1
      | Some e \<Rightarrow> if a + Window p \<le> ResetAt e then MaxRequests p - Count e
                  else if a \<le> ResetAt e then 2 * MaxRequests p - Count e else 2 * MaxRequests p - 1)"

definition counted :: "Policy \<Rightarrow> rateLimitEntry option \<Rightarrow> bool" where
  "counted p w \<longleftrightarrow> (case w of None \<Rightarrow> True | Some e \<Rightarrow> 0 < Count e \<and> Count e \<le> MaxRequests p)"

lemma capacity_later:
  assumes "0 < MaxRequests p" and "counted p (window l t k)" and "t \<le> t'"
  shows "capacity p a t' (window l t' k) \<le> capacity p a t (window l t k) \<and> counted p (window l t' k)"
  using assms by (auto simp: capacity_def counted_def window_later [OF assms(3)] split: option.splits)

lemma capacity_step:
  assumes "0 < MaxRequests p" and "0 < Window p" and "counted p w" and "window_step p now w = (ok, w')"
    and "w \<noteq> None \<Longrightarrow> now < ResetAt (the w)"
  shows "(if ok \<and> a \<le> now \<and> now < a + Window p then 1 else 0) + capacity p a now w' \<le> capacity p a now w
    \<and> counted p w'"
  using assms by (auto simp: window_step_def capacity_def counted_def split: option.splits if_splits)

lemma window_open: "window l now k \<noteq> None \<Longrightarrow> now < ResetAt (the (window l now k))"
  by (auto simp: window_def split: option.splits if_splits)

lemma admitted_capacity:
  assumes "0 < MaxRequests p" and "0 < Window p" and "limiter_inv l" and "counted p (window l t k)"
    and "sorted (t # map (\<lambda>(key, q, now). now) cs)"
    and "list_all (\<lambda>(key, q, now). key = k \<longrightarrow> q = p) cs"
  shows "admitted l k a (a + Window p) cs \<le> capacity p a t (window l t k)"
  using assms(3-6)
proof (induction cs arbitrary: l t)
  case Nil
  then show ?case using assms(1) by (auto simp: capacity_def counted_def split: option.splits)
next
  case (Cons c cs)
  obtain key q now where c: "c = (key, q, now)" by (cases c) auto
  obtain ok retry l' where step: "Allow l key q now = ((ok, retry), l')" by (metis prod.exhaust)
  from Cons.prems have now: "t \<le> now" and rest: "sorted (now # map (\<lambda>(key, q, now). now) cs)"
    "list_all (\<lambda>(key, q, now). key = k \<longrightarrow> q = p) cs" by (auto simp: c)
  note later = capacity_later [OF assms(1) Cons.prems(2) now, of a]
  have inv: "limiter_inv l'" by (rule Allow_inv [OF Cons.prems(1) step])
  let ?n = "if ok \<and> key = k \<and> a \<le> now \<and> now < a + Window p then 1 else 0 :: int"
  have "?n + capacity p a now (window l' now k) \<le> capacity p a now (window l now k) \<and> counted p (window l' now k)"
  proof (cases "key = k")
    case False
    with other_key_window [OF Cons.prems(1) step, of now k] later show ?thesis by simp
  next
    case True
    with Cons.prems(4) have q: "q = p" by (simp add: c)
    note spec = enabled_Allow(1) [OF assms(1,2) Cons.prems(1) step [unfolded q True]]
    show ?thesis
    proof (cases "ok \<or> window l now k \<noteq> None")
      case True
      with spec have ws: "window_step p now (window l now k) = (ok, window l' now k)" by simp
      from capacity_step [OF assms(1,2) _ ws window_open, of a] later \<open>key = k\<close> show ?thesis by simp
    next
      case False
      with spec later show ?thesis by auto
    qed
  qed
  moreover from this have "admitted l' k a (a + Window p) cs \<le> capacity p a now (window l' now k)"
    by (intro Cons.IH inv rest) simp
  ultimately show ?case using later by (simp add: c step)
qed

text \<open>
  C23: the burst at a window boundary.  Over any sequence of calls with a clock that does not run
  backwards, the requests of one key admitted in an interval as long as the window, wherever it starts,
  are at most twice the limit less one.  The comment at the limiter speaks of a full limit just before
  the reset and a full limit just after, twice the limit in all; that is not reached, because a window
  starts with the request that opens it, which lies a whole window before the reset.
\<close>

theorem rate_limit_burst_bound:
  assumes "0 < MaxRequests p" and "0 < Window p"
    and "sorted (map (\<lambda>(key, q, now). now) cs)"
    and "list_all (\<lambda>(key, q, now). key = k \<longrightarrow> q = p) cs"
  shows "admitted newFixedWindowRateLimiter k a (a + Window p) cs \<le> 2 * MaxRequests p - 1"
proof (cases cs)
  case Nil
  with assms(1) show ?thesis by simp
next
  case (Cons c rest)
  let ?t = "(\<lambda>(key, q, now). now) c" and ?new = "newFixedWindowRateLimiter"
  have none: "window ?new t k = None" for t by (simp add: window_def newFixedWindowRateLimiter_def)
  have "admitted ?new k a (a + Window p) cs \<le> capacity p a ?t (window ?new ?t k)"
    using assms Cons by (intro admitted_capacity new_inv) (auto simp: none counted_def)
  also have "\<dots> \<le> 2 * MaxRequests p - 1" using assms(1) by (simp add: none capacity_def)
  finally show ?thesis .
qed

definition ex_policy :: Policy where
  "ex_policy = \<lparr>MaxRequests = 2, Window = 10\<rparr>"

definition ex_calls :: "call list" where
  "ex_calls = map (\<lambda>t. (''k'', ex_policy, t)) [0, 9, 10, 11]"

text \<open>The bound is reached: three requests in ten ticks with a limit of two.\<close>

lemma ex_admitted: "admitted newFixedWindowRateLimiter ''k'' 5 15 ex_calls = 3"
  by (simp add: ex_calls_def ex_policy_def newFixedWindowRateLimiter_def Allow_def Let_def count_call_def
      cleanupEveryNRateLimitCalls_def set_entry_def maxRateLimitEntries_def)

theorem rate_limit_burst_bound_witness:
  "admitted newFixedWindowRateLimiter ''k'' 5 15 ex_calls = 3 \<and> 3 \<le> 2 * MaxRequests ex_policy - 1"
proof -
  have "sorted (map (\<lambda>(key, q, now). now) ex_calls)" "list_all (\<lambda>(key, q, now). key = ''k'' \<longrightarrow> q = ex_policy) ex_calls"
    "0 < MaxRequests ex_policy" "Window ex_policy = 10"
    by (simp_all add: ex_calls_def ex_policy_def)
  with rate_limit_burst_bound [of ex_policy ex_calls "''k''" 5] ex_admitted show ?thesis by simp
qed

section \<open>Waiting\<close>

lemma swept_shorter:
  assumes "(k, e) \<in> set (entries l)" and "\<not> t < ResetAt e"
  shows "length (entries (cleanupExpired t l)) < length (entries l)"
  using assms by (auto simp: cleanupExpired_def intro!: length_filter_less)

text \<open>The limiter after a sequence of calls.\<close>

fun after_calls :: "fixedWindowRateLimiter \<Rightarrow> call list \<Rightarrow> fixedWindowRateLimiter" where
  "after_calls l [] = l"
| "after_calls l ((key, p, now) # cs) = after_calls (snd (Allow l key p now)) cs"

lemma window_Some_iff: "window l u k = Some e \<longleftrightarrow> map_of (entries l) k = Some e \<and> u < ResetAt e"
  by (auto simp: window_def split: option.splits)

text \<open>No call made before an entry expires removes it or moves its end.\<close>

lemma entry_stays:
  assumes "limiter_inv l" and "map_of (entries l) k = Some e" and "u < ResetAt e" and "Allow l key q u = (r, l')"
  shows "\<exists>e'. map_of (entries l') k = Some e' \<and> ResetAt e' = ResetAt e"
proof -
  from assms(2,3) have w: "window l u k = Some e" by (simp add: window_Some_iff)
  show ?thesis
  proof (cases "key = k \<and> 0 < MaxRequests q \<and> 0 < Window q")
    case True
    obtain ok retry where r: "r = (ok, retry)" by fastforce
    with True w enabled_Allow(1) [of q l k u ok retry l'] assms(1,4)
    have "(ok, window l' u k) = window_step q u (Some e)" by auto
    then obtain e' where "window l' u k = Some e'" "ResetAt e' = ResetAt e"
      using assms(3) by (auto simp: window_step_def split: if_splits)
    then show ?thesis by (auto simp: window_Some_iff)
  next
    case False
    then have "window l' u k = Some e"
      using other_key_window [OF assms(1,4), of u k] w assms(4) by (cases "key = k") (auto simp: Allow_def split: if_splits)
    then show ?thesis by (auto simp: window_Some_iff)
  qed
qed

lemma entry_stays_after:
  assumes "limiter_inv l" and "map_of (entries l) k = Some e" and "list_all (\<lambda>(key, q, u). u < ResetAt e) cs"
  shows "limiter_inv (after_calls l cs) \<and> (\<exists>e'. map_of (entries (after_calls l cs)) k = Some e' \<and> ResetAt e' = ResetAt e)"
  using assms
proof (induction cs arbitrary: l e)
  case (Cons c cs)
  obtain key q u where c: "c = (key, q, u)" by (cases c) auto
  obtain r l' where step: "Allow l key q u = (r, l')" by fastforce
  from entry_stays [OF Cons.prems(1,2) _ step] Cons.prems(3) obtain e' where
    e': "map_of (entries l') k = Some e'" "ResetAt e' = ResetAt e" by (auto simp: c)
  from Cons.IH [OF Allow_inv [OF Cons.prems(1) step] e'(1)] Cons.prems(3) e'(2) show ?case
    by (simp add: c step)
qed simp

text \<open>A request whose entry has expired is admitted, even when the entry is swept by that very call.\<close>

lemma expired_admits:
  assumes "limiter_inv l" and "0 < MaxRequests p" and "0 < Window p"
    and "map_of (entries l) k = Some e" and "\<not> t < ResetAt e"
  shows "fst (fst (Allow l k p t))"
proof (cases "map_of (entries (count_call t l)) k")
  case None
  with assms(4) have "entries (count_call t l) = entries (cleanupExpired t l)"
    by (auto simp: count_call_def Let_def cleanupExpired_def split: if_splits)
  with swept_shorter [of k e l t] assms have "length (entries (count_call t l)) < maxRateLimitEntries"
    by (auto simp: limiter_inv_def dest: map_of_SomeD)
  with None assms(2,3) show ?thesis by (simp add: Allow_def Let_def)
next
  case (Some f)
  have "window (count_call t l) t k = None"
    unfolding window_count_call [OF assms(1) order_refl] using assms(4,5) by (simp add: window_def)
  with Some have "\<not> t < ResetAt f" by (simp add: window_def split: if_splits)
  with Some assms(2,3) show ?thesis by (simp add: Allow_def Let_def)
qed

lemma refused_cases:
  assumes "limiter_inv l" and "0 < MaxRequests p" and "0 < Window p" and "Allow l k p now = ((False, retry), l')"
  shows "if window l now k = None then retry = Window p \<and> length (entries l') = maxRateLimitEntries
    else 0 < retry \<and> (\<exists>e. map_of (entries l') k = Some e \<and> ResetAt e = now + retry)"
proof (cases "window l now k")
  case None
  with window_count_call [OF assms(1), of now now k] have "window (count_call now l) now k = None" by simp
  with None enabled_Allow(1) [OF assms(2,3,1,4)] assms(2-4) show ?thesis
    by (auto simp: Allow_def Let_def window_def split: if_splits option.splits)
next
  case (Some e)
  with window_count_call [OF assms(1), of now now k] have "window (count_call now l) now k = Some e" by simp
  then have "map_of (entries (count_call now l)) k = Some e" "now < ResetAt e" by (simp_all add: window_Some_iff)
  with assms(2-4) show ?thesis
    unfolding Some by (auto simp: Allow_def Let_def split: if_splits)
qed

text \<open>
  C24: \<^verbatim>\<open>Retry-After\<close>.  A refusal always names a positive delay, and there are two kinds.  When the open
  window of the key is used up, the delay is honest: whatever calls, of this or any other key, reach the
  limiter before it is over, a request of the key that is the next one after the delay is admitted, even
  if it sweeps the table or the table is full.  Otherwise the table is full and has no entry for
  the key; then the delay is the length of the window, and nothing is promised.
\<close>

theorem retry_after_admits:
  assumes "limiter_inv l" and "0 < MaxRequests p" and "0 < Window p"
    and "Allow l k p now = ((False, retry), l')"
  shows "0 < retry \<and>
    (if window l now k = None then retry = Window p \<and> length (entries l') = maxRateLimitEntries
     else \<forall>cs t. list_all (\<lambda>(key, q, u). u < now + retry) cs \<longrightarrow> now + retry \<le> t \<longrightarrow>
       fst (fst (Allow (after_calls l' cs) k p t)))"
proof (cases "window l now k = None")
  case True
  with refused_cases [OF assms] assms(3) show ?thesis by simp
next
  case False
  with refused_cases [OF assms] obtain e where e: "0 < retry" "map_of (entries l') k = Some e" "ResetAt e = now + retry"
    by auto
  have "fst (fst (Allow (after_calls l' cs) k p t))"
    if "list_all (\<lambda>(key, q, u). u < now + retry) cs" "now + retry \<le> t" for cs t
    using entry_stays_after [OF Allow_inv [OF assms(1,4)] e(2), of cs] expired_admits [OF _ assms(2,3)] that e(3) by auto
  with e(1) False show ?thesis by auto
qed

definition ex_full_window :: fixedWindowRateLimiter where
  "ex_full_window = \<lparr>entries = [(''k'', \<lparr>Count = 2, ResetAt = 10\<rparr>)], calls = 0\<rparr>"

theorem retry_after_admits_witness:
  "Allow ex_full_window ''k'' ex_policy 4 = ((False, 6), ex_full_window\<lparr>calls := 1\<rparr>) \<and>
   fst (fst (Allow (after_calls (ex_full_window\<lparr>calls := 1\<rparr>) [(''k'', ex_policy, 6), (''other'', ex_policy, 9)]) ''k'' ex_policy 10))"
proof -
  have refused: "Allow ex_full_window ''k'' ex_policy 4 = ((False, 6), ex_full_window\<lparr>calls := 1\<rparr>)"
    by (simp add: Allow_def ex_full_window_def ex_policy_def count_call_def cleanupEveryNRateLimitCalls_def)
  have l: "limiter_inv ex_full_window" "window ex_full_window 4 ''k'' \<noteq> None"
    by (simp_all add: limiter_inv_def ex_full_window_def maxRateLimitEntries_def
        cleanupEveryNRateLimitCalls_def window_def)
  have p: "0 < MaxRequests ex_policy" "0 < Window ex_policy" by (simp_all add: ex_policy_def)
  from retry_after_admits [OF l(1) p refused] l(2)
  have admits: "list_all (\<lambda>(key, q, u). u < 4 + 6) cs \<Longrightarrow> 4 + 6 \<le> t \<Longrightarrow>
      fst (fst (Allow (after_calls (ex_full_window\<lparr>calls := 1\<rparr>) cs) ''k'' ex_policy t))" for cs t
    by simp
  show ?thesis by (intro conjI refused admits) simp_all
qed

section \<open>Policies\<close>

text \<open>
  After \<^verbatim>\<open>Resolve\<close> every action has a policy and no action is unlimited: both numbers are
  positive, each is the override when that is positive and the default otherwise.
\<close>

theorem resolve_policies:
  "\<exists>p. Resolve overrides name = Some p \<and> 0 < MaxRequests p \<and> 0 < Window p \<and>
     MaxRequests p = (case overrides name of
        Some q \<Rightarrow> if 0 < MaxRequests q then MaxRequests q else MaxRequests (Defaults name)
      | None \<Rightarrow> MaxRequests (Defaults name)) \<and>
     Window p = (case overrides name of
        Some q \<Rightarrow> if 0 < Window q then Window q else Window (Defaults name)
      | None \<Rightarrow> Window (Defaults name))"
  unfolding Resolve_eq using Defaults_positive [of name]
  by (auto simp: resolve_one_def Let_def split: option.splits)

end
