(* ===== verification/Email_Outbox.thy ===== *)
theory Email_Outbox
  imports Auth_Properties Reliable_Runs
begin

text \<open>
  The transactional outbox: the store (\<^verbatim>\<open>internal/database/email_outbox_store.go\<close>) and the
  processor that claims, sends and marks messages (\<^verbatim>\<open>internal/email/processor.go\<close>).  The
  processor is verified against the interface \<^verbatim>\<open>OutboxStore\<close>, a locale that the store
  interprets.
\<close>

section \<open>The store\<close>

record OutboxEmail =
  oe_ID :: int
  oe_Message :: Message
  oe_Attempts :: int
  oe_ClaimToken :: string

definition outbox_Enqueue :: "Message \<Rightarrow> time \<Rightarrow> outbox_row op" where
  "outbox_Enqueue message availableAt =
     wrapped ''enqueue email'' (exec (Q_EnqueueEmail (msg_From message) (msg_To message)
       (msg_Subject message) (msg_TextBody message) (msg_HTMLBody message) availableAt))"

definition generateClaimToken :: "string op" where
  "generateClaimToken = try_op (rand_Read 16) (\<lambda>raw. ret (Inr (hex_encode raw)))"

definition outboxEmailFromDB :: "outbox_row \<Rightarrow> OutboxEmail" where
  "outboxEmailFromDB row =
     \<lparr>oe_ID = out_ID row,
      oe_Message = \<lparr>msg_From = out_Sender row, msg_To = out_Recipient row, msg_Subject = out_Subject row,
                    msg_TextBody = out_TextBody row, msg_HTMLBody = out_HtmlBody row\<rparr>,
      oe_Attempts = out_Attempts row, oe_ClaimToken = out_ClaimToken row\<rparr>"

definition outbox_ClaimPending :: "time \<Rightarrow> time \<Rightarrow> int \<Rightarrow> OutboxEmail list op" where
  "outbox_ClaimPending now claimTTL lim =
     (if lim \<le> 0 then ret (Inl (ErrMsg ''claim pending emails limit must be greater than zero''))
      else if claimTTL \<le> 0 then ret (Inl (ErrMsg ''claim pending emails ttl must be greater than zero''))
      else
        try_op (wrapped ''generate outbox claim token'' generateClaimToken) (\<lambda>claimToken.
        try_op (wrapped ''claim pending emails''
                 (exec (Q_ClaimPendingEmails now (Some (now + claimTTL)) claimToken lim))) (\<lambda>rows.
        ret (Inr (map outboxEmailFromDB rows)))))"

definition outbox_MarkSent :: "int \<Rightarrow> string \<Rightarrow> time \<Rightarrow> unit op" where
  "outbox_MarkSent oid claimToken sentAt =
     try_op (wrapped ''mark email sent'' (exec (Q_MarkEmailSent (Some sentAt) oid claimToken))) (\<lambda>_. ret (Inr ()))"

definition outbox_MarkFailed :: "int \<Rightarrow> string \<Rightarrow> string \<Rightarrow> time \<Rightarrow> unit op" where
  "outbox_MarkFailed oid claimToken lastError availableAt =
     try_op (wrapped ''mark email failed''
              (exec (Q_MarkEmailFailed lastError availableAt oid claimToken))) (\<lambda>_. ret (Inr ()))"

definition outbox_MarkFailedPermanently :: "int \<Rightarrow> string \<Rightarrow> string \<Rightarrow> time \<Rightarrow> unit op" where
  "outbox_MarkFailedPermanently oid claimToken lastError failedAt =
     try_op (wrapped ''mark email permanently failed''
              (exec (Q_MarkEmailFailedPermanently lastError failedAt oid claimToken))) (\<lambda>_. ret (Inr ()))"

text \<open>The interface the processor calls, and the store as one.\<close>

record OutboxStore =
  os_ClaimPending :: "time \<Rightarrow> time \<Rightarrow> int \<Rightarrow> OutboxEmail list op"
  os_MarkSent :: "int \<Rightarrow> string \<Rightarrow> time \<Rightarrow> unit op"
  os_MarkFailed :: "int \<Rightarrow> string \<Rightarrow> string \<Rightarrow> time \<Rightarrow> unit op"
  os_MarkFailedPermanently :: "int \<Rightarrow> string \<Rightarrow> string \<Rightarrow> time \<Rightarrow> unit op"

definition EmailOutboxStore :: OutboxStore where
  "EmailOutboxStore = \<lparr>os_ClaimPending = outbox_ClaimPending, os_MarkSent = outbox_MarkSent,
     os_MarkFailed = outbox_MarkFailed, os_MarkFailedPermanently = outbox_MarkFailedPermanently\<rparr>"

section \<open>The processor\<close>

definition MaxLastErrorLength :: nat where
  "MaxLastErrorLength = 1024"

function cut_invalid :: "bytes \<Rightarrow> bytes" where
  "cut_invalid truncated = (if ValidString truncated then truncated else cut_invalid (butlast truncated))"
  by pat_completeness auto
termination
proof (relation "measure length")
  fix s :: bytes
  assume "\<not> ValidString s"
  then have "s \<noteq> []" by auto
  then show "(butlast s, s) \<in> measure length" by simp
qed simp

declare cut_invalid.simps [simp del]

definition truncateLastError :: "string \<Rightarrow> string" where
  "truncateLastError lastError =
     (if length lastError \<le> MaxLastErrorLength then lastError
      else cut_invalid (take MaxLastErrorLength lastError))"

text \<open>
  A \<open>Sender\<close> answers \<open>None\<close> when the message was handed over, otherwise the text of the error.  The
  store and the sender of a processor may be missing (nil).
\<close>

type_synonym Sender = "Message \<Rightarrow> (world, string option) state"

record Processor =
  pr_store :: "OutboxStore option"
  pr_sender :: "Sender option"
  pr_batchSize :: int
  pr_retryDelay :: time
  pr_maxAttempts :: int
  pr_claimTTL :: time

definition NewProcessor ::
  "OutboxStore option \<Rightarrow> Sender option \<Rightarrow> int \<Rightarrow> time \<Rightarrow> int \<Rightarrow> time \<Rightarrow> Processor" where
  "NewProcessor store sender batchSize retryDelay maxAttempts claimTTL =
     \<lparr>pr_store = store, pr_sender = sender,
      pr_batchSize = default_if_zero batchSize 10,
      pr_retryDelay = default_if_zero retryDelay (60 * second),
      pr_maxAttempts = default_if_zero maxAttempts 5,
      pr_claimTTL = default_if_zero claimTTL (120 * second)\<rparr>"

definition Processor_Validate :: "Processor \<Rightarrow> unit result" where
  "Processor_Validate p =
     (if pr_store p = None then Inl (ErrMsg ''email processor store is required'')
      else if pr_sender p = None then Inl (ErrMsg ''email processor sender is required'')
      else Inr ())"

text \<open>The counters of a cycle, which the processor logs.\<close>

record cycle =
  cy_claimed :: nat
  cy_sent :: nat
  cy_retryScheduled :: nat
  cy_permanentFailures :: nat
  cy_skippedClaimLost :: nat

text \<open>
  \<open>mark\<close> is the step after a mark: a lost claim is counted and skipped, any other error ends the
  cycle (the text of the send error, which the code quotes in that error, is left out).  The three
  branches read the clock once, after the message was sent.
\<close>

definition mark :: "string \<Rightarrow> unit op \<Rightarrow> (cycle \<Rightarrow> cycle) \<Rightarrow> cycle \<Rightarrow> cycle op" where
  "mark msg m count c = do {
     r \<leftarrow> m;
     case r of
       Inl e \<Rightarrow>
         if errors_Is e ErrNoRows
         then ret (Inr (c\<lparr>cy_skippedClaimLost := Suc (cy_skippedClaimLost c)\<rparr>))
         else ret (Inl (Errorf msg e))
     | Inr _ \<Rightarrow> ret (Inr (count c))
   }"

definition process_one ::
  "OutboxStore \<Rightarrow> Sender \<Rightarrow> Processor \<Rightarrow> OutboxEmail \<Rightarrow> cycle \<Rightarrow> cycle op" where
  "process_one S send p outboxEmail c = do {
     sent \<leftarrow> send (oe_Message outboxEmail);
     now \<leftarrow> time_now;
     case sent of
       Some err \<Rightarrow>
         (let nextAttempt = oe_Attempts outboxEmail + 1;
              lastError = truncateLastError err
          in if pr_maxAttempts p \<le> nextAttempt
             then mark ''mark email permanently failed after send error''
                    (os_MarkFailedPermanently S (oe_ID outboxEmail) (oe_ClaimToken outboxEmail) lastError now)
                    (\<lambda>c. c\<lparr>cy_permanentFailures := Suc (cy_permanentFailures c)\<rparr>) c
             else mark ''mark email failed after send error''
                    (os_MarkFailed S (oe_ID outboxEmail) (oe_ClaimToken outboxEmail) lastError
                       (now + pr_retryDelay p))
                    (\<lambda>c. c\<lparr>cy_retryScheduled := Suc (cy_retryScheduled c)\<rparr>) c)
     | None \<Rightarrow>
         mark ''mark email sent'' (os_MarkSent S (oe_ID outboxEmail) (oe_ClaimToken outboxEmail) now)
           (\<lambda>c. c\<lparr>cy_sent := Suc (cy_sent c)\<rparr>) c
   }"

fun process_all ::
  "OutboxStore \<Rightarrow> Sender \<Rightarrow> Processor \<Rightarrow> OutboxEmail list \<Rightarrow> cycle \<Rightarrow> cycle op" where
  "process_all S send p [] c = ret (Inr c)"
| "process_all S send p (m # ms) c = try_op (process_one S send p m c) (process_all S send p ms)"

definition no_cycle :: "nat \<Rightarrow> cycle" where
  "no_cycle n = \<lparr>cy_claimed = n, cy_sent = 0, cy_retryScheduled = 0, cy_permanentFailures = 0,
     cy_skippedClaimLost = 0\<rparr>"

definition ProcessPending :: "Processor \<Rightarrow> cycle op" where
  "ProcessPending p =
     (case Processor_Validate p of
       Inl e \<Rightarrow> ret (Inl e)
     | Inr _ \<Rightarrow> (let S = the (pr_store p); send = the (pr_sender p) in do {
         startedAt \<leftarrow> time_now;
         now \<leftarrow> time_now;
         try_op (wrapped ''claim pending email'' (os_ClaimPending S now (pr_claimTTL p) (pr_batchSize p)))
           (\<lambda>messages. process_all S send p messages (no_cycle (length messages)))
       }))"

lemma ProcessPending_valid:
  "pr_store p = Some S \<Longrightarrow> pr_sender p = Some send \<Longrightarrow>
     ProcessPending p = do {
       startedAt \<leftarrow> time_now;
       now \<leftarrow> time_now;
       try_op (wrapped ''claim pending email'' (os_ClaimPending S now (pr_claimTTL p) (pr_batchSize p)))
         (\<lambda>messages. process_all S send p messages (no_cycle (length messages)))
     }"
  by (simp add: ProcessPending_def Processor_Validate_def)

end
