(* ===== verification/Outbox_Claims.thy ===== *)
theory Outbox_Claims
  imports Email_Outbox Fixtures
begin

text \<open>
  The contract of the store towards the processor, that the store keeps it, and what follows for any
  number of concurrent workers: the attempts recorded for a message are bounded, and a worker whose
  claim was lost changes nothing.
\<close>

section \<open>The contract of the store\<close>

text \<open>
  \<open>ok M d\<close>: no message has more than \<open>M\<close> attempts.  \<open>owned e d\<close>: as long as the row of a claimed
  message carries the token of the claim, it has the attempts the claim reported.
\<close>

locale outbox_contract =
  fixes S :: OutboxStore and ok :: "int \<Rightarrow> db \<Rightarrow> bool" and owned :: "OutboxEmail \<Rightarrow> db \<Rightarrow> bool"
  assumes claim: "ok M d \<Longrightarrow> wp (os_ClaimPending S now ttl lim)
      (\<lambda>r d'. ok M d' \<and> (case r of Inl _ \<Rightarrow> True
        | Inr es \<Rightarrow> (\<forall>e \<in> set es. owned e d'))) d"
    and sent: "ok M d \<Longrightarrow> owned e0 d \<Longrightarrow>
      wp (os_MarkSent S (oe_ID e0) (oe_ClaimToken e0) t)
        (\<lambda>r d'. ok M d' \<and> (\<forall>e. owned e d \<longrightarrow> owned e d')) d"
    and failed_again: "ok M d \<Longrightarrow> owned e0 d \<Longrightarrow> oe_Attempts e0 + 1 < M \<Longrightarrow>
      wp (os_MarkFailed S (oe_ID e0) (oe_ClaimToken e0) err t)
        (\<lambda>r d'. ok M d' \<and> (\<forall>e. owned e d \<longrightarrow> owned e d')) d"
    and failed_finally: "ok M d \<Longrightarrow> owned e0 d \<Longrightarrow>
      wp (os_MarkFailedPermanently S (oe_ID e0) (oe_ClaimToken e0) err t)
        (\<lambda>r d'. ok M d' \<and> (\<forall>e. owned e d \<longrightarrow> owned e d')) d"
begin

lemma mark_wp: "wp m (\<lambda>_. P) d \<Longrightarrow> wp (mark msg m count c) (\<lambda>_. P) d"
  unfolding mark_def by (rule wp_bind, erule wp_mono) (auto intro!: wp_ret split: sum.splits)

definition remaining_ok :: "int \<Rightarrow> OutboxEmail list \<Rightarrow> db \<Rightarrow> bool" where
  "remaining_ok M es d \<longleftrightarrow> ok M d \<and> (\<forall>e \<in> set es. owned e d)"

lemma process_one_keeps:
  assumes ok: "ok (pr_maxAttempts p) d" and own: "owned e d"
    and send: "\<And>m d. wp (send m) (\<lambda>_ d'. d' = d) d"
  shows "wp (process_one S send p e c) (\<lambda>_ d'. ok (pr_maxAttempts p) d' \<and> (\<forall>e'. owned e' d \<longrightarrow> owned e' d')) d"
  unfolding process_one_def
  by (rule wp_bind, rule wp_mono [OF send])
    (auto simp: Let_def intro!: wp_rules mark_wp sent [OF ok own] failed_again [OF ok own]
      failed_finally [OF ok own])

lemma process_one_wp:
  assumes "remaining_ok (pr_maxAttempts p) (e # es) d"
    and "\<And>m d. wp (send m) (\<lambda>_ d'. d' = d) d"
  shows "wp (process_one S send p e c) (\<lambda>_. remaining_ok (pr_maxAttempts p) es) d"
proof -
  have "wp (process_one S send p e c)
      (\<lambda>_ d'. ok (pr_maxAttempts p) d' \<and> (\<forall>e'. owned e' d \<longrightarrow> owned e' d')) d"
    using assms(1) by (intro process_one_keeps assms(2)) (simp_all add: remaining_ok_def)
  with assms(1) show ?thesis by (elim wp_mono) (simp add: remaining_ok_def)
qed

lemma process_all_wp:
  assumes "remaining_ok (pr_maxAttempts p) es d" and "\<And>m d. wp (send m) (\<lambda>_ d'. d' = d) d"
  shows "wp (process_all S send p es c) (\<lambda>_. ok (pr_maxAttempts p)) d"
  using assms(1)
proof (induction es arbitrary: c d)
  case Nil
  then show ?case by (auto simp: remaining_ok_def intro: wp_rules)
next
  case (Cons e es)
  have "wp (process_one S send p e c) (\<lambda>_. remaining_ok (pr_maxAttempts p) es) d"
    by (rule process_one_wp [OF Cons.prems assms(2)])
  then show ?case
    unfolding process_all.simps
    by (intro wp_try_op, elim wp_mono) (auto simp: remaining_ok_def intro: Cons.IH split: sum.splits)
qed

lemma ProcessPending_wp:
  assumes "ok (pr_maxAttempts p) d" and "pr_store p = Some S" and "pr_sender p = Some send"
    and "\<And>m d. wp (send m) (\<lambda>_ d'. d' = d) d"
  shows "wp (ProcessPending p) (\<lambda>_. ok (pr_maxAttempts p)) d"
  unfolding ProcessPending_valid [OF assms(2,3)]
  by (intro wp_rules wp_mono [OF claim [OF assms(1)]] process_all_wp [OF _ assms(4)])
    (auto simp: remaining_ok_def wrap_err_eq_Inl)

end

section \<open>The store keeps the contract\<close>

text \<open>
  Only a row that is being sent carries a claim token; a row that may be tried again has an attempt
  left.
\<close>

definition row_ok :: "int \<Rightarrow> outbox_row \<Rightarrow> bool" where
  "row_ok M r \<longleftrightarrow> 0 \<le> out_Attempts r \<and> out_Attempts r \<le> M \<and>
     (out_Status r = Pending \<or> out_Status r = Sending \<longrightarrow> out_Attempts r < M) \<and>
     (out_Status r \<noteq> Sending \<longrightarrow> out_ClaimToken r = [])"

definition outbox_ok :: "int \<Rightarrow> db \<Rightarrow> bool" where
  "outbox_ok M d \<longleftrightarrow> pk_ok out_ID (outbox d) \<and> list_all (row_ok M) (outbox d)"

definition claimed_row :: "OutboxEmail \<Rightarrow> db \<Rightarrow> bool" where
  "claimed_row e d \<longleftrightarrow> oe_ClaimToken e \<noteq> [] \<and>
     list_all (\<lambda>r. out_ID r = oe_ID e \<and> out_ClaimToken r = oe_ClaimToken e \<longrightarrow>
       out_Attempts r = oe_Attempts e) (outbox d)"

lemma mark_email_ok:
  assumes "outbox_ok M d" and "claimed_row e0 d" and "mark_email f (oe_ID e0) (oe_ClaimToken e0) now d = (r, d')"
    and "\<And>x. out_ID (f x) = out_ID x \<and> out_ClaimToken (f x) = []"
    and "\<And>x. row_ok M x \<Longrightarrow> out_Status x = Sending \<Longrightarrow> out_Attempts x = oe_Attempts e0 \<Longrightarrow> row_ok M (f x)"
  shows "outbox_ok M d' \<and> (\<forall>e. claimed_row e d \<longrightarrow> claimed_row e d')"
proof -
  let ?p = "\<lambda>r. out_ID r = oe_ID e0 \<and> out_ClaimToken r = oe_ClaimToken e0"
  from assms(3) have d': "outbox d' = update_where ?p f (outbox d)"
    by (auto simp: mark_email_def Let_def)
  have "pk_ok out_ID (outbox d')"
    using assms(1,4) by (simp add: d' outbox_ok_def pk_ok_update)
  moreover have "row_ok M (if ?p x then f x else x)" if "x \<in> set (outbox d)" for x
  proof (cases "?p x")
    case True
    with that assms(1,2) have "row_ok M x" "out_Attempts x = oe_Attempts e0" "out_ClaimToken x \<noteq> []"
      by (auto simp: outbox_ok_def claimed_row_def list_all_iff)
    with assms(5) True show ?thesis by (auto simp: row_ok_def)
  next
    case False
    with that assms(1) show ?thesis by (auto simp: outbox_ok_def list_all_iff)
  qed
  then have "list_all (row_ok M) (outbox d')" unfolding list_all_iff d' set_update_where by blast
  moreover have "claimed_row e d'" if "claimed_row e d" for e
    using that assms(4) by (auto simp: d' claimed_row_def list_all_iff set_update_where)
  ultimately show ?thesis by (auto simp: outbox_ok_def)
qed

lemma claim_ok:
  assumes "outbox_ok M d" and "Q_ClaimPendingEmails t x tok lim now d = (r, d')" and "tok \<noteq> []"
  shows "\<exists>rows. r = Inr rows \<and> outbox_ok M d' \<and>
    (\<forall>row \<in> set rows. claimed_row (outboxEmailFromDB row) d') \<and>
    (\<forall>e. (\<forall>row \<in> set rows. oe_ClaimToken e \<noteq> out_ClaimToken row) \<longrightarrow> claimed_row e d \<longrightarrow> claimed_row e d')"
proof -
  let ?ids = "set (claim_ids t lim (outbox d))"
  let ?p = "\<lambda>r. out_ID r \<in> ?ids" and ?f = "claim_row (Some t) x tok"
  from assms(2) have d': "outbox d' = update_where ?p ?f (outbox d)"
    and r: "r = Inr (filter ?p (outbox d'))"
    by (auto simp: Q_ClaimPendingEmails_def Let_def)
  have pk: "pk_ok out_ID (outbox d')"
    using assms(1) by (simp add: d' outbox_ok_def pk_ok_update claim_row_def)
  have claimable: "claimable t a" if "?p a" "a \<in> set (outbox d)" for a
  proof -
    from that(1) obtain b where "b \<in> set (outbox d)" "claimable t b" "out_ID b = out_ID a"
      by (auto simp: claim_ids_def Let_def split: if_splits dest!: in_set_takeD)
    with that(2) assms(1) show ?thesis by (metis outbox_ok_def pk_ok_def distinct_map_eq)
  qed
  have "row_ok M (if ?p a then ?f a else a)" if a: "a \<in> set (outbox d)" for a
  proof (cases "?p a")
    case True
    with claimable [OF _ a] a assms(1) show ?thesis
      by (auto simp: outbox_ok_def list_all_iff row_ok_def claim_row_def claimable_def)
  next
    case False
    with a assms(1) show ?thesis by (auto simp: outbox_ok_def list_all_iff)
  qed
  then have "list_all (row_ok M) (outbox d')" unfolding list_all_iff d' set_update_where by blast
  moreover have token: "out_ClaimToken row = tok" if row: "row \<in> set (filter ?p (outbox d'))" for row
  proof -
    from row obtain a where "a \<in> set (outbox d)" "row = (if ?p a then ?f a else a)"
      unfolding d' by (auto simp: set_update_where)
    with row show ?thesis by (auto simp: claim_row_def split: if_splits)
  qed
  moreover have "claimed_row (outboxEmailFromDB row) d'" if row: "row \<in> set (filter ?p (outbox d'))" for row
    using token [OF row] assms(3) row pk
    by (auto simp: claimed_row_def outboxEmailFromDB_def list_all_iff pk_ok_def dest: distinct_map_eq)
  moreover have "claimed_row e d'"
    if fresh: "\<forall>row \<in> set (filter ?p (outbox d')). oe_ClaimToken e \<noteq> out_ClaimToken row" and e: "claimed_row e d" for e
  proof (cases "\<exists>a \<in> set (outbox d). ?p a")
    case True
    then obtain a where "a \<in> set (outbox d)" "?p a" by blast
    then have "?f a \<in> set (filter ?p (outbox d'))" by (auto simp: d' set_update_where claim_row_def)
    with fresh token have "oe_ClaimToken e \<noteq> tok" by metis
    with e show ?thesis by (auto simp: claimed_row_def list_all_iff d' set_update_where claim_row_def)
  next
    case False
    then have "outbox d' = outbox d" unfolding d' by (intro update_where_cong) blast
    with e show ?thesis by (simp add: claimed_row_def)
  qed
  ultimately show ?thesis using pk r by (auto simp: outbox_ok_def)
qed

lemma mark_op_ok:
  assumes "outbox_ok M d" and "claimed_row e0 d" and "\<And>x. out_ID (f x) = out_ID x \<and> out_ClaimToken (f x) = []"
    and "\<And>x. row_ok M x \<Longrightarrow> out_Status x = Sending \<Longrightarrow> out_Attempts x = oe_Attempts e0 \<Longrightarrow> row_ok M (f x)"
  shows "wp (try_op (wrapped msg (exec (mark_email f (oe_ID e0) (oe_ClaimToken e0)))) (\<lambda>_. ret (Inr ())))
    (\<lambda>r d'. outbox_ok M d' \<and> (\<forall>e. claimed_row e d \<longrightarrow> claimed_row e d')) d"
proof -
  define post where "post d' \<longleftrightarrow> outbox_ok M d' \<and> (\<forall>e. claimed_row e d \<longrightarrow> claimed_row e d')" for d'
  have "post d" using assms(1) by (simp add: post_def)
  moreover have "post d'" if "mark_email f (oe_ID e0) (oe_ClaimToken e0) t d = (r, d')" for t r d'
    unfolding post_def by (rule mark_email_ok [OF assms(1,2) that assms(3,4)])
  ultimately show ?thesis
    unfolding post_def [symmetric] by (intro wp_rules) auto
qed

lemma claim_op_ok:
  assumes "outbox_ok M d"
  shows "wp (outbox_ClaimPending now ttl lim)
      (\<lambda>r d'. outbox_ok M d' \<and> (case r of Inl _ \<Rightarrow> True
        | Inr es \<Rightarrow> (\<forall>e \<in> set es. claimed_row e d') \<and>
            (\<forall>h. (\<forall>e \<in> set es. oe_ClaimToken h \<noteq> oe_ClaimToken e) \<longrightarrow> claimed_row h d \<longrightarrow> claimed_row h d'))) d"
proof -
  have from_db: "oe_ClaimToken (outboxEmailFromDB row) = out_ClaimToken row" for row
    by (simp add: outboxEmailFromDB_def)
  have token: "hex_encode b \<noteq> []" if "length b = 16" for b
    using that length_hex_encode [of b] by (metis length_0_conv mult_eq_0_iff zero_neq_numeral)
  show ?thesis
    unfolding outbox_ClaimPending_def generateClaimToken_def
    by (intro wp_rules) (auto simp: assms token from_db wrap_err_eq_Inl dest!: claim_ok [OF assms])
qed

lemmas mark_op_defs = EmailOutboxStore_def outbox_MarkSent_def outbox_MarkFailed_def
  outbox_MarkFailedPermanently_def Q_MarkEmailSent_def Q_MarkEmailFailed_def Q_MarkEmailFailedPermanently_def

interpretation outbox: outbox_contract EmailOutboxStore outbox_ok claimed_row
proof (unfold_locales, goal_cases)
  case (1 M d now ttl lim)
  then show ?case unfolding EmailOutboxStore_def OutboxStore.simps by (rule wp_mono [OF claim_op_ok]) (auto split: sum.splits)
next
  case (2 M d e0 t)
  then show ?case
    by (auto simp: mark_op_defs row_ok_def release_row_def intro!: mark_op_ok)
next
  case (3 M d e0 err t)
  then show ?case
    by (auto simp: mark_op_defs row_ok_def release_row_def intro!: mark_op_ok)
next
  case (4 M d e0 err t)
  then show ?case
    by (auto simp: mark_op_defs row_ok_def release_row_def intro!: mark_op_ok)
qed

section \<open>Concurrent workers\<close>

text \<open>
  The life of an outbox under any number of workers: producers enqueue, workers claim batches, and for a
  message that was handed to it a worker runs the step of the processor, at any time and in any order,
  with whatever transport (which only has to leave the database alone) and whatever settings but for the
  common limit \<open>M\<close> on the attempts; old rows are pruned.  \<open>held\<close> are the messages handed out so far; a
  claim token is not drawn twice.
\<close>

inductive workers :: "int \<Rightarrow> db \<Rightarrow> OutboxEmail list \<Rightarrow> bool" for M where
  start: "workers M empty_db []"
| enqueue: "workers M (wdb w) held \<Longrightarrow> run_state (outbox_Enqueue m t) w = (r, w') \<Longrightarrow> workers M (wdb w') held"
| claim: "workers M (wdb w) held \<Longrightarrow> run_state (outbox_ClaimPending now ttl lim) w = (Inr es, w') \<Longrightarrow>
    oe_ClaimToken ` set held \<inter> oe_ClaimToken ` set es = {} \<Longrightarrow> workers M (wdb w') (held @ es)"
| process: "workers M (wdb w) held \<Longrightarrow> e \<in> set held \<Longrightarrow> pr_maxAttempts p = M \<Longrightarrow>
    \<forall>m d. wp (send m) (\<lambda>_ d'. d' = d) d \<Longrightarrow>
    run_state (process_one EmailOutboxStore send p e c) w = (r, w') \<Longrightarrow> workers M (wdb w') held"
| prune_sent: "workers M (wdb w) held \<Longrightarrow> run_state (exec (Q_PruneSentEmailOutboxRows t)) w = (r, w') \<Longrightarrow>
    workers M (wdb w') held"
| prune_failed: "workers M (wdb w) held \<Longrightarrow> run_state (exec (Q_PruneFailedEmailOutboxRows t)) w = (r, w') \<Longrightarrow>
    workers M (wdb w') held"

lemma enqueue_ok:
  assumes "outbox_ok M d" and "0 < M"
  shows "wp (outbox_Enqueue m t) (\<lambda>r d'. outbox_ok M d' \<and> (\<forall>e. claimed_row e d \<longrightarrow> claimed_row e d')) d"
  unfolding outbox_Enqueue_def
  by (intro wp_rules) (use assms in \<open>auto simp: Q_EnqueueEmail_def Let_def outbox_ok_def pk_ok_insert
      row_ok_def claimed_row_def list_all_iff\<close>)

lemma prune_ok:
  assumes "outbox_ok M d"
  shows "wp (exec (Q_PruneSentEmailOutboxRows t)) (\<lambda>r d'. outbox_ok M d' \<and> (\<forall>e. claimed_row e d \<longrightarrow> claimed_row e d')) d"
    and "wp (exec (Q_PruneFailedEmailOutboxRows t)) (\<lambda>r d'. outbox_ok M d' \<and> (\<forall>e. claimed_row e d \<longrightarrow> claimed_row e d')) d"
  by (intro wp_rules; use assms in \<open>auto simp: Q_PruneSentEmailOutboxRows_def Q_PruneFailedEmailOutboxRows_def
      Let_def outbox_ok_def pk_ok_def distinct_map_filter claimed_row_def list_all_iff\<close>)+

lemma workers_ok:
  assumes "workers M d held" and "0 < M"
  shows "outbox_ok M d \<and> (\<forall>e \<in> set held. claimed_row e d)"
  using assms
proof (induction rule: workers.induct)
  case start
  show ?case by (simp add: outbox_ok_def empty_db_def pk_ok_def)
next
  case (enqueue w held m t r w')
  then show ?case using wpD [OF enqueue_ok [of M "wdb w" m t] enqueue.hyps(2)] by blast
next
  case (claim w held now ttl lim es w')
  then have "outbox_ok M (wdb w)" by blast
  from wpD [OF claim_op_ok [OF this] claim.hyps(2)] claim show ?case by fastforce
next
  case (process w held e p send c r w')
  then have "wp (process_one EmailOutboxStore send p e c)
      (\<lambda>_ d'. outbox_ok M d' \<and> (\<forall>e'. claimed_row e' (wdb w) \<longrightarrow> claimed_row e' d')) (wdb w)"
    using outbox.process_one_keeps [of p "wdb w" e send c] by blast
  from wpD [OF this process.hyps(5)] process show ?case by blast
next
  case (prune_sent w held t r w')
  then show ?case using wpD [OF prune_ok(1) [of M "wdb w" t] prune_sent.hyps(2)] by blast
next
  case (prune_failed w held t r w')
  then show ?case using wpD [OF prune_ok(2) [of M "wdb w" t] prune_failed.hyps(2)] by blast
qed

text \<open>
  C25: whatever the interleaving of producers, workers that run the processor's step and pruning, no row
  ever records more than the configured number of failed attempts: in every reachable state each row has
  at most that many, a row that is pending or being sent has an attempt left, so that a row that used
  them up is never handed out again, and only a row that is being sent carries a claim token, so a worker
  whose claim was taken over can no longer change the row.
\<close>

theorem concurrent_attempts_bounded:
  assumes "workers M d held" and "0 < M"
  shows "list_all (\<lambda>r. 0 \<le> out_Attempts r \<and> out_Attempts r \<le> M \<and>
      (out_Status r = Pending \<or> out_Status r = Sending \<longrightarrow> out_Attempts r < M) \<and>
      (out_Status r \<noteq> Sending \<longrightarrow> out_ClaimToken r = [])) (outbox d)"
  using workers_ok [OF assms] unfolding outbox_ok_def row_ok_def by blast

lemma ex_enqueued:
  "run_state (outbox_Enqueue m t) (ex_world empty_db) =
     (Inr \<lparr>out_ID = 1, out_Sender = msg_From m, out_Recipient = msg_To m, out_Subject = msg_Subject m,
        out_TextBody = msg_TextBody m, out_HtmlBody = msg_HTMLBody m, out_Status = Pending, out_Attempts = 0,
        out_LastError = [], out_AvailableAt = t, out_ClaimedAt = None, out_ClaimExpiresAt = None,
        out_ClaimToken = [], out_SentAt = None, out_CreatedAt = ex_now\<rparr>,
      ex_world (empty_db\<lparr>outbox := [\<lparr>out_ID = 1, out_Sender = msg_From m, out_Recipient = msg_To m,
        out_Subject = msg_Subject m, out_TextBody = msg_TextBody m, out_HtmlBody = msg_HTMLBody m,
        out_Status = Pending, out_Attempts = 0, out_LastError = [], out_AvailableAt = t, out_ClaimedAt = None,
        out_ClaimExpiresAt = None, out_ClaimToken = [], out_SentAt = None, out_CreatedAt = ex_now\<rparr>]\<rparr>))"
  by (simp add: outbox_Enqueue_def Q_EnqueueEmail_def ex_eval empty_db_def next_id_def)

definition ex_message :: Message where
  "ex_message = \<lparr>msg_From = ''app@app.example'', msg_To = ''ada@example.com'', msg_Subject = ''Hello'',
     msg_TextBody = ''text'', msg_HTMLBody = ''html''\<rparr>"

definition ex_outbox :: db where
  "ex_outbox = wdb (snd (run_state (outbox_Enqueue ex_message 0) (ex_world empty_db)))"

definition ex_email :: OutboxEmail where
  "ex_email = \<lparr>oe_ID = 1, oe_Message = ex_message, oe_Attempts = 0,
     oe_ClaimToken = hex_encode (replicate 16 (CHR 0x01))\<rparr>"

definition ex_claimed :: db where
  "ex_claimed = snd (Q_ClaimPendingEmails ex_now (Some (ex_now + second)) (oe_ClaimToken ex_email) 10 ex_now ex_outbox)"

lemma ex_outbox_simps [simp]:
  "outbox ex_outbox = [\<lparr>out_ID = 1, out_Sender = ''app@app.example'', out_Recipient = ''ada@example.com'',
     out_Subject = ''Hello'', out_TextBody = ''text'', out_HtmlBody = ''html'', out_Status = Pending,
     out_Attempts = 0, out_LastError = [], out_AvailableAt = 0, out_ClaimedAt = None,
     out_ClaimExpiresAt = None, out_ClaimToken = [], out_SentAt = None, out_CreatedAt = ex_now\<rparr>]"
  by (simp add: ex_outbox_def ex_enqueued ex_message_def)

lemma ex_claim:
  "run_state (outbox_ClaimPending ex_now second 10) (ex_world ex_outbox) = (Inr [ex_email], ex_world ex_claimed)"
  by (simp add: outbox_ClaimPending_def generateClaimToken_def ex_eval second_def Q_ClaimPendingEmails_def
      claim_ids_def claimable_def ex_now_def update_where_def claim_row_def outboxEmailFromDB_def ex_message_def
      ex_claimed_def ex_email_def)

definition ex_refusing :: Sender where
  "ex_refusing = (\<lambda>m. ret (Some ''refused''))"

lemma ex_claimed_row:
  "outbox ex_claimed = [claim_row (Some ex_now) (Some (ex_now + second)) (oe_ClaimToken ex_email) (hd (outbox ex_outbox))]"
  by (simp add: ex_claimed_def Q_ClaimPendingEmails_def claim_ids_def claimable_def ex_now_def second_def update_where_def Let_def)

lemma ex_given_up:
  "case run_state (process_one EmailOutboxStore ex_refusing (NewProcessor None None 0 0 1 0) ex_email (no_cycle 1))
       (ex_world ex_claimed) of (r, w') \<Rightarrow>
     map out_Attempts (outbox (wdb w')) = [1] \<and> map out_Status (outbox (wdb w')) = [Failed]"
  by (simp add: process_one_def ex_refusing_def run_bind ex_eval NewProcessor_def default_if_zero_def ex_email_def
      mark_def EmailOutboxStore_def outbox_MarkFailedPermanently_def Q_MarkEmailFailedPermanently_def mark_email_def
      ex_claimed_row claim_row_def update_where_def release_row_def)

text \<open>A message is enqueued, claimed and refused by the transport, with a limit of one attempt.\<close>

theorem concurrent_attempts_bounded_witness:
  "\<exists>d. workers 1 d [ex_email] \<and> map out_Attempts (outbox d) = [1] \<and> map out_Status (outbox d) = [Failed] \<and>
     list_all (\<lambda>r. 0 \<le> out_Attempts r \<and> out_Attempts r \<le> 1 \<and>
      (out_Status r = Pending \<or> out_Status r = Sending \<longrightarrow> out_Attempts r < 1) \<and>
      (out_Status r \<noteq> Sending \<longrightarrow> out_ClaimToken r = [])) (outbox d)"
proof -
  obtain r w' where run: "run_state (process_one EmailOutboxStore ex_refusing
      (NewProcessor None None 0 0 1 0) ex_email (no_cycle 1)) (ex_world ex_claimed) = (r, w')"
    by (metis prod.exhaust)
  with ex_given_up have rows: "map out_Attempts (outbox (wdb w')) = [1]" "map out_Status (outbox (wdb w')) = [Failed]"
    by simp_all
  have "workers 1 (wdb (ex_world empty_db)) []" by (simp add: workers.start)
  then have "workers 1 (wdb (ex_world ex_outbox)) []"
    using workers.enqueue [of 1 "ex_world empty_db"] by (metis ex_outbox_def ex_world_simps(1) prod.collapse)
  from workers.claim [OF this ex_claim] have "workers 1 (wdb (ex_world ex_claimed)) [ex_email]" by simp
  from workers.process [OF this _ _ _ run] have "workers 1 (wdb w') [ex_email]"
    by (auto simp: NewProcessor_def default_if_zero_def ex_refusing_def intro: wp_ret)
  with concurrent_attempts_bounded [OF this] rows show ?thesis by (intro exI [of _ "wdb w'"]) auto
qed

end
