(* ===== verification/Outbox_Delivery.thy ===== *)
theory Outbox_Delivery
  imports Outbox_Claims
begin

text \<open>
  A claim as a lease: until it expires nobody else is handed the message and nobody else can change
  its row.  A cycle of the processor marks every message it claimed according to what the transport
  answered for it.  What is stored of a send error is a well-formed prefix of bounded length.
\<close>

section \<open>The lease\<close>

text \<open>
  What other workers, producers and the cleanup job can do to the outbox before the instant \<open>x\<close>
  without holding the token \<open>tok\<close>; the list collects the messages they are handed.
\<close>

inductive meanwhile :: "string \<Rightarrow> time \<Rightarrow> db \<Rightarrow> OutboxEmail list \<Rightarrow> db \<Rightarrow> bool" for tok x where
  nothing: "meanwhile tok x d [] d"
| enqueue: "meanwhile tok x d es (wdb w) \<Longrightarrow> run_state (outbox_Enqueue m t) w = (r, w') \<Longrightarrow>
    meanwhile tok x d es (wdb w')"
| claim: "meanwhile tok x d es (wdb w) \<Longrightarrow> now < x \<Longrightarrow>
    run_state (outbox_ClaimPending now ttl lim) w = (r, w') \<Longrightarrow>
    meanwhile tok x d (es @ (case r of Inl _ \<Rightarrow> [] | Inr new \<Rightarrow> new)) (wdb w')"
| sent: "meanwhile tok x d es (wdb w) \<Longrightarrow> tok' \<noteq> tok \<Longrightarrow> run_state (outbox_MarkSent i tok' t) w = (r, w') \<Longrightarrow>
    meanwhile tok x d es (wdb w')"
| failed: "meanwhile tok x d es (wdb w) \<Longrightarrow> tok' \<noteq> tok \<Longrightarrow>
    run_state (outbox_MarkFailed i tok' err t) w = (r, w') \<Longrightarrow> meanwhile tok x d es (wdb w')"
| given_up: "meanwhile tok x d es (wdb w) \<Longrightarrow> tok' \<noteq> tok \<Longrightarrow>
    run_state (outbox_MarkFailedPermanently i tok' err t) w = (r, w') \<Longrightarrow> meanwhile tok x d es (wdb w')"
| prune_sent: "meanwhile tok x d es (wdb w) \<Longrightarrow> run_state (exec (Q_PruneSentEmailOutboxRows t)) w = (r, w') \<Longrightarrow>
    meanwhile tok x d es (wdb w')"
| prune_failed: "meanwhile tok x d es (wdb w) \<Longrightarrow> run_state (exec (Q_PruneFailedEmailOutboxRows t)) w = (r, w') \<Longrightarrow>
    meanwhile tok x d es (wdb w')"

text \<open>The row of a leased message, which stays in the table as it is.\<close>

definition leased :: "string \<Rightarrow> time \<Rightarrow> outbox_row \<Rightarrow> db \<Rightarrow> bool" where
  "leased tok x row d \<longleftrightarrow> row \<in> set (outbox d) \<and> pk_ok out_ID (outbox d) \<and> out_Status row = Sending \<and>
     out_ClaimToken row = tok \<and> out_ClaimExpiresAt row = Some x"

lemma leased_not_claimed:
  assumes "leased tok x row d" and "t < x"
  shows "out_ID row \<notin> set (claim_ids t lim (outbox d))"
proof
  assume "out_ID row \<in> set (claim_ids t lim (outbox d))"
  then obtain b where "b \<in> set (outbox d)" "claimable t b" "out_ID b = out_ID row"
    by (auto simp: claim_ids_def Let_def split: if_splits dest!: in_set_takeD)
  with assms show False by (auto simp: leased_def pk_ok_def claimable_def dest: distinct_map_eq)
qed

lemma leased_update:
  assumes "leased tok x row d" and "\<not> p row" and "\<And>r. out_ID (f r) = out_ID r"
  shows "leased tok x row (d\<lparr>outbox := update_where p f (outbox d)\<rparr>)"
proof -
  have "(if p row then f row else row) \<in> set (update_where p f (outbox d))"
    unfolding set_update_where using assms(1) by (intro imageI) (simp add: leased_def)
  then have "row \<in> set (update_where p f (outbox d))" using assms(2) by simp
  with assms(1,3) show ?thesis by (simp add: leased_def pk_ok_update)
qed

lemma leased_mark:
  assumes "leased tok x row d" and "tok' \<noteq> tok" and "\<And>r. out_ID (f r) = out_ID r"
  shows "wp (try_op (wrapped msg (exec (mark_email f i tok'))) (\<lambda>_. ret (Inr ()))) (\<lambda>_. leased tok x row) d"
proof -
  have "leased tok x row d'" if "mark_email f i tok' t d = (r, d')" for t r d'
    using that assms by (auto simp: mark_email_def Let_def leased_def [of _ _ _ d] intro!: leased_update)
  with assms(1) show ?thesis by (intro wp_rules) auto
qed

lemma leased_claim:
  assumes "leased tok x row d" and "t < x"
  shows "wp (outbox_ClaimPending t ttl lim) (\<lambda>r d'. leased tok x row d' \<and>
    out_ID row \<notin> oe_ID ` set (case r of Inl _ \<Rightarrow> [] | Inr es \<Rightarrow> es)) d"
proof -
  have step: "\<exists>rows. r = Inr rows \<and> leased tok x row d' \<and> out_ID row \<notin> out_ID ` set rows"
    if "Q_ClaimPendingEmails t y tok' lim now d = (r, d')" for y tok' now r d'
    using that leased_not_claimed [OF assms, of lim] leased_update [OF assms(1)]
    by (auto simp: Q_ClaimPendingEmails_def Let_def claim_row_def)
  show ?thesis
    unfolding outbox_ClaimPending_def generateClaimToken_def
    by (intro wp_rules)
      (auto simp: assms(1) wrap_err_eq_Inl outboxEmailFromDB_def dest!: step)
qed

lemma leased_enqueue:
  assumes "leased tok x row d"
  shows "wp (outbox_Enqueue m t) (\<lambda>_. leased tok x row) d"
  unfolding outbox_Enqueue_def
  by (intro wp_rules) (use assms in \<open>auto simp: Q_EnqueueEmail_def Let_def leased_def pk_ok_insert\<close>)

lemma leased_prune:
  assumes "leased tok x row d"
  shows "wp (exec (Q_PruneSentEmailOutboxRows t)) (\<lambda>_. leased tok x row) d"
    and "wp (exec (Q_PruneFailedEmailOutboxRows t)) (\<lambda>_. leased tok x row) d"
  by (intro wp_rules; use assms in \<open>auto simp: Q_PruneSentEmailOutboxRows_def Q_PruneFailedEmailOutboxRows_def
      Let_def leased_def pk_ok_def distinct_map_filter\<close>)+

lemma meanwhile_leased:
  assumes "meanwhile tok x d es d'" and "leased tok x row d"
  shows "leased tok x row d' \<and> out_ID row \<notin> oe_ID ` set es"
  using assms
proof (induction rule: meanwhile.induct)
  case (nothing d)
  then show ?case by simp
next
  case (enqueue d es w m t r w')
  then show ?case using wpD [OF leased_enqueue enqueue.hyps(2)] by blast
next
  case (claim d es w now ttl lim r w')
  then have row: "leased tok x row (wdb w)" by blast
  from wpD [OF leased_claim [OF row claim.hyps(2)] claim.hyps(3)] claim show ?case by auto
next
  case (sent d es w tok' i t r w')
  then have row: "leased tok x row (wdb w)" by blast
  from wpD [OF leased_mark [OF row sent.hyps(2)] sent.hyps(3) [unfolded mark_op_defs]] sent
  show ?case by (simp add: release_row_def)
next
  case (failed d es w tok' i err t r w')
  then have row: "leased tok x row (wdb w)" by blast
  from wpD [OF leased_mark [OF row failed.hyps(2)] failed.hyps(3) [unfolded mark_op_defs]] failed
  show ?case by (simp add: release_row_def)
next
  case (given_up d es w tok' i err t r w')
  then have row: "leased tok x row (wdb w)" by blast
  from wpD [OF leased_mark [OF row given_up.hyps(2)] given_up.hyps(3) [unfolded mark_op_defs]] given_up
  show ?case by (simp add: release_row_def)
next
  case (prune_sent d es w t r w')
  then show ?case using wpD [OF leased_prune(1) prune_sent.hyps(2)] by blast
next
  case (prune_failed d es w t r w')
  then show ?case using wpD [OF leased_prune(2) prune_failed.hyps(2)] by blast
qed

text \<open>What a claim hands out is leased.\<close>

lemma claim_leases:
  assumes "pk_ok out_ID (outbox d)"
  shows "wp (outbox_ClaimPending now ttl lim) (\<lambda>r d'. case r of Inl _ \<Rightarrow> True | Inr es \<Rightarrow>
     (\<exists>tok. \<forall>e \<in> set es. oe_ClaimToken e = tok \<and> (\<exists>row. leased tok (now + ttl) row d' \<and> outboxEmailFromDB row = e))) d"
proof -
  have step: "\<exists>rows. r = Inr rows \<and> (\<forall>row \<in> set rows. leased tok x row d')"
    if "Q_ClaimPendingEmails t (Some x) tok lim t' d = (r, d')" for t x tok t' r d'
  proof -
    let ?p = "\<lambda>r. out_ID r \<in> set (claim_ids t lim (outbox d))" and ?f = "claim_row (Some t) (Some x) tok"
    from that have d': "outbox d' = update_where ?p ?f (outbox d)" and r: "r = Inr (filter ?p (outbox d'))"
      by (auto simp: Q_ClaimPendingEmails_def Let_def)
    have "leased tok x row d'" if row: "row \<in> set (filter ?p (outbox d'))" for row
    proof -
      from row obtain a where "a \<in> set (outbox d)" "row = (if ?p a then ?f a else a)"
        unfolding d' by (auto simp: set_update_where)
      with row assms show ?thesis
        by (auto simp: leased_def d' claim_row_def pk_ok_update split: if_splits)
    qed
    with r show ?thesis by blast
  qed
  show ?thesis
    unfolding outbox_ClaimPending_def generateClaimToken_def
    by (intro wp_rules) (fastforce simp: wrap_err_eq_Inl outboxEmailFromDB_def leased_def dest!: step)+
qed

lemma marked_row_found:
  assumes "leased tok x row d"
  shows "find (\<lambda>r. out_ID r = out_ID row \<and> out_ClaimToken r = tok) (outbox d) = Some row"
proof -
  let ?p = "\<lambda>r. out_ID r = out_ID row \<and> out_ClaimToken r = tok"
  have row: "row \<in> set (outbox d)" "?p row" using assms by (simp_all add: leased_def)
  then obtain r where r: "find ?p (outbox d) = Some r" by (cases "find ?p (outbox d)") auto
  then have "r \<in> set (outbox d)" "out_ID r = out_ID row" by (auto dest: find_eq_Some)
  with row(1) assms have "r = row" by (auto simp: leased_def pk_ok_def dest: distinct_map_eq)
  with r show ?thesis by simp
qed

text \<open>
  C26: a claim is a lease.  Until it expires, whatever producers, other workers and the cleanup job
  do, none of its messages is handed to anyone else, and each row still carries the token of the
  claim, so that marking it sent acts on it: it is not lost to a concurrent worker.
\<close>

theorem claim_is_a_lease:
  assumes "pk_ok out_ID (outbox (wdb w))"
    and "run_state (outbox_ClaimPending now ttl lim) w = (Inr es, w')"
    and "e \<in> set es"
    and "meanwhile (oe_ClaimToken e) (now + ttl) (wdb w') others d"
  shows "oe_ID e \<notin> oe_ID ` set others \<and>
    (\<exists>row. find (\<lambda>r. out_ID r = oe_ID e \<and> out_ClaimToken r = oe_ClaimToken e) (outbox d) = Some row \<and>
       out_Status row = Sending \<and> out_ClaimExpiresAt row = Some (now + ttl) \<and> outboxEmailFromDB row = e)"
proof -
  from wpD [OF claim_leases [OF assms(1)] assms(2)] assms(3) obtain row where
    row: "leased (oe_ClaimToken e) (now + ttl) row (wdb w')" "outboxEmailFromDB row = e" by auto
  then have "oe_ID e = out_ID row" by (auto simp: outboxEmailFromDB_def)
  moreover from meanwhile_leased [OF assms(4) row(1)]
  have kept: "leased (oe_ClaimToken e) (now + ttl) row d" "out_ID row \<notin> oe_ID ` set others" by auto
  ultimately show ?thesis using marked_row_found [OF kept(1)] row(2) by (auto simp: leased_def)
qed

theorem claim_is_a_lease_witness:
  "oe_ID ex_email \<notin> oe_ID ` set [] \<and>
    (\<exists>row. find (\<lambda>r. out_ID r = oe_ID ex_email \<and> out_ClaimToken r = oe_ClaimToken ex_email) (outbox ex_claimed) = Some row \<and>
       out_Status row = Sending \<and> out_ClaimExpiresAt row = Some (ex_now + second) \<and> outboxEmailFromDB row = ex_email)"
proof -
  have pk: "pk_ok out_ID (outbox (wdb (ex_world ex_outbox)))" by (simp add: pk_ok_def)
  have "meanwhile (oe_ClaimToken ex_email) (ex_now + second) (wdb (ex_world ex_claimed)) [] ex_claimed"
    by (simp add: meanwhile.nothing)
  from claim_is_a_lease [OF pk ex_claim _ this] show ?thesis by simp
qed

section \<open>A cycle of the processor\<close>

text \<open>
  What a cycle makes of a row it claimed, at the instant \<open>t\<close> and when \<open>answer\<close> is what the transport says
  to each message: the row of a message handed over is marked sent; that of a refused one counts the
  attempt, keeps the error and waits for the retry delay, or has failed when its attempts are used up.
  In each case the claim is released.
\<close>

definition row_message :: "outbox_row \<Rightarrow> Message" where
  "row_message r = \<lparr>msg_From = out_Sender r, msg_To = out_Recipient r, msg_Subject = out_Subject r,
     msg_TextBody = out_TextBody r, msg_HTMLBody = out_HtmlBody r\<rparr>"

definition settle :: "Processor \<Rightarrow> (Message \<Rightarrow> string option) \<Rightarrow> time \<Rightarrow> outbox_row \<Rightarrow> outbox_row" where
  "settle p answer t r = (case answer (row_message r) of
     None \<Rightarrow> r\<lparr>out_Status := Sent, out_SentAt := Some t, out_ClaimedAt := None, out_ClaimExpiresAt := None,
       out_ClaimToken := []\<rparr>
   | Some err \<Rightarrow> r\<lparr>out_Attempts := out_Attempts r + 1, out_LastError := truncateLastError err,
       out_Status := (if out_Attempts r + 1 < pr_maxAttempts p then Pending else Failed),
       out_AvailableAt := (if out_Attempts r + 1 < pr_maxAttempts p then t + pr_retryDelay p else t),
       out_ClaimedAt := None, out_ClaimExpiresAt := None, out_ClaimToken := []\<rparr>)"

text \<open>The rows with these keys are settled, each at an instant in \<open>T\<close>; every other row is as before.\<close>

definition settled ::
  "Processor \<Rightarrow> (Message \<Rightarrow> string option) \<Rightarrow> time set \<Rightarrow> int set \<Rightarrow> outbox_row list \<Rightarrow> outbox_row list \<Rightarrow> bool" where
  "settled p answer T ids =
     list_all2 (\<lambda>r r'. if out_ID r \<in> ids then \<exists>t \<in> T. r' = settle p answer t r else r' = r)"

lemma settle_ID [simp]: "out_ID (settle p answer t r) = out_ID r"
  by (simp add: settle_def split: option.splits)

lemma settled_none: "settled p answer T {} rows rows"
  by (simp add: settled_def list_all2_refl)

lemma settled_trans:
  assumes "settled p answer T A xs ys" and "settled p answer T B ys zs" and "A \<inter> B = {}"
  shows "settled p answer T (A \<union> B) xs zs"
  unfolding settled_def
proof (rule list_all2_trans [OF _ assms(1,2) [unfolded settled_def]])
  fix x y z
  assume *: "if out_ID x \<in> A then \<exists>t \<in> T. y = settle p answer t x else y = x"
    "if out_ID y \<in> B then \<exists>t \<in> T. z = settle p answer t y else z = y"
  then have "out_ID y = out_ID x" by (auto split: if_splits)
  with * assms(3) show "if out_ID x \<in> A \<union> B then \<exists>t \<in> T. z = settle p answer t x else z = x"
    by (auto split: if_splits)
qed

lemma settled_update:
  assumes "\<And>r. r \<in> set rows \<Longrightarrow> q r \<longleftrightarrow> out_ID r = i" and "\<And>r. r \<in> set rows \<Longrightarrow> q r \<Longrightarrow> f r = settle p answer t r" and "t \<in> T"
  shows "settled p answer T {i} rows (update_where q f rows)"
  using assms by (induction rows) (auto simp: settled_def update_where_def)

lemma settled_claimed:
  assumes "settled p answer T ids (update_where (\<lambda>r. out_ID r \<in> ids) (claim_row c x tok) rows) rows'"
  shows "settled p answer T ids rows rows'"
proof -
  have "settle p answer t (claim_row c x tok r) = settle p answer t r" for t r
    by (simp add: settle_def claim_row_def row_message_def split: option.splits)
  moreover have "out_ID (claim_row c x tok r) = out_ID r" for r by (simp add: claim_row_def)
  ultimately show ?thesis
    using assms unfolding settled_def update_where_def list_all2_map1
    by (elim list_all2_mono) (auto split: if_splits)
qed

text \<open>A message that is held: its row is as the claim reported it.\<close>

definition held :: "OutboxEmail \<Rightarrow> db \<Rightarrow> bool" where
  "held e d \<longleftrightarrow> (\<exists>row \<in> set (outbox d). outboxEmailFromDB row = e)"

text \<open>The row of \<open>e\<close> is settled, and the other messages held are still held.\<close>

definition settled_one ::
  "Processor \<Rightarrow> (Message \<Rightarrow> string option) \<Rightarrow> time set \<Rightarrow> OutboxEmail \<Rightarrow> db \<Rightarrow> db \<Rightarrow> bool" where
  "settled_one p answer T e d d' \<longleftrightarrow> settled p answer T {oe_ID e} (outbox d) (outbox d') \<and> pk_ok out_ID (outbox d') \<and>
     (\<forall>e'. held e' d \<longrightarrow> oe_ID e' \<noteq> oe_ID e \<longrightarrow> held e' d')"

lemma mark_live:
  assumes "pk_ok out_ID (outbox d)" and "held e d" and "t \<in> T" and "\<And>r. out_ID (f r) = out_ID r"
    and "\<And>r. outboxEmailFromDB r = e \<Longrightarrow> f r = settle p answer t r"
  shows "live_in T (try_op (wrapped msg (exec (mark_email f (oe_ID e) (oe_ClaimToken e)))) (\<lambda>_. ret (Inr ())))
    (\<lambda>r d'. r = Inr () \<and> settled_one p answer T e d d') d"
proof -
  let ?p = "\<lambda>r. out_ID r = oe_ID e \<and> out_ClaimToken r = oe_ClaimToken e"
  from assms(2) obtain row where row: "row \<in> set (outbox d)" "outboxEmailFromDB row = e" by (auto simp: held_def)
  then have id: "?p row" by (auto simp: outboxEmailFromDB_def)
  have only: "r = row" if "r \<in> set (outbox d)" "out_ID r = oe_ID e" for r
    using that row(1) id assms(1) by (auto simp: pk_ok_def dest: distinct_map_eq)
  have p: "?p r \<longleftrightarrow> out_ID r = oe_ID e" "?p r \<Longrightarrow> f r = settle p answer t r" if "r \<in> set (outbox d)" for r
    using only [OF that] id assms(5) [OF row(2)] by blast+
  have step: "\<exists>row. r = Inr row \<and> outbox d' = update_where ?p f (outbox d)"
    if "mark_email f (oe_ID e) (oe_ClaimToken e) now d = (r, d')" for now r d'
  proof -
    obtain found where "find ?p (outbox d) = Some found"
      using row(1) id by (cases "find ?p (outbox d)") auto
    with that show ?thesis by (auto simp: mark_email_def Let_def one_row_def)
  qed
  have others: "held e' d'" if "outbox d' = update_where ?p f (outbox d)" "held e' d" "oe_ID e' \<noteq> oe_ID e" for e' d'
  proof -
    from that(2) obtain a where a: "a \<in> set (outbox d)" "outboxEmailFromDB a = e'" by (auto simp: held_def)
    then have "(if ?p a then f a else a) \<in> set (outbox d')"
      unfolding that(1) set_update_where by (intro imageI)
    moreover have "\<not> ?p a" using a(2) that(3) by (auto simp: outboxEmailFromDB_def)
    ultimately show ?thesis using a(2) by (auto simp: held_def)
  qed
  have pk: "pk_ok out_ID (update_where ?p f (outbox d))" using assms(1,4) by (simp add: pk_ok_update)
  have "\<exists>row. r = Inr row \<and> settled_one p answer T e d d'"
    if "mark_email f (oe_ID e) (oe_ClaimToken e) now d = (r, d')" for now r d'
  proof -
    from step [OF that] obtain row where r: "r = Inr row" and d': "outbox d' = update_where ?p f (outbox d)" by blast
    have "settled p answer T {oe_ID e} (outbox d) (outbox d')"
      unfolding d' by (rule settled_update [OF p assms(3)])
    with r pk others [OF d'] show ?thesis unfolding settled_one_def d' by blast
  qed
  then show ?thesis by (intro live_rules) (fastforce simp: wrap_err_eq_Inl)+
qed

text \<open>How a message is counted.\<close>

definition tally :: "Processor \<Rightarrow> (Message \<Rightarrow> string option) \<Rightarrow> OutboxEmail \<Rightarrow> cycle \<Rightarrow> cycle" where
  "tally p answer e c =
     (if answer (oe_Message e) = None then c\<lparr>cy_sent := Suc (cy_sent c)\<rparr>
      else if oe_Attempts e + 1 < pr_maxAttempts p then c\<lparr>cy_retryScheduled := Suc (cy_retryScheduled c)\<rparr>
      else c\<lparr>cy_permanentFailures := Suc (cy_permanentFailures c)\<rparr>)"

lemma mark_counts:
  assumes "live_in T m (\<lambda>r d'. r = Inr () \<and> Q d') d"
  shows "live_in T (mark msg m count c) (\<lambda>r d'. r = Inr (count c) \<and> Q d') d"
  unfolding mark_def by (rule live_bind, rule live_mono [OF assms]) (auto intro: live_rules)

lemma process_one_live:
  assumes send: "\<And>m d. live_in T (send m) (\<lambda>r d'. r = answer m \<and> d' = d) d"
    and "pk_ok out_ID (outbox d)" and "held e d"
  shows "live_in T (process_one EmailOutboxStore send p e c)
    (\<lambda>r d'. r = Inr (tally p answer e c) \<and> settled_one p answer T e d d') d"
proof -
  have row: "oe_Message (outboxEmailFromDB r) = row_message r" "oe_Attempts (outboxEmailFromDB r) = out_Attempts r" for r
    by (simp_all add: outboxEmailFromDB_def row_message_def)
  have branch: "live_in T (case answer (oe_Message e) of
       Some err \<Rightarrow>
         (let nextAttempt = oe_Attempts e + 1; lastError = truncateLastError err
          in if pr_maxAttempts p \<le> nextAttempt
             then mark ''mark email permanently failed after send error''
                    (os_MarkFailedPermanently EmailOutboxStore (oe_ID e) (oe_ClaimToken e) lastError t)
                    (\<lambda>c. c\<lparr>cy_permanentFailures := Suc (cy_permanentFailures c)\<rparr>) c
             else mark ''mark email failed after send error''
                    (os_MarkFailed EmailOutboxStore (oe_ID e) (oe_ClaimToken e) lastError (t + pr_retryDelay p))
                    (\<lambda>c. c\<lparr>cy_retryScheduled := Suc (cy_retryScheduled c)\<rparr>) c)
     | None \<Rightarrow>
         mark ''mark email sent'' (os_MarkSent EmailOutboxStore (oe_ID e) (oe_ClaimToken e) t)
           (\<lambda>c. c\<lparr>cy_sent := Suc (cy_sent c)\<rparr>) c)
    (\<lambda>r d'. r = Inr (tally p answer e c) \<and> settled_one p answer T e d d') d" if "t \<in> T" for t
    by (cases "answer (oe_Message e)"; simp add: Let_def mark_op_defs tally_def; (intro conjI impI)?;
        (rule live_mono [OF mark_counts [OF mark_live [OF assms(2,3) that, where p = p and answer = answer]]])?)
      (auto simp: release_row_def settle_def row)
  show ?thesis
    unfolding process_one_def
    by (rule live_bind, rule live_mono [OF send], clarify, rule live_bind, rule live_time_now, rule branch)
qed

lemma process_all_live:
  assumes send: "\<And>m d. live_in T (send m) (\<lambda>r d'. r = answer m \<and> d' = d) d"
    and "pk_ok out_ID (outbox d)" and "list_all (\<lambda>e. held e d) es" and "distinct (map oe_ID es)"
  shows "live_in T (process_all EmailOutboxStore send p es c) (\<lambda>r d'.
    r = Inr (fold (tally p answer) es c) \<and> settled p answer T (set (map oe_ID es)) (outbox d) (outbox d')) d"
  using assms(2-)
proof (induction es arbitrary: c d)
  case Nil
  then show ?case by (auto intro!: live_rules simp: settled_none)
next
  case (Cons e es)
  have rest: "live_in T (process_all EmailOutboxStore send p es (tally p answer e c)) (\<lambda>r d'.
      r = Inr (fold (tally p answer) (e # es) c) \<and>
      settled p answer T (set (map oe_ID (e # es))) (outbox d) (outbox d')) d1"
    if "settled_one p answer T e d d1" for d1
  proof -
    from that Cons.prems have "pk_ok out_ID (outbox d1)" "list_all (\<lambda>e. held e d1) es"
      "settled p answer T {oe_ID e} (outbox d) (outbox d1)"
      by (auto simp: settled_one_def list_all_iff) (metis image_eqI)
    with Cons.prems(3) show ?thesis
      by (intro live_mono [OF Cons.IH])
        (use settled_trans [of p answer T "{oe_ID e}" "outbox d" "outbox d1" "oe_ID ` set es"] in auto)
  qed
  from Cons.prems have "held e d" by simp
  from process_one_live [where send = send and answer = answer, OF send Cons.prems(1) this, of p c] show ?case
    unfolding process_all.simps
    by (intro live_try_op, elim live_mono) (use rest in auto)
qed

lemma fold_tally:
  "fold (tally p answer) es c = c\<lparr>
     cy_sent := cy_sent c + length (filter (\<lambda>e. answer (oe_Message e) = None) es),
     cy_retryScheduled := cy_retryScheduled c +
       length (filter (\<lambda>e. answer (oe_Message e) \<noteq> None \<and> oe_Attempts e + 1 < pr_maxAttempts p) es),
     cy_permanentFailures := cy_permanentFailures c +
       length (filter (\<lambda>e. answer (oe_Message e) \<noteq> None \<and> \<not> oe_Attempts e + 1 < pr_maxAttempts p) es)\<rparr>"
  by (induction es arbitrary: c) (auto simp: tally_def)

text \<open>The rows a claim made at \<open>now\<close> hands out.\<close>

definition claimed_rows :: "time \<Rightarrow> int \<Rightarrow> db \<Rightarrow> outbox_row list" where
  "claimed_rows now lim d = filter (\<lambda>r. out_ID r \<in> set (claim_ids now lim (outbox d))) (outbox d)"

lemma claimed_rows_ids: "out_ID ` set (claimed_rows now lim d) = set (claim_ids now lim (outbox d))"
proof -
  have "set (claim_ids now lim (outbox d)) \<subseteq> out_ID ` set (outbox d)"
    by (auto simp: claim_ids_def Let_def dest!: in_set_takeD)
  then show ?thesis by (auto simp: claimed_rows_def)
qed

text \<open>What a message says of its row apart from the claim token.\<close>

definition same_mail :: "OutboxEmail \<Rightarrow> outbox_row \<Rightarrow> bool" where
  "same_mail e r \<longleftrightarrow> oe_ID e = out_ID r \<and> oe_Message e = row_message r \<and> oe_Attempts e = out_Attempts r"

lemma same_mail_lists:
  assumes "list_all2 same_mail es rows"
  shows "length es = length rows" and "map oe_ID es = map out_ID rows"
    and "length (filter (\<lambda>e. P (oe_Message e) (oe_Attempts e)) es) =
      length (filter (\<lambda>r. P (row_message r) (out_Attempts r)) rows)"
  using assms by (induction rule: list_all2_induct) (simp_all add: same_mail_def)

lemma claim_hands_out:
  assumes "pk_ok out_ID (outbox d)" and "0 < lim" and "0 < ttl"
  shows "live_in T (outbox_ClaimPending now ttl lim) (\<lambda>r d'. \<exists>es. r = Inr es \<and>
    list_all2 same_mail es (claimed_rows now lim d) \<and> distinct (map oe_ID es) \<and>
    pk_ok out_ID (outbox d') \<and> list_all (\<lambda>e. held e d') es \<and>
    (\<forall>p answer rows. settled p answer T (set (map oe_ID es)) (outbox d') rows \<longrightarrow>
       settled p answer T (set (map oe_ID es)) (outbox d) rows)) d"
proof -
  let ?ids = "set (claim_ids now lim (outbox d))"
  let ?q = "\<lambda>r. out_ID r \<in> ?ids" and ?f = "\<lambda>tok. claim_row (Some now) (Some (now + ttl)) tok"
  let ?rows = "\<lambda>tok. update_where ?q (?f tok) (outbox d)"
  let ?es = "\<lambda>tok. map outboxEmailFromDB (filter ?q (?rows tok))"
  have pk: "pk_ok out_ID (?rows tok)" for tok
    using assms(1) by (simp add: pk_ok_update claim_row_def)
  have "filter ?q (?rows tok) = map (?f tok) (claimed_rows now lim d)" for tok
    by (simp add: claimed_rows_def update_where_def filter_map comp_def claim_row_def if_distrib cong: if_cong)
  then have mail: "list_all2 same_mail (?es tok) (claimed_rows now lim d)" for tok
    by (simp add: list_all2_map1 list_all2_same same_mail_def outboxEmailFromDB_def claim_row_def row_message_def)
  have distinct: "distinct (map oe_ID (?es tok))" for tok
    using assms(1) same_mail_lists(2) [OF mail [of tok]] by (simp add: claimed_rows_def pk_ok_def distinct_map_filter)
  have held: "list_all (\<lambda>e. held e (d\<lparr>outbox := ?rows tok\<rparr>)) (?es tok)" for tok
    by (auto simp: list_all_iff held_def)
  have ids: "set (map oe_ID (?es tok)) = ?ids" for tok
    using same_mail_lists(2) [OF mail [of tok]] claimed_rows_ids [of now lim d] by (metis list.set_map)
  have "settled p answer T (set (map oe_ID (?es tok))) (outbox d) rows"
    if "settled p answer T (set (map oe_ID (?es tok))) (?rows tok) rows" for p answer tok rows
    using that unfolding ids by (rule settled_claimed)
  with pk mail distinct held show ?thesis
    unfolding outbox_ClaimPending_def generateClaimToken_def
    using assms(2,3)
    by (intro live_rules) (auto simp: wrap_err_eq_Inl Q_ClaimPendingEmails_def Let_def simp del: set_map)
qed

text \<open>
  The report of a cycle that claimed the rows \<open>claimed\<close>: how many the transport took, and of those it
  refused how many are to be retried and how many have used up their attempts.
\<close>

definition cycle_report :: "Processor \<Rightarrow> (Message \<Rightarrow> string option) \<Rightarrow> outbox_row list \<Rightarrow> cycle" where
  "cycle_report p answer claimed = \<lparr>
     cy_claimed = length claimed,
     cy_sent = length (filter (\<lambda>r. answer (row_message r) = None) claimed),
     cy_retryScheduled = length (filter (\<lambda>r. answer (row_message r) \<noteq> None \<and> out_Attempts r + 1 < pr_maxAttempts p) claimed),
     cy_permanentFailures = length (filter (\<lambda>r. answer (row_message r) \<noteq> None \<and> \<not> out_Attempts r + 1 < pr_maxAttempts p) claimed),
     cy_skippedClaimLost = 0\<rparr>"

lemma tally_report:
  assumes "list_all2 same_mail es claimed"
  shows "fold (tally p answer) es (no_cycle (length es)) = cycle_report p answer claimed"
  using same_mail_lists(1) [OF assms] same_mail_lists(3) [OF assms, of "\<lambda>m a. answer m = None"]
    same_mail_lists(3) [OF assms, of "\<lambda>m a. answer m \<noteq> None \<and> a + 1 < pr_maxAttempts p"]
    same_mail_lists(3) [OF assms, of "\<lambda>m a. answer m \<noteq> None \<and> \<not> a + 1 < pr_maxAttempts p"]
  by (simp add: fold_tally no_cycle_def cycle_report_def)

lemma EmailOutboxStore_claims: "os_ClaimPending EmailOutboxStore = outbox_ClaimPending"
  by (simp add: EmailOutboxStore_def)

text \<open>
  C27: one cycle of the processor does what the transport answers.  When the database answers, and the
  transport gives each message the answer \<open>answer\<close> prescribes (any mixture of messages taken and messages
  refused with an error), the cycle returns without error.  Every message due at the second reading of
  the clock, oldest first and up to the batch size, has been offered to the transport: the row of a
  message it took is marked sent, the row of a message it refused counts the attempt, keeps that
  message's error and waits for the retry delay, or is given up when its attempts are used up, each at a
  reading of the clock and with the claim released.  No other row changes, and the report counts
  exactly these outcomes.
\<close>

theorem cycle_settles_claimed:
  assumes "pr_store p = Some EmailOutboxStore" and "pr_sender p = Some send"
    and "\<And>T m d. live_in T (send m) (\<lambda>r d'. r = answer m \<and> d' = d) d"
    and "0 < pr_batchSize p" and "0 < pr_claimTTL p" and "pk_ok out_ID (outbox (wdb w))"
    and "reliable w" and "run_state (ProcessPending p) w = (r, w')"
  shows "r = Inr (cycle_report p answer (claimed_rows (wclock w 1) (pr_batchSize p) (wdb w))) \<and>
    settled p answer (range (wclock w)) (set (claim_ids (wclock w 1) (pr_batchSize p) (outbox (wdb w))))
      (outbox (wdb w)) (outbox (wdb w'))"
proof -
  let ?T = "range (wclock w)" and ?now = "wclock w 1" and ?d = "wdb w"
  let ?v = "w\<lparr>wclock := \<lambda>n. wclock w (Suc (Suc n))\<rparr>"
  let ?post = "\<lambda>r d'. r = Inr (cycle_report p answer (claimed_rows ?now (pr_batchSize p) ?d)) \<and>
    settled p answer ?T (set (claim_ids ?now (pr_batchSize p) (outbox ?d))) (outbox ?d) (outbox d')"
  let ?rest = "try_op (wrapped ''claim pending email'' (outbox_ClaimPending ?now (pr_claimTTL p) (pr_batchSize p)))
    (\<lambda>messages. process_all EmailOutboxStore send p messages (no_cycle (length messages)))"
  have run: "run_state ?rest ?v = (r, w')"
    using assms(8) unfolding ProcessPending_valid [OF assms(1,2)] EmailOutboxStore_claims
    by (simp add: run_bind run_time_now)
  have process: "live_in ?T (process_all EmailOutboxStore send p es (no_cycle (length es))) ?post d1"
    if "list_all2 same_mail es (claimed_rows ?now (pr_batchSize p) ?d)" "distinct (map oe_ID es)"
      "pk_ok out_ID (outbox d1)" "list_all (\<lambda>e. held e d1) es"
      "\<forall>p answer rows. settled p answer ?T (set (map oe_ID es)) (outbox d1) rows \<longrightarrow>
         settled p answer ?T (set (map oe_ID es)) (outbox ?d) rows"
    for es d1
  proof (rule live_mono [OF process_all_live [where send = send and answer = answer, OF assms(3) that(3,4,2)]])
    fix r d'
    assume *: "r = Inr (fold (tally p answer) es (no_cycle (length es))) \<and>
      settled p answer ?T (set (map oe_ID es)) (outbox d1) (outbox d')"
    have "set (map oe_ID es) = set (claim_ids ?now (pr_batchSize p) (outbox ?d))"
      using same_mail_lists(2) [OF that(1)] claimed_rows_ids by (metis list.set_map)
    with * that(5) tally_report [OF that(1)] show "?post r d'" by metis
  qed
  have "live_in ?T ?rest ?post (wdb ?v)"
    by (intro live_rules live_mono [OF claim_hands_out]) (use assms(4-6) process in \<open>auto simp: wrap_err_eq_Inl\<close>)
  moreover have "steady ?T ?v" using assms(7) by (simp add: steady_def)
  ultimately show ?thesis using live_inD(1) [OF _ _ run] by blast
qed

definition ex_answer :: "Message \<Rightarrow> string option" where
  "ex_answer m = (if msg_To m = ''ada@example.com'' then Some ''mailbox full'' else None)"

definition ex_processor :: Processor where
  "ex_processor = NewProcessor (Some EmailOutboxStore) (Some (\<lambda>m. ret (ex_answer m))) 0 0 0 0"

lemma ex_claimed_rows: "claimed_rows ex_now 10 ex_outbox = outbox ex_outbox" "claim_ids ex_now 10 (outbox ex_outbox) = [1]"
  by (simp_all add: claimed_rows_def claim_ids_def claimable_def ex_now_def second_def)

text \<open>A message that the transport refuses for the first time is retried after a minute.\<close>

theorem cycle_settles_claimed_witness:
  "case run_state (ProcessPending ex_processor) (ex_world ex_outbox) of (r, w') \<Rightarrow>
     r = Inr \<lparr>cy_claimed = 1, cy_sent = 0, cy_retryScheduled = 1, cy_permanentFailures = 0, cy_skippedClaimLost = 0\<rparr> \<and>
     map out_Status (outbox (wdb w')) = [Pending] \<and> map out_Attempts (outbox (wdb w')) = [1] \<and>
     map out_LastError (outbox (wdb w')) = [''mailbox full''] \<and>
     map out_AvailableAt (outbox (wdb w')) = [ex_now + 60 * second]"
proof -
  obtain r w' where run: "run_state (ProcessPending ex_processor) (ex_world ex_outbox) = (r, w')"
    by (metis prod.exhaust)
  have p: "pr_store ex_processor = Some EmailOutboxStore" "pr_sender ex_processor = Some (\<lambda>m. ret (ex_answer m))"
    "pr_batchSize ex_processor = 10" "pr_claimTTL ex_processor = 120 * second" "pr_retryDelay ex_processor = 60 * second"
    "pr_maxAttempts ex_processor = 5"
    by (simp_all add: ex_processor_def NewProcessor_def default_if_zero_def)
  have w: "reliable (ex_world ex_outbox)" "range (wclock (ex_world ex_outbox)) = {ex_now}" "wclock (ex_world ex_outbox) 1 = ex_now"
    "pk_ok out_ID (outbox (wdb (ex_world ex_outbox)))"
    by (auto simp: reliable_def ex_world_def ex_now_def pk_ok_def)
  have send: "live_in T (ret (ex_answer m)) (\<lambda>r d'. r = ex_answer m \<and> d' = d) d" for T m d
    by (intro live_ret) simp
  from cycle_settles_claimed [OF p(1,2) send _ _ w(4,1) run]
  have "r = Inr (cycle_report ex_processor ex_answer (outbox ex_outbox))"
    "settled ex_processor ex_answer {ex_now} {1} (outbox ex_outbox) (outbox (wdb w'))"
    unfolding w(2,3) p(3,4) ex_world_simps(1) ex_claimed_rows by (simp_all add: second_def)
  then show ?thesis
    unfolding run
    by (auto simp: cycle_report_def row_message_def ex_answer_def p settled_def list_all2_Cons1 settle_def
        truncateLastError_def MaxLastErrorLength_def)
qed

section \<open>Stored errors\<close>

lemma cut_invalid_spec:
  "prefix (cut_invalid s) s \<and> ValidString (cut_invalid s) \<and>
     \<not> (\<exists>t. prefix t s \<and> ValidString t \<and> length (cut_invalid s) < length t)"
proof (induction s rule: cut_invalid.induct)
  case (1 s)
  show ?case
  proof (cases "ValidString s")
    case True
    then show ?thesis by (auto simp: cut_invalid.simps [of s] dest: prefix_length_le)
  next
    case False
    have "prefix t (butlast s)" if "prefix t s" "ValidString t" for t
      using that False by (metis append_butlast_last_id prefix_order.refl prefix_snoc butlast.simps(1) prefix_bot.bot_unique)
    with 1 [OF False] False show ?thesis
      by (auto simp: cut_invalid.simps [of s] intro: prefix_order.trans [OF _ prefixeq_butlast])
  qed
qed

text \<open>
  C28: the loop that shortens a send error ends for every input, and what is stored is the error
  itself when it is short, otherwise its longest prefix of at most 1024 bytes that is well-formed
  UTF-8 (possibly empty).
\<close>

theorem truncateLastError_correct:
  "length (truncateLastError s) \<le> 1024 \<and>
   (if length s \<le> 1024 then truncateLastError s = s
    else prefix (truncateLastError s) s \<and> ValidString (truncateLastError s) \<and>
      \<not> (\<exists>t. prefix t s \<and> length t \<le> 1024 \<and> ValidString t \<and> length (truncateLastError s) < length t))"
proof (cases "length s \<le> 1024")
  case True
  then show ?thesis by (simp add: truncateLastError_def MaxLastErrorLength_def)
next
  case False
  let ?t = "take 1024 s"
  from False have s: "truncateLastError s = cut_invalid ?t"
    by (simp add: truncateLastError_def MaxLastErrorLength_def)
  have "prefix t ?t" if "prefix t s" "length t \<le> 1024" for t
    using that by (auto simp: prefix_def)
  moreover have "prefix (cut_invalid ?t) s" "length (cut_invalid ?t) \<le> 1024"
    using cut_invalid_spec [of ?t] prefix_length_le [of "cut_invalid ?t" ?t]
    by (auto intro: prefix_order.trans take_is_prefix)
  ultimately show ?thesis using cut_invalid_spec [of ?t] False unfolding s by auto
qed

end
