(* ===== verification/Jobs.thy ===== *)
theory Jobs
  imports Outbox_Delivery
begin

text \<open>
  Background work: the cleanup store and job (\<^verbatim>\<open>internal/database/cleanup_store.go\<close>,
  \<^verbatim>\<open>internal/jobs/cleanup.go\<close>) and the loop that runs jobs (\<^verbatim>\<open>internal/jobs/runner.go\<close>).
  Cleanup removes exactly what is out of use, so that no session, token or message in use is affected.
\<close>

section \<open>The cleanup job\<close>

record CleanupStore =
  cs_DeleteExpiredSessions :: "time \<Rightarrow> int op"
  cs_PrunePasswordResetTokens :: "time \<Rightarrow> time \<Rightarrow> int op"
  cs_PruneEmailVerificationTokens :: "time \<Rightarrow> time \<Rightarrow> int op"
  cs_PruneEmailChangeTokens :: "time \<Rightarrow> time \<Rightarrow> int op"
  cs_PruneSentEmailOutboxRows :: "time \<Rightarrow> int op"
  cs_PruneFailedEmailOutboxRows :: "time \<Rightarrow> int op"

definition NewCleanupStore :: CleanupStore where
  "NewCleanupStore = \<lparr>
     cs_DeleteExpiredSessions = (\<lambda>expiredBefore. exec (Q_DeleteExpiredSessions expiredBefore)),
     cs_PrunePasswordResetTokens = (\<lambda>expiredBefore consumedBefore.
       exec (Q_PrunePasswordResetTokens expiredBefore consumedBefore)),
     cs_PruneEmailVerificationTokens = (\<lambda>expiredBefore consumedBefore.
       exec (Q_PruneEmailVerificationTokens expiredBefore consumedBefore)),
     cs_PruneEmailChangeTokens = (\<lambda>expiredBefore consumedBefore.
       exec (Q_PruneEmailChangeTokens expiredBefore consumedBefore)),
     cs_PruneSentEmailOutboxRows = (\<lambda>sentBefore. exec (Q_PruneSentEmailOutboxRows sentBefore)),
     cs_PruneFailedEmailOutboxRows = (\<lambda>failedBefore. exec (Q_PruneFailedEmailOutboxRows failedBefore))\<rparr>"

record CleanupOptions =
  co_TokenRetention :: time
  co_SentEmailRetention :: time
  co_FailedEmailRetention :: time

record CleanupJob =
  cj_store :: CleanupStore
  cj_tokenRetention :: time
  cj_sentEmailRetention :: time
  cj_failedEmailRetention :: time

definition NewCleanupJob :: "CleanupStore option \<Rightarrow> CleanupOptions \<Rightarrow> CleanupJob result" where
  "NewCleanupJob store opts =
     (case store of
       None \<Rightarrow> Inl (ErrMsg ''cleanup store is required'')
     | Some s \<Rightarrow>
        if co_TokenRetention opts \<le> 0
        then Inl (ErrMsg ''cleanup token retention must be greater than zero'')
        else if co_SentEmailRetention opts \<le> 0
        then Inl (ErrMsg ''cleanup sent email retention must be greater than zero'')
        else if co_FailedEmailRetention opts \<le> 0
        then Inl (ErrMsg ''cleanup failed email retention must be greater than zero'')
        else Inr \<lparr>cj_store = s, cj_tokenRetention = co_TokenRetention opts,
                  cj_sentEmailRetention = co_SentEmailRetention opts,
                  cj_failedEmailRetention = co_FailedEmailRetention opts\<rparr>)"

text \<open>The job returns the total it logs; \<open>cleanup_at\<close> is its body after the clock is read.\<close>

definition cleanup_at :: "CleanupJob \<Rightarrow> time \<Rightarrow> int op" where
  "cleanup_at j now =
     (let tokenConsumedBefore = now - cj_tokenRetention j;
          sentBefore = now - cj_sentEmailRetention j;
          failedBefore = now - cj_failedEmailRetention j
      in
     try_op (wrapped ''delete expired sessions'' (cs_DeleteExpiredSessions (cj_store j) now)) (\<lambda>deletedSessions.
     try_op (wrapped ''prune password reset tokens''
       (cs_PrunePasswordResetTokens (cj_store j) now tokenConsumedBefore)) (\<lambda>deletedResetTokens.
     try_op (wrapped ''prune email verification tokens''
       (cs_PruneEmailVerificationTokens (cj_store j) now tokenConsumedBefore)) (\<lambda>deletedVerificationTokens.
     try_op (wrapped ''prune email change tokens''
       (cs_PruneEmailChangeTokens (cj_store j) now tokenConsumedBefore)) (\<lambda>deletedEmailChangeTokens.
     try_op (wrapped ''prune sent email rows'' (cs_PruneSentEmailOutboxRows (cj_store j) sentBefore)) (\<lambda>deletedSentEmails.
     try_op (wrapped ''prune failed email rows'' (cs_PruneFailedEmailOutboxRows (cj_store j) failedBefore)) (\<lambda>deletedFailedEmails.
     ret (Inr (deletedSessions + deletedResetTokens + deletedVerificationTokens + deletedEmailChangeTokens +
       deletedSentEmails + deletedFailedEmails)))))))))"

definition CleanupJob_Run :: "CleanupJob \<Rightarrow> int op" where
  "CleanupJob_Run j = do { startedAt \<leftarrow> time_now; now \<leftarrow> time_now; cleanup_at j now }"

section \<open>The runner\<close>

text \<open>
  \<open>job_Run\<close> may be missing (nil).  The name of the job, which the code quotes in its messages, is left
  out of them.
\<close>

record Job =
  job_Name :: string
  job_Interval :: time
  job_RunAtStart :: bool
  job_Run :: "(world, go_error option) state option"

definition CleanupJob_Job :: "CleanupJob \<Rightarrow> time \<Rightarrow> Job" where
  "CleanupJob_Job j interval =
     \<lparr>job_Name = ''database-cleanup'', job_Interval = interval, job_RunAtStart = True,
      job_Run = Some (do { r \<leftarrow> CleanupJob_Run j; ret (case r of Inl e \<Rightarrow> Some e | Inr _ \<Rightarrow> None) })\<rparr>"

definition validateJob :: "Job \<Rightarrow> unit result" where
  "validateJob job =
     (if job_Name job = [] then Inl (ErrMsg ''background job name is required'')
      else if job_Interval job \<le> 0 then Inl (ErrMsg ''background job interval must be greater than zero'')
      else if job_Run job = None then Inl (ErrMsg ''background job run function is required'')
      else Inr ())"

fun NewRunner :: "Job list \<Rightarrow> Job list result" where
  "NewRunner [] = Inr []"
| "NewRunner (job # jobs) =
     (case validateJob job of
       Inl e \<Rightarrow> Inl e
     | Inr _ \<Rightarrow> (case NewRunner jobs of Inl e \<Rightarrow> Inl e | Inr js \<Rightarrow> Inr (job # js)))"

text \<open>
  One run of a job: \<open>cancelled\<close> is whether the context is done when the job returns; the answer
  says whether the loop goes on.
\<close>

definition runJobOnce :: "Job \<Rightarrow> bool \<Rightarrow> (world, bool) state" where
  "runJobOnce job cancelled = do {
     startedAt \<leftarrow> time_now;
     err \<leftarrow> the (job_Run job);
     ret (err = None \<or> \<not> cancelled)
   }"

text \<open>
  What the \<^verbatim>\<open>select\<close> of the loop receives: the end of the context, or a tick, after which the run
  finds the context done or not.  The loop counts its runs; \<open>None\<close> means that it is still waiting
  when the events end.
\<close>

datatype event = Done | Tick bool

fun await :: "Job \<Rightarrow> event list \<Rightarrow> nat \<Rightarrow> (world, nat \<times> bool) state" where
  "await job [] n = ret (n, False)"
| "await job (Done # _) n = ret (n, True)"
| "await job (Tick cancelled # es) n = do {
     more \<leftarrow> runJobOnce job cancelled;
     if more then await job es (Suc n) else ret (Suc n, True)
   }"

definition runJobLoop :: "Job \<Rightarrow> bool \<Rightarrow> event list \<Rightarrow> (world, nat \<times> bool) state" where
  "runJobLoop job cancelledAtStart es =
     (if job_RunAtStart job then do {
        more \<leftarrow> runJobOnce job cancelledAtStart;
        if more then await job es 1 else ret (1, True)
      }
      else await job es 0)"

section \<open>Cleanup removes what is out of use\<close>

text \<open>The database as the program sees it at the instant \<open>t\<close>: live sessions, open tokens, unsent mail.\<close>

definition token_open :: "time \<Rightarrow> 'a token_row_scheme \<Rightarrow> bool" where
  "token_open t r \<longleftrightarrow> tok_ConsumedAt r = None \<and> t < tok_ExpiresAt r"

definition unsent :: "outbox_row \<Rightarrow> bool" where
  "unsent r \<longleftrightarrow> out_Status r = Pending \<or> out_Status r = Sending"

definition in_use :: "time \<Rightarrow> db \<Rightarrow> db" where
  "in_use t d = d\<lparr>sessions := filter (session_live t) (sessions d),
     ev_tokens := filter (token_open t) (ev_tokens d), pr_tokens := filter (token_open t) (pr_tokens d),
     ec_tokens := filter (token_open t) (ec_tokens d), outbox := filter unsent (outbox d)\<rparr>"

text \<open>The same, and what is kept for the time of the retentions.\<close>

definition sent_kept :: "time \<Rightarrow> outbox_row \<Rightarrow> bool" where
  "sent_kept sentBefore r \<longleftrightarrow> \<not> (out_Status r = Sent \<and> (\<exists>s. out_SentAt r = Some s \<and> s \<le> sentBefore))"

definition failed_kept :: "time \<Rightarrow> outbox_row \<Rightarrow> bool" where
  "failed_kept failedBefore r \<longleftrightarrow> \<not> (out_Status r = Failed \<and> out_AvailableAt r \<le> failedBefore)"

definition pruned :: "CleanupJob \<Rightarrow> time \<Rightarrow> db \<Rightarrow> db" where
  "pruned j now d =
     d\<lparr>sessions := filter (session_live now) (sessions d),
       pr_tokens := filter (\<lambda>r. \<not> token_stale now (now - cj_tokenRetention j) r) (pr_tokens d),
       ev_tokens := filter (\<lambda>r. \<not> token_stale now (now - cj_tokenRetention j) r) (ev_tokens d),
       ec_tokens := filter (\<lambda>r. \<not> token_stale now (now - cj_tokenRetention j) r) (ec_tokens d),
       outbox := filter (\<lambda>r. sent_kept (now - cj_sentEmailRetention j) r \<and>
         failed_kept (now - cj_failedEmailRetention j) r) (outbox d)\<rparr>"

lemma filter_filter_same: "(\<And>x. x \<in> set xs \<Longrightarrow> p x \<Longrightarrow> q x) \<Longrightarrow> filter p (filter q xs) = filter p xs"
  by (auto intro: filter_cong)

lemma prune_sessions:
  "Q_DeleteExpiredSessions x now d = (Inr (affected (\<lambda>s. \<not> session_live x s) (sessions d)),
     d\<lparr>sessions := filter (session_live x) (sessions d)\<rparr>)"
  by (simp add: Q_DeleteExpiredSessions_def delete_sessions_def session_live_def [abs_def] not_le not_less)

lemma prune_sent:
  "Q_PruneSentEmailOutboxRows x now d = (Inr (affected (\<lambda>r. \<not> sent_kept x r) (outbox d)),
     d\<lparr>outbox := filter (sent_kept x) (outbox d)\<rparr>)"
proof -
  have "(out_Status r = Sent \<and> (case out_SentAt r of None \<Rightarrow> False | Some s \<Rightarrow> s \<le> x)) = (\<not> sent_kept x r)" for r
    by (auto simp: sent_kept_def split: option.splits)
  then show ?thesis by (simp add: Q_PruneSentEmailOutboxRows_def Let_def cong: filter_cong)
qed

lemma prune_failed:
  "Q_PruneFailedEmailOutboxRows x now d = (Inr (affected (\<lambda>r. \<not> failed_kept x r) (outbox d)),
     d\<lparr>outbox := filter (failed_kept x) (outbox d)\<rparr>)"
  by (simp add: Q_PruneFailedEmailOutboxRows_def failed_kept_def [abs_def] Let_def)

lemma both_kept:
  "filter (failed_kept y) (filter (sent_kept x) ms) = filter (\<lambda>r. sent_kept x r \<and> failed_kept y r) ms"
  by simp

lemma in_use_filters:
  "x \<le> t \<Longrightarrow> filter (session_live t) (filter (session_live x) ss) = filter (session_live t) ss"
  "x \<le> t \<Longrightarrow> filter (token_open t) (filter (\<lambda>r. \<not> token_stale x c r) ts) = filter (token_open t) ts"
  "filter unsent (filter (\<lambda>r. sent_kept y r \<and> failed_kept z r) ms) = filter unsent ms"
  "filter unsent (filter (sent_kept y) ms) = filter unsent ms"
  "filter unsent (filter (failed_kept y) ms) = filter unsent ms"
  by (rule filter_filter_same; auto simp: session_live_def token_open_def token_stale_def unsent_def sent_kept_def failed_kept_def)+

lemma prune_tokens:
  "Q_PrunePasswordResetTokens x c now d = (Inr (affected (token_stale x c) (pr_tokens d)),
     d\<lparr>pr_tokens := filter (\<lambda>r. \<not> token_stale x c r) (pr_tokens d)\<rparr>)"
  "Q_PruneEmailVerificationTokens x c now d = (Inr (affected (token_stale x c) (ev_tokens d)),
     d\<lparr>ev_tokens := filter (\<lambda>r. \<not> token_stale x c r) (ev_tokens d)\<rparr>)"
  "Q_PruneEmailChangeTokens x c now d = (Inr (affected (token_stale x c) (ec_tokens d)),
     d\<lparr>ec_tokens := filter (\<lambda>r. \<not> token_stale x c r) (ec_tokens d)\<rparr>)"
  by (simp_all add: Q_PrunePasswordResetTokens_def Q_PruneEmailVerificationTokens_def Q_PruneEmailChangeTokens_def Let_def)

text \<open>A statement that can only fail in the driver.\<close>

lemma wp_statement:
  assumes "\<And>t. q t d = (Inr n, d1)" and "Q (Inl (Errorf msg ErrDriver)) d" and "wp (f n) Q d1"
  shows "wp (try_op (wrapped msg (exec q)) f) Q d"
  using assms by (intro wp_rules) (auto simp: wrap_err_eq_Inl)

lemmas cleanup_steps = prune_tokens [THEN wp_statement] prune_sessions [THEN wp_statement]
  prune_sent [THEN wp_statement] prune_failed [THEN wp_statement]

lemma cleanup_wp:
  assumes "cj_store j = NewCleanupStore"
  shows "wp (cleanup_at j now) (\<lambda>r d'.
     (\<forall>t. now \<le> t \<longrightarrow> in_use t d' = in_use t d) \<and>
     (case r of Inl e \<Rightarrow> errors_Is e ErrDriver | Inr n \<Rightarrow> d' = pruned j now d)) d"
  unfolding cleanup_at_def assms NewCleanupStore_def CleanupStore.simps
  by (intro wp_let cleanup_steps wp_ret) (simp_all add: in_use_def in_use_filters pruned_def both_kept del: filter_filter)

text \<open>
  C29: cleanup goes unnoticed.  Whatever the run returns, and however many of its statements failed,
  at every instant from its reading of the clock on the live sessions, open tokens and unsent messages,
  and every other table, are the same as without it; a run fails only with an error of the driver,
  and a run that succeeds leaves exactly the rows in use and those still within their retention.
\<close>

theorem cleanup_unnoticed:
  assumes "cj_store j = NewCleanupStore" and "run_state (CleanupJob_Run j) w = (r, w')" and "wclock w 1 \<le> t"
  shows "in_use t (wdb w') = in_use t (wdb w) \<and>
    (case r of Inl e \<Rightarrow> errors_Is e ErrDriver | Inr n \<Rightarrow> wdb w' = pruned j (wclock w 1) (wdb w))"
proof -
  let ?w = "w\<lparr>wclock := \<lambda>n. wclock w (Suc (Suc n))\<rparr>"
  from assms(2) have "run_state (cleanup_at j (wclock w 1)) ?w = (r, w')"
    by (simp add: CleanupJob_Run_def run_bind run_time_now)
  from wpD [OF cleanup_wp [OF assms(1)] this] assms(3) show ?thesis by (auto split: sum.splits)
qed

definition ex_cleanup :: CleanupJob where
  "ex_cleanup = \<lparr>cj_store = NewCleanupStore, cj_tokenRetention = hour, cj_sentEmailRetention = hour,
     cj_failedEmailRetention = hour\<rparr>"

definition ex_cleaned :: "int result \<times> world" where
  "ex_cleaned = run_state (CleanupJob_Run ex_cleanup) (ex_world ex_outbox)"

theorem cleanup_unnoticed_witness:
  "in_use ex_now (wdb (snd ex_cleaned)) = in_use ex_now ex_outbox \<and>
    (case fst ex_cleaned of Inl e \<Rightarrow> errors_Is e ErrDriver
     | Inr n \<Rightarrow> wdb (snd ex_cleaned) = pruned ex_cleanup ex_now ex_outbox)"
proof -
  have clock: "wclock (ex_world d) 1 = ex_now" for d by (simp add: ex_now_def)
  have "cj_store ex_cleanup = NewCleanupStore" by (simp add: ex_cleanup_def)
  from cleanup_unnoticed [OF this, of "ex_world ex_outbox" "fst ex_cleaned" "snd ex_cleaned" ex_now]
  show ?thesis unfolding clock ex_world_simps(1) by (simp add: ex_cleaned_def)
qed

section \<open>The loop goes on after errors\<close>

lemma runJobOnce_uncancelled: "\<exists>w'. run_state (runJobOnce job False) w = (True, w')"
  by (simp add: runJobOnce_def run_simps split: prod.splits)

lemma await_ticks:
  "\<exists>w'. run_state (await job (replicate k (Tick False) @ es) n) w = run_state (await job es (n + k)) w'"
proof (induction k arbitrary: n w)
  case 0
  show ?case by auto
next
  case (Suc k)
  obtain w1 where "run_state (runJobOnce job False) w = (True, w1)" using runJobOnce_uncancelled by blast
  moreover obtain w2 where "run_state (await job (replicate k (Tick False) @ es) (Suc n)) w1 =
      run_state (await job es (Suc n + k)) w2" using Suc.IH by blast
  ultimately show ?case by (auto simp: run_bind)
qed

text \<open>
  Until the context is cancelled a job runs at every tick, and once more at the start if it asks for
  that, whatever its runs return.
\<close>

lemma job_survives_errors:
  "fst (run_state (runJobLoop job False (replicate k (Tick False) @ [Done])) w) =
     (k + (if job_RunAtStart job then 1 else 0), True)"
proof (cases "job_RunAtStart job")
  case True
  obtain w1 where "run_state (runJobOnce job False) w = (True, w1)" using runJobOnce_uncancelled by blast
  moreover obtain w2 where "run_state (await job (replicate k (Tick False) @ [Done]) 1) w1 =
      run_state (await job [Done] (1 + k)) w2" using await_ticks by blast
  ultimately show ?thesis using True by (simp add: runJobLoop_def run_bind)
next
  case False
  obtain w2 where "run_state (await job (replicate k (Tick False) @ [Done]) 0) w =
      run_state (await job [Done] (0 + k)) w2" using await_ticks by blast
  with False show ?thesis by (simp add: runJobLoop_def)
qed

lemma NewRunner_valid:
  "NewRunner jobs = (case find (\<lambda>j. validateJob j \<noteq> Inr ()) jobs of
     None \<Rightarrow> Inr jobs | Some j \<Rightarrow> (case validateJob j of Inl e \<Rightarrow> Inl e | Inr _ \<Rightarrow> Inr jobs))"
proof (induction jobs)
  case Nil
  show ?case by simp
next
  case (Cons j jobs)
  show ?case
  proof (cases "validateJob j")
    case (Inl e)
    then show ?thesis by simp
  next
    case (Inr u)
    then show ?thesis using Cons.IH
      by (cases "find (\<lambda>j. validateJob j \<noteq> Inr ()) jobs") (simp_all split: sum.splits del: find_eq_None)
  qed
qed

end
