(* ===== verification/Http.thy ===== *)
theory Http
  imports Auth_Service Rate_Limit "HOL-Library.AList"
begin

text \<open>
  What the server uses of \<^verbatim>\<open>net/http\<close>: requests, cookies, the response writer (headers and
  cookies set after the status line is written are lost), \<^verbatim>\<open>http.Error\<close>, \<^verbatim>\<open>http.Redirect\<close>,
  \<^verbatim>\<open>ParseForm\<close>, \<^verbatim>\<open>MaxBytesReader\<close> and \<^verbatim>\<open>CrossOriginProtection\<close>; and the state a handler runs in.
\<close>

section \<open>Requests\<close>

text \<open>
  \<open>rq_Form\<close>, \<open>rq_PostHas\<close> and \<open>rq_FormErr\<close> are what parsing the query and the body yields;
  \<open>rq_FormParsed\<close> whether it was done.  \<open>rq_User\<close> and \<open>rq_RequestID\<close> are the values the middleware
  puts in the context.
\<close>

record Request =
  rq_Method :: string
  rq_Path :: string
  rq_RequestURI :: string
  rq_Host :: string
  rq_RemoteAddr :: string
  rq_TLS :: bool
  rq_ContentLength :: int
  rq_Header :: "string \<Rightarrow> string"
  rq_Cookies :: "(string \<times> string) list"
  rq_Query :: "string \<Rightarrow> string"
  rq_Form :: "string \<Rightarrow> string"
  rq_PostHas :: "string \<Rightarrow> bool"
  rq_FormErr :: bool
  rq_FormParsed :: bool
  rq_Body :: bytes
  rq_BodyErr :: bool
  rq_User :: "User option"
  rq_RequestID :: string

abbreviation MethodGet :: string where "MethodGet \<equiv> ''GET''"
abbreviation MethodPost :: string where "MethodPost \<equiv> ''POST''"

definition cookie_of :: "string \<Rightarrow> Request \<Rightarrow> string option" where
  "cookie_of name r = map_of (rq_Cookies r) name"

section \<open>Responses\<close>

datatype SameSite = SameSiteLaxMode | SameSiteStrictMode

record Cookie =
  ck_Name :: string
  ck_Value :: string
  ck_Path :: string
  ck_Expires :: "time option"
  ck_MaxAge :: int
  ck_HttpOnly :: bool
  ck_Secure :: bool
  ck_SameSite :: SameSite

record Response =
  rs_Status :: "nat option"
  rs_Headers :: "(string \<times> string) list"
  rs_Cookies :: "Cookie list"
  rs_Body :: bytes

definition new_response :: Response where
  "new_response = \<lparr>rs_Status = None, rs_Headers = [], rs_Cookies = [], rs_Body = []\<rparr>"

definition StatusText :: "nat \<Rightarrow> string" where
  "StatusText n =
     (if n = 400 then ''Bad Request'' else if n = 401 then ''Unauthorized''
      else if n = 403 then ''Forbidden'' else if n = 405 then ''Method Not Allowed''
      else if n = 413 then ''Request Entity Too Large'' else if n = 429 then ''Too Many Requests''
      else if n = 500 then ''Internal Server Error'' else [])"

section \<open>Handlers\<close>

text \<open>The world, the limiter the requests share, the request being served and its response.\<close>

record http =
  h_world :: world
  h_limiter :: fixedWindowRateLimiter
  h_req :: Request
  h_resp :: Response

type_synonym 'a web = "(http, 'a) state"

definition lift :: "(world, 'a) state \<Rightarrow> 'a web" where
  "lift m = State (\<lambda>h. case run_state m (h_world h) of (x, w) \<Rightarrow> (x, h\<lparr>h_world := w\<rparr>))"

definition request :: "Request web" where
  "request = State (\<lambda>h. (h_req h, h))"

definition set_request :: "Request \<Rightarrow> unit web" where
  "set_request r = State (\<lambda>h. ((), h\<lparr>h_req := r\<rparr>))"

definition respond :: "(Response \<Rightarrow> Response) \<Rightarrow> unit web" where
  "respond f = State (\<lambda>h. ((), h\<lparr>h_resp := f (h_resp h)\<rparr>))"

definition limiter :: "(fixedWindowRateLimiter \<Rightarrow> 'a \<times> fixedWindowRateLimiter) \<Rightarrow> 'a web" where
  "limiter f = State (\<lambda>h. case f (h_limiter h) of (x, l) \<Rightarrow> (x, h\<lparr>h_limiter := l\<rparr>))"

lemma run_web [run_simps]:
  "run_state (lift m) h = (case run_state m (h_world h) of (x, w) \<Rightarrow> (x, h\<lparr>h_world := w\<rparr>))"
  "run_state request h = (h_req h, h)"
  "run_state (set_request r) h = ((), h\<lparr>h_req := r\<rparr>)"
  "run_state (respond f) h = ((), h\<lparr>h_resp := f (h_resp h)\<rparr>)"
  "run_state (limiter g) h = (case g (h_limiter h) of (x, l) \<Rightarrow> (x, h\<lparr>h_limiter := l\<rparr>))"
  by (simp_all add: lift_def request_def set_request_def respond_def limiter_def)

text \<open>The response writer.\<close>

definition put_header :: "string \<Rightarrow> string \<Rightarrow> Response \<Rightarrow> Response" where
  "put_header k v p = (if rs_Status p = None then p\<lparr>rs_Headers := AList.update k v (rs_Headers p)\<rparr> else p)"

definition put_cookie :: "Cookie \<Rightarrow> Response \<Rightarrow> Response" where
  "put_cookie c p = (if rs_Status p = None then p\<lparr>rs_Cookies := rs_Cookies p @ [c]\<rparr> else p)"

definition put_status :: "nat \<Rightarrow> Response \<Rightarrow> Response" where
  "put_status n p = (if rs_Status p = None then p\<lparr>rs_Status := Some n\<rparr> else p)"

definition put_body :: "bytes \<Rightarrow> Response \<Rightarrow> Response" where
  "put_body b p = (let p = put_status 200 p in p\<lparr>rs_Body := rs_Body p @ b\<rparr>)"

abbreviation SetHeader :: "string \<Rightarrow> string \<Rightarrow> unit web" where
  "SetHeader k v \<equiv> respond (put_header k v)"

abbreviation SetCookie :: "Cookie \<Rightarrow> unit web" where
  "SetCookie c \<equiv> respond (put_cookie c)"

definition error_response :: "nat \<Rightarrow> Response \<Rightarrow> Response" where
  "error_response n p =
     put_body (StatusText n @ [CHR 0x0A]) (put_status n (put_header ''X-Content-Type-Options'' ''nosniff''
       (put_header ''Content-Type'' ''text/plain; charset=utf-8'' p)))"

abbreviation http_Error :: "nat \<Rightarrow> unit web" where
  "http_Error n \<equiv> respond (error_response n)"

text \<open>
  \<open>http_Redirect\<close>: the location is the argument; that \<^verbatim>\<open>net/http\<close> cleans its path, and the link it
  writes as the body of an answer to \<^verbatim>\<open>GET\<close>, are left out.
\<close>

abbreviation http_Redirect :: "string \<Rightarrow> unit web" where
  "http_Redirect url \<equiv> respond (\<lambda>p. put_status 303 (put_header ''Location'' url p))"

text \<open>
  \<open>ParseForm\<close>: only the first call can fail; once the form is there, even an empty one after an
  error, later calls return nil.
\<close>

definition ParseForm :: "bool web" where
  "ParseForm = do {
     r \<leftarrow> request;
     set_request (r\<lparr>rq_FormParsed := True\<rparr>);
     ret (rq_FormParsed r \<or> \<not> rq_FormErr r)
   }"

text \<open>\<open>MaxBytesReader\<close>: reading a longer body fails, and parsing the form then sees the query only.\<close>

definition MaxBytesReader :: "nat \<Rightarrow> Request \<Rightarrow> Request" where
  "MaxBytesReader n r =
     (if length (rq_Body r) \<le> n then r
      else r\<lparr>rq_Body := take n (rq_Body r), rq_BodyErr := True, rq_FormErr := True,
             rq_Form := rq_Query r, rq_PostHas := \<lambda>_. False\<rparr>)"

section \<open>Cross-origin protection\<close>

text \<open>
  \<^verbatim>\<open>http.CrossOriginProtection.Check\<close> with a set of trusted origins and no bypass patterns;
  \<open>host_of\<close> is the host of a URL (\<^verbatim>\<open>url.Parse\<close>, \<open>None\<close> when it does not parse).
\<close>

definition CrossOrigin_Check :: "(string \<Rightarrow> string option) \<Rightarrow> string list \<Rightarrow> Request \<Rightarrow> bool" where
  "CrossOrigin_Check host_of trusted r =
     (let site = rq_Header r ''Sec-Fetch-Site''; origin = rq_Header r ''Origin''
      in if rq_Method r \<in> {''GET'', ''HEAD'', ''OPTIONS''} then True
         else if site \<noteq> [] then site = ''same-origin'' \<or> site = ''none'' \<or> List.member trusted origin
         else if origin = [] then True
         else host_of origin = Some (rq_Host r) \<or> List.member trusted origin)"

section \<open>Properties that every run keeps\<close>

text \<open>
  \<open>hkeeps I m\<close>: whatever \<open>m\<close> returns, the relation \<open>I\<close> between the database and the limiter carries
  over.  The rules follow the shape of the handlers.
\<close>

definition hkeeps :: "(db \<Rightarrow> fixedWindowRateLimiter \<Rightarrow> bool) \<Rightarrow> 'a web \<Rightarrow> bool" where
  "hkeeps I m \<longleftrightarrow> preserves (\<lambda>h. I (wdb (h_world h)) (h_limiter h)) m"

named_theorems web_rules \<open>rules for properties kept by handlers\<close>

lemma hkeepsD: "hkeeps I m \<Longrightarrow> run_state m h = (r, h') \<Longrightarrow> I (wdb (h_world h)) (h_limiter h) \<Longrightarrow>
    I (wdb (h_world h')) (h_limiter h')"
  unfolding hkeeps_def by (drule preservesD) auto

lemma hkeepsI: "(\<And>h r h'. run_state m h = (r, h') \<Longrightarrow> I (wdb (h_world h)) (h_limiter h) \<Longrightarrow>
    I (wdb (h_world h')) (h_limiter h')) \<Longrightarrow> hkeeps I m"
  unfolding hkeeps_def by (rule preservesI) blast

lemma hkeeps_ret [web_rules]: "hkeeps I (ret x)"
  unfolding hkeeps_def by (rule preserves_ret)

lemma hkeeps_bind [web_rules]: "hkeeps I m \<Longrightarrow> (\<And>x. hkeeps I (f x)) \<Longrightarrow> hkeeps I (State_Monad.bind m f)"
  unfolding hkeeps_def by (rule preserves_bind)

lemma hkeeps_if [web_rules]: "(b \<Longrightarrow> hkeeps I m) \<Longrightarrow> (\<not> b \<Longrightarrow> hkeeps I n) \<Longrightarrow> hkeeps I (if b then m else n)"
  by simp

lemma hkeeps_let [web_rules]: "hkeeps I (f x) \<Longrightarrow> hkeeps I (let y = x in f y)"
  by simp

lemma hkeeps_case [web_rules]:
  "(\<And>e. hkeeps I (f1 e)) \<Longrightarrow> (\<And>x. hkeeps I (g1 x)) \<Longrightarrow> hkeeps I (case r1 of Inl e \<Rightarrow> f1 e | Inr x \<Rightarrow> g1 x)"
  "hkeeps I f2 \<Longrightarrow> (\<And>x. hkeeps I (g2 x)) \<Longrightarrow> hkeeps I (case r2 of None \<Rightarrow> f2 | Some x \<Rightarrow> g2 x)"
  "(\<And>x y. hkeeps I (f3 x y)) \<Longrightarrow> hkeeps I (case r3 of (x, y) \<Rightarrow> f3 x y)"
  by (simp_all split: sum.splits option.splits prod.splits)

lemma hkeeps_primitives [web_rules]:
  "hkeeps I request" "hkeeps I (set_request r)" "hkeeps I (respond f)"
  by (auto intro!: hkeepsI simp: run_web)

lemma hkeeps_limiter [web_rules]:
  assumes "\<And>d l. I d l \<Longrightarrow> I d (snd (g l))"
  shows "hkeeps I (limiter g)"
proof (rule hkeepsI)
  fix h r h'
  assume "run_state (limiter g) h = (r, h')" and "I (wdb (h_world h)) (h_limiter h)"
  then show "I (wdb (h_world h')) (h_limiter h')"
    using assms [of "wdb (h_world h)" "h_limiter h"] by (auto simp: run_web split: prod.splits)
qed

lemma hkeeps_lift:
  assumes "\<And>l. keeps (\<lambda>d. I d l) m"
  shows "hkeeps I (lift m)"
proof (rule hkeepsI)
  fix h r h'
  assume run: "run_state (lift m) h = (r, h')" and I: "I (wdb (h_world h)) (h_limiter h)"
  from run obtain w where "run_state m (h_world h) = (r, w)" "h' = h\<lparr>h_world := w\<rparr>"
    by (auto simp: run_web split: prod.splits)
  with preservesD [OF assms] I show "I (wdb (h_world h')) (h_limiter h')" by simp
qed

lemma hkeeps_time_now [web_rules]: "hkeeps I (lift time_now)"
  by (rule hkeeps_lift) (rule keeps_primitives)

lemma hkeeps_ParseForm [web_rules]: "hkeeps I ParseForm"
  unfolding ParseForm_def by (intro web_rules)

end
