(* ===== verification/Paths.thy ===== *)
theory Paths
  imports Email_Messages
begin

text \<open>
  The routes of the application (\<^verbatim>\<open>internal/paths/paths.go\<close>) and the names templates reach them
  by.  The three paths that messages link to are in \<open>Email_Messages\<close>.
\<close>

named_theorems path_defs \<open>definitions of the routes\<close>

lemmas [path_defs] = paths_ConfirmEmail_def paths_ResetPassword_def paths_ConfirmEmailChange_def

definition paths_Home :: string where [path_defs]:
  "paths_Home = ''/''"

definition paths_Healthz :: string where [path_defs]:
  "paths_Healthz = ''/healthz''"

definition paths_Readyz :: string where [path_defs]:
  "paths_Readyz = ''/readyz''"

definition paths_RobotsTxt :: string where [path_defs]:
  "paths_RobotsTxt = ''/robots.txt''"

definition paths_StaticPrefix :: string where [path_defs]:
  "paths_StaticPrefix = ''/static/''"

definition paths_StaticFaviconSVG :: string where [path_defs]:
  "paths_StaticFaviconSVG = paths_StaticPrefix @ ''favicon.svg''"

definition paths_StaticPicoCSS :: string where [path_defs]:
  "paths_StaticPicoCSS = paths_StaticPrefix @ ''vendor/pico/pico.classless.min.css''"

definition paths_StaticStyles :: string where [path_defs]:
  "paths_StaticStyles = paths_StaticPrefix @ ''styles.css''"

definition paths_StaticQRCodeJS :: string where [path_defs]:
  "paths_StaticQRCodeJS = paths_StaticPrefix @ ''vendor/qrcodejs/qrcode.js''"

definition paths_StaticTOTPSetupJS :: string where [path_defs]:
  "paths_StaticTOTPSetupJS = paths_StaticPrefix @ ''js/totp-setup.js''"

definition paths_StaticPasskeyJS :: string where [path_defs]:
  "paths_StaticPasskeyJS = paths_StaticPrefix @ ''js/passkey.js''"

definition paths_Login :: string where [path_defs]:
  "paths_Login = ''/login''"

definition paths_LoginPasskeyBegin :: string where [path_defs]:
  "paths_LoginPasskeyBegin = paths_Login @ ''/passkey/begin''"

definition paths_LoginPasskeyFinish :: string where [path_defs]:
  "paths_LoginPasskeyFinish = paths_Login @ ''/passkey/finish''"

definition paths_Register :: string where [path_defs]:
  "paths_Register = ''/register''"

definition paths_Logout :: string where [path_defs]:
  "paths_Logout = ''/logout''"

definition paths_Account :: string where [path_defs]:
  "paths_Account = ''/account''"

definition paths_VerifyEmail :: string where [path_defs]:
  "paths_VerifyEmail = paths_Account @ ''/verify-email''"

definition paths_ForgotPassword :: string where [path_defs]:
  "paths_ForgotPassword = paths_Account @ ''/forgot-password''"

definition paths_ResendVerification :: string where [path_defs]:
  "paths_ResendVerification = paths_Account @ ''/resend-verification''"

definition paths_VerifyEmailResend :: string where [path_defs]:
  "paths_VerifyEmailResend = paths_VerifyEmail @ ''/resend''"

definition paths_ChangePassword :: string where [path_defs]:
  "paths_ChangePassword = paths_Account @ ''/change-password''"

definition paths_ChangeEmail :: string where [path_defs]:
  "paths_ChangeEmail = paths_Account @ ''/change-email''"

definition paths_AccountSessionsRevoke :: string where [path_defs]:
  "paths_AccountSessionsRevoke = paths_Account @ ''/sessions/revoke''"

definition paths_AccountSessionsRevokeOthers :: string where [path_defs]:
  "paths_AccountSessionsRevokeOthers = paths_Account @ ''/sessions/revoke-others''"

definition paths_AccountDelete :: string where [path_defs]:
  "paths_AccountDelete = paths_Account @ ''/delete''"

definition paths_AccountTwoFactor :: string where [path_defs]:
  "paths_AccountTwoFactor = paths_Account @ ''/two-factor''"

definition paths_AccountTwoFactorSetup :: string where [path_defs]:
  "paths_AccountTwoFactorSetup = paths_AccountTwoFactor @ ''/setup''"

definition paths_AccountTwoFactorConfirm :: string where [path_defs]:
  "paths_AccountTwoFactorConfirm = paths_AccountTwoFactor @ ''/confirm''"

definition paths_AccountTwoFactorDisable :: string where [path_defs]:
  "paths_AccountTwoFactorDisable = paths_AccountTwoFactor @ ''/disable''"

definition paths_AccountTwoFactorChallenge :: string where [path_defs]:
  "paths_AccountTwoFactorChallenge = paths_AccountTwoFactor @ ''/challenge''"

definition paths_AccountTwoFactorRegenerateCodes :: string where [path_defs]:
  "paths_AccountTwoFactorRegenerateCodes = paths_AccountTwoFactor @ ''/regenerate-codes''"

definition paths_AccountPasskeys :: string where [path_defs]:
  "paths_AccountPasskeys = paths_Account @ ''/passkeys''"

definition paths_AccountPasskeysRegisterBegin :: string where [path_defs]:
  "paths_AccountPasskeysRegisterBegin = paths_AccountPasskeys @ ''/register/begin''"

definition paths_AccountPasskeysRegisterFinish :: string where [path_defs]:
  "paths_AccountPasskeysRegisterFinish = paths_AccountPasskeys @ ''/register/finish''"

definition paths_AccountPasskeysRename :: string where [path_defs]:
  "paths_AccountPasskeysRename = paths_AccountPasskeys @ ''/rename''"

definition paths_AccountPasskeysDelete :: string where [path_defs]:
  "paths_AccountPasskeysDelete = paths_AccountPasskeys @ ''/delete''"

definition paths_Projects :: string where [path_defs]:
  "paths_Projects = ''/projects''"

definition paths_ProjectsDelete :: string where [path_defs]:
  "paths_ProjectsDelete = paths_Projects @ ''/delete''"

definition TemplateRoutes :: "(string \<times> string) list" where
  "TemplateRoutes = [
     (''Home'', paths_Home),
     (''StaticFaviconSVG'', paths_StaticFaviconSVG),
     (''StaticPicoCSS'', paths_StaticPicoCSS),
     (''StaticStyles'', paths_StaticStyles),
     (''StaticQRCodeJS'', paths_StaticQRCodeJS),
     (''StaticTOTPSetupJS'', paths_StaticTOTPSetupJS),
     (''StaticPasskeyJS'', paths_StaticPasskeyJS),
     (''Account'', paths_Account),
     (''Login'', paths_Login),
     (''LoginPasskeyBegin'', paths_LoginPasskeyBegin),
     (''LoginPasskeyFinish'', paths_LoginPasskeyFinish),
     (''Register'', paths_Register),
     (''Logout'', paths_Logout),
     (''ForgotPassword'', paths_ForgotPassword),
     (''ResetPassword'', paths_ResetPassword),
     (''ResendVerification'', paths_ResendVerification),
     (''VerifyEmailResend'', paths_VerifyEmailResend),
     (''ChangePassword'', paths_ChangePassword),
     (''ChangeEmail'', paths_ChangeEmail),
     (''ConfirmEmailChange'', paths_ConfirmEmailChange),
     (''AccountSessionsRevoke'', paths_AccountSessionsRevoke),
     (''AccountSessionsRevokeOthers'', paths_AccountSessionsRevokeOthers),
     (''AccountDelete'', paths_AccountDelete),
     (''AccountTwoFactor'', paths_AccountTwoFactor),
     (''AccountTwoFactorSetup'', paths_AccountTwoFactorSetup),
     (''AccountTwoFactorConfirm'', paths_AccountTwoFactorConfirm),
     (''AccountTwoFactorDisable'', paths_AccountTwoFactorDisable),
     (''AccountTwoFactorChallenge'', paths_AccountTwoFactorChallenge),
     (''AccountTwoFactorRegenerateCodes'', paths_AccountTwoFactorRegenerateCodes),
     (''AccountPasskeys'', paths_AccountPasskeys),
     (''AccountPasskeysRegisterBegin'', paths_AccountPasskeysRegisterBegin),
     (''AccountPasskeysRegisterFinish'', paths_AccountPasskeysRegisterFinish),
     (''AccountPasskeysRename'', paths_AccountPasskeysRename),
     (''AccountPasskeysDelete'', paths_AccountPasskeysDelete),
     (''Projects'', paths_Projects),
     (''ProjectsDelete'', paths_ProjectsDelete)]"

text \<open>No two entries share a name, and each path is absolute.\<close>

lemma TemplateRoutes_wf:
  "distinct (map fst TemplateRoutes)" "list_all (\<lambda>(n, p). prefix ''/'' p \<and> \<not> prefix ''//'' p) TemplateRoutes"
  by (simp_all add: TemplateRoutes_def path_defs)

end
