(* ===== verification/Server_Core.thy ===== *)
theory Server_Core
  imports Http Paths Projects WebAuthn_Service
begin

text \<open>
  The core of \<^verbatim>\<open>internal/server\<close>: the server and its construction (\<^verbatim>\<open>server.go\<close>), signed values
  (\<^verbatim>\<open>signed_value.go\<close>), the session, reset, pending-login and flash cookies (\<^verbatim>\<open>auth.go\<close>,
  \<^verbatim>\<open>flash.go\<close>), safe redirects, and the rendering of pages (\<^verbatim>\<open>auth_handlers.go\<close>).
\<close>

section \<open>Pages\<close>

definition templateLayout :: string where "templateLayout = ''layout.html''"
definition templateNotFound :: string where "templateNotFound = ''404.html''"
definition templateInternalError :: string where "templateInternalError = ''500.html''"
definition templateAccount :: string where "templateAccount = ''account.html''"
definition templateChangeEmail :: string where "templateChangeEmail = ''change_email.html''"
definition templateChangePassword :: string where "templateChangePassword = ''change_password.html''"
definition templateConfirmEmail :: string where "templateConfirmEmail = ''confirm_email.html''"
definition templateConfirmEmailChange :: string where "templateConfirmEmailChange = ''confirm_email_change.html''"
definition templateForgotPassword :: string where "templateForgotPassword = ''forgot_password.html''"
definition templateHome :: string where "templateHome = ''home.html''"
definition templateLogin :: string where "templateLogin = ''login.html''"
definition templateResetPassword :: string where "templateResetPassword = ''reset_password.html''"
definition templateRegister :: string where "templateRegister = ''register.html''"
definition templateResendVerification :: string where "templateResendVerification = ''resend_verification.html''"
definition templateVerifyEmail :: string where "templateVerifyEmail = ''verify_email.html''"
definition templateDeleteAccount :: string where "templateDeleteAccount = ''delete_account.html''"
definition templateTwoFactor :: string where "templateTwoFactor = ''two_factor.html''"
definition templateTwoFactorBackupCodes :: string where "templateTwoFactorBackupCodes = ''two_factor_backup_codes.html''"
definition templateTwoFactorChallenge :: string where "templateTwoFactorChallenge = ''two_factor_challenge.html''"
definition templatePasskeys :: string where "templatePasskeys = ''passkeys.html''"
definition templateProjects :: string where "templateProjects = ''projects_index.html''"

lemmas template_defs = templateNotFound_def templateInternalError_def templateAccount_def
  templateChangeEmail_def templateChangePassword_def templateConfirmEmail_def
  templateConfirmEmailChange_def templateForgotPassword_def templateHome_def templateLogin_def
  templateResetPassword_def templateRegister_def templateResendVerification_def templateVerifyEmail_def
  templateDeleteAccount_def templateTwoFactor_def templateTwoFactorBackupCodes_def
  templateTwoFactorChallenge_def templatePasskeys_def templateProjects_def

definition pages :: "(string \<times> string) list" where
  "pages = [
     (templateNotFound, ''404.html''),
     (templateInternalError, ''500.html''),
     (templateHome, ''home.html''),
     (templateAccount, ''account/account.html''),
     (templateChangePassword, ''account/change_password.html''),
     (templateLogin, ''account/login.html''),
     (templateRegister, ''account/register.html''),
     (templateForgotPassword, ''account/forgot_password.html''),
     (templateResetPassword, ''account/reset_password.html''),
     (templateConfirmEmail, ''account/confirm_email.html''),
     (templateResendVerification, ''account/resend_verification.html''),
     (templateVerifyEmail, ''account/verify_email.html''),
     (templateChangeEmail, ''account/change_email.html''),
     (templateConfirmEmailChange, ''account/confirm_email_change.html''),
     (templateDeleteAccount, ''account/delete_account.html''),
     (templateTwoFactor, ''account/two_factor.html''),
     (templateTwoFactorBackupCodes, ''account/two_factor_backup_codes.html''),
     (templateTwoFactorChallenge, ''account/two_factor_challenge.html''),
     (templatePasskeys, ''account/passkeys.html''),
     (templateProjects, ''projects/index.html'')]"

record flashMessage =
  fm_Type :: string
  fm_Message :: string

definition flashSuccess :: "string \<Rightarrow> flashMessage" where
  "flashSuccess message = \<lparr>fm_Type = ''success'', fm_Message = message\<rparr>"

definition flashError :: "string \<Rightarrow> flashMessage" where
  "flashError message = \<lparr>fm_Type = ''error'', fm_Message = message\<rparr>"

record breadcrumbItem =
  bc_Label :: string
  bc_URL :: string
  bc_Current :: bool

definition crumb :: "string \<Rightarrow> string \<Rightarrow> breadcrumbItem" where
  "crumb label url = \<lparr>bc_Label = label, bc_URL = url, bc_Current = False\<rparr>"

definition currentCrumb :: "string \<Rightarrow> breadcrumbItem" where
  "currentCrumb label = \<lparr>bc_Label = label, bc_URL = [], bc_Current = True\<rparr>"

record templateData =
  td_Title :: string
  td_RequestID :: string
  td_Routes :: "(string \<times> string) list"
  td_Breadcrumbs :: "breadcrumbItem list"
  td_Flash :: "flashMessage option"
  td_Error :: string
  td_FieldErrors :: "(string \<times> string) list"
  td_Email :: string
  td_EmailPattern :: string
  td_Next :: string
  td_ResetTokenInvalid :: bool
  td_Authenticated :: bool
  td_Verified :: bool
  td_User :: User
  td_PasswordMinLength :: int
  td_ManagedSessions :: "ManagedSession list"
  td_TOTPEnabled :: bool
  td_TOTPPending :: bool
  td_TOTPSecret :: string
  td_TOTPOtpAuthURI :: string
  td_TOTPBackupCodes :: "string list"
  td_TOTPBackupCodesRemaining :: int
  td_PasskeysEnabled :: bool
  td_Passkeys :: "WebAuthnCredential list"
  td_Projects :: "Project list"

section \<open>Functions of other packages\<close>

text \<open>
  \<^verbatim>\<open>url.Parse\<close> with the parts the server looks at; \<^verbatim>\<open>net.SplitHostPort\<close> (the host),
  \<^verbatim>\<open>net.ParseIP\<close>, \<^verbatim>\<open>IP.String\<close>, \<^verbatim>\<open>net.ParseCIDR\<close> (the network) and \<^verbatim>\<open>IPNet.Contains\<close>;
  \<^verbatim>\<open>encoding/json\<close> on flash messages and on maps of strings; the parsing and the execution of the
  HTML templates; the file server of the embedded static files (status and body).
\<close>

type_synonym ip = bytes
type_synonym cidr = "bytes \<times> bytes"

record url_parts =
  url_Scheme :: string
  url_Host :: string
  url_Path :: string
  url_RequestURI :: string

record web_libs =
  wl_ParseURL :: "string \<Rightarrow> url_parts option"
  wl_SplitHostPort :: "string \<Rightarrow> string option"
  wl_ParseIP :: "string \<Rightarrow> ip option"
  wl_IPString :: "ip \<Rightarrow> string"
  wl_IsTo4 :: "ip \<Rightarrow> bool"
  wl_ParseCIDR :: "string \<Rightarrow> cidr option"
  wl_Contains :: "cidr \<Rightarrow> ip \<Rightarrow> bool"
  wl_TrustableOrigin :: "string \<Rightarrow> bool"
  wl_MarshalFlash :: "flashMessage \<Rightarrow> bytes"
  wl_UnmarshalFlash :: "bytes \<Rightarrow> flashMessage option"
  wl_MarshalMap :: "(string \<times> string) list \<Rightarrow> bytes"
  wl_ParsePage :: "string \<Rightarrow> bool"
  wl_ExecutePage :: "string \<Rightarrow> templateData \<Rightarrow> bytes option"
  wl_FileServer :: "string \<Rightarrow> nat \<times> bytes"

section \<open>The server\<close>

text \<open>The services are called through \<open>sv_auth\<close>; the packages they and the server use are kept beside it.\<close>

record Server =
  sv_libs :: libs
  sv_web :: web_libs
  sv_auth :: AuthService
  sv_hasDB :: bool
  sv_templates :: "string list"
  sv_cookieSecure :: bool
  sv_trustedOrigins :: "string list"
  sv_passwordMinLength :: int
  sv_cookieSigningKey :: bytes
  sv_flashKey :: bytes
  sv_rateLimitPolicies :: Policies
  sv_trustedProxies :: "cidr list"

record Options =
  so_hasDB :: bool
  so_Auth :: "AuthService option"
  so_CookieSecure :: bool
  so_AppBaseURL :: string
  so_SecretKeyBase :: string
  so_PasswordMinLength :: int
  so_RateLimitPolicies :: Policies
  so_TrustedProxies :: "string list"

fun parseTrustedProxies :: "web_libs \<Rightarrow> string list \<Rightarrow> cidr list result" where
  "parseTrustedProxies W [] = Inr []"
| "parseTrustedProxies W (raw # rest) =
     (let entry = TrimSpace raw
      in if entry = [] then parseTrustedProxies W rest
         else
           (case (if CHR ''/'' \<in> set entry
                  then (case wl_ParseCIDR W entry of
                      None \<Rightarrow> Inl (ErrMsg ''invalid trusted proxy CIDR'')
                    | Some cidr \<Rightarrow> Inr cidr)
                  else (case wl_ParseIP W entry of
                      None \<Rightarrow> Inl (ErrMsg ''invalid trusted proxy IP'')
                    | Some ip \<Rightarrow>
                        Inr (case wl_ParseCIDR W (wl_IPString W ip @ ''/'' @ (if wl_IsTo4 W ip then ''32'' else ''128'')) of
                            Some cidr \<Rightarrow> cidr | None \<Rightarrow> ([], [])))) of
              Inl e \<Rightarrow> Inl e
            | Inr cidr \<Rightarrow>
                (case parseTrustedProxies W rest of Inl e \<Rightarrow> Inl e | Inr cidrs \<Rightarrow> Inr (cidr # cidrs))))"

definition normalizeOrigin :: "libs \<Rightarrow> web_libs \<Rightarrow> string \<Rightarrow> string" where
  "normalizeOrigin L W raw =
     (let raw = TrimSpace raw
      in if raw = [] then []
         else case wl_ParseURL W raw of
             None \<Rightarrow> []
           | Some parsed \<Rightarrow>
               if url_Scheme parsed = [] \<or> url_Host parsed = [] then []
               else if url_Scheme parsed \<noteq> ''http'' \<and> url_Scheme parsed \<noteq> ''https'' then []
               else ToLower L (url_Scheme parsed) @ ''://'' @ ToLower L (url_Host parsed))"

definition newCrossOriginProtection :: "web_libs \<Rightarrow> string \<Rightarrow> string list result" where
  "newCrossOriginProtection W appBaseOrigin =
     (if appBaseOrigin = [] then Inr []
      else if wl_TrustableOrigin W appBaseOrigin then Inr [appBaseOrigin]
      else Inl (ErrMsg ''trust app origin''))"

definition parseTemplates :: "web_libs \<Rightarrow> string list result" where
  "parseTemplates W =
     (if list_all (\<lambda>(name, file). wl_ParsePage W (''templates/'' @ file)) pages
      then Inr (map fst pages) else Inl (ErrMsg ''parse template''))"

definition New :: "libs \<Rightarrow> web_libs \<Rightarrow> Options \<Rightarrow> Server result" where
  "New L W opts =
     (case so_Auth opts of
       None \<Rightarrow> Inl (ErrMsg ''server auth service is required'')
     | Some auth \<Rightarrow>
        (let secretKeyBase = TrimSpace (so_SecretKeyBase opts)
         in case wrap_err ''configure cross-origin protection''
                   (newCrossOriginProtection W (normalizeOrigin L W (so_AppBaseURL opts))) of
              Inl e \<Rightarrow> Inl e
            | Inr trusted \<Rightarrow>
               (case wrap_err ''parse templates'' (parseTemplates W) of
                  Inl e \<Rightarrow> Inl e
                | Inr templates \<Rightarrow>
                   (case wrap_err ''parse trusted proxies'' (parseTrustedProxies W (so_TrustedProxies opts)) of
                      Inl e \<Rightarrow> Inl e
                    | Inr proxies \<Rightarrow>
                        Inr \<lparr>sv_libs = L, sv_web = W, sv_auth = auth, sv_hasDB = so_hasDB opts,
                             sv_templates = templates, sv_cookieSecure = so_CookieSecure opts,
                             sv_trustedOrigins = trusted,
                             sv_passwordMinLength = default_if_zero (so_PasswordMinLength opts) DefaultPasswordMinLength,
                             sv_cookieSigningKey = DeriveKey secretKeyBase ''cookie-signing'',
                             sv_flashKey = DeriveKey secretKeyBase ''flash'',
                             sv_rateLimitPolicies = Resolve (so_RateLimitPolicies opts),
                             sv_trustedProxies = proxies\<rparr>))))"

section \<open>Signed values\<close>

definition signValue :: "bytes \<Rightarrow> bytes \<Rightarrow> string" where
  "signValue key payload =
     b64_encode url_alphabet payload @ ''.'' @ b64_encode url_alphabet (hmac_sha256 key payload)"

definition verifyValue :: "bytes \<Rightarrow> string \<Rightarrow> bytes option" where
  "verifyValue key token =
     (case Cut (CHR ''.'') token of (encodedPayload, encodedSig, found) \<Rightarrow>
        if \<not> found then None
        else case b64_decode url_alphabet encodedPayload of
            None \<Rightarrow> None
          | Some payload \<Rightarrow>
              (case b64_decode url_alphabet encodedSig of
                 None \<Rightarrow> None
               | Some sig \<Rightarrow> if sig = hmac_sha256 key payload then Some payload else None))"

section \<open>Cookies\<close>

definition sessionCookieName :: string where "sessionCookieName = ''session''"
definition resetCookieName :: string where "resetCookieName = ''reset_token''"
definition resetCookiePath :: string where "resetCookiePath = ''/account/reset-password''"
definition resetCookieTTL :: time where "resetCookieTTL = 10 * minute"
definition totpPendingCookieName :: string where "totpPendingCookieName = ''totp_pending''"
definition totpPendingCookiePath :: string where "totpPendingCookiePath = ''/account/two-factor/challenge''"
definition totpPendingCookieTTL :: time where "totpPendingCookieTTL = 5 * minute"
definition flashCookieName :: string where "flashCookieName = ''flash''"
definition defaultTestFlashSigningKey :: string where
  "defaultTestFlashSigningKey = ''insecure-default-flash-signing-key''"

lemmas cookie_defs = sessionCookieName_def resetCookieName_def totpPendingCookieName_def flashCookieName_def

definition secureCookie :: "Server \<Rightarrow> Request \<Rightarrow> bool" where
  "secureCookie s r \<longleftrightarrow> sv_cookieSecure s \<or> rq_TLS r"

text \<open>Whole seconds of a duration, cut towards zero (\<^verbatim>\<open>int(d.Seconds())\<close>).\<close>

definition seconds :: "time \<Rightarrow> int" where
  "seconds d = (if 0 \<le> d then d div second else - ((- d) div second))"

definition sessionCookieMaxAge :: "time \<Rightarrow> (world, int) state" where
  "sessionCookieMaxAge expiresAt = do {
     now \<leftarrow> time_now;
     ret (let maxAge = seconds (expiresAt - now) in if maxAge < 1 then 1 else maxAge)
   }"

definition setSessionCookie :: "Server \<Rightarrow> AuthSession \<Rightarrow> bool \<Rightarrow> unit web" where
  "setSessionCookie s session rememberMe = do {
     r \<leftarrow> request;
     let cookie = \<lparr>ck_Name = sessionCookieName, ck_Value = as_Token session, ck_Path = ''/'', ck_Expires = None,
       ck_MaxAge = 0, ck_HttpOnly = True, ck_Secure = secureCookie s r, ck_SameSite = SameSiteLaxMode\<rparr>;
     if rememberMe then do {
       maxAge \<leftarrow> lift (sessionCookieMaxAge (as_ExpiresAt session));
       SetCookie (cookie\<lparr>ck_Expires := Some (as_ExpiresAt session), ck_MaxAge := maxAge\<rparr>)
     }
     else SetCookie cookie
   }"

text \<open>The cookies that delete a cookie differ in name, path and same-site mode only.\<close>

definition deleted_cookie :: "Server \<Rightarrow> Request \<Rightarrow> string \<Rightarrow> string \<Rightarrow> SameSite \<Rightarrow> Cookie" where
  "deleted_cookie s r name path mode =
     \<lparr>ck_Name = name, ck_Value = [], ck_Path = path, ck_Expires = Some 0, ck_MaxAge = -1,
      ck_HttpOnly = True, ck_Secure = secureCookie s r, ck_SameSite = mode\<rparr>"

definition clearSessionCookie :: "Server \<Rightarrow> unit web" where
  "clearSessionCookie s = do {
     r \<leftarrow> request;
     SetCookie (deleted_cookie s r sessionCookieName ''/'' SameSiteLaxMode)
   }"

definition setResetCookie :: "Server \<Rightarrow> string \<Rightarrow> unit web" where
  "setResetCookie s token = do {
     r \<leftarrow> request;
     now \<leftarrow> lift time_now;
     SetCookie \<lparr>ck_Name = resetCookieName, ck_Value = TrimSpace token, ck_Path = resetCookiePath,
       ck_Expires = Some (now + resetCookieTTL), ck_MaxAge = seconds resetCookieTTL, ck_HttpOnly = True,
       ck_Secure = secureCookie s r, ck_SameSite = SameSiteStrictMode\<rparr>
   }"

definition clearResetCookie :: "Server \<Rightarrow> unit web" where
  "clearResetCookie s = do {
     r \<leftarrow> request;
     SetCookie (deleted_cookie s r resetCookieName resetCookiePath SameSiteStrictMode)
   }"

definition cookie_token :: "string \<Rightarrow> Request \<Rightarrow> string" where
  "cookie_token name r = (case cookie_of name r of None \<Rightarrow> [] | Some v \<Rightarrow> TrimSpace v)"

definition resetTokenFromCookie :: "Request \<Rightarrow> string" where
  "resetTokenFromCookie = cookie_token resetCookieName"

definition sessionTokenFromCookie :: "Request \<Rightarrow> string" where
  "sessionTokenFromCookie = cookie_token sessionCookieName"

text \<open>The login that waits for its second factor, in a signed cookie.\<close>

record totpPendingLogin =
  pl_UserID :: int
  pl_RememberMe :: bool

definition totpPendingKey :: "Server \<Rightarrow> bytes" where
  "totpPendingKey s = DeriveKey (sv_cookieSigningKey s) ''totp_pending''"

definition unix_seconds :: "time \<Rightarrow> int" where
  "unix_seconds t = t div second"

definition pending_payload :: "int \<Rightarrow> bool \<Rightarrow> time \<Rightarrow> bytes" where
  "pending_payload userID rememberMe now =
     FormatInt userID @ '':'' @ FormatBool rememberMe @ '':'' @ FormatInt (unix_seconds now)"

definition setTOTPPendingCookie :: "Server \<Rightarrow> int \<Rightarrow> bool \<Rightarrow> unit web" where
  "setTOTPPendingCookie s userID rememberMe = do {
     r \<leftarrow> request;
     now \<leftarrow> lift time_now;
     SetCookie \<lparr>ck_Name = totpPendingCookieName,
       ck_Value = signValue (totpPendingKey s) (pending_payload userID rememberMe now),
       ck_Path = totpPendingCookiePath, ck_Expires = Some (now + totpPendingCookieTTL),
       ck_MaxAge = seconds totpPendingCookieTTL, ck_HttpOnly = True, ck_Secure = secureCookie s r,
       ck_SameSite = SameSiteStrictMode\<rparr>
   }"

definition clearTOTPPendingCookie :: "Server \<Rightarrow> unit web" where
  "clearTOTPPendingCookie s = do {
     r \<leftarrow> request;
     SetCookie (deleted_cookie s r totpPendingCookieName totpPendingCookiePath SameSiteStrictMode)
   }"

text \<open>\<open>pending_login\<close> reads the value of the cookie at an instant.\<close>

definition pending_login :: "Server \<Rightarrow> string \<Rightarrow> time \<Rightarrow> totpPendingLogin option" where
  "pending_login s value now =
     (case verifyValue (totpPendingKey s) value of
        None \<Rightarrow> None
      | Some payload \<Rightarrow>
          (case Split (CHR '':'') payload of
             [f0, f1, f2] \<Rightarrow>
               (case ParseInt f0 of
                  None \<Rightarrow> None
                | Some userID \<Rightarrow>
                    if userID \<le> 0 then None
                    else (case ParseBool f1 of
                        None \<Rightarrow> None
                      | Some rememberMe \<Rightarrow>
                          (case ParseInt f2 of
                             None \<Rightarrow> None
                           | Some ts \<Rightarrow>
                               if totpPendingCookieTTL < now - ts * second then None
                               else Some \<lparr>pl_UserID = userID, pl_RememberMe = rememberMe\<rparr>)))
           | _ \<Rightarrow> None))"

definition totpPendingLoginFromCookie :: "Server \<Rightarrow> totpPendingLogin option web" where
  "totpPendingLoginFromCookie s = do {
     r \<leftarrow> request;
     case cookie_of totpPendingCookieName r of
       None \<Rightarrow> ret None
     | Some value \<Rightarrow> do {
         now \<leftarrow> lift time_now;
         ret (pending_login s value now)
       }
   }"

section \<open>Flash messages\<close>

definition flashSigningKey :: "Server \<Rightarrow> bytes" where
  "flashSigningKey s =
     (if sv_flashKey s \<noteq> [] then sv_flashKey s else DeriveKey defaultTestFlashSigningKey ''flash'')"

definition setFlash :: "Server \<Rightarrow> flashMessage \<Rightarrow> unit web" where
  "setFlash s msg = do {
     r \<leftarrow> request;
     SetCookie \<lparr>ck_Name = flashCookieName,
       ck_Value = signValue (flashSigningKey s) (wl_MarshalFlash (sv_web s) msg), ck_Path = ''/'',
       ck_Expires = None, ck_MaxAge = seconds (5 * minute), ck_HttpOnly = True,
       ck_Secure = secureCookie s r, ck_SameSite = SameSiteLaxMode\<rparr>
   }"

definition popFlash :: "Server \<Rightarrow> flashMessage option web" where
  "popFlash s = do {
     r \<leftarrow> request;
     case cookie_of flashCookieName r of
       None \<Rightarrow> ret None
     | Some value \<Rightarrow> do {
         SetCookie \<lparr>ck_Name = flashCookieName, ck_Value = [], ck_Path = ''/'', ck_Expires = None, ck_MaxAge = -1,
           ck_HttpOnly = True, ck_Secure = secureCookie s r, ck_SameSite = SameSiteLaxMode\<rparr>;
         ret (case verifyValue (flashSigningKey s) value of
             None \<Rightarrow> None
           | Some payload \<Rightarrow> wl_UnmarshalFlash (sv_web s) payload)
       }
   }"

section \<open>Redirects\<close>

definition HasPrefix :: "string \<Rightarrow> string \<Rightarrow> bool" where
  "HasPrefix s p = (take (length p) s = p)"

definition safeRedirectPath :: "web_libs \<Rightarrow> string \<Rightarrow> string" where
  "safeRedirectPath W value =
     (if value = [] then []
      else if HasPrefix value [CHR 0x5C] \<or> HasPrefix value [CHR ''/'', CHR 0x5C] then []
      else case wl_ParseURL W value of
          None \<Rightarrow> []
        | Some u \<Rightarrow>
            if url_Scheme u \<noteq> [] \<or> url_Host u \<noteq> [] then []
            else if \<not> HasPrefix (url_Path u) ''/'' \<or> HasPrefix (url_Path u) ''//'' then []
            else if CHR 0x5C \<in> set (url_Path u) then []
            else url_RequestURI u)"

definition redirectToLogin :: "Server \<Rightarrow> unit web" where
  "redirectToLogin s = do {
     r \<leftarrow> request;
     let next = safeRedirectPath (sv_web s) (rq_RequestURI r);
     http_Redirect (if next \<noteq> [] then paths_Login @ ''?next='' @ QueryEscape next else paths_Login)
   }"

section \<open>Rendering\<close>

definition emailPattern :: string where
  "emailPattern = ''[^@'' @ [CHR 0x5C] @ ''s]+@[^@'' @ [CHR 0x5C] @ ''s]+'' @ [CHR 0x5C] @ ''.[^@'' @ [CHR 0x5C] @ ''s]+''"

definition request_data :: "Request \<Rightarrow> string \<Rightarrow> templateData" where
  "request_data r title =
     \<lparr>td_Title = title, td_RequestID = rq_RequestID r, td_Routes = TemplateRoutes, td_Breadcrumbs = [],
      td_Flash = None, td_Error = [], td_FieldErrors = [], td_Email = [], td_EmailPattern = emailPattern,
      td_Next = [], td_ResetTokenInvalid = False,
      td_Authenticated = (rq_User r \<noteq> None),
      td_Verified = (case rq_User r of None \<Rightarrow> False | Some u \<Rightarrow> u_EmailVerifiedAt u \<noteq> None),
      td_User = (case rq_User r of None \<Rightarrow> zero_User | Some u \<Rightarrow> u),
      td_PasswordMinLength = DefaultPasswordMinLength, td_ManagedSessions = [], td_TOTPEnabled = False,
      td_TOTPPending = False, td_TOTPSecret = [], td_TOTPOtpAuthURI = [], td_TOTPBackupCodes = [],
      td_TOTPBackupCodesRemaining = 0, td_PasskeysEnabled = False, td_Passkeys = [], td_Projects = []\<rparr>"

definition newTemplateData :: "Server \<Rightarrow> string \<Rightarrow> templateData web" where
  "newTemplateData s title = do {
     r \<leftarrow> request;
     let data = request_data r title;
     let data = data\<lparr>td_PasskeysEnabled := PasskeysEnabled (sv_auth s)\<rparr>;
     let data = (if 0 < sv_passwordMinLength s then data\<lparr>td_PasswordMinLength := sv_passwordMinLength s\<rparr> else data);
     flash \<leftarrow> popFlash s;
     ret (data\<lparr>td_Flash := flash\<rparr>)
   }"

definition server_renderTemplate :: "Server \<Rightarrow> string \<Rightarrow> templateData \<Rightarrow> bytes option" where
  "server_renderTemplate s templateName data =
     (if List.member (sv_templates s) templateName then wl_ExecutePage (sv_web s) templateName data else None)"

definition renderStatus :: "Server \<Rightarrow> nat \<Rightarrow> string \<Rightarrow> templateData \<Rightarrow> unit web" where
  "renderStatus s status templateName data =
     (case server_renderTemplate s templateName data of
        None \<Rightarrow> http_Error 500
      | Some body \<Rightarrow> do {
          SetHeader ''Content-Type'' ''text/html; charset=utf-8'';
          respond (put_status status);
          respond (put_body body)
        })"

definition render :: "Server \<Rightarrow> string \<Rightarrow> templateData \<Rightarrow> unit web" where
  "render s templateName data = renderStatus s 200 templateName data"

definition internalServerError :: "Server \<Rightarrow> unit web" where
  "internalServerError s = do {
     data \<leftarrow> newTemplateData s ''Something went wrong'';
     renderStatus s 500 templateInternalError data
   }"

end
