(* ===== verification/Middleware.thy ===== *)
theory Middleware
  imports Server_Core
begin

text \<open>
  The layers a request passes through: request ids (\<^verbatim>\<open>request_id.go\<close>), security and cache headers
  and body limits (\<^verbatim>\<open>server.go\<close>), cross-origin protection (\<^verbatim>\<open>csrf.go\<close>), sessions and the guards of
  routes (\<^verbatim>\<open>auth.go\<close>), client addresses and rate limits (\<^verbatim>\<open>rate_limit.go\<close>).
\<close>

section \<open>Request ids\<close>

definition requestIDHeaderName :: string where "requestIDHeaderName = ''X-Request-Id''"
definition maxRequestIDLength :: nat where "maxRequestIDLength = 64"

definition request_id_char :: "char \<Rightarrow> bool" where
  "request_id_char c \<longleftrightarrow>
     (97 \<le> code c \<and> code c \<le> 122) \<or> (65 \<le> code c \<and> code c \<le> 90) \<or> (48 \<le> code c \<and> code c \<le> 57) \<or>
     c = CHR ''-'' \<or> c = CHR ''_''"

definition requestIDFromHeader :: "string \<Rightarrow> string" where
  "requestIDFromHeader raw =
     (let value = TrimSpace raw
      in if value = [] \<or> maxRequestIDLength < length value then []
         else if list_all request_id_char value then value else [])"

definition newRequestID :: "string op" where
  "newRequestID = try_op (rand_Read 16) (\<lambda>buf. ret (Inr (hex_encode buf)))"

definition withRequestID :: "Server \<Rightarrow> unit web \<Rightarrow> unit web" where
  "withRequestID s next = do {
     r \<leftarrow> request;
     let given = requestIDFromHeader (rq_Header r requestIDHeaderName);
     made \<leftarrow> (if given = [] then lift newRequestID else ret (Inr given));
     case made of
       Inl err \<Rightarrow> internalServerError s
     | Inr rid \<Rightarrow> do {
         set_request (r\<lparr>rq_RequestID := rid\<rparr>);
         SetHeader requestIDHeaderName rid;
         next
       }
   }"

section \<open>Headers and body limits\<close>

definition cspHeaderValue :: string where
  "cspHeaderValue = ''default-src 'self'; script-src 'self'; style-src 'self'; img-src 'self' data:; '' @
     ''form-action 'self'; frame-ancestors 'none'; base-uri 'self'' @ [CHR 0x27]"

definition securityHeaders :: "Server \<Rightarrow> unit web \<Rightarrow> unit web" where
  "securityHeaders s next = do {
     r \<leftarrow> request;
     SetHeader ''Content-Security-Policy'' cspHeaderValue;
     SetHeader ''X-Content-Type-Options'' ''nosniff'';
     SetHeader ''Referrer-Policy'' ''strict-origin-when-cross-origin'';
     SetHeader ''X-Frame-Options'' ''DENY'';
     SetHeader ''Permissions-Policy'' ''geolocation=(), microphone=(), camera=()'';
     (if secureCookie s r then SetHeader ''Strict-Transport-Security'' ''max-age=31536000'' else ret ());
     next
   }"

definition isAuthSensitivePagePath :: "string \<Rightarrow> bool" where
  "isAuthSensitivePagePath path \<longleftrightarrow>
     path = paths_Login \<or> path = paths_Register \<or> path = paths_Account \<or> HasPrefix path (paths_Account @ ''/'')"

definition isAuthSensitivePostPath :: "string \<Rightarrow> bool" where
  "isAuthSensitivePostPath path \<longleftrightarrow>
     path = paths_Login \<or> path = paths_Register \<or> path = paths_Logout \<or>
     path = paths_Account \<or> HasPrefix path (paths_Account @ ''/'')"

definition shouldSetAuthSensitiveNoStore :: "string \<Rightarrow> string \<Rightarrow> bool" where
  "shouldSetAuthSensitiveNoStore method path =
     (if method = MethodGet then isAuthSensitivePagePath path
      else if method = MethodPost then isAuthSensitivePostPath path
      else False)"

definition cacheControlHeaders :: "unit web \<Rightarrow> unit web" where
  "cacheControlHeaders next = do {
     r \<leftarrow> request;
     (if shouldSetAuthSensitiveNoStore (rq_Method r) (rq_Path r) then do {
        SetHeader ''Cache-Control'' ''no-store'';
        SetHeader ''Pragma'' ''no-cache'';
        SetHeader ''Expires'' ''0''
      }
      else ret ());
     next
   }"

definition isUnsafeMethod :: "string \<Rightarrow> bool" where
  "isUnsafeMethod method \<longleftrightarrow> method \<notin> {''GET'', ''HEAD'', ''OPTIONS'', ''TRACE''}"

definition maxRequestBodyBytes :: nat where
  "maxRequestBodyBytes = 64 * 1024"

definition limitRequestBody :: "unit web \<Rightarrow> unit web" where
  "limitRequestBody next = do {
     r \<leftarrow> request;
     if isUnsafeMethod (rq_Method r) then
       if int maxRequestBodyBytes < rq_ContentLength r then http_Error 413
       else do {
         set_request (MaxBytesReader maxRequestBodyBytes r);
         next
       }
     else next
   }"

definition csrf :: "Server \<Rightarrow> unit web \<Rightarrow> unit web" where
  "csrf s next = do {
     r \<leftarrow> request;
     if isUnsafeMethod (rq_Method r) \<and>
        \<not> CrossOrigin_Check (\<lambda>u. map_option url_Host (wl_ParseURL (sv_web s) u)) (sv_trustedOrigins s) r
     then http_Error 403
     else next
   }"

section \<open>Sessions and guards\<close>

definition loadSession :: "Server \<Rightarrow> unit web \<Rightarrow> unit web" where
  "loadSession s next = do {
     r \<leftarrow> request;
     case cookie_of sessionCookieName r of
       None \<Rightarrow> next
     | Some value \<Rightarrow> do {
         u \<leftarrow> lift (UserBySessionToken value);
         case u of
           Inl err \<Rightarrow>
             if errors_Is err ErrInvalidSession then do { clearSessionCookie s; next }
             else internalServerError s
         | Inr user \<Rightarrow> do {
             set_request (r\<lparr>rq_User := Some user\<rparr>);
             next
           }
       }
   }"

definition refuse :: "Server \<Rightarrow> string \<Rightarrow> unit web" where
  "refuse s method = (if method = MethodGet then redirectToLogin s else http_Error 401)"

definition requireAuth :: "Server \<Rightarrow> unit web \<Rightarrow> unit web" where
  "requireAuth s next = do {
     r \<leftarrow> request;
     case rq_User r of
       None \<Rightarrow> refuse s (rq_Method r)
     | Some _ \<Rightarrow> next
   }"

definition requireAnonymous :: "unit web \<Rightarrow> unit web" where
  "requireAnonymous next = do {
     r \<leftarrow> request;
     case rq_User r of
       Some user \<Rightarrow>
         if u_EmailVerifiedAt user \<noteq> None then http_Redirect paths_Account else http_Redirect paths_VerifyEmail
     | None \<Rightarrow> next
   }"

definition requireVerifiedAuth :: "Server \<Rightarrow> unit web \<Rightarrow> unit web" where
  "requireVerifiedAuth s next = do {
     r \<leftarrow> request;
     case rq_User r of
       None \<Rightarrow> refuse s (rq_Method r)
     | Some user \<Rightarrow>
         if u_EmailVerifiedAt user = None then
           if rq_Method r = MethodGet then http_Redirect paths_VerifyEmail else http_Error 403
         else next
   }"

section \<open>Client addresses\<close>

definition isTrustedProxyIP :: "Server \<Rightarrow> ip \<Rightarrow> bool" where
  "isTrustedProxyIP s ip = list_ex (\<lambda>cidr. wl_Contains (sv_web s) cidr ip) (sv_trustedProxies s)"

definition isTrustedProxy :: "Server \<Rightarrow> string \<Rightarrow> bool" where
  "isTrustedProxy s host = (case wl_ParseIP (sv_web s) host of None \<Rightarrow> False | Some ip \<Rightarrow> isTrustedProxyIP s ip)"

text \<open>The walk over the entries of the header, given from right to left.\<close>

fun walk_hops :: "Server \<Rightarrow> string list \<Rightarrow> string \<Rightarrow> string" where
  "walk_hops s [] candidate = candidate"
| "walk_hops s (entry # rest) candidate =
     (case wl_ParseIP (sv_web s) (TrimSpace entry) of
        None \<Rightarrow> []
      | Some ip \<Rightarrow>
          if \<not> isTrustedProxyIP s ip then wl_IPString (sv_web s) ip
          else walk_hops s rest (wl_IPString (sv_web s) ip))"

definition clientIPFromForwardedFor :: "Server \<Rightarrow> string \<Rightarrow> string" where
  "clientIPFromForwardedFor s header =
     (let header = TrimSpace header
      in if header = [] then [] else walk_hops s (rev (Split (CHR '','') header)) [])"

definition requestIP :: "Server \<Rightarrow> Request \<Rightarrow> string" where
  "requestIP s r =
     (let remoteAddr = TrimSpace (rq_RemoteAddr r)
      in if remoteAddr = [] then ''unknown''
         else
           let host = (case wl_SplitHostPort (sv_web s) remoteAddr of None \<Rightarrow> remoteAddr | Some h \<Rightarrow> h);
               host = (if host = [] then remoteAddr else host);
               clientIP = clientIPFromForwardedFor s (rq_Header r ''X-Forwarded-For'')
           in if sv_trustedProxies s \<noteq> [] \<and> isTrustedProxy s host \<and> clientIP \<noteq> [] then clientIP else host)"

section \<open>Rate limits\<close>

definition hashRateLimitKey :: "string \<Rightarrow> string" where
  "hashRateLimitKey key = hex_encode (take 6 (sha256_Sum256 key))"

definition normalizedEmailForRateLimit :: "libs \<Rightarrow> string \<Rightarrow> string option" where
  "normalizedEmailForRateLimit L raw =
     (let trimmed = TrimSpace raw
      in if trimmed = [] then None
         else case lib_ParseAddress L trimmed of
             None \<Rightarrow> None
           | Some addr \<Rightarrow>
               if adr_Address addr = [] then None else Some (ToLower L (TrimSpace (adr_Address addr))))"

text \<open>The four ways to name the bucket of a request.\<close>

datatype keyFn = ByIP | ByIPAndEmail string | ByIPAndResetTokenCookie | ByIPAndUser

fun rateLimitKey :: "Server \<Rightarrow> keyFn \<Rightarrow> string web" where
  "rateLimitKey s ByIP = do { r \<leftarrow> request; ret (''ip:'' @ requestIP s r) }"
| "rateLimitKey s (ByIPAndEmail formField) = do {
     r \<leftarrow> request;
     _ \<leftarrow> ParseForm;
     ret (case normalizedEmailForRateLimit (sv_libs s) (rq_Form r formField) of
         None \<Rightarrow> ''ip:'' @ requestIP s r
       | Some email \<Rightarrow> ''ip:'' @ requestIP s r @ ''|email:'' @ email)
   }"
| "rateLimitKey s ByIPAndResetTokenCookie = do {
     r \<leftarrow> request;
     ret (let token = resetTokenFromCookie r
          in if token = [] then ''ip:'' @ requestIP s r
             else ''ip:'' @ requestIP s r @ ''|reset_token_hash:'' @ hashRateLimitKey token)
   }"
| "rateLimitKey s ByIPAndUser = do {
     r \<leftarrow> request;
     ret (case rq_User r of
         None \<Rightarrow> ''ip:'' @ requestIP s r
       | Some user \<Rightarrow> ''ip:'' @ requestIP s r @ ''|user:'' @ FormatInt (u_ID user))
   }"

record rateLimitSpec =
  rl_name :: string
  rl_policy :: Name
  rl_keyFn :: keyFn

text \<open>A missing policy is the zero policy, which does not limit.\<close>

definition policy_of :: "Server \<Rightarrow> Name \<Rightarrow> Policy" where
  "policy_of s n = (case sv_rateLimitPolicies s n of None \<Rightarrow> \<lparr>MaxRequests = 0, Window = 0\<rparr> | Some p \<Rightarrow> p)"

definition retry_seconds :: "time \<Rightarrow> int" where
  "retry_seconds retryAfter = max 1 (- ((- retryAfter) div second))"

definition writeRateLimited :: "time \<Rightarrow> unit web" where
  "writeRateLimited retryAfter = do {
     SetHeader ''Retry-After'' (FormatInt (retry_seconds retryAfter));
     http_Error 429
   }"

fun check_limits :: "Server \<Rightarrow> time \<Rightarrow> rateLimitSpec list \<Rightarrow> unit web \<Rightarrow> unit web" where
  "check_limits s now [] next = next"
| "check_limits s now (spec # specs) next = do {
     key \<leftarrow> rateLimitKey s (rl_keyFn spec);
     (allowed, retryAfter) \<leftarrow> limiter (\<lambda>l. Allow l (rl_name spec @ ''|'' @ key) (policy_of s (rl_policy spec)) now);
     if \<not> allowed then writeRateLimited retryAfter else check_limits s now specs next
   }"

definition withRateLimits :: "Server \<Rightarrow> rateLimitSpec list \<Rightarrow> unit web \<Rightarrow> unit web" where
  "withRateLimits s specs next = do {
     now \<leftarrow> lift time_now;
     check_limits s now specs next
   }"

end
