(* ===== verification/Auth_Handlers.thy ===== *)
theory Auth_Handlers
  imports Middleware TOTP_Service
begin

text \<open>
  The handlers of \<^verbatim>\<open>internal/server/auth_handlers.go\<close>: registration, login and logout, password
  reset, email confirmation and change, the account page with its sessions, password change and
  account deletion.  Logging is left out.
\<close>

section \<open>Shared steps\<close>

text \<open>The first lines of the handlers that need a user or a form.\<close>

definition with_user :: "(User \<Rightarrow> unit web) \<Rightarrow> unit web" where
  "with_user k = do {
     r \<leftarrow> request;
     case rq_User r of None \<Rightarrow> http_Error 401 | Some user \<Rightarrow> k user
   }"

definition with_form :: "(Request \<Rightarrow> unit web) \<Rightarrow> unit web" where
  "with_form k = do {
     ok \<leftarrow> ParseForm;
     if \<not> ok then http_Error 400 else do { r \<leftarrow> request; k r }
   }"

definition check_details :: string where
  "check_details = ''Check your details and try again.''"

definition at_least :: "int \<Rightarrow> string" where
  "at_least n = ''Use at least '' @ FormatInt n @ '' characters.''"

definition at_most :: "int \<Rightarrow> string" where
  "at_most n = ''Use at most '' @ FormatInt n @ '' characters.''"

definition handleAuthFormError :: "Server \<Rightarrow> string \<Rightarrow> templateData \<Rightarrow> go_error \<Rightarrow> unit web" where
  "handleAuthFormError s templateName data err =
     (if errors_Is err ErrInvalidEmail
      then renderStatus s 422 templateName (data\<lparr>td_Error := check_details,
        td_FieldErrors := [(''email'', ''Enter a valid email address.'')]\<rparr>)
      else if errors_Is err ErrInvalidPassword
      then renderStatus s 422 templateName (data\<lparr>td_Error := check_details,
        td_FieldErrors := [(''password'', at_least (td_PasswordMinLength data))]\<rparr>)
      else if errors_Is err ErrPasswordTooLong
      then renderStatus s 422 templateName (data\<lparr>td_Error := check_details,
        td_FieldErrors := [(''password'', at_most PasswordMaxLength)]\<rparr>)
      else if errors_Is err ErrInvalidCredentials
      then renderStatus s 422 templateName (data\<lparr>td_Error := ''Email or password is not correct.''\<rparr>)
      else internalServerError s)"

definition validatePasswordPair ::
  "Server \<Rightarrow> string \<Rightarrow> string \<Rightarrow> string \<Rightarrow> string \<Rightarrow> (string \<times> string) list" where
  "validatePasswordPair s password confirmPassword passwordField confirmPasswordField =
     (let minLength = default_if_zero (sv_passwordMinLength s) DefaultPasswordMinLength;
          len = int (RuneCountInString password)
      in (if password = [] then [(passwordField, ''Enter a password.'')]
          else if len < minLength then [(passwordField, at_least minLength)]
          else if PasswordMaxLength < len then [(passwordField, at_most PasswordMaxLength)]
          else []) @
         (if confirmPassword = [] then [(confirmPasswordField, ''Confirm your password.'')]
          else if password \<noteq> confirmPassword then [(confirmPasswordField, ''Passwords do not match.'')]
          else []))"

definition validateRegistrationForm ::
  "Server \<Rightarrow> string \<Rightarrow> string \<Rightarrow> string \<Rightarrow> (string \<times> string) list" where
  "validateRegistrationForm s email password confirmPassword =
     (if TrimSpace email = [] then [(''email'', ''Enter your email address.'')] else []) @
     validatePasswordPair s password confirmPassword ''password'' ''confirm_password''"

definition account_data :: "Server \<Rightarrow> string \<Rightarrow> string \<Rightarrow> templateData web" where
  "account_data s title label = do {
     data \<leftarrow> newTemplateData s title;
     ret (data\<lparr>td_Breadcrumbs := [crumb ''Account'' paths_Account, currentCrumb label]\<rparr>)
   }"

definition newChangePasswordTemplateData :: "Server \<Rightarrow> templateData web" where
  "newChangePasswordTemplateData s = account_data s ''Change Password'' ''Change password''"

definition newChangeEmailTemplateData :: "Server \<Rightarrow> templateData web" where
  "newChangeEmailTemplateData s = account_data s ''Change Email'' ''Change email''"

definition newDeleteAccountTemplateData :: "Server \<Rightarrow> templateData web" where
  "newDeleteAccountTemplateData s = account_data s ''Delete Account'' ''Delete account''"

text \<open>A page that needs nothing but its template data.\<close>

definition form_page :: "Server \<Rightarrow> string \<Rightarrow> templateData web \<Rightarrow> unit web" where
  "form_page s templateName mk = do { data \<leftarrow> mk; render s templateName data }"

section \<open>Registration\<close>

definition registerForm :: "Server \<Rightarrow> unit web" where
  "registerForm s = form_page s templateRegister (newTemplateData s ''Create Account'')"

definition register :: "Server \<Rightarrow> unit web" where
  "register s = with_form (\<lambda>r.
     let email = rq_Form r ''email''; password = rq_Form r ''password'';
         confirmPassword = rq_Form r ''confirm_password'';
         fieldErrors = validateRegistrationForm s email password confirmPassword
     in if fieldErrors \<noteq> [] then do {
          data \<leftarrow> newTemplateData s ''Create Account'';
          renderStatus s 422 templateRegister (data\<lparr>td_Email := TrimSpace email, td_Error := check_details,
            td_FieldErrors := fieldErrors\<rparr>)
        }
        else do {
          u \<leftarrow> lift (Register (sv_libs s) (sv_auth s) email password);
          case u of
            Inl err \<Rightarrow> do {
              data \<leftarrow> newTemplateData s ''Create Account'';
              handleAuthFormError s templateRegister (data\<lparr>td_Email := TrimSpace email\<rparr>) err
            }
          | Inr _ \<Rightarrow> do {
              setFlash s (flashSuccess (''If that email isn't already registered, we've sent a verification link. '' @
                ''Check your inbox to activate your account, then sign in.''));
              http_Redirect paths_Login
            }
        })"

section \<open>Login and logout\<close>

definition loginForm :: "Server \<Rightarrow> unit web" where
  "loginForm s = do {
     r \<leftarrow> request;
     data \<leftarrow> newTemplateData s ''Sign In'';
     render s templateLogin (data\<lparr>td_Next := safeRedirectPath (sv_web s) (rq_Query r ''next'')\<rparr>)
   }"

definition rememberMeFromForm :: "Request \<Rightarrow> bool" where
  "rememberMeFromForm r = rq_PostHas r ''remember_me''"

definition login :: "Server \<Rightarrow> unit web" where
  "login s = with_form (\<lambda>r. do {
     (user, session, err) \<leftarrow> lift (Login (sv_libs s) (sv_auth s) (rq_Form r ''email'') (rq_Form r ''password''));
     let rememberMe = rememberMeFromForm r;
     let next = safeRedirectPath (sv_web s) (rq_Form r ''next'');
     case err of
       Some err \<Rightarrow>
         if errors_Is err ErrTOTPRequired then do {
           setTOTPPendingCookie s (u_ID user) rememberMe;
           http_Redirect (if next \<noteq> [] then paths_AccountTwoFactorChallenge @ ''?next='' @ QueryEscape next
                          else paths_AccountTwoFactorChallenge)
         }
         else do {
           data \<leftarrow> newTemplateData s ''Sign In'';
           handleAuthFormError s templateLogin
             (data\<lparr>td_Email := TrimSpace (rq_Form r ''email''), td_Next := next\<rparr>) err
         }
     | None \<Rightarrow> do {
         setSessionCookie s session rememberMe;
         http_Redirect (if u_EmailVerifiedAt user = None then paths_VerifyEmail
                        else if next = [] then paths_Account else next)
       }
   })"

definition logout :: "Server \<Rightarrow> unit web" where
  "logout s = do {
     r \<leftarrow> request;
     failed \<leftarrow> (case cookie_of sessionCookieName r of
         None \<Rightarrow> ret False
       | Some value \<Rightarrow> do {
           res \<leftarrow> lift (Logout value);
           ret (case res of Inl err \<Rightarrow> \<not> errors_Is err ErrInvalidSession | Inr _ \<Rightarrow> False)
         });
     if failed then internalServerError s
     else do {
       clearSessionCookie s;
       http_Redirect paths_Home
     }
   }"

section \<open>Password reset\<close>

definition forgotPasswordForm :: "Server \<Rightarrow> unit web" where
  "forgotPasswordForm s = form_page s templateForgotPassword (newTemplateData s ''Forgot Password'')"

text \<open>
  \<open>mail_request\<close> is the shape \<^verbatim>\<open>forgotPassword\<close> and \<^verbatim>\<open>resendVerificationPublic\<close> share: an invalid
  address is a form error, any other error and success redirect back with a message.
\<close>

definition mail_request ::
  "Server \<Rightarrow> (string \<Rightarrow> unit op) \<Rightarrow> string \<Rightarrow> string \<Rightarrow> string \<Rightarrow> string \<Rightarrow> string \<Rightarrow> unit web" where
  "mail_request s send templateName title failure success path = with_form (\<lambda>r. do {
     let emailAddress = rq_Form r ''email'';
     res \<leftarrow> lift (send emailAddress);
     case res of
       Inl err \<Rightarrow>
         if errors_Is err ErrInvalidEmail then do {
           data \<leftarrow> newTemplateData s title;
           renderStatus s 422 templateName (data\<lparr>td_Email := TrimSpace emailAddress, td_Error := check_details,
             td_FieldErrors := [(''email'', ''Enter a valid email address.'')]\<rparr>)
         }
         else do { setFlash s (flashError failure); http_Redirect path }
     | Inr _ \<Rightarrow> do { setFlash s (flashSuccess success); http_Redirect path }
   })"

definition forgotPassword :: "Server \<Rightarrow> unit web" where
  "forgotPassword s =
     mail_request s (RequestPasswordReset (sv_libs s) (sv_auth s)) templateForgotPassword ''Forgot Password''
       ''We couldn't send a password reset email right now. Please try again.''
       ''If an account exists for that email, we sent a password reset link.'' paths_ForgotPassword"

definition reset_link_invalid :: "Server \<Rightarrow> templateData \<Rightarrow> unit web" where
  "reset_link_invalid s data = do {
     clearResetCookie s;
     renderStatus s 400 templateResetPassword
       (data\<lparr>td_Error := ''This password reset link is invalid or has expired.'', td_ResetTokenInvalid := True\<rparr>)
   }"

definition resetPasswordForm :: "Server \<Rightarrow> unit web" where
  "resetPasswordForm s = do {
     r \<leftarrow> request;
     data \<leftarrow> newTemplateData s ''Reset Password'';
     let linked = TrimSpace (rq_Query r ''token'');
     res \<leftarrow> lift (ValidatePasswordResetToken (if linked \<noteq> [] then linked else resetTokenFromCookie r));
     case res of
       Inl err \<Rightarrow>
         if errors_Is err ErrInvalidPasswordResetToken then reset_link_invalid s data
         else internalServerError s
     | Inr _ \<Rightarrow>
         if linked \<noteq> [] then do { setResetCookie s linked; http_Redirect paths_ResetPassword }
         else render s templateResetPassword data
   }"

definition resetPassword :: "Server \<Rightarrow> unit web" where
  "resetPassword s = with_form (\<lambda>r.
     let token = resetTokenFromCookie r; newPassword = rq_Form r ''new_password'';
         confirmPassword = rq_Form r ''confirm_password'';
         fieldErrors = validatePasswordPair s newPassword confirmPassword ''new_password'' ''confirm_password''
     in if fieldErrors \<noteq> [] then do {
          data \<leftarrow> newTemplateData s ''Reset Password'';
          renderStatus s 422 templateResetPassword (data\<lparr>td_Error := check_details, td_FieldErrors := fieldErrors\<rparr>)
        }
        else do {
          res \<leftarrow> lift (ResetPasswordWithToken (sv_libs s) (sv_auth s) token newPassword);
          case res of
            Inl err \<Rightarrow> do {
              data \<leftarrow> newTemplateData s ''Reset Password'';
              if errors_Is err ErrInvalidPasswordResetToken then reset_link_invalid s data
              else if errors_Is err ErrInvalidPassword
              then renderStatus s 422 templateResetPassword (data\<lparr>td_Error := check_details,
                td_FieldErrors := [(''new_password'', at_least (td_PasswordMinLength data))]\<rparr>)
              else if errors_Is err ErrPasswordTooLong
              then renderStatus s 422 templateResetPassword (data\<lparr>td_Error := check_details,
                td_FieldErrors := [(''new_password'', at_most PasswordMaxLength)]\<rparr>)
              else internalServerError s
            }
          | Inr _ \<Rightarrow> do {
              clearResetCookie s;
              setFlash s (flashSuccess ''Your password has been changed. Sign in with your new password.'');
              http_Redirect paths_Login
            }
        })"

section \<open>Email confirmation and change\<close>

definition resendVerificationForm :: "Server \<Rightarrow> unit web" where
  "resendVerificationForm s = form_page s templateResendVerification (newTemplateData s ''Resend Verification Email'')"

definition resendVerificationPublic :: "Server \<Rightarrow> unit web" where
  "resendVerificationPublic s =
     mail_request s (ResendVerificationEmailByAddress (sv_libs s) (sv_auth s)) templateResendVerification
       ''Resend Verification Email''
       ''We couldn't send a verification email right now. Please try again.''
       ''If that email can be verified, we sent a confirmation link.'' paths_ResendVerification"

text \<open>\<open>confirmEmailToken\<close>: whether the token was accepted, the answer to a refusal being written.\<close>

definition confirmEmailToken ::
  "Server \<Rightarrow> templateData \<Rightarrow> string \<Rightarrow> (string \<Rightarrow> User op) \<Rightarrow>
     (go_error \<Rightarrow> templateData \<Rightarrow> (nat \<times> templateData) option) \<Rightarrow> bool web" where
  "confirmEmailToken s data templateName confirm handleErr = do {
     r \<leftarrow> request;
     res \<leftarrow> lift (confirm (rq_Query r ''token''));
     case res of
       Inr _ \<Rightarrow> ret True
     | Inl err \<Rightarrow> do {
         (case handleErr err data of
            Some (status, data) \<Rightarrow> renderStatus s status templateName data
          | None \<Rightarrow> internalServerError s);
         ret False
       }
   }"

definition confirmEmail :: "Server \<Rightarrow> unit web" where
  "confirmEmail s = do {
     data \<leftarrow> newTemplateData s ''Confirm Email'';
     ok \<leftarrow> confirmEmailToken s data templateConfirmEmail VerifyEmail
       (\<lambda>err data. if errors_Is err ErrInvalidVerificationToken
         then Some (400, data\<lparr>td_Error := ''This confirmation link is invalid or has expired.''\<rparr>) else None);
     if ok then render s templateConfirmEmail data else ret ()
   }"

definition confirmEmailChange :: "Server \<Rightarrow> unit web" where
  "confirmEmailChange s = do {
     data \<leftarrow> newTemplateData s ''Confirm Email Change'';
     ok \<leftarrow> confirmEmailToken s data templateConfirmEmailChange (ConfirmEmailChange (sv_libs s) (sv_auth s))
       (\<lambda>err data. if errors_Is err ErrInvalidEmailChangeToken
         then Some (400, data\<lparr>td_Error := ''This email change link is invalid or has expired.''\<rparr>)
         else if errors_Is err ErrEmailAlreadyRegistered
         then Some (409, data\<lparr>td_Error := ''This email address is already used by another account.''\<rparr>)
         else None);
     if ok then do {
       clearSessionCookie s;
       render s templateConfirmEmailChange
         (data\<lparr>td_Authenticated := False, td_Verified := False, td_User := zero_User\<rparr>)
     }
     else ret ()
   }"

definition verifyEmail :: "Server \<Rightarrow> unit web" where
  "verifyEmail s = do {
     data \<leftarrow> newTemplateData s ''Verify Email'';
     if td_Verified data then http_Redirect paths_Account else render s templateVerifyEmail data
   }"

definition resendVerification :: "Server \<Rightarrow> unit web" where
  "resendVerification s = with_user (\<lambda>user. do {
     res \<leftarrow> lift (ResendVerificationEmail (sv_libs s) (sv_auth s) (u_ID user));
     setFlash s (case res of
         Inl _ \<Rightarrow> flashError ''We couldn't send a verification email right now. Please try again.''
       | Inr _ \<Rightarrow> flashSuccess ''We sent a new verification email.'');
     http_Redirect paths_VerifyEmail
   })"

definition changeEmailForm :: "Server \<Rightarrow> unit web" where
  "changeEmailForm s = form_page s templateChangeEmail (newChangeEmailTemplateData s)"

definition changeEmail :: "Server \<Rightarrow> unit web" where
  "changeEmail s = with_user (\<lambda>user. with_form (\<lambda>r.
     let newEmail = rq_Form r ''email''; currentPassword = rq_Form r ''current_password'';
         fieldErrors = (if TrimSpace newEmail = [] then [(''email'', ''Enter your new email address.'')] else []) @
           (if currentPassword = [] then [(''current_password'', ''Enter your current password.'')] else [])
     in if fieldErrors \<noteq> [] then do {
          data \<leftarrow> newChangeEmailTemplateData s;
          renderStatus s 422 templateChangeEmail (data\<lparr>td_Email := TrimSpace newEmail, td_Error := check_details,
            td_FieldErrors := fieldErrors\<rparr>)
        }
        else do {
          res \<leftarrow> lift (RequestEmailChange (sv_libs s) (sv_auth s) (u_ID user) currentPassword newEmail);
          case res of
            Inl err \<Rightarrow> do {
              data \<leftarrow> newChangeEmailTemplateData s;
              let data = data\<lparr>td_Email := TrimSpace newEmail, td_Error := check_details\<rparr>;
              (if errors_Is err ErrCurrentPasswordIncorrect
               then renderStatus s 422 templateChangeEmail
                 (data\<lparr>td_FieldErrors := [(''current_password'', ''Current password is not correct.'')]\<rparr>)
               else if errors_Is err ErrInvalidEmail
               then renderStatus s 422 templateChangeEmail
                 (data\<lparr>td_FieldErrors := [(''email'', ''Enter a valid email address.'')]\<rparr>)
               else if errors_Is err ErrEmailUnchanged
               then renderStatus s 422 templateChangeEmail
                 (data\<lparr>td_FieldErrors := [(''email'', ''Choose a different email address.'')]\<rparr>)
               else internalServerError s)
            }
          | Inr _ \<Rightarrow> do {
              setFlash s (flashSuccess ''Check your new email address for a verification link.'');
              http_Redirect paths_Account
            }
        }))"

section \<open>The account\<close>

text \<open>\<open>populateAccountSessions\<close>: the data with the sessions, or \<open>None\<close> when an answer was written.\<close>

definition populateAccountSessions :: "Server \<Rightarrow> templateData \<Rightarrow> templateData option web" where
  "populateAccountSessions s data = do {
     r \<leftarrow> request;
     case rq_User r of
       None \<Rightarrow> do { http_Error 401; ret None }
     | Some user \<Rightarrow> do {
         res \<leftarrow> lift (ListManagedSessions (u_ID user) (sessionTokenFromCookie r));
         case res of
           Inr sess \<Rightarrow> ret (Some (data\<lparr>td_ManagedSessions := sess\<rparr>))
         | Inl err \<Rightarrow> do {
             (if errors_Is err ErrInvalidSession then do { clearSessionCookie s; http_Redirect paths_Login }
              else internalServerError s);
             ret None
           }
       }
   }"

definition account_page :: "Server \<Rightarrow> nat \<Rightarrow> templateData \<Rightarrow> unit web" where
  "account_page s status data = do {
     d \<leftarrow> populateAccountSessions s data;
     case d of None \<Rightarrow> ret () | Some data \<Rightarrow> renderStatus s status templateAccount data
   }"

definition account :: "Server \<Rightarrow> unit web" where
  "account s = do {
     data \<leftarrow> newTemplateData s ''Account'';
     account_page s 200 data
   }"

definition positive_id :: "string \<Rightarrow> int option" where
  "positive_id raw = (case ParseInt (TrimSpace raw) of None \<Rightarrow> None | Some i \<Rightarrow> if i \<le> 0 then None else Some i)"

definition sessionIDFromRequest :: "string \<Rightarrow> int option" where
  "sessionIDFromRequest raw = positive_id raw"

definition revokeSession :: "Server \<Rightarrow> unit web" where
  "revokeSession s = with_user (\<lambda>user. with_form (\<lambda>r.
     case sessionIDFromRequest (rq_Form r ''session_id'') of
       None \<Rightarrow> do {
         data \<leftarrow> newTemplateData s ''Account'';
         account_page s 422 (data\<lparr>td_Error := ''Select a valid session to revoke.''\<rparr>)
       }
     | Some sessionID \<Rightarrow> do {
         res \<leftarrow> lift (RevokeSessionByID (u_ID user) (sessionTokenFromCookie r) sessionID);
         case res of
           Inl err \<Rightarrow> do {
             data \<leftarrow> newTemplateData s ''Account'';
             if errors_Is err ErrInvalidSession then do { clearSessionCookie s; http_Redirect paths_Login }
             else if errors_Is err ErrCannotRevokeCurrentSession
             then account_page s 422
               (data\<lparr>td_Error := ''You cannot revoke your current session. Use Sign out for this device.''\<rparr>)
             else if errors_Is err ErrInvalidSessionTarget
             then account_page s 422 (data\<lparr>td_Error := ''The selected session is no longer available.''\<rparr>)
             else internalServerError s
           }
         | Inr _ \<Rightarrow> do {
             setFlash s (flashSuccess ''Session revoked.'');
             http_Redirect paths_Account
           }
       }))"

definition revokeOtherSessions :: "Server \<Rightarrow> unit web" where
  "revokeOtherSessions s = with_user (\<lambda>user. do {
     r \<leftarrow> request;
     res \<leftarrow> lift (RevokeOtherSessions (u_ID user) (sessionTokenFromCookie r));
     case res of
       Inl err \<Rightarrow>
         if errors_Is err ErrInvalidSession then do { clearSessionCookie s; http_Redirect paths_Login }
         else internalServerError s
     | Inr _ \<Rightarrow> do {
         setFlash s (flashSuccess ''Signed out other sessions.'');
         http_Redirect paths_Account
       }
   })"

definition changePasswordForm :: "Server \<Rightarrow> unit web" where
  "changePasswordForm s = form_page s templateChangePassword (newChangePasswordTemplateData s)"

definition changePassword :: "Server \<Rightarrow> unit web" where
  "changePassword s = with_user (\<lambda>user. with_form (\<lambda>r.
     let currentPassword = rq_Form r ''current_password''; newPassword = rq_Form r ''new_password'';
         confirmPassword = rq_Form r ''confirm_password'';
         fieldErrors = (if currentPassword = [] then [(''current_password'', ''Enter your current password.'')] else []) @
           validatePasswordPair s newPassword confirmPassword ''new_password'' ''confirm_password''
     in if fieldErrors \<noteq> [] then do {
          data \<leftarrow> newChangePasswordTemplateData s;
          renderStatus s 422 templateChangePassword (data\<lparr>td_Error := check_details, td_FieldErrors := fieldErrors\<rparr>)
        }
        else do {
          res \<leftarrow> lift (ChangePassword (sv_libs s) (sv_auth s) (u_ID user) currentPassword newPassword);
          case res of
            Inl err \<Rightarrow> do {
              data \<leftarrow> newChangePasswordTemplateData s;
              let data = data\<lparr>td_Error := check_details\<rparr>;
              (if errors_Is err ErrCurrentPasswordIncorrect
               then renderStatus s 422 templateChangePassword
                 (data\<lparr>td_FieldErrors := [(''current_password'', ''Current password is not correct.'')]\<rparr>)
               else if errors_Is err ErrInvalidPassword
               then renderStatus s 422 templateChangePassword
                 (data\<lparr>td_FieldErrors := [(''new_password'', at_least (td_PasswordMinLength data))]\<rparr>)
               else if errors_Is err ErrPasswordTooLong
               then renderStatus s 422 templateChangePassword
                 (data\<lparr>td_FieldErrors := [(''new_password'', at_most PasswordMaxLength)]\<rparr>)
               else if errors_Is err ErrPasswordUnchanged
               then renderStatus s 422 templateChangePassword
                 (data\<lparr>td_FieldErrors := [(''new_password'', ''Choose a different password.'')]\<rparr>)
               else internalServerError s)
            }
          | Inr _ \<Rightarrow> do {
              clearSessionCookie s;
              setFlash s (flashSuccess ''Your password has been changed. Sign in with your new password.'');
              http_Redirect paths_Login
            }
        }))"

definition deleteAccountForm :: "Server \<Rightarrow> unit web" where
  "deleteAccountForm s = form_page s templateDeleteAccount (newDeleteAccountTemplateData s)"

definition deleteAccount :: "Server \<Rightarrow> unit web" where
  "deleteAccount s = with_user (\<lambda>user. with_form (\<lambda>r.
     let currentPassword = rq_Form r ''current_password''
     in if currentPassword = [] then do {
          data \<leftarrow> newDeleteAccountTemplateData s;
          renderStatus s 422 templateDeleteAccount (data\<lparr>td_Error := check_details,
            td_FieldErrors := [(''current_password'', ''Enter your current password.'')]\<rparr>)
        }
        else do {
          res \<leftarrow> lift (DeleteAccount (sv_libs s) (sv_auth s) (u_ID user) currentPassword);
          case res of
            Inl err \<Rightarrow> do {
              data \<leftarrow> newDeleteAccountTemplateData s;
              if errors_Is err ErrCurrentPasswordIncorrect
              then renderStatus s 422 templateDeleteAccount (data\<lparr>td_Error := check_details,
                td_FieldErrors := [(''current_password'', ''Current password is not correct.'')]\<rparr>)
              else internalServerError s
            }
          | Inr _ \<Rightarrow> do {
              clearSessionCookie s;
              http_Redirect paths_Home
            }
        }))"

end
