(* ===== verification/Feature_Handlers.thy ===== *)
theory Feature_Handlers
  imports Auth_Handlers
begin

text \<open>
  The handlers of \<^verbatim>\<open>internal/server/totp_handlers.go\<close> (second factor) and
  \<^verbatim>\<open>project_handlers.go\<close> (the example feature).
\<close>

section \<open>Second factor\<close>

definition newTwoFactorTemplateData :: "Server \<Rightarrow> templateData web" where
  "newTwoFactorTemplateData s = account_data s ''Two-Factor Authentication'' ''Two-factor authentication''"

definition twoFactorPage :: "Server \<Rightarrow> unit web" where
  "twoFactorPage s = with_user (\<lambda>user. do {
     data \<leftarrow> newTwoFactorTemplateData s;
     st \<leftarrow> lift (TOTPSetupState (sv_libs s) (sv_auth s) (u_ID user));
     case st of
       Inl err \<Rightarrow> internalServerError s
     | Inr (pending, enabled) \<Rightarrow> do {
         let data = data\<lparr>td_TOTPPending := pending, td_TOTPEnabled := enabled\<rparr>;
         remaining \<leftarrow> (if enabled then lift (GetTOTPStatus (sv_libs s) (sv_auth s) (u_ID user)) else ret (Inr (False, 0)));
         case remaining of
           Inl err \<Rightarrow> internalServerError s
         | Inr (_, n) \<Rightarrow> do {
             let data = (if enabled then data\<lparr>td_TOTPBackupCodesRemaining := n\<rparr> else data);
             info \<leftarrow> (if pending then lift (GetTOTPSetupInfo (sv_libs s) (sv_auth s) (u_ID user)) else ret (Inr ([], [])));
             case info of
               Inl err \<Rightarrow> internalServerError s
             | Inr (secret, uri) \<Rightarrow>
                 render s templateTwoFactor
                   (if pending then data\<lparr>td_TOTPSecret := secret, td_TOTPOtpAuthURI := uri\<rparr> else data)
           }
       }
   })"

definition twoFactorSetup :: "Server \<Rightarrow> unit web" where
  "twoFactorSetup s = with_user (\<lambda>user. do {
     res \<leftarrow> lift (BeginTOTPSetup (sv_libs s) (sv_auth s) (u_ID user));
     case res of
       Inl err \<Rightarrow>
         if errors_Is err ErrTOTPAlreadyEnabled then http_Redirect paths_AccountTwoFactor else internalServerError s
     | Inr _ \<Rightarrow> http_Redirect paths_AccountTwoFactor
   })"

definition backup_codes_page :: "Server \<Rightarrow> string list \<Rightarrow> unit web" where
  "backup_codes_page s backupCodes = do {
     data \<leftarrow> newTwoFactorTemplateData s;
     render s templateTwoFactorBackupCodes
       (data\<lparr>td_Title := ''Save Your Backup Codes'', td_TOTPEnabled := True, td_TOTPBackupCodes := backupCodes\<rparr>)
   }"

definition twoFactorConfirm :: "Server \<Rightarrow> unit web" where
  "twoFactorConfirm s = with_user (\<lambda>user. with_form (\<lambda>r. do {
     res \<leftarrow> lift (ConfirmTOTPSetup (sv_libs s) (sv_auth s) (u_ID user) (rq_Form r ''code''));
     case res of
       Inl err \<Rightarrow> do {
         data \<leftarrow> newTwoFactorTemplateData s;
         if errors_Is err ErrInvalidTOTPCode then do {
           info \<leftarrow> lift (GetTOTPSetupInfo (sv_libs s) (sv_auth s) (u_ID user));
           case info of
             Inl infoErr \<Rightarrow> internalServerError s
           | Inr (secret, uri) \<Rightarrow>
               renderStatus s 422 templateTwoFactor (data\<lparr>td_TOTPPending := True,
                 td_Error := ''That code is incorrect. Check your authenticator app and try again.'',
                 td_TOTPSecret := secret, td_TOTPOtpAuthURI := uri\<rparr>)
         }
         else if errors_Is err ErrTOTPSetupNotStarted \<or> errors_Is err ErrTOTPAlreadyEnabled
         then http_Redirect paths_AccountTwoFactor
         else internalServerError s
       }
     | Inr backupCodes \<Rightarrow> backup_codes_page s backupCodes
   }))"

text \<open>The answer to a refused code of \<open>twoFactorDisable\<close> and \<open>twoFactorRegenerateCodes\<close>.\<close>

definition factor_refused :: "Server \<Rightarrow> User \<Rightarrow> go_error \<Rightarrow> unit web" where
  "factor_refused s user err = do {
     data \<leftarrow> newTwoFactorTemplateData s;
     if errors_Is err ErrInvalidTOTPCode then do {
       st \<leftarrow> lift (GetTOTPStatus (sv_libs s) (sv_auth s) (u_ID user));
       renderStatus s 422 templateTwoFactor (data\<lparr>td_TOTPEnabled := True,
         td_Error := ''That code is incorrect. Check your authenticator app or try a backup code.'',
         td_TOTPBackupCodesRemaining := (case st of Inl _ \<Rightarrow> 0 | Inr (_, remaining) \<Rightarrow> remaining)\<rparr>)
     }
     else if errors_Is err ErrTOTPNotEnabled then http_Redirect paths_AccountTwoFactor
     else internalServerError s
   }"

definition twoFactorDisable :: "Server \<Rightarrow> unit web" where
  "twoFactorDisable s = with_user (\<lambda>user. with_form (\<lambda>r. do {
     res \<leftarrow> lift (DisableTOTP (sv_libs s) (sv_auth s) (u_ID user) (rq_Form r ''code''));
     case res of
       Inl err \<Rightarrow> factor_refused s user err
     | Inr _ \<Rightarrow> do {
         setFlash s (flashSuccess ''Two-factor authentication has been disabled.'');
         http_Redirect paths_AccountTwoFactor
       }
   }))"

definition twoFactorRegenerateCodes :: "Server \<Rightarrow> unit web" where
  "twoFactorRegenerateCodes s = with_user (\<lambda>user. with_form (\<lambda>r. do {
     res \<leftarrow> lift (RegenerateBackupCodes (sv_libs s) (sv_auth s) (u_ID user) (rq_Form r ''code''));
     case res of
       Inl err \<Rightarrow> factor_refused s user err
     | Inr backupCodes \<Rightarrow> backup_codes_page s backupCodes
   }))"

definition twoFactorChallengeForm :: "Server \<Rightarrow> unit web" where
  "twoFactorChallengeForm s = do {
     r \<leftarrow> request;
     pendingLogin \<leftarrow> totpPendingLoginFromCookie s;
     case pendingLogin of
       None \<Rightarrow> http_Redirect paths_Login
     | Some _ \<Rightarrow> do {
         data \<leftarrow> newTemplateData s ''Two-Factor Authentication'';
         render s templateTwoFactorChallenge (data\<lparr>td_Next := safeRedirectPath (sv_web s) (rq_Query r ''next'')\<rparr>)
       }
   }"

definition twoFactorChallenge :: "Server \<Rightarrow> unit web" where
  "twoFactorChallenge s = do {
     pendingLogin \<leftarrow> totpPendingLoginFromCookie s;
     case pendingLogin of
       None \<Rightarrow> http_Redirect paths_Login
     | Some pending \<Rightarrow> with_form (\<lambda>r. do {
         let next = safeRedirectPath (sv_web s) (rq_Form r ''next'');
         res \<leftarrow> lift (VerifyTOTPLogin (sv_libs s) (sv_auth s) (pl_UserID pending) (rq_Form r ''code''));
         case res of
           Inl err \<Rightarrow> do {
             data \<leftarrow> newTemplateData s ''Two-Factor Authentication'';
             if errors_Is err ErrInvalidTOTPCode
             then renderStatus s 422 templateTwoFactorChallenge (data\<lparr>td_Next := next,
               td_Error := ''That code is incorrect. Try again or use a backup code.''\<rparr>)
             else internalServerError s
           }
         | Inr session \<Rightarrow> do {
             clearTOTPPendingCookie s;
             setSessionCookie s session (pl_RememberMe pending);
             http_Redirect (if next = [] then paths_Account else next)
           }
       })
   }"

section \<open>Projects\<close>

definition populateProjects :: "Server \<Rightarrow> templateData \<Rightarrow> templateData option web" where
  "populateProjects s data = do {
     r \<leftarrow> request;
     case rq_User r of
       None \<Rightarrow> do { http_Error 401; ret None }
     | Some user \<Rightarrow> do {
         res \<leftarrow> lift (project_List (u_ID user));
         case res of
           Inl err \<Rightarrow> do { internalServerError s; ret None }
         | Inr ps \<Rightarrow> ret (Some (data\<lparr>td_Projects := ps\<rparr>))
       }
   }"

definition projects_page :: "Server \<Rightarrow> nat \<Rightarrow> templateData \<Rightarrow> unit web" where
  "projects_page s status data = do {
     d \<leftarrow> populateProjects s data;
     case d of None \<Rightarrow> ret () | Some data \<Rightarrow> renderStatus s status templateProjects data
   }"

definition projectsIndex :: "Server \<Rightarrow> unit web" where
  "projectsIndex s = do {
     data \<leftarrow> newTemplateData s ''Projects'';
     projects_page s 200 data
   }"

definition createProject :: "Server \<Rightarrow> unit web" where
  "createProject s = with_user (\<lambda>user. with_form (\<lambda>r. do {
     res \<leftarrow> lift (project_Create (u_ID user) (rq_Form r ''name''));
     case res of
       Inl err \<Rightarrow>
         if errors_Is err ErrProjectNameRequired \<or> errors_Is err ErrProjectNameTooLong then do {
           data \<leftarrow> newTemplateData s ''Projects'';
           projects_page s 422 (data\<lparr>td_Error := check_details,
             td_FieldErrors := [(''name'', if errors_Is err ErrProjectNameRequired then ''Enter a project name.''
                                           else ''Use a shorter project name.'')]\<rparr>)
         }
         else internalServerError s
     | Inr _ \<Rightarrow> do {
         setFlash s (flashSuccess ''Project created.'');
         http_Redirect paths_Projects
       }
   }))"

definition projectIDFromForm :: "string \<Rightarrow> int option" where
  "projectIDFromForm raw = positive_id raw"

definition deleteProject :: "Server \<Rightarrow> unit web" where
  "deleteProject s = with_user (\<lambda>user. with_form (\<lambda>r.
     case projectIDFromForm (rq_Form r ''project_id'') of
       None \<Rightarrow> do {
         setFlash s (flashError ''Select a valid project to delete.'');
         http_Redirect paths_Projects
       }
     | Some projectID \<Rightarrow> do {
         res \<leftarrow> lift (project_Delete projectID (u_ID user));
         case res of
           Inl err \<Rightarrow>
             if errors_Is err ErrProjectNotFound then do {
               setFlash s (flashError ''That project is no longer available.'');
               http_Redirect paths_Projects
             }
             else internalServerError s
         | Inr _ \<Rightarrow> do {
             setFlash s (flashSuccess ''Project deleted.'');
             http_Redirect paths_Projects
           }
       }))"

end
