(* ===== verification/Passkey_Handlers.thy ===== *)
theory Passkey_Handlers
  imports Auth_Handlers
begin

text \<open>
  The passkey handlers: the signed ceremony cookies (\<^verbatim>\<open>internal/server/webauthn.go\<close>) and the
  endpoints of \<^verbatim>\<open>webauthn_handlers.go\<close>.  The JSON forms of the package's types are parameters.
\<close>

section \<open>The ceremony cookie\<close>

text \<open>
  \<open>pk_Expires\<close> is the expiry of the session data, \<open>None\<close> for the zero time; the parsers read the
  body of an authenticator's answer.
\<close>

record ('opts, 'ask, 'sd, 'att, 'asr) passkey_json =
  pk_MarshalSession :: "'sd \<Rightarrow> bytes option"
  pk_UnmarshalSession :: "bytes \<Rightarrow> 'sd option"
  pk_Expires :: "'sd \<Rightarrow> time option"
  pk_MarshalCreation :: "'opts \<Rightarrow> bytes"
  pk_MarshalAssertion :: "'ask \<Rightarrow> bytes"
  pk_ParseCreation :: "bytes \<Rightarrow> 'att option"
  pk_ParseAssertion :: "bytes \<Rightarrow> 'asr option"

definition passkeyRegisterCookieName :: string where "passkeyRegisterCookieName = ''passkey_register''"
definition passkeyRegisterCookiePath :: string where "passkeyRegisterCookiePath = ''/account/passkeys''"
definition passkeyLoginCookieName :: string where "passkeyLoginCookieName = ''passkey_login''"
definition passkeyLoginCookiePath :: string where "passkeyLoginCookiePath = ''/login/passkey''"

definition passkeySessionKey :: "Server \<Rightarrow> bytes" where
  "passkeySessionKey s = DeriveKey (sv_cookieSigningKey s) ''passkey_session''"

definition passkeyCookieMaxAge :: "time option \<Rightarrow> time \<Rightarrow> int" where
  "passkeyCookieMaxAge expiresAt now =
     (case expiresAt of None \<Rightarrow> 1
      | Some t \<Rightarrow> let maxAge = seconds (t - now) in if maxAge < 1 then 1 else maxAge)"

definition setPasskeySessionCookie ::
  "('opts, 'ask, 'sd, 'att, 'asr) passkey_json \<Rightarrow> Server \<Rightarrow> string \<Rightarrow> string \<Rightarrow> 'sd \<Rightarrow> bool web" where
  "setPasskeySessionCookie J s name path session =
     (case pk_MarshalSession J session of
        None \<Rightarrow> ret False
      | Some payload \<Rightarrow> do {
          r \<leftarrow> request;
          now \<leftarrow> lift time_now;
          SetCookie \<lparr>ck_Name = name, ck_Value = signValue (passkeySessionKey s) payload, ck_Path = path,
            ck_Expires = pk_Expires J session, ck_MaxAge = passkeyCookieMaxAge (pk_Expires J session) now,
            ck_HttpOnly = True, ck_Secure = secureCookie s r, ck_SameSite = SameSiteStrictMode\<rparr>;
          ret True
        })"

definition ceremony_session ::
  "('opts, 'ask, 'sd, 'att, 'asr) passkey_json \<Rightarrow> Server \<Rightarrow> string \<Rightarrow> time \<Rightarrow> 'sd option" where
  "ceremony_session J s value now =
     (case verifyValue (passkeySessionKey s) value of
        None \<Rightarrow> None
      | Some payload \<Rightarrow>
          (case pk_UnmarshalSession J payload of
             None \<Rightarrow> None
           | Some session \<Rightarrow>
               (case pk_Expires J session of
                  None \<Rightarrow> Some session
                | Some t \<Rightarrow> if t < now then None else Some session)))"

definition passkeySessionFromCookie ::
  "('opts, 'ask, 'sd, 'att, 'asr) passkey_json \<Rightarrow> Server \<Rightarrow> string \<Rightarrow> 'sd option web" where
  "passkeySessionFromCookie J s name = do {
     r \<leftarrow> request;
     case cookie_of name r of
       None \<Rightarrow> ret None
     | Some value \<Rightarrow> do {
         now \<leftarrow> lift time_now;
         ret (ceremony_session J s value now)
       }
   }"

definition clearPasskeySessionCookie :: "Server \<Rightarrow> string \<Rightarrow> string \<Rightarrow> unit web" where
  "clearPasskeySessionCookie s name path = do {
     r \<leftarrow> request;
     SetCookie (deleted_cookie s r name path SameSiteStrictMode)
   }"

section \<open>JSON answers\<close>

definition writeJSON :: "nat \<Rightarrow> bytes \<Rightarrow> unit web" where
  "writeJSON status payload = do {
     SetHeader ''Content-Type'' ''application/json; charset=utf-8'';
     respond (put_status status);
     respond (put_body (payload @ [CHR 0x0A]))
   }"

definition writeJSONMap :: "Server \<Rightarrow> nat \<Rightarrow> string \<Rightarrow> string \<Rightarrow> unit web" where
  "writeJSONMap s status key value = writeJSON status (wl_MarshalMap (sv_web s) [(key, value)])"

definition writeJSONError :: "Server \<Rightarrow> nat \<Rightarrow> string \<Rightarrow> unit web" where
  "writeJSONError s status message = writeJSONMap s status ''error'' message"

section \<open>Managing passkeys\<close>

definition newPasskeysTemplateData :: "Server \<Rightarrow> templateData web" where
  "newPasskeysTemplateData s = account_data s ''Passkeys'' ''Passkeys''"

definition passkeysPage :: "Server \<Rightarrow> unit web" where
  "passkeysPage s = with_user (\<lambda>user. do {
     data \<leftarrow> newPasskeysTemplateData s;
     if td_PasskeysEnabled data then do {
       res \<leftarrow> lift (ListPasskeys (sv_libs s) (u_ID user));
       case res of
         Inl err \<Rightarrow> internalServerError s
       | Inr passkeys \<Rightarrow> render s templatePasskeys (data\<lparr>td_Passkeys := passkeys\<rparr>)
     }
     else render s templatePasskeys data
   })"

definition passkeyRegisterBegin ::
  "('opts, 'ask, 'sd, 'att, 'asr) webauthn_lib \<Rightarrow> ('opts, 'ask, 'sd, 'att, 'asr) passkey_json \<Rightarrow> Server \<Rightarrow> unit web" where
  "passkeyRegisterBegin W J s = with_user (\<lambda>user. do {
     res \<leftarrow> lift (BeginPasskeyRegistration W (sv_libs s) (sv_auth s) (u_ID user));
     case res of
       Inl err \<Rightarrow>
         if errors_Is err ErrPasskeysDisabled then writeJSONError s 404 ''Passkeys are not available.''
         else writeJSONError s 500 ''Could not start passkey registration.''
     | Inr (creation, session) \<Rightarrow> do {
         ok \<leftarrow> setPasskeySessionCookie J s passkeyRegisterCookieName passkeyRegisterCookiePath session;
         if \<not> ok then writeJSONError s 500 ''Could not start passkey registration.''
         else writeJSON 200 (pk_MarshalCreation J creation)
       }
   })"

definition read_body :: "(bytes \<Rightarrow> 'a option) \<Rightarrow> Request \<Rightarrow> 'a option" where
  "read_body parse r = (if rq_BodyErr r then None else parse (rq_Body r))"

definition passkeyRegisterFinish ::
  "('opts, 'ask, 'sd, 'att, 'asr) webauthn_lib \<Rightarrow> ('opts, 'ask, 'sd, 'att, 'asr) passkey_json \<Rightarrow> Server \<Rightarrow> unit web" where
  "passkeyRegisterFinish W J s = with_user (\<lambda>user. do {
     session \<leftarrow> passkeySessionFromCookie J s passkeyRegisterCookieName;
     case session of
       None \<Rightarrow> writeJSONError s 400 ''Your passkey registration expired. Please try again.''
     | Some session \<Rightarrow> do {
         clearPasskeySessionCookie s passkeyRegisterCookieName passkeyRegisterCookiePath;
         r \<leftarrow> request;
         case read_body (pk_ParseCreation J) r of
           None \<Rightarrow> writeJSONError s 400 ''That passkey could not be read. Please try again.''
         | Some parsed \<Rightarrow> do {
             let name = TrimSpace (rq_Query r ''name'');
             res \<leftarrow> lift (FinishPasskeyRegistration W (sv_libs s) (sv_auth s) (u_ID user) session parsed name);
             case res of
               Inl err \<Rightarrow>
                 if errors_Is err ErrPasskeyCeremony
                 then writeJSONError s 422 ''That passkey could not be verified. Please try again.''
                 else writeJSONError s 500 ''Could not save your passkey.''
             | Inr _ \<Rightarrow> do {
                 setFlash s (flashSuccess ''Passkey added.'');
                 writeJSONMap s 200 ''redirect'' paths_AccountPasskeys
               }
           }
       }
   })"

definition passkeyIDFromForm :: "string \<Rightarrow> int option" where
  "passkeyIDFromForm raw = positive_id raw"

text \<open>
  \<open>passkey_form\<close> is the shape of \<^verbatim>\<open>passkeyRename\<close> and \<^verbatim>\<open>passkeyDelete\<close>, which differ in the call
  and in two messages.
\<close>

definition passkey_form :: "Server \<Rightarrow> string \<Rightarrow> string \<Rightarrow> (int \<Rightarrow> int \<Rightarrow> Request \<Rightarrow> unit op) \<Rightarrow> unit web" where
  "passkey_form s invalid done call = with_user (\<lambda>user. with_form (\<lambda>r.
     case passkeyIDFromForm (rq_Form r ''credential_id'') of
       None \<Rightarrow> do { setFlash s (flashError invalid); http_Redirect paths_AccountPasskeys }
     | Some credentialID \<Rightarrow> do {
         res \<leftarrow> lift (call (u_ID user) credentialID r);
         case res of
           Inl err \<Rightarrow>
             if errors_Is err ErrPasskeyNotFound then do {
               setFlash s (flashError ''That passkey is no longer available.'');
               http_Redirect paths_AccountPasskeys
             }
             else internalServerError s
         | Inr _ \<Rightarrow> do { setFlash s (flashSuccess done); http_Redirect paths_AccountPasskeys }
       }))"

definition passkeyRename :: "Server \<Rightarrow> unit web" where
  "passkeyRename s = passkey_form s ''Select a valid passkey to rename.'' ''Passkey renamed.''
     (\<lambda>uid cid r. RenamePasskey uid cid (rq_Form r ''name''))"

definition passkeyDelete :: "Server \<Rightarrow> unit web" where
  "passkeyDelete s = passkey_form s ''Select a valid passkey to remove.'' ''Passkey removed.''
     (\<lambda>uid cid r. DeletePasskey uid cid)"

section \<open>Signing in with a passkey\<close>

definition passkeyLoginBegin ::
  "('opts, 'ask, 'sd, 'att, 'asr) webauthn_lib \<Rightarrow> ('opts, 'ask, 'sd, 'att, 'asr) passkey_json \<Rightarrow> Server \<Rightarrow> unit web" where
  "passkeyLoginBegin W J s = do {
     res \<leftarrow> lift (BeginPasskeyLogin W (sv_auth s));
     case res of
       Inl err \<Rightarrow>
         if errors_Is err ErrPasskeysDisabled then writeJSONError s 404 ''Passkeys are not available.''
         else writeJSONError s 500 ''Could not start passkey sign-in.''
     | Inr (assertion, session) \<Rightarrow> do {
         ok \<leftarrow> setPasskeySessionCookie J s passkeyLoginCookieName passkeyLoginCookiePath session;
         if \<not> ok then writeJSONError s 500 ''Could not start passkey sign-in.''
         else writeJSON 200 (pk_MarshalAssertion J assertion)
       }
   }"

definition passkeyLoginFinish ::
  "('opts, 'ask, 'sd, 'att, 'asr) webauthn_lib \<Rightarrow> ('opts, 'ask, 'sd, 'att, 'asr) passkey_json \<Rightarrow> Server \<Rightarrow> unit web" where
  "passkeyLoginFinish W J s = do {
     session \<leftarrow> passkeySessionFromCookie J s passkeyLoginCookieName;
     case session of
       None \<Rightarrow> writeJSONError s 400 ''Your sign-in attempt expired. Please try again.''
     | Some session \<Rightarrow> do {
         clearPasskeySessionCookie s passkeyLoginCookieName passkeyLoginCookiePath;
         r \<leftarrow> request;
         case read_body (pk_ParseAssertion J) r of
           None \<Rightarrow> writeJSONError s 400 ''That passkey could not be read. Please try again.''
         | Some parsed \<Rightarrow> do {
             res \<leftarrow> lift (FinishPasskeyLogin W (sv_libs s) (sv_auth s) session parsed);
             case res of
               Inl err \<Rightarrow>
                 if errors_Is err ErrPasskeyCeremony \<or> errors_Is err ErrPasskeyNotFound
                 then writeJSONError s 401 ''That passkey could not be verified. Please try again.''
                 else writeJSONError s 500 ''Could not complete passkey sign-in.''
             | Inr (user, authSession) \<Rightarrow> do {
                 setSessionCookie s authSession False;
                 let next = safeRedirectPath (sv_web s) (rq_Query r ''next'');
                 writeJSONMap s 200 ''redirect''
                   (if u_EmailVerifiedAt user = None then paths_VerifyEmail
                    else if next = [] then paths_Account else next)
               }
           }
       }
   }"

end
