(* ===== verification/Routes.thy ===== *)
theory Routes
  imports Feature_Handlers Passkey_Handlers
begin

text \<open>
  The routing table and the composition of the server (\<^verbatim>\<open>Routes\<close>, \<^verbatim>\<open>registerAuthRoutes\<close> of
  \<^verbatim>\<open>server.go\<close>, \<^verbatim>\<open>registerProjectRoutes\<close>).  The table is data: method, path, guard, limits, handler.
  Paths are taken as the mux matches them; the redirect it answers to an unclean path is left out, and
  so is the logging layer.
\<close>

section \<open>The table\<close>

datatype guard = Open | Anonymous | Authenticated | Verified

record route =
  rt_method :: string
  rt_path :: string
  rt_postOnly :: bool
  rt_guard :: guard
  rt_limits :: "rateLimitSpec list"
  rt_handler :: "unit web"

definition get :: "string \<Rightarrow> guard \<Rightarrow> rateLimitSpec list \<Rightarrow> unit web \<Rightarrow> route" where
  "get path g limits handler = \<lparr>rt_method = MethodGet, rt_path = path, rt_postOnly = False, rt_guard = g,
     rt_limits = limits, rt_handler = handler\<rparr>"

definition post :: "string \<Rightarrow> guard \<Rightarrow> rateLimitSpec list \<Rightarrow> unit web \<Rightarrow> route" where
  "post path g limits handler = \<lparr>rt_method = MethodPost, rt_path = path, rt_postOnly = False, rt_guard = g,
     rt_limits = limits, rt_handler = handler\<rparr>"

definition postOnly :: "string \<Rightarrow> guard \<Rightarrow> rateLimitSpec list \<Rightarrow> unit web \<Rightarrow> route" where
  "postOnly path g limits handler = \<lparr>rt_method = MethodPost, rt_path = path, rt_postOnly = True, rt_guard = g,
     rt_limits = limits, rt_handler = handler\<rparr>"

abbreviation limit :: "string \<Rightarrow> Name \<Rightarrow> keyFn \<Rightarrow> rateLimitSpec" where
  "limit name policy keyFn \<equiv> \<lparr>rl_name = name, rl_policy = policy, rl_keyFn = keyFn\<rparr>"

definition registerAuthRoutes ::
  "('opts, 'ask, 'sd, 'att, 'asr) webauthn_lib \<Rightarrow> ('opts, 'ask, 'sd, 'att, 'asr) passkey_json \<Rightarrow> Server \<Rightarrow> route list" where
  "registerAuthRoutes W J s = [
     get paths_Register Anonymous [] (registerForm s),
     post paths_Register Anonymous
       [limit ''register-ip'' RL_RegisterPerIP ByIP,
        limit ''register'' RL_Register (ByIPAndEmail ''email'')] (register s),
     get paths_Login Anonymous [] (loginForm s),
     post paths_Login Anonymous
       [limit ''login-ip'' RL_LoginPerIP ByIP,
        limit ''login'' RL_Login (ByIPAndEmail ''email'')] (login s),
     postOnly paths_Logout Authenticated [] (logout s),
     get paths_Account Verified [] (account s),
     get paths_ChangePassword Verified [] (changePasswordForm s),
     post paths_ChangePassword Verified [limit ''change-password'' RL_ChangePassword ByIPAndUser] (changePassword s),
     postOnly paths_AccountSessionsRevoke Verified [limit ''revoke-session'' RL_RevokeSession ByIPAndUser] (revokeSession s),
     postOnly paths_AccountSessionsRevokeOthers Verified
       [limit ''revoke-other-sessions'' RL_RevokeOtherSessions ByIPAndUser] (revokeOtherSessions s),
     get paths_ForgotPassword Anonymous [] (forgotPasswordForm s),
     post paths_ForgotPassword Anonymous
       [limit ''forgot-password-ip'' RL_ForgotPasswordPerIP ByIP,
        limit ''forgot-password'' RL_ForgotPassword (ByIPAndEmail ''email'')] (forgotPassword s),
     get paths_ResetPassword Anonymous [] (resetPasswordForm s),
     post paths_ResetPassword Anonymous [limit ''reset-password'' RL_ResetPassword ByIPAndResetTokenCookie] (resetPassword s),
     get paths_ConfirmEmail Open [] (confirmEmail s),
     get paths_ResendVerification Anonymous [] (resendVerificationForm s),
     post paths_ResendVerification Anonymous
       [limit ''resend-verification-public-ip'' RL_PublicResendVerifyPerIP ByIP,
        limit ''resend-verification-public'' RL_PublicResendVerification (ByIPAndEmail ''email'')] (resendVerificationPublic s),
     get paths_VerifyEmail Authenticated [] (verifyEmail s),
     postOnly paths_VerifyEmailResend Authenticated
       [limit ''resend-verification-account'' RL_AccountResendVerification ByIPAndUser] (resendVerification s),
     get paths_ConfirmEmailChange Open [] (confirmEmailChange s),
     get paths_ChangeEmail Verified [] (changeEmailForm s),
     post paths_ChangeEmail Verified [limit ''change-email'' RL_ChangeEmail ByIPAndUser] (changeEmail s),
     get paths_AccountDelete Verified [] (deleteAccountForm s),
     post paths_AccountDelete Verified [limit ''delete-account'' RL_DeleteAccount ByIPAndUser] (deleteAccount s),
     get paths_AccountTwoFactor Verified [] (twoFactorPage s),
     postOnly paths_AccountTwoFactorSetup Verified [] (twoFactorSetup s),
     postOnly paths_AccountTwoFactorConfirm Verified [limit ''totp-confirm'' RL_TOTPConfirm ByIPAndUser] (twoFactorConfirm s),
     postOnly paths_AccountTwoFactorDisable Verified [limit ''totp-disable'' RL_TOTPDisable ByIPAndUser] (twoFactorDisable s),
     postOnly paths_AccountTwoFactorRegenerateCodes Verified
       [limit ''totp-regenerate-codes'' RL_TOTPRegenerateCodes ByIPAndUser] (twoFactorRegenerateCodes s),
     get paths_AccountTwoFactorChallenge Anonymous [] (twoFactorChallengeForm s),
     post paths_AccountTwoFactorChallenge Anonymous [limit ''totp-challenge'' RL_TOTPChallenge ByIP] (twoFactorChallenge s),
     get paths_AccountPasskeys Verified [] (passkeysPage s),
     postOnly paths_AccountPasskeysRegisterBegin Verified
       [limit ''passkey-register-begin'' RL_PasskeyRegister ByIPAndUser] (passkeyRegisterBegin W J s),
     postOnly paths_AccountPasskeysRegisterFinish Verified
       [limit ''passkey-register-finish'' RL_PasskeyRegister ByIPAndUser] (passkeyRegisterFinish W J s),
     postOnly paths_AccountPasskeysRename Verified [limit ''passkey-rename'' RL_PasskeyManage ByIPAndUser] (passkeyRename s),
     postOnly paths_AccountPasskeysDelete Verified [limit ''passkey-delete'' RL_PasskeyManage ByIPAndUser] (passkeyDelete s),
     postOnly paths_LoginPasskeyBegin Anonymous
       [limit ''passkey-login-begin'' RL_PasskeyLogin ByIP] (passkeyLoginBegin W J s),
     postOnly paths_LoginPasskeyFinish Anonymous
       [limit ''passkey-login-finish'' RL_PasskeyLogin ByIP] (passkeyLoginFinish W J s)]"

definition registerProjectRoutes :: "Server \<Rightarrow> route list" where
  "registerProjectRoutes s = [
     get paths_Projects Verified [] (projectsIndex s),
     post paths_Projects Verified [] (createProject s),
     postOnly paths_ProjectsDelete Verified [] (deleteProject s)]"

definition dynamic_routes ::
  "('opts, 'ask, 'sd, 'att, 'asr) webauthn_lib \<Rightarrow> ('opts, 'ask, 'sd, 'att, 'asr) passkey_json \<Rightarrow> Server \<Rightarrow> route list" where
  "dynamic_routes W J s = registerAuthRoutes W J s @ registerProjectRoutes s"

section \<open>Fixed pages\<close>

definition home :: "Server \<Rightarrow> unit web" where
  "home s = form_page s templateHome (newTemplateData s ''Home'')"

definition writePlaintext :: "nat \<Rightarrow> string \<Rightarrow> unit web" where
  "writePlaintext status body = do {
     SetHeader ''Content-Type'' ''text/plain; charset=utf-8'';
     respond (put_status status);
     respond (put_body body)
   }"

definition healthz :: "unit web" where
  "healthz = writePlaintext 200 ''ok''"

text \<open>A ping of the database fails when the driver does.\<close>

definition isReady :: "Server \<Rightarrow> bool web" where
  "isReady s =
     (if \<not> sv_hasDB s then ret False
      else do { res \<leftarrow> lift (exec (\<lambda>now d. (Inr (), d))); ret (res = Inr ()) })"

definition readyz :: "Server \<Rightarrow> unit web" where
  "readyz s = do {
     ready \<leftarrow> isReady s;
     if \<not> ready then writePlaintext 503 ''not ready'' else writePlaintext 200 ''ok''
   }"

definition robotsTxtContent :: string where
  "robotsTxtContent = ''User-agent: *'' @ [CHR 0x0A] @ ''Disallow: /login'' @ [CHR 0x0A] @
     ''Disallow: /register'' @ [CHR 0x0A] @ ''Disallow: /logout'' @ [CHR 0x0A] @ ''Disallow: /account/'' @
     [CHR 0x0A] @ ''Disallow: /healthz'' @ [CHR 0x0A] @ ''Disallow: /readyz'' @ [CHR 0x0A]"

definition robotsTxt :: "unit web" where
  "robotsTxt = writePlaintext 200 robotsTxtContent"

definition HasSuffix :: "string \<Rightarrow> string \<Rightarrow> bool" where
  "HasSuffix s p = HasPrefix (rev s) (rev p)"

definition staticFileHandler :: "Server \<Rightarrow> unit web" where
  "staticFileHandler s = do {
     r \<leftarrow> request;
     if HasSuffix (rq_Path r) ''/'' then writePlaintext 404 (''404 page not found'' @ [CHR 0x0A])
     else (case wl_FileServer (sv_web s) (drop (length paths_StaticPrefix) (rq_Path r)) of (status, body) \<Rightarrow> do {
       (if status = 200 \<or> status = 304 then SetHeader ''Cache-Control'' ''public, max-age=86400'' else ret ());
       respond (put_status status);
       respond (put_body body)
     })
   }"

definition notFoundPage :: "Server \<Rightarrow> string list \<Rightarrow> unit web" where
  "notFoundPage s postOnlyPaths = do {
     r \<leftarrow> request;
     if List.member postOnlyPaths (rq_Path r) then do {
       SetHeader ''Allow'' MethodPost;
       http_Error 405
     }
     else do {
       data \<leftarrow> newTemplateData s ''Page Not Found'';
       renderStatus s 404 templateNotFound data
     }
   }"

section \<open>Dispatch\<close>

definition guarded :: "Server \<Rightarrow> route \<Rightarrow> unit web" where
  "guarded s rt =
     (let h = (if rt_limits rt = [] then rt_handler rt else withRateLimits s (rt_limits rt) (rt_handler rt))
      in case rt_guard rt of
           Open \<Rightarrow> h
         | Anonymous \<Rightarrow> requireAnonymous h
         | Authenticated \<Rightarrow> requireAuth s h
         | Verified \<Rightarrow> requireVerifiedAuth s h)"

text \<open>A pattern for \<^verbatim>\<open>GET\<close> matches \<^verbatim>\<open>HEAD\<close> as well.\<close>

definition matches :: "string \<Rightarrow> string \<Rightarrow> route \<Rightarrow> bool" where
  "matches method path rt \<longleftrightarrow>
     rt_path rt = path \<and> (rt_method rt = method \<or> rt_method rt = MethodGet \<and> method = ''HEAD'')"

text \<open>
  The inner mux: a route of the table, the home page and the catch-all for \<^verbatim>\<open>GET\<close>; for any other
  method the catch-all makes the mux answer 405 with the methods the path allows.
\<close>

definition dynamic_mux :: "Server \<Rightarrow> route list \<Rightarrow> unit web" where
  "dynamic_mux s routes = do {
     r \<leftarrow> request;
     case find (matches (rq_Method r) (rq_Path r)) routes of
       Some rt \<Rightarrow> guarded s rt
     | None \<Rightarrow>
         if rq_Method r = MethodGet \<or> rq_Method r = ''HEAD'' then
           if rq_Path r = paths_Home then home s
           else notFoundPage s (map rt_path (filter rt_postOnly routes))
         else do {
           SetHeader ''Allow'' (if list_ex (matches MethodPost (rq_Path r)) routes then ''GET, HEAD, POST'' else ''GET, HEAD'');
           http_Error 405
         }
   }"

definition ensureRateLimiting :: "Server \<Rightarrow> Server" where
  "ensureRateLimiting s = s\<lparr>sv_rateLimitPolicies := Resolve (sv_rateLimitPolicies s)\<rparr>"

definition top_mux :: "Server \<Rightarrow> unit web \<Rightarrow> unit web" where
  "top_mux s app = do {
     r \<leftarrow> request;
     if rq_Method r = MethodGet \<or> rq_Method r = ''HEAD'' then
       if rq_Path r = paths_Healthz then healthz
       else if rq_Path r = paths_Readyz then readyz s
       else if rq_Path r = paths_RobotsTxt then robotsTxt
       else if HasPrefix (rq_Path r) paths_StaticPrefix then staticFileHandler s
       else app
     else app
   }"

definition Routes ::
  "('opts, 'ask, 'sd, 'att, 'asr) webauthn_lib \<Rightarrow> ('opts, 'ask, 'sd, 'att, 'asr) passkey_json \<Rightarrow> Server \<Rightarrow> unit web" where
  "Routes W J s0 =
     (let s = ensureRateLimiting s0;
          handler = csrf s (loadSession s (dynamic_mux s (dynamic_routes W J s)))
      in withRequestID s (securityHeaders s (top_mux s (cacheControlHeaders (limitRequestBody handler)))))"

end
