(* ===== verification/Server_Invariant.thy ===== *)
theory Server_Invariant
  imports Routes
begin

text \<open>
  Every request keeps the schema of the database and the invariant of the rate limiter: one lemma per
  layer and handler, by the rules for handlers and the lemmas of the services.
\<close>

section \<open>What touches neither the database nor the limiter\<close>

lemma hkeeps_cookies [web_rules]:
  "hkeeps I (setSessionCookie s a b)"
  "hkeeps I (clearSessionCookie s)"
  "hkeeps I (setResetCookie s t)"
  "hkeeps I (clearResetCookie s)"
  "hkeeps I (setTOTPPendingCookie s u b)"
  "hkeeps I (clearTOTPPendingCookie s)"
  "hkeeps I (totpPendingLoginFromCookie s)"
  "hkeeps I (setFlash s m)"
  "hkeeps I (popFlash s)"
  "hkeeps I (clearPasskeySessionCookie s n p)"
  "hkeeps I (passkeySessionFromCookie J s n)"
  "hkeeps I (setPasskeySessionCookie J s n p sd)"
  unfolding setSessionCookie_def clearSessionCookie_def setResetCookie_def clearResetCookie_def
    setTOTPPendingCookie_def clearTOTPPendingCookie_def totpPendingLoginFromCookie_def setFlash_def
    popFlash_def sessionCookieMaxAge_def clearPasskeySessionCookie_def passkeySessionFromCookie_def
    setPasskeySessionCookie_def
  by (intro web_rules hkeeps_lift preserves_rules)+

lemma hkeeps_pages [web_rules]:
  "hkeeps I (newTemplateData s t)"
  "hkeeps I (renderStatus s n f d)"
  "hkeeps I (render s f d)"
  unfolding newTemplateData_def renderStatus_def render_def by (intro web_rules)+

lemma hkeeps_answers [web_rules]:
  "hkeeps I (internalServerError s)"
  "hkeeps I (redirectToLogin s)"
  "hkeeps I (refuse s m)"
  "hkeeps I (handleAuthFormError s f d e)"
  "hkeeps I (account_data s t l)"
  "hkeeps I (newChangePasswordTemplateData s)"
  "hkeeps I (newChangeEmailTemplateData s)"
  "hkeeps I (newDeleteAccountTemplateData s)"
  "hkeeps I (newTwoFactorTemplateData s)"
  "hkeeps I (newPasskeysTemplateData s)"
  "hkeeps I (reset_link_invalid s d)"
  "hkeeps I (backup_codes_page s c)"
  unfolding internalServerError_def redirectToLogin_def refuse_def handleAuthFormError_def account_data_def
    newChangePasswordTemplateData_def newChangeEmailTemplateData_def newDeleteAccountTemplateData_def
    newTwoFactorTemplateData_def newPasskeysTemplateData_def reset_link_invalid_def backup_codes_page_def
  by (intro web_rules)+

lemma hkeeps_json [web_rules]:
  "hkeeps I (writeJSON n p)"
  "hkeeps I (writeJSONMap s n k v)"
  "hkeeps I (writeJSONError s n m)"
  "hkeeps I (writePlaintext n p)"
  unfolding writeJSON_def writeJSONMap_def writeJSONError_def writePlaintext_def by (intro web_rules)+

lemma hkeeps_shared [web_rules]:
  "(\<And>u. hkeeps I (k u)) \<Longrightarrow> hkeeps I (with_user k)"
  "(\<And>r. hkeeps I (f r)) \<Longrightarrow> hkeeps I (with_form f)"
  "hkeeps I mk \<Longrightarrow> hkeeps I (form_page s n mk)"
  unfolding with_user_def with_form_def form_page_def by (intro web_rules; assumption?)+

section \<open>The layers\<close>

lemma hkeeps_layers [web_rules]:
  "hkeeps I next \<Longrightarrow> hkeeps I (withRequestID s next)"
  "hkeeps I next \<Longrightarrow> hkeeps I (securityHeaders s next)"
  "hkeeps I next \<Longrightarrow> hkeeps I (cacheControlHeaders next)"
  "hkeeps I next \<Longrightarrow> hkeeps I (limitRequestBody next)"
  "hkeeps I next \<Longrightarrow> hkeeps I (csrf s next)"
  "hkeeps I next \<Longrightarrow> hkeeps I (loadSession s next)"
  "hkeeps I next \<Longrightarrow> hkeeps I (requireAuth s next)"
  "hkeeps I next \<Longrightarrow> hkeeps I (requireAnonymous next)"
  "hkeeps I next \<Longrightarrow> hkeeps I (requireVerifiedAuth s next)"
  unfolding withRequestID_def newRequestID_def securityHeaders_def cacheControlHeaders_def limitRequestBody_def
    csrf_def loadSession_def requireAuth_def requireAnonymous_def requireVerifiedAuth_def
  by (intro web_rules hkeeps_lift preserves_rules; assumption)+

lemma hkeeps_key [web_rules]: "hkeeps I (rateLimitKey s k)"
  by (cases k) (simp_all, (intro web_rules)+)

lemma hkeeps_limits [web_rules]:
  assumes "hkeeps I next" and "\<And>d l k p t. I d l \<Longrightarrow> I d (snd (Allow l k p t))"
  shows "hkeeps I (withRateLimits s specs next)"
proof -
  have "hkeeps I (check_limits s now specs next)" for now
    by (induction specs) (auto simp: writeRateLimited_def assms intro!: web_rules)
  then show ?thesis unfolding withRateLimits_def by (intro web_rules)
qed

section \<open>The handlers\<close>

definition web_inv :: "db \<Rightarrow> fixedWindowRateLimiter \<Rightarrow> bool" where
  "web_inv d l \<longleftrightarrow> db_inv d \<and> limiter_inv l"

lemma web_inv_lift [web_rules]:
  assumes "keeps db_inv m"
  shows "hkeeps web_inv (lift m)"
proof (rule hkeeps_lift)
  fix l
  show "keeps (\<lambda>d. web_inv d l) m"
    by (rule preservesI) (use preservesD [OF assms] in \<open>auto simp: web_inv_def\<close>)
qed

lemma web_inv_Allow: "web_inv d l \<Longrightarrow> web_inv d (snd (Allow l k p t))"
  by (cases "Allow l k p t") (auto simp: web_inv_def dest: Allow_inv)

lemma account_handlers_inv [web_rules]:
  "hkeeps web_inv (registerForm s)"
  "hkeeps web_inv (register s)"
  "hkeeps web_inv (loginForm s)"
  "hkeeps web_inv (login s)"
  "hkeeps web_inv (logout s)"
  "hkeeps web_inv (forgotPasswordForm s)"
  "hkeeps web_inv (forgotPassword s)"
  "hkeeps web_inv (resetPasswordForm s)"
  "hkeeps web_inv (resetPassword s)"
  unfolding registerForm_def register_def loginForm_def login_def logout_def forgotPasswordForm_def
    forgotPassword_def mail_request_def resetPasswordForm_def resetPassword_def
  by (intro web_rules preserves_rules)+

lemma email_handlers_inv [web_rules]:
  "hkeeps web_inv (resendVerificationForm s)"
  "hkeeps web_inv (resendVerificationPublic s)"
  "hkeeps web_inv (confirmEmail s)"
  "hkeeps web_inv (confirmEmailChange s)"
  "hkeeps web_inv (verifyEmail s)"
  "hkeeps web_inv (resendVerification s)"
  "hkeeps web_inv (changeEmailForm s)"
  "hkeeps web_inv (changeEmail s)"
  unfolding resendVerificationForm_def resendVerificationPublic_def mail_request_def confirmEmail_def
    confirmEmailChange_def confirmEmailToken_def verifyEmail_def resendVerification_def changeEmailForm_def
    changeEmail_def
  by (intro web_rules preserves_rules)+

lemma session_handlers_inv [web_rules]:
  "hkeeps web_inv (populateAccountSessions s d)"
  "hkeeps web_inv (account_page s n d)"
  "hkeeps web_inv (account s)"
  "hkeeps web_inv (revokeSession s)"
  "hkeeps web_inv (revokeOtherSessions s)"
  "hkeeps web_inv (changePasswordForm s)"
  "hkeeps web_inv (changePassword s)"
  "hkeeps web_inv (deleteAccountForm s)"
  "hkeeps web_inv (deleteAccount s)"
  unfolding account_page_def account_def populateAccountSessions_def revokeSession_def
    revokeOtherSessions_def changePasswordForm_def changePassword_def deleteAccountForm_def deleteAccount_def
  by (intro web_rules preserves_rules)+

lemma factor_handlers_inv [web_rules]:
  "hkeeps web_inv (twoFactorPage s)"
  "hkeeps web_inv (twoFactorSetup s)"
  "hkeeps web_inv (twoFactorConfirm s)"
  "hkeeps web_inv (factor_refused s u e)"
  "hkeeps web_inv (twoFactorDisable s)"
  "hkeeps web_inv (twoFactorRegenerateCodes s)"
  "hkeeps web_inv (twoFactorChallengeForm s)"
  "hkeeps web_inv (twoFactorChallenge s)"
  unfolding twoFactorPage_def twoFactorSetup_def twoFactorConfirm_def twoFactorDisable_def factor_refused_def
    twoFactorRegenerateCodes_def twoFactorChallengeForm_def twoFactorChallenge_def
  by (intro web_rules preserves_rules)+

lemma project_handlers_inv [web_rules]:
  "hkeeps web_inv (populateProjects s d)"
  "hkeeps web_inv (projects_page s n d)"
  "hkeeps web_inv (projectsIndex s)"
  "hkeeps web_inv (createProject s)"
  "hkeeps web_inv (deleteProject s)"
  unfolding populateProjects_def projects_page_def projectsIndex_def createProject_def deleteProject_def
  by (intro web_rules preserves_rules)+

lemma passkey_handlers_inv [web_rules]:
  "hkeeps web_inv (passkeysPage s)"
  "hkeeps web_inv (passkeyRename s)"
  "hkeeps web_inv (passkeyDelete s)"
  unfolding passkeysPage_def passkeyRename_def passkeyDelete_def passkey_form_def
  by (intro web_rules preserves_rules)+

lemma ceremony_handlers_inv:
  assumes "webauthn_documented W"
  shows "hkeeps web_inv (passkeyRegisterBegin W J s)"
    and "hkeeps web_inv (passkeyRegisterFinish W J s)"
    and "hkeeps web_inv (passkeyLoginBegin W J s)"
    and "hkeeps web_inv (passkeyLoginFinish W J s)"
  unfolding passkeyRegisterBegin_def passkeyRegisterFinish_def passkeyLoginBegin_def passkeyLoginFinish_def
  by (intro web_rules passkey_inv [OF assms])+

section \<open>The server\<close>

lemma hkeeps_fixed_pages [web_rules]:
  "hkeeps I (home s)"
  "hkeeps I healthz"
  "hkeeps I (readyz s)"
  "hkeeps I robotsTxt"
  "hkeeps I (staticFileHandler s)"
  "hkeeps I (notFoundPage s ps)"
proof -
  have ping: "hkeeps I (isReady s)"
    unfolding isReady_def by (intro web_rules hkeeps_lift keeps_exec) (simp add: query_keeps_def)
  show "hkeeps I (home s)" "hkeeps I healthz" "hkeeps I (readyz s)" "hkeeps I robotsTxt"
    "hkeeps I (staticFileHandler s)" "hkeeps I (notFoundPage s ps)"
    unfolding home_def healthz_def readyz_def robotsTxt_def staticFileHandler_def notFoundPage_def
    by (intro web_rules ping)+
qed

lemma routes_inv:
  assumes "webauthn_documented W"
  shows "list_all (\<lambda>rt. hkeeps web_inv (rt_handler rt)) (dynamic_routes W J s)"
  by (simp add: dynamic_routes_def registerAuthRoutes_def registerProjectRoutes_def get_def post_def postOnly_def)
    (intro conjI web_rules ceremony_handlers_inv [OF assms])

lemma hkeeps_guarded:
  assumes "hkeeps I (rt_handler rt)" and "\<And>d l k p t. I d l \<Longrightarrow> I d (snd (Allow l k p t))"
  shows "hkeeps I (guarded s rt)"
  using assms by (cases "rt_guard rt") (auto simp: guarded_def Let_def intro!: web_rules)

lemma dynamic_mux_keeps:
  assumes "list_all (\<lambda>rt. hkeeps I (rt_handler rt)) routes"
    and "\<And>d l k p t. I d l \<Longrightarrow> I d (snd (Allow l k p t))"
  shows "hkeeps I (dynamic_mux s routes)"
proof -
  have *: "hkeeps I (case find p routes of Some rt \<Rightarrow> guarded s rt | None \<Rightarrow> m)" if "hkeeps I m" for p m
    using that assms by (auto simp: list_all_iff intro!: hkeeps_guarded dest!: find_eq_Some split: option.splits)
  show ?thesis
    unfolding dynamic_mux_def by (intro hkeeps_bind hkeeps_primitives *) (intro web_rules)
qed

lemma Routes_keeps:
  assumes "list_all (\<lambda>rt. hkeeps I (rt_handler rt)) (dynamic_routes W J (ensureRateLimiting s))"
    and "\<And>d l k p t. I d l \<Longrightarrow> I d (snd (Allow l k p t))"
  shows "hkeeps I (Routes W J s)"
  unfolding Routes_def top_mux_def
  by (intro web_rules dynamic_mux_keeps assms)

lemma Routes_inv:
  assumes "webauthn_documented W"
  shows "hkeeps web_inv (Routes W J s)"
  by (intro Routes_keeps routes_inv [OF assms] web_inv_Allow)

end
