(* ===== verification/Web_Fixtures.thy ===== *)
theory Web_Fixtures
  imports Routes Passkey_Claims
begin

text \<open>
  A concrete server and concrete requests on which the theorems about the server are exercised: package
  functions that read a URL as a path, addresses as they are written, and pages as their title.
\<close>

definition ex_web :: web_libs where
  "ex_web = \<lparr>
     wl_ParseURL = (\<lambda>u. Some \<lparr>url_Scheme = [], url_Host = [], url_Path = u, url_RequestURI = u\<rparr>),
     wl_SplitHostPort = (\<lambda>a. Some (takeWhile (\<lambda>c. c \<noteq> CHR '':'') a)),
     wl_ParseIP = (\<lambda>a. if a = [] then None else Some a),
     wl_IPString = (\<lambda>i. i),
     wl_IsTo4 = (\<lambda>i. True),
     wl_ParseCIDR = (\<lambda>c. Some (takeWhile (\<lambda>x. x \<noteq> CHR ''/'') c, [])),
     wl_Contains = (\<lambda>(n, m) i. n = i),
     wl_TrustableOrigin = (\<lambda>_. True),
     wl_MarshalFlash = (\<lambda>f. fm_Message f),
     wl_UnmarshalFlash = (\<lambda>b. Some \<lparr>fm_Type = ''success'', fm_Message = b\<rparr>),
     wl_MarshalMap = (\<lambda>kv. concat (map snd kv)),
     wl_ParsePage = (\<lambda>_. True),
     wl_ExecutePage = (\<lambda>n d. Some (td_Title d)),
     wl_FileServer = (\<lambda>p. (200, p))\<rparr>"

definition ex_json :: "(unit, unit, unit, unit, unit) passkey_json" where
  "ex_json = \<lparr>pk_MarshalSession = (\<lambda>_. Some []), pk_UnmarshalSession = (\<lambda>_. Some ()),
     pk_Expires = (\<lambda>_. None), pk_MarshalCreation = (\<lambda>_. []), pk_MarshalAssertion = (\<lambda>_. []),
     pk_ParseCreation = (\<lambda>_. Some ()), pk_ParseAssertion = (\<lambda>_. Some ())\<rparr>"

definition ex_server :: Server where
  "ex_server = \<lparr>sv_libs = ex_libs, sv_web = ex_web, sv_auth = ex_service, sv_hasDB = True,
     sv_templates = map fst pages, sv_cookieSecure = True, sv_trustedOrigins = [''https://app.example''],
     sv_passwordMinLength = 12, sv_cookieSigningKey = ''signing'', sv_flashKey = ''flash'',
     sv_rateLimitPolicies = Map.empty, sv_trustedProxies = [(''10.0.0.1'', [])]\<rparr>"

definition ex_request :: "string \<Rightarrow> string \<Rightarrow> Request" where
  "ex_request method path = \<lparr>rq_Method = method, rq_Path = path, rq_RequestURI = path, rq_Host = ''app.example'',
     rq_RemoteAddr = ''192.0.2.7:4000'', rq_TLS = True, rq_ContentLength = 0, rq_Header = (\<lambda>_. []),
     rq_Cookies = [], rq_Query = (\<lambda>_. []), rq_Form = (\<lambda>_. []), rq_PostHas = (\<lambda>_. False), rq_FormErr = False,
     rq_FormParsed = False, rq_Body = [], rq_BodyErr = False, rq_User = None, rq_RequestID = []\<rparr>"

definition ex_http :: "Request \<Rightarrow> http" where
  "ex_http r = \<lparr>h_world = ex_world ex_db, h_limiter = newFixedWindowRateLimiter, h_req = r, h_resp = new_response\<rparr>"

lemma ex_request_simps [simp]:
  "rq_Method (ex_request m p) = m" "rq_Path (ex_request m p) = p" "rq_User (ex_request m p) = None"
  "cookie_of k (ex_request m p) = None" "rq_FormErr (ex_request m p) = False"
  by (simp_all add: ex_request_def cookie_of_def)

lemma ex_http_simps [simp]:
  "h_world (ex_http r) = ex_world ex_db" "h_req (ex_http r) = r" "h_resp (ex_http r) = new_response"
  "h_limiter (ex_http r) = newFixedWindowRateLimiter"
  by (simp_all add: ex_http_def)

text \<open>Concrete requests: a page, and the form of a login.\<close>

definition ex_login_request :: Request where
  "ex_login_request = (ex_request ''POST'' ''/login'')
     \<lparr>rq_Form := (\<lambda>k. if k = ''email'' then ''ada@example.com'' else if k = ''password'' then ''correct horse'' else [])\<rparr>"

end
