(* ===== verification/Server_Claims.thy ===== *)
theory Server_Claims
  imports Server_Invariant Web_Fixtures
begin

text \<open>
  What the routing guarantees: the table is well formed, and a route that needs a session does nothing
  without one.  The proofs execute the handlers with the rules \<open>hwp_rules\<close>.
\<close>

section \<open>Running handlers\<close>

text \<open>\<open>hwp m Q h\<close>: run from \<open>h\<close>, \<open>m\<close> ends with a result and a state that satisfy \<open>Q\<close>.\<close>

definition hwp :: "'a web \<Rightarrow> ('a \<Rightarrow> http \<Rightarrow> bool) \<Rightarrow> http \<Rightarrow> bool" where
  "hwp m Q h \<longleftrightarrow> (case run_state m h of (r, h') \<Rightarrow> Q r h')"

named_theorems hwp_rules \<open>rules that execute handlers\<close>

lemma hwpD: "hwp m Q h \<Longrightarrow> run_state m h = (r, h') \<Longrightarrow> Q r h'"
  by (simp add: hwp_def)

lemma hwp_mono: "hwp m P h \<Longrightarrow> (\<And>r h'. P r h' \<Longrightarrow> Q r h') \<Longrightarrow> hwp m Q h"
  by (auto simp: hwp_def)

lemma hwp_ret [hwp_rules]: "Q x h \<Longrightarrow> hwp (ret x) Q h"
  by (simp add: hwp_def)

lemma hwp_bind [hwp_rules]: "hwp m (\<lambda>x. hwp (f x) Q) h \<Longrightarrow> hwp (State_Monad.bind m f) Q h"
  by (auto simp: hwp_def run_bind split: prod.splits)

lemma hwp_if [hwp_rules]: "(b \<Longrightarrow> hwp m Q h) \<Longrightarrow> (\<not> b \<Longrightarrow> hwp n Q h) \<Longrightarrow> hwp (if b then m else n) Q h"
  by simp

lemma hwp_let [hwp_rules]: "hwp (f x) Q h \<Longrightarrow> hwp (let y = x in f y) Q h"
  by simp

lemma hwp_case_sum [hwp_rules]:
  "(\<And>e. r = Inl e \<Longrightarrow> hwp (f e) Q h) \<Longrightarrow> (\<And>x. r = Inr x \<Longrightarrow> hwp (g x) Q h) \<Longrightarrow>
     hwp (case r of Inl e \<Rightarrow> f e | Inr x \<Rightarrow> g x) Q h"
  by (cases r) simp_all

lemma hwp_case_option [hwp_rules]:
  "(r = None \<Longrightarrow> hwp f Q h) \<Longrightarrow> (\<And>x. r = Some x \<Longrightarrow> hwp (g x) Q h) \<Longrightarrow>
     hwp (case r of None \<Rightarrow> f | Some x \<Rightarrow> g x) Q h"
  by (cases r) simp_all

lemma hwp_case_prod [hwp_rules]:
  "(\<And>x y. p = (x, y) \<Longrightarrow> hwp (f x y) Q h) \<Longrightarrow> hwp (case p of (x, y) \<Rightarrow> f x y) Q h"
  by (cases p) simp

lemma hwp_request [hwp_rules]: "Q (h_req h) h \<Longrightarrow> hwp request Q h"
  by (simp add: hwp_def run_web)

lemma hwp_set_request [hwp_rules]: "Q () (h\<lparr>h_req := r\<rparr>) \<Longrightarrow> hwp (set_request r) Q h"
  by (simp add: hwp_def run_web)

lemma hwp_respond [hwp_rules]: "Q () (h\<lparr>h_resp := f (h_resp h)\<rparr>) \<Longrightarrow> hwp (respond f) Q h"
  by (simp add: hwp_def run_web)

lemma hwp_lift [hwp_rules]:
  "(\<And>r w. run_state m (h_world h) = (r, w) \<Longrightarrow> Q r (h\<lparr>h_world := w\<rparr>)) \<Longrightarrow> hwp (lift m) Q h"
  by (auto simp: hwp_def run_web split: prod.splits)

section \<open>The routing table\<close>

text \<open>
  The table is well formed.  No two routes share method and path, so that registering them does
  not panic; no rate-limit bucket name is used twice; a path registered for \<^verbatim>\<open>POST\<close> only has no page;
  the only routes without a guard are the two confirmation links; the only posts without a rate limit
  are those listed, all behind a session; and everything under the account prefix that changes the
  account needs a session, the public parts being those listed.
\<close>

theorem routes_well_formed:
  "distinct (map (\<lambda>rt. (rt_method rt, rt_path rt)) (dynamic_routes W J s)) \<and>
   distinct (concat (map (\<lambda>rt. map rl_name (rt_limits rt)) (dynamic_routes W J s))) \<and>
   filter (\<lambda>rt. rt_postOnly rt \<and> list_ex (matches ''GET'' (rt_path rt)) (dynamic_routes W J s)) (dynamic_routes W J s) = [] \<and>
   map (\<lambda>rt. (rt_method rt, rt_path rt)) (filter (\<lambda>rt. rt_guard rt = Open) (dynamic_routes W J s)) =
     [(''GET'', ''/account/confirm-email''), (''GET'', ''/account/confirm-email-change'')] \<and>
   map (\<lambda>rt. (rt_path rt, rt_guard rt)) (filter (\<lambda>rt. rt_method rt = ''POST'' \<and> rt_limits rt = []) (dynamic_routes W J s)) =
     [(''/logout'', Authenticated), (''/account/two-factor/setup'', Verified), (''/projects'', Verified),
      (''/projects/delete'', Verified)] \<and>
   map rt_path (filter (\<lambda>rt. rt_method rt = ''POST'' \<and> rt_guard rt = Anonymous) (dynamic_routes W J s)) =
     [''/register'', ''/login'', ''/account/forgot-password'', ''/account/reset-password'',
      ''/account/resend-verification'', ''/account/two-factor/challenge'', ''/login/passkey/begin'',
      ''/login/passkey/finish'']"
  by (simp add: dynamic_routes_def registerAuthRoutes_def registerProjectRoutes_def get_def post_def postOnly_def
      path_defs matches_def)

section \<open>Protected routes\<close>

text \<open>What the fixed answers leave behind.\<close>

lemma put_simps [simp]:
  "rs_Status (put_header k v p) = rs_Status p"
  "rs_Status (put_cookie c p) = rs_Status p"
  "rs_Status (put_status n p) = Some (case rs_Status p of None \<Rightarrow> n | Some m \<Rightarrow> m)"
  "rs_Status (put_body b p) = Some (case rs_Status p of None \<Rightarrow> 200 | Some m \<Rightarrow> m)"
  "rs_Status (error_response n p) = Some (case rs_Status p of None \<Rightarrow> n | Some m \<Rightarrow> m)"
  by (simp_all add: put_header_def put_cookie_def put_status_def put_body_def error_response_def Let_def
      split: option.splits)

text \<open>\<open>answered S d h\<close>: the database is still \<open>d\<close> and the status is one of \<open>S\<close>.\<close>

definition answered :: "nat list \<Rightarrow> db \<Rightarrow> http \<Rightarrow> bool" where
  "answered S d h \<longleftrightarrow> wdb (h_world h) = d \<and> (case rs_Status (h_resp h) of None \<Rightarrow> False | Some n \<Rightarrow> n \<in> set S)"

lemma hwp_newTemplateData:
  assumes "\<And>data f. rs_Status (f (h_resp h)) = rs_Status (h_resp h) \<Longrightarrow> Q data (h\<lparr>h_resp := f (h_resp h)\<rparr>)"
  shows "hwp (newTemplateData s t) Q h"
  using assms [where f = "\<lambda>p. p"] assms [where f = "put_cookie c" for c]
  unfolding newTemplateData_def popFlash_def by (intro hwp_rules) simp_all

lemma hwp_internalServerError:
  assumes "wdb (h_world h) = d" and "rs_Status (h_resp h) = None" and "500 \<in> set S"
  shows "hwp (internalServerError s) (\<lambda>_. answered S d) h"
  unfolding internalServerError_def
  by (intro hwp_rules hwp_newTemplateData, unfold renderStatus_def, intro hwp_rules)
    (auto simp: assms answered_def)

lemma hwp_refuse:
  assumes "wdb (h_world h) = d" and "rs_Status (h_resp h) = None" and "303 \<in> set S" and "401 \<in> set S"
  shows "hwp (refuse s m) (\<lambda>_. answered S d) h"
  unfolding refuse_def redirectToLogin_def
  by (intro hwp_rules) (auto simp: assms answered_def)

lemma keeps_db: "(\<And>P. keeps P m) \<Longrightarrow> run_state m w = (r, w') \<Longrightarrow> wdb w' = wdb w"
  by (rule preservesD [where P = "\<lambda>v. wdb v = wdb w"]) auto

text \<open>A request that carries no session, or only one that has ended.\<close>

definition no_live_session :: "world \<Rightarrow> Request \<Rightarrow> bool" where
  "no_live_session w r \<longleftrightarrow>
     (case cookie_of sessionCookieName r of
        None \<Rightarrow> True
      | Some tok \<Rightarrow> \<not> (\<exists>ses \<in> set (sessions (wdb w)). ses_TokenHash ses = hashToken (TrimSpace tok) \<and>
          (\<exists>n. current_timestamp (wclock w n) < ses_ExpiresAt ses)))"

definition needs_session :: "route \<Rightarrow> bool" where
  "needs_session rt \<longleftrightarrow> rt_guard rt = Authenticated \<or> rt_guard rt = Verified"

lemma hwp_guarded_anonymous:
  assumes "needs_session rt" and "rq_User (h_req h) = None" and "wdb (h_world h) = d"
    and "rs_Status (h_resp h) = None" and "303 \<in> set S" and "401 \<in> set S"
  shows "hwp (guarded s rt) (\<lambda>_. answered S d) h"
proof -
  have "hwp (requireAuth s k) (\<lambda>_. answered S d) h" "hwp (requireVerifiedAuth s k) (\<lambda>_. answered S d) h" for k
    unfolding requireAuth_def requireVerifiedAuth_def
    by (intro hwp_rules hwp_refuse; simp add: assms)+
  with assms(1) show ?thesis by (auto simp: needs_session_def guarded_def Let_def)
qed

lemma hwp_protected:
  assumes "find (matches (rq_Method (h_req h)) (rq_Path (h_req h))) routes = Some rt" and "needs_session rt"
    and "no_live_session (h_world h) (h_req h)" and "rq_User (h_req h) = None" and "wdb (h_world h) = d"
    and "rs_Status (h_resp h) = None" and "set [303, 401, 500] \<subseteq> set S"
  shows "hwp (loadSession s (dynamic_mux s routes)) (\<lambda>_. answered S d) h"
proof -
  have mux: "hwp (dynamic_mux s routes) (\<lambda>_. answered S d) h'"
    if "h_req h' = h_req h" "wdb (h_world h') = d" "rs_Status (h_resp h') = None" for h'
    unfolding dynamic_mux_def using assms(1,2,4,7) that
    by (intro hwp_rules) (auto intro!: hwp_guarded_anonymous)
  have looked: "wdb w = d" if "run_state (UserBySessionToken tok) (h_world h) = (r, w)" for tok r w
    using keeps_db [OF keeps_reads(1) that] assms(5) by simp
  show ?thesis
    unfolding loadSession_def clearSessionCookie_def
    by (intro hwp_rules mux hwp_internalServerError)
      (use assms(3,5-7) looked no_session_no_user in \<open>fastforce simp: no_live_session_def\<close>)+
qed

text \<open>The routes of the table are reached through the outer mux.\<close>

lemma dynamic_paths:
  "list_all (\<lambda>rt. rt_path rt \<noteq> paths_Healthz \<and> rt_path rt \<noteq> paths_Readyz \<and> rt_path rt \<noteq> paths_RobotsTxt \<and>
     \<not> HasPrefix (rt_path rt) paths_StaticPrefix) (dynamic_routes W J s)"
  by (simp add: dynamic_routes_def registerAuthRoutes_def registerProjectRoutes_def get_def post_def postOnly_def
      path_defs HasPrefix_def)

lemma hwp_top_mux:
  assumes "find (matches (rq_Method (h_req h)) (rq_Path (h_req h))) (dynamic_routes W J s') = Some rt"
    and "hwp app Q h"
  shows "hwp (top_mux s app) Q h"
proof -
  from find_eq_Some [OF assms(1)] have rt: "rt \<in> set (dynamic_routes W J s')" "rq_Path (h_req h) = rt_path rt"
    by (auto simp: matches_def)
  from bspec [OF dynamic_paths [unfolded list_all_iff] rt(1)]
  have "rq_Path (h_req h) \<noteq> paths_Healthz" "rq_Path (h_req h) \<noteq> paths_Readyz"
    "rq_Path (h_req h) \<noteq> paths_RobotsTxt" "\<not> HasPrefix (rq_Path (h_req h)) paths_StaticPrefix"
    unfolding rt(2) by blast+
  with assms(2) show ?thesis unfolding top_mux_def by (intro hwp_rules) simp_all
qed

lemma MaxBytesReader_simps [simp]:
  "rq_Method (MaxBytesReader n r) = rq_Method r" "rq_Path (MaxBytesReader n r) = rq_Path r"
  "rq_User (MaxBytesReader n r) = rq_User r" "cookie_of k (MaxBytesReader n r) = cookie_of k r"
  by (simp_all add: MaxBytesReader_def cookie_of_def)

lemma run_newRequestID:
  "run_state newRequestID w = (r, w') \<Longrightarrow> wdb w' = wdb w \<and> wclock w' = wclock w"
  by (auto simp: newRequestID_def run_simps split: option.splits prod.splits sum.splits)

lemma no_live_session_cong:
  "wdb w' = wdb w \<Longrightarrow> wclock w' = wclock w \<Longrightarrow> cookie_of sessionCookieName r' = cookie_of sessionCookieName r \<Longrightarrow>
     no_live_session w r \<Longrightarrow> no_live_session w' r'"
  by (cases "cookie_of sessionCookieName r") (simp_all add: no_live_session_def)

definition unanswered :: "http \<Rightarrow> bool" where
  "unanswered h \<longleftrightarrow> rs_Status (h_resp h) = None \<and> rq_User (h_req h) = None"

lemma hwp_application:
  assumes "find (matches (rq_Method (h_req h)) (rq_Path (h_req h))) routes = Some rt" and "needs_session rt"
    and "no_live_session (h_world h) (h_req h)" and "unanswered h" and "wdb (h_world h) = d"
  shows "hwp (cacheControlHeaders (limitRequestBody (csrf s (loadSession s (dynamic_mux s routes)))))
    (\<lambda>_. answered [303, 401, 403, 413, 500] d) h"
proof -
  have inner: "hwp (csrf s (loadSession s (dynamic_mux s routes))) (\<lambda>_. answered [303, 401, 403, 413, 500] d) h'"
    if "rq_Method (h_req h') = rq_Method (h_req h)" "rq_Path (h_req h') = rq_Path (h_req h)" "unanswered h'"
      "no_live_session (h_world h') (h_req h')" "wdb (h_world h') = d" for h'
    unfolding csrf_def using assms(1,2) that
    by (intro hwp_rules hwp_protected) (auto simp: answered_def unanswered_def)
  have body: "hwp (limitRequestBody (csrf s (loadSession s (dynamic_mux s routes))))
      (\<lambda>_. answered [303, 401, 403, 413, 500] d) h'"
    if "h_req h' = h_req h" "h_world h' = h_world h" "unanswered h'" for h'
    unfolding limitRequestBody_def using assms(3-5) that
    by (intro hwp_rules inner) (auto simp: answered_def unanswered_def no_live_session_def)
  show ?thesis
    unfolding cacheControlHeaders_def using assms(4)
    by (intro hwp_rules body) (auto simp: unanswered_def)
qed

text \<open>
  C4: a route that needs a session does nothing without one.  Whatever the request carries besides,
  if it has no session cookie or one whose session does not exist or has ended, the whole server
  answers a request for such a route with a redirect to the login, 401, 403, 413 or 500, and leaves
  the database as it was.
\<close>

theorem protected_needs_session:
  assumes "find (matches (rq_Method (h_req h)) (rq_Path (h_req h))) (dynamic_routes W J (ensureRateLimiting s)) = Some rt"
    and "needs_session rt" and "no_live_session (h_world h) (h_req h)" and "unanswered h"
  shows "answered [303, 401, 403, 413, 500] (wdb (h_world h)) (snd (run_state (Routes W J s) h))"
proof -
  let ?s = "ensureRateLimiting s" and ?S = "[303, 401, 403, 413, 500]"
  let ?app = "cacheControlHeaders (limitRequestBody (csrf ?s (loadSession ?s (dynamic_mux ?s (dynamic_routes W J ?s)))))"
  have app: "hwp (securityHeaders ?s (top_mux ?s ?app)) (\<lambda>_. answered ?S (wdb (h_world h))) h'"
    if "rq_Method (h_req h') = rq_Method (h_req h)" "rq_Path (h_req h') = rq_Path (h_req h)" "unanswered h'"
      "no_live_session (h_world h') (h_req h')" "wdb (h_world h') = wdb (h_world h)" for h'
    unfolding securityHeaders_def using assms(1,2) that
    by (intro hwp_rules hwp_top_mux hwp_application) (auto simp: unanswered_def)
  have "hwp (Routes W J s) (\<lambda>_. answered ?S (wdb (h_world h))) h"
    unfolding Routes_def Let_def withRequestID_def using assms(3,4)
    by (intro hwp_rules app hwp_internalServerError)
      (auto simp: unanswered_def run_newRequestID cookie_of_def elim!: no_live_session_cong [rotated 3])
  then show ?thesis by (simp add: hwp_def case_prod_unfold)
qed

theorem protected_needs_session_witness:
  "answered [303, 401, 403, 413, 500] ex_db
     (snd (run_state (Routes ex_webauthn ex_json ex_server) (ex_http (ex_request ''GET'' ''/account''))))"
proof -
  let ?h = "ex_http (ex_request ''GET'' ''/account'')" and ?s = "ensureRateLimiting ex_server"
  have "find (matches (rq_Method (h_req ?h)) (rq_Path (h_req ?h))) (dynamic_routes ex_webauthn ex_json ?s) =
      Some (get paths_Account Verified [] (account ?s))"
    by (simp add: dynamic_routes_def registerAuthRoutes_def get_def post_def postOnly_def path_defs matches_def)
  from protected_needs_session [OF this] show ?thesis
    by (simp add: needs_session_def get_def no_live_session_def unanswered_def new_response_def)
qed

end
