(* ===== verification/Cookie_Claims.thy ===== *)
theory Cookie_Claims
  imports Server_Claims Second_Factor
begin

text \<open>
  What the cookies and the client address carry: the session cookie of a login authenticates the user
  who logged in, the pending-login cookie gives back what was signed until its five minutes are over,
  and the address used for rate limits cannot be chosen through a header.
\<close>

section \<open>The session cookie\<close>

text \<open>The names of the cookies a step adds.\<close>

definition adds_cookies :: "string list \<Rightarrow> 'a web \<Rightarrow> bool" where
  "adds_cookies N m \<longleftrightarrow> (\<forall>h r h'. run_state m h = (r, h') \<longrightarrow>
     (\<exists>cs. rs_Cookies (h_resp h') = rs_Cookies (h_resp h) @ cs \<and> list_all (\<lambda>c. ck_Name c \<in> set N) cs))"

named_theorems cookie_rules \<open>rules for the cookies a handler sets\<close>

lemma adds_ret [cookie_rules]: "adds_cookies N (ret x)"
  by (simp add: adds_cookies_def)

lemma adds_bind [cookie_rules]:
  assumes "adds_cookies N m" and "\<And>x. adds_cookies N (f x)"
  shows "adds_cookies N (State_Monad.bind m f)"
  unfolding adds_cookies_def
proof (intro allI impI)
  fix h r h'
  assume "run_state (State_Monad.bind m f) h = (r, h')"
  then obtain x h1 where "run_state m h = (x, h1)" "run_state (f x) h1 = (r, h')"
    unfolding run_bind_iff by blast
  with assms obtain as bs where "rs_Cookies (h_resp h1) = rs_Cookies (h_resp h) @ as" "list_all (\<lambda>c. ck_Name c \<in> set N) as"
    "rs_Cookies (h_resp h') = rs_Cookies (h_resp h1) @ bs" "list_all (\<lambda>c. ck_Name c \<in> set N) bs"
    unfolding adds_cookies_def by metis
  then show "\<exists>cs. rs_Cookies (h_resp h') = rs_Cookies (h_resp h) @ cs \<and> list_all (\<lambda>c. ck_Name c \<in> set N) cs"
    by (intro exI [of _ "as @ bs"]) simp
qed

lemma adds_cases [cookie_rules]:
  "(b \<Longrightarrow> adds_cookies N m) \<Longrightarrow> (\<not> b \<Longrightarrow> adds_cookies N n) \<Longrightarrow> adds_cookies N (if b then m else n)"
  "(\<And>e. adds_cookies N (f1 e)) \<Longrightarrow> (\<And>x. adds_cookies N (g1 x)) \<Longrightarrow> adds_cookies N (case r1 of Inl e \<Rightarrow> f1 e | Inr x \<Rightarrow> g1 x)"
  "adds_cookies N f2 \<Longrightarrow> (\<And>x. adds_cookies N (g2 x)) \<Longrightarrow> adds_cookies N (case r2 of None \<Rightarrow> f2 | Some x \<Rightarrow> g2 x)"
  "adds_cookies N (f3 x) \<Longrightarrow> adds_cookies N (let y = x in f3 y)"
  by (simp_all split: sum.splits option.splits)

lemma put_cookies [simp]:
  "rs_Cookies (put_header k v p) = rs_Cookies p" "rs_Cookies (put_status n p) = rs_Cookies p"
  "rs_Cookies (put_body b p) = rs_Cookies p" "rs_Cookies (error_response n p) = rs_Cookies p"
  by (simp_all add: put_header_def put_status_def put_body_def error_response_def Let_def)

lemma adds_primitives [cookie_rules]:
  "adds_cookies N request" "adds_cookies N (set_request r)" "adds_cookies N (lift m)"
  "adds_cookies N (SetHeader k v)" "adds_cookies N (respond (put_status n))" "adds_cookies N (respond (put_body b))"
  "adds_cookies N (http_Error n)" "adds_cookies N (http_Redirect u)"
  "ck_Name c \<in> set N \<Longrightarrow> adds_cookies N (SetCookie c)"
  by (auto simp: adds_cookies_def run_web put_cookie_def split: prod.splits if_splits)

lemma adds_pages [cookie_rules]:
  assumes "flashCookieName \<in> set N"
  shows "adds_cookies N (newTemplateData s t)" "adds_cookies N (renderStatus s n f d)"
    "adds_cookies N (internalServerError s)" "adds_cookies N (handleAuthFormError s f d e)"
proof -
  show t: "adds_cookies N (newTemplateData s t)" for t
    unfolding newTemplateData_def popFlash_def by (intro cookie_rules) (simp_all add: assms)
  show r: "adds_cookies N (renderStatus s n f d)" for n f d
    unfolding renderStatus_def by (intro cookie_rules)
  show i: "adds_cookies N (internalServerError s)"
    unfolding internalServerError_def by (intro cookie_rules t r)
  show "adds_cookies N (handleAuthFormError s f d e)"
    unfolding handleAuthFormError_def by (intro cookie_rules r i)
qed

text \<open>No session cookie has been set.\<close>

definition no_session_cookie :: "http \<Rightarrow> bool" where
  "no_session_cookie h \<longleftrightarrow> list_all (\<lambda>c. ck_Name c \<noteq> sessionCookieName) (rs_Cookies (h_resp h))"

lemma adds_no_session:
  assumes "adds_cookies N m" and "sessionCookieName \<notin> set N" and "no_session_cookie h"
  shows "hwp m (\<lambda>_. no_session_cookie) h"
proof -
  obtain r h' where run: "run_state m h = (r, h')" by (cases "run_state m h")
  with assms(1) obtain cs where cs: "rs_Cookies (h_resp h') = rs_Cookies (h_resp h) @ cs"
      "list_all (\<lambda>c. ck_Name c \<in> set N) cs"
    unfolding adds_cookies_def by blast
  from cs(2) assms(2) have "list_all (\<lambda>c. ck_Name c \<noteq> sessionCookieName) cs"
    by (auto simp: list_all_iff)
  with run cs(1) assms(3) show ?thesis by (simp add: hwp_def no_session_cookie_def)
qed

text \<open>What a session cookie set by the login says about the login.\<close>

definition cookie_of_login :: "Server \<Rightarrow> Request \<Rightarrow> db \<Rightarrow> Cookie \<Rightarrow> db \<Rightarrow> bool" where
  "cookie_of_login s r d c d' \<longleftrightarrow> (\<exists>row sess. row \<in> set (users d) \<and>
     usr_Email row = normalizeEmail (sv_libs s) (rq_Form r ''email'') \<and>
     password_matches (sv_libs s) (sv_auth s) (usr_PasswordHash row) (rq_Form r ''password'') \<and>
     no_second_factor (usr_ID row) d \<and> opened (sv_auth s) (usr_ID row) sess d d' \<and> ck_Value c = as_Token sess)"

lemma login_cookies:
  assumes "no_session_cookie h"
  shows "hwp (login s) (\<lambda>_ h'. \<forall>c \<in> set (rs_Cookies (h_resp h')). ck_Name c = sessionCookieName \<longrightarrow>
    cookie_of_login s (h_req h) (wdb (h_world h)) c (wdb (h_world h'))) h"
proof -
  note page = hwp_mono [OF adds_no_session [OF adds_pages(1) [of "[flashCookieName]"]]]
    and form = hwp_mono [OF adds_no_session [OF adds_pages(4) [of "[flashCookieName]"]]]
  have login: "case err of Some e \<Rightarrow> True | None \<Rightarrow> sess_cookie (wdb w)"
    if "run_state (Login (sv_libs s) (sv_auth s) (rq_Form (h_req h) ''email'') (rq_Form (h_req h) ''password'')) (h_world h) =
      ((u, sess, err), w)" "sess_cookie = (\<lambda>d'. \<forall>c. ck_Value c = as_Token sess \<longrightarrow>
        cookie_of_login s (h_req h) (wdb (h_world h)) c d')" for u sess err w sess_cookie
    using wpD [OF Login_wp that(1)] that(2)
    by (auto simp: cookie_of_login_def split: option.splits)
  show ?thesis
    unfolding login_def with_form_def ParseForm_def setTOTPPendingCookie_def setSessionCookie_def sessionCookieMaxAge_def
    by (intro hwp_rules page form)
      (use assms login in \<open>simp_all add: no_session_cookie_def list_all_iff put_cookie_def cookie_defs run_simps\<close>)
qed

lemma login_keeps: "db_inv (wdb (h_world h)) \<Longrightarrow> run_state (login s) h = (r, h') \<Longrightarrow> db_inv (wdb (h_world h'))"
  by (rule hkeepsD [where I = "\<lambda>d l. db_inv d" and m = "login s"], unfold login_def with_form_def, intro web_rules hkeeps_lift Login_inv)

text \<open>The later request: it carries the cookie, comes before the session ends and meets no database error.\<close>

definition presents :: "Cookie \<Rightarrow> http \<Rightarrow> bool" where
  "presents c g \<longleftrightarrow> cookie_of sessionCookieName (h_req g) = Some (ck_Value c) \<and> \<not> wfault (h_world g) 0 \<and>
     list_all (\<lambda>ses. ses_TokenHash ses = hashToken (ck_Value c) \<longrightarrow>
       current_timestamp (wclock (h_world g) 0) < ses_ExpiresAt ses) (sessions (wdb (h_world g)))"

lemma login_cookie_user:
  assumes "cookie_of_login s r d c (wdb (h_world g))" and "db_inv (wdb (h_world g))" and "presents c g"
  shows "\<exists>row \<in> set (users d). usr_Email row = normalizeEmail (sv_libs s) (rq_Form r ''email'') \<and>
    password_matches (sv_libs s) (sv_auth s) (usr_PasswordHash row) (rq_Form r ''password'') \<and>
    no_second_factor (usr_ID row) d \<and>
    fst (run_state (UserBySessionToken (ck_Value c)) (h_world g)) = Inr (public_user row)"
proof -
  from assms(1) obtain row sess where row: "row \<in> set (users d)"
      "usr_Email row = normalizeEmail (sv_libs s) (rq_Form r ''email'')"
      "opened (sv_auth s) (usr_ID row) sess d (wdb (h_world g))" "ck_Value c = as_Token sess"
      "password_matches (sv_libs s) (sv_auth s) (usr_PasswordHash row) (rq_Form r ''password'')" "no_second_factor (usr_ID row) d"
    unfolding cookie_of_login_def by blast
  from row(3,4) assms(3) have "current_timestamp (wclock (h_world g) 0) < as_ExpiresAt sess"
    by (auto simp: opened_def presents_def add_session_def)
  with opened_authenticates [OF assms(2) row(3,1)] row(4) assms(3)
  have "fst (run_state (UserBySessionToken (ck_Value c)) (h_world g)) = Inr (public_user row)"
    by (auto simp: presents_def)
  with row show ?thesis by (intro bexI [of _ row] conjI)
qed

text \<open>
  C3: the session cookie of a login, end to end.  If posting the login form makes the server set a
  session cookie, then a later request that presents this cookie before the session ends is served as
  a user whose address was in the form, whose stored hash the password in the form matches and who has no
  second factor: the handlers behind the session layer run with that user in the request, on the same
  database and with nothing answered yet.
\<close>

theorem login_cookie_authenticates:
  assumes "db_inv (wdb (h_world h))" and "no_session_cookie h" and "run_state (login s) h = ((), h')"
    and "c \<in> set (rs_Cookies (h_resp h'))" and "ck_Name c = sessionCookieName"
    and "wdb (h_world g) = wdb (h_world h')" and "presents c g"
  shows "\<exists>row g'. row \<in> set (users (wdb (h_world h))) \<and>
    usr_Email row = normalizeEmail (sv_libs s) (rq_Form (h_req h) ''email'') \<and>
    password_matches (sv_libs s) (sv_auth s) (usr_PasswordHash row) (rq_Form (h_req h) ''password'') \<and>
    no_second_factor (usr_ID row) (wdb (h_world h)) \<and>
    run_state (loadSession s next) g = run_state next g' \<and> wdb (h_world g') = wdb (h_world g) \<and>
    h_req g' = (h_req g)\<lparr>rq_User := Some (public_user row)\<rparr> \<and> h_resp g' = h_resp g"
proof -
  from hwpD [OF login_cookies [OF assms(2)] assms(3)] assms(4,5)
  have "cookie_of_login s (h_req h) (wdb (h_world h)) c (wdb (h_world g))" by (simp add: assms(6))
  from login_cookie_user [OF this _ assms(7)] login_keeps [OF assms(1,3)]
  obtain row where row: "row \<in> set (users (wdb (h_world h)))"
      "usr_Email row = normalizeEmail (sv_libs s) (rq_Form (h_req h) ''email'')"
      "fst (run_state (UserBySessionToken (ck_Value c)) (h_world g)) = Inr (public_user row)"
      "password_matches (sv_libs s) (sv_auth s) (usr_PasswordHash row) (rq_Form (h_req h) ''password'')"
      "no_second_factor (usr_ID row) (wdb (h_world h))"
    by (auto simp: assms(6))
  obtain w where w: "run_state (UserBySessionToken (ck_Value c)) (h_world g) = (Inr (public_user row), w)"
    using row(3) by (metis prod.collapse)
  have "wdb w = wdb (h_world g)" by (rule keeps_db [OF keeps_reads(1) w])
  with row w assms(7) show ?thesis
    by (intro exI [of _ row] exI [of _ "g\<lparr>h_world := w, h_req := (h_req g)\<lparr>rq_User := Some (public_user row)\<rparr>\<rparr>"])
      (simp add: loadSession_def run_bind run_simps presents_def)
qed

definition ex_session :: db where
  "ex_session = add_session 1 (hashToken ex_token) (ex_now + svc_sessionDuration ex_service) ex_now ex_db"

definition ex_cookie_request :: http where
  "ex_cookie_request = (ex_http ((ex_request ''GET'' ''/account'')\<lparr>rq_Cookies := [(''session'', ex_token)]\<rparr>))
     \<lparr>h_world := ex_world ex_session\<rparr>"

lemma ex_login_run:
  "run_state (login ex_server) (ex_http ex_login_request) = ((), h') \<Longrightarrow> wdb (h_world h') = ex_session \<and>
     (\<exists>c \<in> set (rs_Cookies (h_resp h')). ck_Name c = sessionCookieName \<and> ck_Value c = ex_token)"
  by (auto simp: login_def with_form_def ParseForm_def run_simps run_bind ex_login_request_def ex_server_def ex_login
      rememberMeFromForm_def setSessionCookie_def safeRedirectPath_def ex_session_def sessionCookieMaxAge_def Let_def put_cookie_def new_response_def
      split: if_splits)

theorem login_cookie_authenticates_witness:
  "\<exists>row g'. row \<in> set (users ex_db) \<and> usr_Email row = normalizeEmail ex_libs ''ada@example.com'' \<and>
     password_matches ex_libs ex_service (usr_PasswordHash row) ''correct horse'' \<and>
     run_state (loadSession ex_server (account ex_server)) ex_cookie_request = run_state (account ex_server) g' \<and>
     wdb (h_world g') = wdb (h_world ex_cookie_request) \<and>
     h_req g' = (h_req ex_cookie_request)\<lparr>rq_User := Some (public_user row)\<rparr> \<and>
     h_resp g' = h_resp ex_cookie_request"
proof -
  obtain h' where run: "run_state (login ex_server) (ex_http ex_login_request) = ((), h')"
    by (metis old.unit.exhaust surj_pair)
  from ex_login_run [OF run] obtain c where c: "wdb (h_world h') = ex_session"
      "c \<in> set (rs_Cookies (h_resp h'))" "ck_Name c = sessionCookieName" "ck_Value c = ex_token"
    by blast
  have "presents c ex_cookie_request"
    by (simp add: presents_def ex_cookie_request_def cookie_of_def cookie_defs c(4) ex_session_def add_session_def
        ex_now_def current_timestamp_def second_def hour_def ex_service_def)
  moreover have "no_session_cookie (ex_http ex_login_request)" by (simp add: no_session_cookie_def new_response_def)
  moreover have "wdb (h_world ex_cookie_request) = wdb (h_world h')" by (simp add: ex_cookie_request_def c(1))
  ultimately show ?thesis
    using login_cookie_authenticates [OF _ _ run c(2,3), of ex_cookie_request "account ex_server"]
    by (simp add: ex_login_request_def ex_server_def)
qed

section \<open>The pending login\<close>

lemma url_alphabet_chars:
  "CHR ''.'' \<notin> set (b64_encode url_alphabet s)"
proof -
  have "CHR ''.'' \<notin> set url_alphabet" by (simp add: url_alphabet_def)
  with b64_encode_alphabet [of url_alphabet s] show ?thesis by auto
qed

lemma verify_signed [simp]: "verifyValue key (signValue key payload) = Some payload"
  by (simp add: verifyValue_def signValue_def Cut_append url_alphabet_chars b64_roundtrip)

lemma split_payload [simp]:
  "Split (CHR '':'') (pending_payload uid b t) = [FormatInt uid, FormatBool b, FormatInt (unix_seconds t)]"
proof -
  have "CHR '':'' \<notin> set (FormatInt i)" for i by (rule FormatInt_no_char) simp_all
  then show ?thesis
    by (simp add: pending_payload_def Split_append Split_no_sep FormatBool_def)
qed

text \<open>
  The cookie of a login that waits for its second factor.  Setting it adds one cookie; read back,
  the cookie gives the same user and the same choice to be remembered for the five minutes after the
  second in which it was set, and nothing afterwards, whatever the browser does with its expiry.
\<close>

theorem pending_cookie_lifetime:
  assumes "rs_Status (h_resp h) = None" and "0 < uid" and "uid < 2 ^ 63"
    and "\<bar>unix_seconds (wclock (h_world h) 0)\<bar> < 2 ^ 63"
  shows "\<exists>c. rs_Cookies (h_resp (snd (run_state (setTOTPPendingCookie s uid rememberMe) h))) = rs_Cookies (h_resp h) @ [c] \<and>
    ck_Name c = totpPendingCookieName \<and>
    (\<forall>now. pending_login s (ck_Value c) now =
       (if now \<le> unix_seconds (wclock (h_world h) 0) * second + totpPendingCookieTTL
        then Some \<lparr>pl_UserID = uid, pl_RememberMe = rememberMe\<rparr> else None))"
  using assms
  by (auto simp: setTOTPPendingCookie_def run_bind run_simps put_cookie_def pending_login_def ParseInt_FormatInt)

theorem pending_cookie_lifetime_witness:
  "\<exists>c. rs_Cookies (h_resp (snd (run_state (setTOTPPendingCookie ex_server 1 True) (ex_http ex_login_request)))) = [c] \<and>
    ck_Name c = totpPendingCookieName \<and>
    pending_login ex_server (ck_Value c) ex_now = Some \<lparr>pl_UserID = 1, pl_RememberMe = True\<rparr> \<and>
    pending_login ex_server (ck_Value c) (ex_now + hour) = None"
  using pending_cookie_lifetime [of "ex_http ex_login_request" 1 ex_server True]
  by (force simp: new_response_def ex_now_def unix_seconds_def totpPendingCookieTTL_def second_def minute_def hour_def)

text \<open>
  A pending login as it stands in its cookie, read field by field: the payload and a MAC of it under the
  key for pending logins, both in base64 with a full stop between them; in the payload a positive user
  number, a flag and an instant in seconds, separated by colons.
\<close>

definition pending_token :: "Server \<Rightarrow> string \<Rightarrow> int \<Rightarrow> int \<Rightarrow> bool" where
  "pending_token s tok uid issued \<longleftrightarrow> (\<exists>encoded sig payload f0 f1 f2. tok = encoded @ ''.'' @ sig \<and>
     b64_decode url_alphabet encoded = Some payload \<and>
     b64_decode url_alphabet sig = Some (hmac_sha256 (totpPendingKey s) payload) \<and>
     Split (CHR '':'') payload = [f0, f1, f2] \<and> ParseInt f0 = Some uid \<and> 0 < uid \<and> ParseInt f2 = Some issued)"

lemma Cut_found: "Cut c s = (a, b, True) \<Longrightarrow> s = a @ c # b"
  by (induction s arbitrary: a b) (auto split: if_splits prod.splits)

lemma verifyValue_signed:
  assumes "verifyValue key tok = Some payload"
  shows "\<exists>encoded sig. tok = encoded @ ''.'' @ sig \<and> b64_decode url_alphabet encoded = Some payload \<and>
    b64_decode url_alphabet sig = Some (hmac_sha256 key payload)"
  using assms by (auto simp: verifyValue_def split: prod.splits option.splits if_splits dest!: Cut_found)

lemma pending_login_token:
  assumes "pending_login s tok now = Some p"
  shows "\<exists>issued. pending_token s tok (pl_UserID p) issued \<and> now \<le> issued * second + 5 * 60 * second"
proof -
  from assms obtain payload where v: "verifyValue (totpPendingKey s) tok = Some payload"
    by (auto simp: pending_login_def split: option.splits)
  with assms obtain f0 f1 f2 issued where f: "Split (CHR '':'') payload = [f0, f1, f2]"
      "ParseInt f0 = Some (pl_UserID p)" "0 < pl_UserID p" "ParseInt f2 = Some issued"
      "\<not> totpPendingCookieTTL < now - issued * second"
    by (auto simp: pending_login_def split: option.splits list.splits if_splits)
  from verifyValue_signed [OF v] obtain encoded sig where e: "tok = encoded @ ''.'' @ sig"
      "b64_decode url_alphabet encoded = Some payload"
      "b64_decode url_alphabet sig = Some (hmac_sha256 (totpPendingKey s) payload)"
    by blast
  have "pending_token s tok (pl_UserID p) issued"
    unfolding pending_token_def
    by (intro exI [of _ encoded] exI [of _ sig] exI [of _ payload] exI [of _ f0] exI [of _ f1] exI [of _ f2] conjI e f(1-4))
  moreover have "now \<le> issued * second + 5 * 60 * second"
    using f(5) by (simp add: totpPendingCookieTTL_def minute_def)
  ultimately show ?thesis by blast
qed

text \<open>What a session cookie set by the challenge says about it.\<close>

definition cookie_of_challenge :: "Server \<Rightarrow> http \<Rightarrow> Cookie \<Rightarrow> db \<Rightarrow> bool" where
  "cookie_of_challenge s h c d' \<longleftrightarrow> (\<exists>tok uid issued secr d1 sess.
     cookie_of totpPendingCookieName (h_req h) = Some tok \<and>
     pending_token s tok uid issued \<and> wclock (h_world h) 0 \<le> issued * second + 5 * 60 * second \<and>
     enabled_secret (sv_libs s) (sv_auth s) uid secr (wdb (h_world h)) \<and>
     factor_spent (sv_libs s) (sv_auth s) secr uid (rq_Form (h_req h) ''code'') (wdb (h_world h)) d1 \<and>
     opened (sv_auth s) uid sess d1 d' \<and> ck_Value c = as_Token sess)"

text \<open>
  C5: the second step of a login over the web.  A session cookie comes out of the challenge only if the
  request carried a pending-login cookie whose payload is signed with the server's key for pending logins
  and, read field by field, names a user and an instant at most five minutes before the clock; and only
  if the code in the form spent a factor of that very user: a code of a time step newer than every
  accepted one or an unused backup code.  The session that the cookie carries is one just opened for
  that user.
\<close>

theorem challenge_session_cookie:
  assumes "no_session_cookie h" and "run_state (twoFactorChallenge s) h = ((), h')"
    and "c \<in> set (rs_Cookies (h_resp h'))" and "ck_Name c = sessionCookieName"
  shows "cookie_of_challenge s h c (wdb (h_world h'))"
proof -
  note page = hwp_mono [OF adds_no_session [OF adds_pages(1) [of "[flashCookieName]"]]]
    and status = hwp_mono [OF adds_no_session [OF adds_pages(2) [of "[flashCookieName]"]]]
    and broken = hwp_mono [OF adds_no_session [OF adds_pages(3) [of "[flashCookieName]"]]]
  have verified: "cookie_of_challenge s h c (wdb w)"
    if "cookie_of totpPendingCookieName (h_req h) = Some tok" "pending_login s tok (wclock (h_world h) 0) = Some p"
      "run_state (VerifyTOTPLogin (sv_libs s) (sv_auth s) (pl_UserID p) (rq_Form (h_req h) ''code'')) v = (Inr sess, w)"
      "wdb v = wdb (h_world h)" "ck_Value c = as_Token sess" for tok p v sess w c
    using wpD [OF VerifyTOTPLogin_wp that(3)] that(1,4,5) pending_login_token [OF that(2)]
    unfolding cookie_of_challenge_def by simp blast
  have "hwp (twoFactorChallenge s) (\<lambda>_ h'. \<forall>c \<in> set (rs_Cookies (h_resp h')). ck_Name c = sessionCookieName \<longrightarrow>
      cookie_of_challenge s h c (wdb (h_world h'))) h"
    unfolding twoFactorChallenge_def totpPendingLoginFromCookie_def with_form_def ParseForm_def
      clearTOTPPendingCookie_def setSessionCookie_def sessionCookieMaxAge_def
    by (intro hwp_rules page status broken)
      (use assms(1) verified in \<open>auto simp: no_session_cookie_def list_all_iff put_cookie_def cookie_defs run_simps deleted_cookie_def\<close>)
  from hwpD [OF this assms(2)] assms(3,4) show ?thesis by blast
qed

definition ex_challenge :: http where
  "ex_challenge = (ex_http ((ex_request ''POST'' ''/account/two-factor/challenge'')
     \<lparr>rq_Form := (\<lambda>k. if k = ''code'' then ''123456'' else []),
      rq_Cookies := [(totpPendingCookieName, signValue (totpPendingKey ex_server) (pending_payload 1 False ex_now))]\<rparr>))
     \<lparr>h_world := ex_world ex_totp_db\<rparr>"

lemma ex_totp_record:
  "run_state (store_GetEnabledTOTPByUserID ex_libs (svc_totpSecretKey ex_service) 1) (ex_world ex_totp_db) =
     (Inr (ex_record\<lparr>tr_Secret := []\<rparr>), ex_world ex_totp_db)"
proof -
  have "decrypt ex_libs k (b64_encode std_alphabet (replicate 12 (CHR 0x01))) = Inr []" for k
    using decrypt_sealed [OF ex_libs_aead, of "replicate 12 (CHR 0x01)" k "[]"] by (simp add: ex_libs_def gcm_NonceSize_def)
  then show ?thesis
    by (simp add: store_GetEnabledTOTPByUserID_def Q_GetEnabledTOTPByUserID_def ex_eval ex_totp_db_def decryptRecord_def
        ex_record_def totpRecordFromDB_def)
qed

lemma ex_verify_empty:
  "run_state (verifyTOTPCode ex_libs (ex_record\<lparr>tr_Secret := []\<rparr>) ''123456'') (ex_world ex_totp_db) =
     (Inr True, ex_world (claim_db 1 32 ex_totp_db))"
  by (simp add: verifyTOTPCode_def VerifyWithCounter_def Let_def totp_digits_def ex_eval ex_now_def
      time_Unix_def go_quot_def second_def totp_period_def ex_libs_def ex_record_def totpRecordFromDB_def
      store_ClaimTOTPCounter_def Q_ClaimTOTPCounter_def claim_db_def ex_totp_db_def affected_def
      counter_free_def)

lemma ex_session_run:
  "\<exists>w. run_state (createSessionForUser ex_service 1) (ex_world (claim_db 1 32 ex_totp_db)) =
     (Inr \<lparr>as_Token = ex_token, as_ExpiresAt = ex_now + svc_sessionDuration ex_service\<rparr>, w)"
  by (simp add: createSessionForUser_def store_CreateSession_def generateToken_def ex_eval ex_token_def ex_service_def
      Q_CreateSession_def user_exists_def claim_db_def ex_totp_db_def)

lemma ex_server_parts:
  "sv_libs ex_server = ex_libs" "sv_auth ex_server = ex_service"
  by (simp_all add: ex_server_def)

lemma ex_challenge_run:
  "\<exists>c \<in> set (rs_Cookies (h_resp (snd (run_state (twoFactorChallenge ex_server) ex_challenge)))). ck_Name c = sessionCookieName"
proof -
  obtain w where "run_state (VerifyTOTPLogin ex_libs ex_service 1 ''123456'') (ex_world ex_totp_db) =
      (Inr \<lparr>as_Token = ex_token, as_ExpiresAt = ex_now + svc_sessionDuration ex_service\<rparr>, w)"
    using ex_session_run
    by (auto simp: VerifyTOTPLogin_def on_no_rows_def verifyFactor_def run_bind run_try_op ex_totp_record ex_verify_empty)
  moreover have "pending_login ex_server (signValue (totpPendingKey ex_server) (pending_payload 1 False ex_now)) ex_now =
      Some \<lparr>pl_UserID = 1, pl_RememberMe = False\<rparr>"
    by (simp add: pending_login_def ParseInt_FormatInt ex_now_def unix_seconds_def second_def totpPendingCookieTTL_def minute_def)
  ultimately show ?thesis
    by (simp add: twoFactorChallenge_def totpPendingLoginFromCookie_def ex_challenge_def cookie_of_def run_bind run_web
        ex_run with_form_def ParseForm_def Let_def ex_server_parts clearTOTPPendingCookie_def setSessionCookie_def put_cookie_def
        new_response_def)
qed

theorem challenge_session_cookie_witness:
  "\<exists>c. c \<in> set (rs_Cookies (h_resp (snd (run_state (twoFactorChallenge ex_server) ex_challenge)))) \<and>
     cookie_of_challenge ex_server ex_challenge c
       (wdb (h_world (snd (run_state (twoFactorChallenge ex_server) ex_challenge))))"
proof -
  obtain h' where run: "run_state (twoFactorChallenge ex_server) ex_challenge = ((), h')"
    by (metis old.unit.exhaust surj_pair)
  moreover have "no_session_cookie ex_challenge" by (simp add: ex_challenge_def no_session_cookie_def new_response_def)
  ultimately show ?thesis
    using ex_challenge_run challenge_session_cookie [OF _ run] by auto
qed

section \<open>The client address\<close>

text \<open>The host that opened the connection.\<close>

definition peer_host :: "Server \<Rightarrow> Request \<Rightarrow> string" where
  "peer_host s r =
     (let addr = TrimSpace (rq_RemoteAddr r);
          host = (case wl_SplitHostPort (sv_web s) addr of None \<Rightarrow> addr | Some h \<Rightarrow> h)
      in if host = [] then addr else host)"

definition trusted_entry :: "Server \<Rightarrow> string \<Rightarrow> bool" where
  "trusted_entry s e = isTrustedProxy s (TrimSpace e)"

text \<open>The entries of the forwarding header, left to right, and the address an entry stands for.\<close>

definition forwarded_entries :: "Request \<Rightarrow> string list" where
  "forwarded_entries r =
     (let header = TrimSpace (rq_Header r ''X-Forwarded-For'') in if header = [] then [] else Split (CHR '','') header)"

definition entry_address :: "Server \<Rightarrow> string \<Rightarrow> string option" where
  "entry_address s e = (case wl_ParseIP (sv_web s) (TrimSpace e) of None \<Rightarrow> None
     | Some ip \<Rightarrow> if wl_IPString (sv_web s) ip = [] then None else Some (wl_IPString (sv_web s) ip))"

text \<open>
  The hop that counts: the last entry that is not a trusted proxy or, when they all are, the first entry.
\<close>

definition counting_hop :: "Server \<Rightarrow> string list \<Rightarrow> string option" where
  "counting_hop s hops =
     (if hops = [] then None
      else if list_all (trusted_entry s) hops then Some (hd hops)
      else Some (last (filter (\<lambda>e. \<not> trusted_entry s e) hops)))"

definition client_address :: "Server \<Rightarrow> Request \<Rightarrow> string" where
  "client_address s r =
     (if TrimSpace (rq_RemoteAddr r) = [] then ''unknown''
      else if \<not> isTrustedProxy s (peer_host s r) then peer_host s r
      else case Option.bind (counting_hop s (forwarded_entries r)) (entry_address s) of
          None \<Rightarrow> peer_host s r | Some addr \<Rightarrow> addr)"

lemma counting_hop_snoc:
  "counting_hop s (es @ [e]) = (if trusted_entry s e \<and> es \<noteq> [] then counting_hop s es else Some e)"
  by (auto simp: counting_hop_def)

lemma walk_hops_counting:
  "walk_hops s (rev es) cand = (case counting_hop s es of None \<Rightarrow> cand
     | Some e \<Rightarrow> (case entry_address s e of None \<Rightarrow> [] | Some addr \<Rightarrow> addr))"
proof (induction es arbitrary: cand rule: rev_induct)
  case (snoc e es)
  show ?case
  proof (cases "trusted_entry s e \<and> es \<noteq> []")
    case True
    then obtain ip where "wl_ParseIP (sv_web s) (TrimSpace e) = Some ip" "isTrustedProxyIP s ip"
      by (auto simp: trusted_entry_def isTrustedProxy_def split: option.splits)
    moreover obtain e' where "counting_hop s es = Some e'"
      using True by (metis counting_hop_def)
    ultimately show ?thesis using True snoc by (simp add: counting_hop_snoc)
  next
    case False
    then show ?thesis
      by (auto simp: counting_hop_snoc trusted_entry_def isTrustedProxy_def entry_address_def split: option.splits)
  qed
qed (simp add: counting_hop_def)

lemma client_from_header:
  "clientIPFromForwardedFor s (rq_Header r ''X-Forwarded-For'') =
     (case Option.bind (counting_hop s (forwarded_entries r)) (entry_address s) of None \<Rightarrow> [] | Some addr \<Rightarrow> addr)"
  by (auto simp: clientIPFromForwardedFor_def forwarded_entries_def Let_def walk_hops_counting counting_hop_def
      split: option.splits)

lemma requestIP_client: "requestIP s r = client_address s r"
proof -
  have "isTrustedProxy s h \<Longrightarrow> sv_trustedProxies s \<noteq> []" for h
    by (auto simp: isTrustedProxy_def isTrustedProxyIP_def split: option.splits)
  moreover have "entry_address s e \<noteq> Some []" for e by (simp add: entry_address_def split: option.splits)
  ultimately show ?thesis
    by (auto simp: requestIP_def client_address_def client_from_header peer_host_def Let_def bind_eq_Some_conv split: option.splits)
qed

lemma counting_hop_suffix: "\<not> trusted_entry s hop \<Longrightarrow> counting_hop s (claimed @ hop # proxies) = counting_hop s (hop # proxies)"
  by (simp add: counting_hop_def)

text \<open>
  C31: the client address cannot be chosen through a header.  For every request, whatever its headers,
  the address used for rate limits is \<open>unknown\<close> without a peer address; the connecting host, header or no
  header, unless that host is a trusted proxy; and behind a trusted proxy the last entry of the forwarding
  header that is not itself a trusted proxy (the first entry when all are), or again the connecting host
  when that entry is missing or no address.  Hence what a client writes in front of the entry that the
  proxies added for it never matters: two requests over the same connection whose headers agree from an
  untrusted entry on have the same address.
\<close>

theorem client_address_not_spoofable:
  "requestIP s r =
     (if TrimSpace (rq_RemoteAddr r) = [] then ''unknown''
      else if \<not> isTrustedProxy s (peer_host s r) then peer_host s r
      else case Option.bind (counting_hop s (forwarded_entries r)) (entry_address s) of
          None \<Rightarrow> peer_host s r | Some addr \<Rightarrow> addr) \<and>
   (rq_RemoteAddr r' = rq_RemoteAddr r \<longrightarrow> \<not> trusted_entry s hop \<longrightarrow>
      forwarded_entries r = claimed @ hop # proxies \<longrightarrow> forwarded_entries r' = claimed' @ hop # proxies \<longrightarrow>
      requestIP s r' = requestIP s r)"
proof
  show "requestIP s r =
     (if TrimSpace (rq_RemoteAddr r) = [] then ''unknown''
      else if \<not> isTrustedProxy s (peer_host s r) then peer_host s r
      else case Option.bind (counting_hop s (forwarded_entries r)) (entry_address s) of
          None \<Rightarrow> peer_host s r | Some addr \<Rightarrow> addr)"
    unfolding requestIP_client client_address_def ..
  show "rq_RemoteAddr r' = rq_RemoteAddr r \<longrightarrow> \<not> trusted_entry s hop \<longrightarrow>
      forwarded_entries r = claimed @ hop # proxies \<longrightarrow> forwarded_entries r' = claimed' @ hop # proxies \<longrightarrow>
      requestIP s r' = requestIP s r"
  proof (intro impI)
    assume same: "rq_RemoteAddr r' = rq_RemoteAddr r"
    then have "peer_host s r' = peer_host s r" by (simp add: peer_host_def)
    with same show "\<not> trusted_entry s hop \<Longrightarrow> forwarded_entries r = claimed @ hop # proxies \<Longrightarrow>
        forwarded_entries r' = claimed' @ hop # proxies \<Longrightarrow> requestIP s r' = requestIP s r"
      by (simp add: requestIP_client client_address_def counting_hop_suffix cong: option.case_cong)
  qed
qed

text \<open>A client behind the proxy at 10.0.0.1 writes an address, or nothing, before the proxy adds the real one.\<close>

definition ex_forwarded :: "string \<Rightarrow> Request" where
  "ex_forwarded header = (ex_request ''POST'' ''/login'')\<lparr>rq_RemoteAddr := ''10.0.0.1:4000'',
     rq_Header := (\<lambda>k. if k = ''X-Forwarded-For'' then header else [])\<rparr>"

theorem client_address_not_spoofable_witness:
  "requestIP ex_server (ex_forwarded ''6.6.6.6,192.0.2.9,10.0.0.1'') = ''192.0.2.9'' \<and>
   requestIP ex_server (ex_forwarded ''192.0.2.9,10.0.0.1'') = requestIP ex_server (ex_forwarded ''6.6.6.6,192.0.2.9,10.0.0.1'')"
proof -
  have trim: "TrimSpace ''6.6.6.6,192.0.2.9,10.0.0.1'' = ''6.6.6.6,192.0.2.9,10.0.0.1''"
    "TrimSpace ''192.0.2.9,10.0.0.1'' = ''192.0.2.9,10.0.0.1''"
    "TrimSpace ''192.0.2.9'' = ''192.0.2.9''" "TrimSpace ''10.0.0.1'' = ''10.0.0.1''" "TrimSpace ''6.6.6.6'' = ''6.6.6.6''"
    "TrimSpace ''10.0.0.1:4000'' = ''10.0.0.1:4000''"
    by (rule TrimSpace_visible, simp add: visible_def)+
  note defs = ex_forwarded_def trim trusted_entry_def isTrustedProxy_def isTrustedProxyIP_def ex_server_def ex_web_def
    peer_host_def forwarded_entries_def counting_hop_def entry_address_def
  have same: "rq_RemoteAddr (ex_forwarded h) = rq_RemoteAddr (ex_forwarded h')" for h h' by (simp add: ex_forwarded_def)
  show ?thesis
    using client_address_not_spoofable [of ex_server "ex_forwarded ''6.6.6.6,192.0.2.9,10.0.0.1''"
        "ex_forwarded ''192.0.2.9,10.0.0.1''" "''192.0.2.9''" "[''6.6.6.6'']" "[''10.0.0.1'']" "[]"] same
    by (simp add: defs)
qed

end
