(* ===== verification/Config.thy ===== *)
theory Config
  imports Server_Core
begin

text \<open>
  The configuration (\<^verbatim>\<open>internal/config/config.go\<close>): the \<^verbatim>\<open>.env\<close> file, the readers of environment
  variables with their defaults and checks, and the configuration they make up.  The environment is a
  map; \<^verbatim>\<open>time.ParseDuration\<close>, \<^verbatim>\<open>net/url\<close>, \<^verbatim>\<open>net\<close> and \<^verbatim>\<open>net/mail\<close> are parameters.
\<close>

section \<open>Results in sequence\<close>

text \<open>\<^verbatim>\<open>x, err := m; if err != nil { return Config{}, err }\<close>, then the rest.\<close>

definition and_then :: "'a result \<Rightarrow> ('a \<Rightarrow> 'b result) \<Rightarrow> 'b result" where
  "and_then m f = (case m of Inl e \<Rightarrow> Inl e | Inr x \<Rightarrow> f x)"

lemma and_then_simps [simp]:
  "and_then (Inl e) f = Inl e" "and_then (Inr x) f = f x"
  by (simp_all add: and_then_def)

lemma and_then_eq_Inr: "and_then m f = Inr y \<longleftrightarrow> (\<exists>x. m = Inr x \<and> f x = Inr y)"
  by (cases m) simp_all

definition require :: "bool \<Rightarrow> string \<Rightarrow> unit result" where
  "require b msg = (if b then Inr () else Inl (ErrMsg msg))"

lemma require_eq_Inr [simp]: "require b msg = Inr u \<longleftrightarrow> b"
  by (simp add: require_def)

section \<open>The environment\<close>

type_synonym env = "string \<rightharpoonup> string"

definition Getenv :: "env \<Rightarrow> string \<Rightarrow> string" where
  "Getenv env key = (case env key of None \<Rightarrow> [] | Some v \<Rightarrow> v)"

text \<open>\<^verbatim>\<open>os.Setenv\<close> refuses an empty key, \<^verbatim>\<open>=\<close> or a zero byte in the key and a zero byte in the value.\<close>

definition Setenv :: "string \<Rightarrow> string \<Rightarrow> env \<Rightarrow> env result" where
  "Setenv key v env =
     (if key = [] \<or> CHR ''='' \<in> set key \<or> CHR 0x00 \<in> set key \<or> CHR 0x00 \<in> set v
      then Inl (ErrMsg ''invalid argument'') else Inr (env(key \<mapsto> v)))"

section \<open>The dotenv file\<close>

definition unquoteDotEnvValue :: "string \<Rightarrow> string result" where
  "unquoteDotEnvValue v =
     (if length v = 0 then Inr []
      else if hd v \<noteq> CHR 0x22 \<and> hd v \<noteq> CHR 0x27 then Inr v
      else if length v < 2 \<or> last v \<noteq> hd v then Inl (ErrMsg (''unterminated quoted value '' @ v))
      else Inr (butlast (tl v)))"

text \<open>One line: \<open>None\<close> for a blank line or a comment, otherwise the key and the value.\<close>

definition dotenv_line :: "string \<Rightarrow> (string \<times> string) option result" where
  "dotenv_line line =
     (let line = TrimSpace line
      in if line = [] \<or> prefix ''#'' line then Inr None
         else case Cut (CHR ''='') (TrimPrefix line ''export '') of (key, v, ok) \<Rightarrow>
           if \<not> ok then Inl (ErrMsg ''expected KEY=value'')
           else let key = TrimSpace key
                in if key = [] \<or> CHR '' '' \<in> set key \<or> CHR 0x09 \<in> set key
                   then Inl (ErrMsg (''invalid key '' @ key))
                   else and_then (unquoteDotEnvValue (TrimSpace v)) (\<lambda>v. Inr (Some (key, v))))"

text \<open>
  The loop over the lines; the map under construction is an association list with one entry per key.
  The line number the code puts in its messages is left out.
\<close>

fun dotenv_lines :: "string list \<Rightarrow> (string \<times> string) list \<Rightarrow> (string \<times> string) list result" where
  "dotenv_lines [] values = Inr values"
| "dotenv_lines (line # rest) values =
     (case dotenv_line line of
       Inl e \<Rightarrow> Inl e
     | Inr None \<Rightarrow> dotenv_lines rest values
     | Inr (Some (key, v)) \<Rightarrow> dotenv_lines rest (AList.update key v values))"

definition parseDotEnv :: "string \<Rightarrow> (string \<times> string) list result" where
  "parseDotEnv content = dotenv_lines (Split (CHR 0x0A) content) []"

text \<open>
  \<^verbatim>\<open>LoadDotEnv\<close>: a variable that is set already is kept.  Go visits the map in any order; the model
  visits it in the order of the file, which matters only when \<^verbatim>\<open>Setenv\<close> fails half way.
\<close>

datatype file_read = NotExist | ReadError | Content string

fun set_missing :: "(string \<times> string) list \<Rightarrow> env \<Rightarrow> unit result \<times> env" where
  "set_missing [] env = (Inr (), env)"
| "set_missing ((key, v) # rest) env =
     (if env key \<noteq> None then set_missing rest env
      else case Setenv key v env of
          Inl e \<Rightarrow> (Inl (Errorf (''set '' @ key) e), env)
        | Inr env' \<Rightarrow> set_missing rest env')"

definition LoadDotEnv :: "(string \<Rightarrow> file_read) \<Rightarrow> string \<Rightarrow> env \<Rightarrow> unit result \<times> env" where
  "LoadDotEnv read_file path env =
     (case read_file path of
       NotExist \<Rightarrow> (Inr (), env)
     | ReadError \<Rightarrow> (Inl (Errorf (''read '' @ path) (ErrMsg ''i/o'')), env)
     | Content data \<Rightarrow>
         (case parseDotEnv data of
           Inl e \<Rightarrow> (Inl (Errorf (''load '' @ path) e), env)
         | Inr values \<Rightarrow>
             (case set_missing values env of (r, env') \<Rightarrow> (wrap_err (''load '' @ path) r, env'))))"

section \<open>Functions of other packages\<close>

record config_url =
  cu_Scheme :: string
  cu_Host :: string
  cu_Path :: string
  cu_RawQuery :: string
  cu_Fragment :: string

record config_libs =
  cf_ParseDuration :: "string \<Rightarrow> time option"
  cf_ParseURL :: "string \<Rightarrow> config_url option"
  cf_URLString :: "config_url \<Rightarrow> string"
  cf_Hostname :: "config_url \<Rightarrow> string"
  cf_SplitHostPort :: "string \<Rightarrow> (string \<times> string) option"
  cf_JoinHostPort :: "string \<Rightarrow> string \<Rightarrow> string"

section \<open>Readers\<close>

definition ProcessAll :: string where "ProcessAll = ''all''"
definition ProcessWeb :: string where "ProcessWeb = ''web''"
definition ProcessWorker :: string where "ProcessWorker = ''worker''"
definition EmailProviderLog :: string where "EmailProviderLog = ''log''"
definition EmailProviderSMTP :: string where "EmailProviderSMTP = ''smtp''"

lemmas mode_defs = ProcessAll_def ProcessWeb_def ProcessWorker_def EmailProviderLog_def EmailProviderSMTP_def

definition IsProcess :: "string \<Rightarrow> bool" where
  "IsProcess process \<longleftrightarrow> process = ProcessAll \<or> process = ProcessWeb \<or> process = ProcessWorker"

definition envOrDefault :: "env \<Rightarrow> string \<Rightarrow> string \<Rightarrow> string" where
  "envOrDefault env key fallback = (let v = Getenv env key in if v \<noteq> [] then v else fallback)"

definition envBoolOrDefault :: "env \<Rightarrow> string \<Rightarrow> bool \<Rightarrow> bool result" where
  "envBoolOrDefault env key fallback =
     (let v = Getenv env key
      in if v = [] then Inr fallback
         else case ParseBool v of
             None \<Rightarrow> Inl (ErrMsg (key @ '' must be a boolean''))
           | Some b \<Rightarrow> Inr b)"

definition envBool :: "env \<Rightarrow> string \<Rightarrow> bool result" where
  "envBool env key =
     (let v = Getenv env key
      in if v = [] then Inr False
         else case ParseBool v of
             None \<Rightarrow> Inl (ErrMsg (key @ '' must be a boolean''))
           | Some b \<Rightarrow> Inr b)"

text \<open>\<^verbatim>\<open>strconv.Atoi\<close> is \<^verbatim>\<open>ParseInt\<close> in base 10 where \<^verbatim>\<open>int\<close> has 64 bits.\<close>

definition envInt :: "env \<Rightarrow> string \<Rightarrow> int result" where
  "envInt env key =
     (let raw = Getenv env key
      in if raw = [] then Inl (ErrMsg (key @ '' is required''))
         else case ParseInt raw of
             None \<Rightarrow> Inl (ErrMsg (key @ '' must be an integer''))
           | Some i \<Rightarrow> Inr i)"

definition envIntOptionalPositive :: "env \<Rightarrow> string \<Rightarrow> int result" where
  "envIntOptionalPositive env key =
     (let raw = Getenv env key
      in if raw = [] then Inr 0
         else case ParseInt raw of
             None \<Rightarrow> Inl (ErrMsg (key @ '' must be an integer''))
           | Some i \<Rightarrow> if i \<le> 0 then Inl (ErrMsg (key @ '' must be greater than zero'')) else Inr i)"

definition envDurationOptionalPositive :: "config_libs \<Rightarrow> env \<Rightarrow> string \<Rightarrow> time result" where
  "envDurationOptionalPositive C env key =
     (let raw = Getenv env key
      in if raw = [] then Inr 0
         else case cf_ParseDuration C raw of
             None \<Rightarrow> Inl (ErrMsg (key @ '' must be a duration''))
           | Some d \<Rightarrow> if d \<le> 0 then Inl (ErrMsg (key @ '' must be greater than zero'')) else Inr d)"

definition envDurationOrDefault :: "config_libs \<Rightarrow> env \<Rightarrow> string \<Rightarrow> time \<Rightarrow> time result" where
  "envDurationOrDefault C env key fallback =
     (let raw = TrimSpace (Getenv env key)
      in if raw = [] then Inr fallback
         else case cf_ParseDuration C raw of
             None \<Rightarrow> Inl (ErrMsg (key @ '' must be a positive duration (e.g. 1h, 30m)''))
           | Some d \<Rightarrow> if d \<le> 0 then Inl (ErrMsg (key @ '' must be greater than zero'')) else Inr d)"

definition TrimRight :: "string \<Rightarrow> char \<Rightarrow> string" where
  "TrimRight s c = rev (dropWhile (\<lambda>x. x = c) (rev s))"

definition envURL :: "config_libs \<Rightarrow> env \<Rightarrow> string \<Rightarrow> string \<Rightarrow> string result" where
  "envURL C env key fallback =
     (case cf_ParseURL C (envOrDefault env key fallback) of
       None \<Rightarrow> Inl (ErrMsg (key @ '' must be a URL''))
     | Some parsed \<Rightarrow>
         if cu_Scheme parsed \<noteq> ''http'' \<and> cu_Scheme parsed \<noteq> ''https''
         then Inl (ErrMsg (key @ '' must use http or https''))
         else if cu_Host parsed = [] then Inl (ErrMsg (key @ '' must include a host''))
         else if cu_RawQuery parsed \<noteq> [] \<or> cu_Fragment parsed \<noteq> []
         then Inl (ErrMsg (key @ '' must not include query or fragment''))
         else Inr (TrimRight (cf_URLString C parsed) (CHR ''/'')))"

definition envEmailAddress :: "libs \<Rightarrow> env \<Rightarrow> string \<Rightarrow> string \<Rightarrow> string result" where
  "envEmailAddress L env key fallback =
     (case lib_ParseAddress L (envOrDefault env key fallback) of
       None \<Rightarrow> Inl (ErrMsg (key @ '' must be an email address''))
     | Some address \<Rightarrow> Inr (adr_String address))"

definition envEmailProvider :: "libs \<Rightarrow> env \<Rightarrow> string \<Rightarrow> string \<Rightarrow> string result" where
  "envEmailProvider L env key fallback =
     (let provider = ToLower L (TrimSpace (envOrDefault env key fallback))
      in if provider \<noteq> EmailProviderLog \<and> provider \<noteq> EmailProviderSMTP
         then Inl (ErrMsg (key @ '' must be log or smtp''))
         else Inr provider)"

definition envProcess :: "libs \<Rightarrow> env \<Rightarrow> string \<Rightarrow> string \<Rightarrow> string result" where
  "envProcess L env key fallback =
     (let process = ToLower L (TrimSpace (envOrDefault env key fallback))
      in if \<not> IsProcess process then Inl (ErrMsg (key @ '' must be all, web or worker'')) else Inr process)"

definition envLogFormat :: "libs \<Rightarrow> env \<Rightarrow> string \<Rightarrow> string \<Rightarrow> string result" where
  "envLogFormat L env key fallback =
     (let format = ToLower L (TrimSpace (envOrDefault env key fallback))
      in if format = ''text'' \<or> format = ''json'' then Inr format
         else Inl (ErrMsg (key @ '' must be text or json'')))"

definition processFromOverrideOrEnv :: "libs \<Rightarrow> env \<Rightarrow> string \<Rightarrow> string result" where
  "processFromOverrideOrEnv L env processOverride =
     (let p = ToLower L (TrimSpace processOverride)
      in if p \<noteq> [] then
           if \<not> IsProcess p then Inl (ErrMsg ''process mode must be all, web or worker'') else Inr p
         else envProcess L env ''APP_PROCESS'' ProcessAll)"

section \<open>Rate limits and proxies\<close>

definition rateLimitPolicyFromEnv :: "config_libs \<Rightarrow> env \<Rightarrow> string \<Rightarrow> Policy result" where
  "rateLimitPolicyFromEnv C env pre =
     and_then (envIntOptionalPositive env (pre @ ''_MAX_REQUESTS'')) (\<lambda>maxRequests.
     and_then (envDurationOptionalPositive C env (pre @ ''_WINDOW'')) (\<lambda>window.
     Inr \<lparr>MaxRequests = maxRequests, Window = window\<rparr>))"

fun policies_from_env :: "config_libs \<Rightarrow> env \<Rightarrow> Name list \<Rightarrow> Policies \<Rightarrow> Policies result" where
  "policies_from_env C env [] policies = Inr policies"
| "policies_from_env C env (name # names) policies =
     and_then (rateLimitPolicyFromEnv C env (EnvPrefix name)) (\<lambda>policy.
     policies_from_env C env names (policies(name \<mapsto> policy)))"

definition rateLimitPoliciesFromEnv :: "config_libs \<Rightarrow> env \<Rightarrow> Policies result" where
  "rateLimitPoliciesFromEnv C env = policies_from_env C env Names Map.empty"

fun check_proxies :: "web_libs \<Rightarrow> string list \<Rightarrow> string list result" where
  "check_proxies W [] = Inr []"
| "check_proxies W (raw # rest) =
     (let entry = TrimSpace raw
      in if entry = [] then check_proxies W rest
         else if CHR ''/'' \<in> set entry \<and> wl_ParseCIDR W entry = None
         then Inl (ErrMsg (''contains invalid CIDR '' @ entry))
         else if CHR ''/'' \<notin> set entry \<and> wl_ParseIP W entry = None
         then Inl (ErrMsg (''contains invalid IP address '' @ entry))
         else and_then (check_proxies W rest) (\<lambda>result. Inr (entry # result)))"

definition envTrustedProxies :: "web_libs \<Rightarrow> env \<Rightarrow> string \<Rightarrow> string list result" where
  "envTrustedProxies W env key =
     (let raw = Getenv env key in if raw = [] then Inr [] else check_proxies W (Split (CHR '','') raw))"

section \<open>The configuration\<close>

record config =
  cfg_Addr :: string
  cfg_Process :: string
  cfg_LogFormat :: string
  cfg_DatabasePath :: string
  cfg_CookieSecure :: bool
  cfg_SecretKeyBase :: string
  cfg_TOTPKey :: string
  cfg_EmailChangeNoticeEnabled :: bool
  cfg_PasswordMinLength :: int
  cfg_PasswordPepper :: string
  cfg_AppBaseURL :: string
  cfg_EmailFrom :: string
  cfg_EmailProvider :: string
  cfg_EmailLogBody :: bool
  cfg_SMTPHost :: string
  cfg_SMTPPort :: int
  cfg_SMTPUsername :: string
  cfg_SMTPPassword :: string
  cfg_SMTPTLS :: bool
  cfg_CleanupInterval :: time
  cfg_CleanupTokenRetention :: time
  cfg_CleanupSentEmailRetention :: time
  cfg_CleanupFailedEmailRetention :: time
  cfg_RateLimitPolicies :: Policies
  cfg_TrustedProxies :: "string list"
  cfg_TOTPIssuer :: string
  cfg_PasskeyRPID :: string
  cfg_PasskeyRPDisplayName :: string

text \<open>The part of \<^verbatim>\<open>FromEnvWithProcess\<close> that reads the mail server, for the provider \<^verbatim>\<open>smtp\<close> only.\<close>

definition smtp_from_env :: "env \<Rightarrow> config \<Rightarrow> config result" where
  "smtp_from_env env cfg =
     (let smtpHost = TrimSpace (Getenv env ''SMTP_HOST'') in
     and_then (require (smtpHost \<noteq> []) ''SMTP_HOST is required when EMAIL_PROVIDER=smtp'') (\<lambda>_.
     and_then (envInt env ''SMTP_PORT'') (\<lambda>smtpPort.
     and_then (require (\<not> smtpPort \<le> 0) ''SMTP_PORT must be greater than zero'') (\<lambda>_.
     and_then (envBoolOrDefault env ''SMTP_TLS'' True) (\<lambda>smtpTLS.
     let smtpUsername = TrimSpace (Getenv env ''SMTP_USERNAME''); smtpPassword = Getenv env ''SMTP_PASSWORD'' in
     and_then (require ((smtpUsername = []) = (smtpPassword = []))
       ''SMTP_USERNAME and SMTP_PASSWORD must both be set when using SMTP authentication'') (\<lambda>_.
     Inr (cfg\<lparr>cfg_SMTPHost := smtpHost, cfg_SMTPPort := smtpPort, cfg_SMTPUsername := smtpUsername,
       cfg_SMTPPassword := smtpPassword, cfg_SMTPTLS := smtpTLS\<rparr>)))))))"

text \<open>The rest of it, in the order of the code.\<close>

definition base_from_env :: "libs \<Rightarrow> web_libs \<Rightarrow> config_libs \<Rightarrow> env \<Rightarrow> string \<Rightarrow> config result" where
  "base_from_env L W C env processOverride =
     and_then (processFromOverrideOrEnv L env processOverride) (\<lambda>process.
     and_then (envLogFormat L env ''LOG_FORMAT'' ''text'') (\<lambda>logFormat.
     and_then (envBool env ''APP_COOKIE_SECURE'') (\<lambda>cookieSecure.
     and_then (envIntOptionalPositive env ''AUTH_PASSWORD_MIN_LENGTH'') (\<lambda>passwordMinLength.
     and_then (envBoolOrDefault env ''AUTH_EMAIL_CHANGE_NOTICE_ENABLED'' True) (\<lambda>emailChangeNoticeEnabled.
     and_then (envURL C env ''APP_BASE_URL'' ''http://localhost:8080'') (\<lambda>appBaseURL.
     and_then (envEmailAddress L env ''EMAIL_FROM'' ''Go Spark <hello@example.com>'') (\<lambda>emailFrom.
     and_then (envEmailProvider L env ''EMAIL_PROVIDER'' EmailProviderLog) (\<lambda>emailProvider.
     and_then (envBool env ''EMAIL_LOG_BODY'') (\<lambda>emailLogBody.
     and_then (envDurationOrDefault C env ''JOBS_CLEANUP_INTERVAL'' hour) (\<lambda>cleanupInterval.
     and_then (envDurationOrDefault C env ''JOBS_CLEANUP_TOKEN_RETENTION'' (24 * hour)) (\<lambda>cleanupTokenRetention.
     and_then (envDurationOrDefault C env ''JOBS_CLEANUP_SENT_EMAIL_RETENTION'' (7 * 24 * hour)) (\<lambda>cleanupSentEmailRetention.
     and_then (envDurationOrDefault C env ''JOBS_CLEANUP_FAILED_EMAIL_RETENTION'' (14 * 24 * hour)) (\<lambda>cleanupFailedEmailRetention.
     and_then (rateLimitPoliciesFromEnv C env) (\<lambda>rateLimitPolicies.
     and_then (envTrustedProxies W env ''TRUSTED_PROXY_IPS'') (\<lambda>trustedProxies.
     Inr \<lparr>
       cfg_Addr = envOrDefault env ''APP_ADDR'' '':8080'',
       cfg_Process = process,
       cfg_LogFormat = logFormat,
       cfg_DatabasePath = envOrDefault env ''DATABASE_PATH'' ''./data/app.db'',
       cfg_CookieSecure = cookieSecure,
       cfg_SecretKeyBase = TrimSpace (Getenv env ''SECRET_KEY_BASE''),
       cfg_TOTPKey = TrimSpace (Getenv env ''AUTH_TOTP_KEY''),
       cfg_EmailChangeNoticeEnabled = emailChangeNoticeEnabled,
       cfg_PasswordMinLength = passwordMinLength,
       cfg_PasswordPepper = TrimSpace (Getenv env ''AUTH_PASSWORD_PEPPER''),
       cfg_AppBaseURL = appBaseURL,
       cfg_EmailFrom = emailFrom,
       cfg_EmailProvider = emailProvider,
       cfg_EmailLogBody = emailLogBody,
       cfg_SMTPHost = [], cfg_SMTPPort = 0, cfg_SMTPUsername = [], cfg_SMTPPassword = [], cfg_SMTPTLS = False,
       cfg_CleanupInterval = cleanupInterval,
       cfg_CleanupTokenRetention = cleanupTokenRetention,
       cfg_CleanupSentEmailRetention = cleanupSentEmailRetention,
       cfg_CleanupFailedEmailRetention = cleanupFailedEmailRetention,
       cfg_RateLimitPolicies = rateLimitPolicies,
       cfg_TrustedProxies = trustedProxies,
       cfg_TOTPIssuer = TrimSpace (Getenv env ''AUTH_TOTP_ISSUER''),
       cfg_PasskeyRPID = TrimSpace (Getenv env ''AUTH_PASSKEY_RP_ID''),
       cfg_PasskeyRPDisplayName = TrimSpace (Getenv env ''AUTH_PASSKEY_RP_DISPLAY_NAME'')\<rparr>)))))))))))))))"

definition FromEnvWithProcess :: "libs \<Rightarrow> web_libs \<Rightarrow> config_libs \<Rightarrow> env \<Rightarrow> string \<Rightarrow> config result" where
  "FromEnvWithProcess L W C env processOverride =
     and_then (base_from_env L W C env processOverride) (\<lambda>cfg.
     if cfg_EmailProvider cfg \<noteq> EmailProviderSMTP then Inr cfg else smtp_from_env env cfg)"

definition FromEnv :: "libs \<Rightarrow> web_libs \<Rightarrow> config_libs \<Rightarrow> env \<Rightarrow> config result" where
  "FromEnv L W C env = FromEnvWithProcess L W C env []"

section \<open>What a configuration that loads satisfies\<close>

definition smtp_complete :: "config \<Rightarrow> bool" where
  "smtp_complete cfg \<longleftrightarrow> TrimSpace (cfg_SMTPHost cfg) = cfg_SMTPHost cfg \<and> cfg_SMTPHost cfg \<noteq> [] \<and> 0 < cfg_SMTPPort cfg \<and>
     TrimSpace (cfg_SMTPUsername cfg) = cfg_SMTPUsername cfg \<and> (cfg_SMTPUsername cfg = []) = (cfg_SMTPPassword cfg = [])"

definition base_configured :: "libs \<Rightarrow> web_libs \<Rightarrow> config \<Rightarrow> bool" where
  "base_configured L W cfg \<longleftrightarrow>
     IsProcess (cfg_Process cfg) \<and>
     (cfg_LogFormat cfg = ''text'' \<or> cfg_LogFormat cfg = ''json'') \<and>
     cfg_Addr cfg \<noteq> [] \<and> cfg_DatabasePath cfg \<noteq> [] \<and>
     0 \<le> cfg_PasswordMinLength cfg \<and>
     0 < cfg_CleanupInterval cfg \<and> 0 < cfg_CleanupTokenRetention cfg \<and> 0 < cfg_CleanupSentEmailRetention cfg \<and>
     0 < cfg_CleanupFailedEmailRetention cfg \<and>
     (\<exists>raw a. lib_ParseAddress L raw = Some a \<and> cfg_EmailFrom cfg = adr_String a) \<and>
     check_proxies W (cfg_TrustedProxies cfg) = Inr (cfg_TrustedProxies cfg) \<and>
     (\<forall>name. \<exists>p. cfg_RateLimitPolicies cfg name = Some p \<and> 0 \<le> MaxRequests p \<and> 0 \<le> Window p)"

definition well_configured :: "libs \<Rightarrow> web_libs \<Rightarrow> config \<Rightarrow> bool" where
  "well_configured L W cfg \<longleftrightarrow> base_configured L W cfg \<and>
     (cfg_EmailProvider cfg = EmailProviderLog \<or> cfg_EmailProvider cfg = EmailProviderSMTP \<and> smtp_complete cfg)"

lemma envDurationOrDefault_pos: "envDurationOrDefault C env key d = Inr t \<Longrightarrow> 0 < d \<Longrightarrow> 0 < t"
  by (auto simp: envDurationOrDefault_def Let_def split: if_splits option.splits)

lemma envOrDefault_nonempty: "d \<noteq> [] \<Longrightarrow> envOrDefault env key d \<noteq> []"
  by (simp add: envOrDefault_def Let_def)

lemma optional_nonneg:
  "envIntOptionalPositive env key = Inr i \<Longrightarrow> 0 \<le> i"
  "envDurationOptionalPositive C env key = Inr t \<Longrightarrow> 0 \<le> t"
  by (auto simp: envIntOptionalPositive_def envDurationOptionalPositive_def Let_def split: if_splits option.splits)

lemma policies_from_env_total:
  assumes "policies_from_env C env names ps = Inr ps'"
  shows "\<And>name. name \<in> set names \<or> (\<exists>p. ps name = Some p \<and> 0 \<le> MaxRequests p \<and> 0 \<le> Window p) \<Longrightarrow>
    \<exists>p. ps' name = Some p \<and> 0 \<le> MaxRequests p \<and> 0 \<le> Window p"
  using assms
proof (induction names arbitrary: ps)
  case (Cons n names)
  from Cons.prems(2) obtain p where p: "rateLimitPolicyFromEnv C env (EnvPrefix n) = Inr p"
      and rest: "policies_from_env C env names (ps(n \<mapsto> p)) = Inr ps'"
    by (auto simp: and_then_eq_Inr)
  from p have "0 \<le> MaxRequests p \<and> 0 \<le> Window p"
    by (auto simp: rateLimitPolicyFromEnv_def and_then_eq_Inr dest: optional_nonneg)
  with Cons.prems(1) show ?case by (intro Cons.IH [OF _ rest]) auto
qed auto

lemma check_proxies_idem: "check_proxies W es = Inr ps \<Longrightarrow> check_proxies W ps = Inr ps"
  by (induction es arbitrary: ps) (auto simp: Let_def and_then_eq_Inr split: if_splits)

lemma smtp_from_env_complete:
  assumes "smtp_from_env env cfg = Inr cfg'"
  shows "smtp_complete cfg'" and "base_configured L W cfg' = base_configured L W cfg"
    and "cfg_EmailProvider cfg' = cfg_EmailProvider cfg"
proof -
  obtain h p t u w where cfg': "cfg' = cfg\<lparr>cfg_SMTPHost := h, cfg_SMTPPort := p, cfg_SMTPUsername := u,
      cfg_SMTPPassword := w, cfg_SMTPTLS := t\<rparr>"
    and ok: "h \<noteq> []" "TrimSpace h = h" "\<not> p \<le> 0" "TrimSpace u = u" "(u = []) = (w = [])"
    using assms TrimSpace_idem unfolding smtp_from_env_def Let_def and_then_eq_Inr require_eq_Inr sum.inject by metis
  from ok show "smtp_complete cfg'" by (simp add: cfg' smtp_complete_def)
  show "base_configured L W cfg' = base_configured L W cfg" by (simp add: cfg' base_configured_def)
  show "cfg_EmailProvider cfg' = cfg_EmailProvider cfg" by (simp add: cfg')
qed

lemma reader_facts:
  "processFromOverrideOrEnv L env ov = Inr p \<Longrightarrow> IsProcess p"
  "envLogFormat L env key d = Inr f \<Longrightarrow> f = ''text'' \<or> f = ''json''"
  "envEmailAddress L env key d = Inr a \<Longrightarrow> \<exists>raw x. lib_ParseAddress L raw = Some x \<and> a = adr_String x"
  "envEmailProvider L env key d = Inr q \<Longrightarrow> q = EmailProviderLog \<or> q = EmailProviderSMTP"
  "envTrustedProxies W env key = Inr ps \<Longrightarrow> check_proxies W ps = Inr ps"
  by (auto simp: processFromOverrideOrEnv_def envProcess_def envLogFormat_def envEmailAddress_def envEmailProvider_def
      envTrustedProxies_def Let_def dest: check_proxies_idem split: if_splits option.splits)

lemma rateLimitPolicies_total:
  assumes "rateLimitPoliciesFromEnv C env = Inr ps"
  shows "\<exists>p. ps name = Some p \<and> 0 \<le> MaxRequests p \<and> 0 \<le> Window p"
  by (rule policies_from_env_total [OF assms [unfolded rateLimitPoliciesFromEnv_def]]) (simp add: Names_complete)

lemma base_from_env_ok:
  assumes "base_from_env L W C env processOverride = Inr cfg"
  shows "base_configured L W cfg \<and> (cfg_EmailProvider cfg = EmailProviderLog \<or> cfg_EmailProvider cfg = EmailProviderSMTP)"
proof -
  have hours: "0 < hour" "0 < 24 * hour" "0 < 7 * 24 * hour" "0 < 14 * 24 * hour" by (simp_all add: hour_def second_def)
  show ?thesis
    using assms unfolding base_from_env_def and_then_eq_Inr
    by (elim exE conjE, clarsimp simp: base_configured_def envOrDefault_nonempty)
      (intro conjI allI;
        (erule reader_facts rateLimitPolicies_total optional_nonneg(1) | erule envDurationOrDefault_pos, simp add: hours))
qed

lemma loaded_config:
  assumes "FromEnvWithProcess L W C env processOverride = Inr cfg"
  shows "well_configured L W cfg"
proof -
  from assms obtain base where base: "base_from_env L W C env processOverride = Inr base"
    and cfg: "(if cfg_EmailProvider base \<noteq> EmailProviderSMTP then Inr base else smtp_from_env env base) = Inr cfg"
    by (auto simp: FromEnvWithProcess_def and_then_eq_Inr)
  with base_from_env_ok [OF base] smtp_from_env_complete [of env base cfg] show ?thesis
    by (auto simp: well_configured_def split: if_splits)
qed

text \<open>
  A configuration that loads is usable.  Whatever the environment, if loading succeeds the process
  mode and the log format are known ones, the address and the path are set, every retention and the
  cleanup interval are positive, the sender is an address the mail parser accepted, every trusted proxy
  is a network or an address, every rate-limited action has a policy without negative numbers, and the
  provider is the log or a mail server with host, port and either both or neither of user and password.
\<close>

theorem loaded_config_usable:
  assumes "FromEnvWithProcess L W C env processOverride = Inr cfg"
  shows "well_configured L W cfg"
  using assms by (rule loaded_config)

end
