(* ===== verification/Conversation.thy ===== *)
theory Conversation
  imports Database
begin

text \<open>
  Conversations with a party outside the model, the mail server or the database driver: the commands
  given to it are recorded, and which of them fail, and how, is a parameter, a function of the commands
  before.  The lemmas say how the parts of a program extend the record.
\<close>

section \<open>Commands and answers\<close>

text \<open>\<open>peer log c\<close>: the error the command \<open>c\<close> returns after the commands of \<open>log\<close>, if any.\<close>

type_synonym 'c peer = "'c list \<Rightarrow> 'c \<Rightarrow> go_error option"

record 'c conversation =
  cv_world :: world
  cv_log :: "'c list"

type_synonym ('c, 'a) conversation_op = "('c conversation, 'a result) state"

definition reply :: "(go_error \<Rightarrow> go_error) \<Rightarrow> go_error option \<Rightarrow> unit result" where
  "reply wrap answer = (case answer of None \<Rightarrow> Inr () | Some e \<Rightarrow> Inl (wrap e))"

definition issue :: "'c peer \<Rightarrow> (go_error \<Rightarrow> go_error) \<Rightarrow> 'c \<Rightarrow> ('c, unit) conversation_op" where
  "issue peer wrap c = State (\<lambda>m. (reply wrap (peer (cv_log m) c), m\<lparr>cv_log := cv_log m @ [c]\<rparr>))"

definition in_world :: "'a op \<Rightarrow> ('c, 'a) conversation_op" where
  "in_world oper = State (\<lambda>m. case run_state oper (cv_world m) of (r, w) \<Rightarrow> (r, m\<lparr>cv_world := w\<rparr>))"

lemma run_conversation [run_simps]:
  "run_state (issue peer wrap c) m = (reply wrap (peer (cv_log m) c), m\<lparr>cv_log := cv_log m @ [c]\<rparr>)"
  "run_state (in_world oper) m = (case run_state oper (cv_world m) of (r, w) \<Rightarrow> (r, m\<lparr>cv_world := w\<rparr>))"
  by (simp_all add: issue_def in_world_def)

section \<open>Records of conversations\<close>

text \<open>None of the commands was refused.\<close>

definition accepted :: "'c peer \<Rightarrow> 'c list \<Rightarrow> bool" where
  "accepted peer log \<longleftrightarrow> (\<forall>pre c post. log = pre @ c # post \<longrightarrow> peer pre c = None)"

lemma accepted_Nil [simp]: "accepted peer []"
  by (simp add: accepted_def)

lemma snoc_split:
  "l @ [c] = pre @ d # post \<longleftrightarrow> (post = [] \<and> pre = l \<and> d = c) \<or> (\<exists>post'. post = post' @ [c] \<and> l = pre @ d # post')"
  by (cases post rule: rev_cases) auto

lemma accepted_snoc [simp]: "accepted peer (l @ [c]) \<longleftrightarrow> accepted peer l \<and> peer l c = None"
  unfolding accepted_def snoc_split by metis

text \<open>What a part of the conversation does to the log.\<close>

definition talks :: "('c list \<Rightarrow> bool) \<Rightarrow> ('c, 'a) conversation_op \<Rightarrow> ('c list \<Rightarrow> bool) \<Rightarrow> ('c list \<Rightarrow> bool) \<Rightarrow> bool" where
  "talks P oper Q E \<longleftrightarrow> (\<forall>m r m'. P (cv_log m) \<longrightarrow> run_state oper m = (r, m') \<longrightarrow>
     (if \<exists>x. r = Inr x then Q (cv_log m') else E (cv_log m')))"

lemma talks_issue:
  assumes "\<And>l. P l \<Longrightarrow> if peer l c = None then Q (l @ [c]) else E (l @ [c])"
  shows "talks P (issue peer wrap c) Q E"
  unfolding talks_def
proof (intro allI impI)
  fix m r m' assume "P (cv_log m)" and "run_state (issue peer wrap c) m = (r, m')"
  with assms [of "cv_log m"] show "if \<exists>x. r = Inr x then Q (cv_log m') else E (cv_log m')"
    by (cases "peer (cv_log m) c") (auto simp: run_simps reply_def)
qed

lemma talks_try:
  assumes "talks P oper R E" and "\<And>x. talks R (k x) Q E"
  shows "talks P (try_op oper k) Q E"
  unfolding talks_def
proof (intro allI impI)
  fix m r m' assume P: "P (cv_log m)" and run: "run_state (try_op oper k) m = (r, m')"
  obtain r1 m1 where first: "run_state oper m = (r1, m1)" by (metis surj_pair)
  from assms(1) P first have step: "if \<exists>x. r1 = Inr x then R (cv_log m1) else E (cv_log m1)"
    unfolding talks_def by blast
  show "if \<exists>x. r = Inr x then Q (cv_log m') else E (cv_log m')"
  proof (cases r1)
    case (Inl e)
    with run first step show ?thesis by (auto simp: run_simps)
  next
    case (Inr x)
    with step have "R (cv_log m1)" by simp
    moreover from Inr run first have "run_state (k x) m1 = (r, m')" by (simp add: run_simps)
    ultimately show ?thesis using assms(2) [of x] unfolding talks_def by blast
  qed
qed

lemma talks_cleanup:
  assumes "talks P oper R E" and "talks E after_failure E E" and "\<And>x. talks R (k x) Q E"
  shows "talks P (do { r \<leftarrow> oper; case r of Inl e \<Rightarrow> do { _ \<leftarrow> after_failure; ret (Inl e) } | Inr x \<Rightarrow> k x }) Q E"
  unfolding talks_def
proof (intro allI impI)
  fix m r m' assume P: "P (cv_log m)"
    and run: "run_state (do { r \<leftarrow> oper; case r of Inl e \<Rightarrow> do { _ \<leftarrow> after_failure; ret (Inl e) } | Inr x \<Rightarrow> k x }) m = (r, m')"
  obtain r1 m1 where first: "run_state oper m = (r1, m1)" by (metis surj_pair)
  from assms(1) P first have step: "if \<exists>x. r1 = Inr x then R (cv_log m1) else E (cv_log m1)"
    unfolding talks_def by blast
  show "if \<exists>x. r = Inr x then Q (cv_log m') else E (cv_log m')"
  proof (cases r1)
    case (Inl e)
    obtain r2 m2 where next_: "run_state after_failure m1 = (r2, m2)" by (metis surj_pair)
    from Inl step have "E (cv_log m1)" by simp
    with assms(2) next_ have "E (cv_log m2)" unfolding talks_def by metis
    with Inl run first next_ show ?thesis by (auto simp: run_simps)
  next
    case (Inr x)
    with step have "R (cv_log m1)" by simp
    moreover from Inr run first have "run_state (k x) m1 = (r, m')" by (simp add: run_simps)
    ultimately show ?thesis using assms(3) [of x] unfolding talks_def by blast
  qed
qed

lemma talks_ret:
  "(\<And>l. P l \<Longrightarrow> Q l) \<Longrightarrow> talks P (ret (Inr x)) Q E"
  "(\<And>l. P l \<Longrightarrow> E l) \<Longrightarrow> talks P (ret (Inl e)) Q E"
  by (auto simp: talks_def run_simps)

lemma talks_in_world: "(\<And>l. P l \<Longrightarrow> E l) \<Longrightarrow> talks P (wrapped what (in_world oper)) P E"
  by (auto simp: talks_def run_simps split: prod.splits sum.splits)

lemma talks_weaken: "talks P oper Q E \<Longrightarrow> (\<And>l. Q l \<Longrightarrow> Q' l) \<Longrightarrow> talks P oper Q' E"
  unfolding talks_def by metis

section \<open>What stays outside the database\<close>

definition keeps_database :: "('c, 'a) conversation_op \<Rightarrow> bool" where
  "keeps_database oper \<longleftrightarrow> (\<forall>m. wdb (cv_world (snd (run_state oper m))) = wdb (cv_world m))"

lemma keeps_databaseD: "keeps_database oper \<Longrightarrow> run_state oper m = (r, m') \<Longrightarrow> wdb (cv_world m') = wdb (cv_world m)"
  unfolding keeps_database_def by (metis snd_conv)

lemma keeps_database_rules:
  "keeps_database (issue peer wrap c)"
  "keeps_database (ret r)"
  "keeps_database oper \<Longrightarrow> (\<And>x. keeps_database (k x)) \<Longrightarrow> keeps_database (try_op oper k)"
  "keeps_database step \<Longrightarrow> (\<And>x. keeps_database (f x)) \<Longrightarrow> keeps_database (step \<bind> f)"
  "keeps_database oper \<Longrightarrow> keeps_database (wrapped what oper)"
  "(\<And>e. keeps_database (f' e)) \<Longrightarrow> (\<And>x. keeps_database (g' x)) \<Longrightarrow> keeps_database (case r' of Inl e \<Rightarrow> f' e | Inr x \<Rightarrow> g' x)"
  by (simp_all add: keeps_database_def run_simps case_prod_unfold split: sum.splits)

end
