(* ===== verification/Sqlite.thy ===== *)
theory Sqlite
  imports Config Conversation
begin

text \<open>
  Opening the database (\<^verbatim>\<open>internal/platform/sqlite/open.go\<close>) with what it uses of \<^verbatim>\<open>path/filepath\<close> and
  \<^verbatim>\<open>net/url\<close>.  What the program asks of its host is a conversation: directories made, databases opened
  and closed, warnings logged, migrations run and the long-running services started.
\<close>

section \<open>The host\<close>

datatype host_command =
    MkdirAll string
  | SqlOpen string
  | SetMaxOpenConns int
  | Ping
  | CloseDB
  | Warn string
  | GooseOpen string
  | GooseRun string
  | Serve string

type_synonym 'a host_op = "(host_command, 'a) conversation_op"

text \<open>A command whose answer the code ignores.\<close>

definition tell :: "'c \<Rightarrow> ('c, unit) conversation_op" where
  "tell c = State (\<lambda>m. (Inr (), m\<lparr>cv_log := cv_log m @ [c]\<rparr>))"

lemma run_tell [run_simps]: "run_state (tell c) m = (Inr (), m\<lparr>cv_log := cv_log m @ [c]\<rparr>)"
  by (simp add: tell_def)

section \<open>Paths\<close>

text \<open>
  \<^verbatim>\<open>filepath.Clean\<close> and \<^verbatim>\<open>filepath.Dir\<close> where the separator is a slash: \<open>clean_step\<close> adds an element to
  the elements kept so far, the last one first.
\<close>

definition clean_step :: "bool \<Rightarrow> string \<Rightarrow> string list \<Rightarrow> string list" where
  "clean_step rooted elem kept =
     (if elem = [] \<or> elem = ''.'' then kept
      else if elem = ''..'' then
        (case kept of
          [] \<Rightarrow> if rooted then [] else [elem]
        | prev # rest \<Rightarrow> if prev = ''..'' then elem # kept else rest)
      else elem # kept)"

fun intercalate :: "bytes \<Rightarrow> bytes list \<Rightarrow> bytes" where
  "intercalate sep [] = []"
| "intercalate sep [x] = x"
| "intercalate sep (x # y # xs) = x @ sep @ intercalate sep (y # xs)"

definition Clean :: "string \<Rightarrow> string" where
  "Clean path =
     (let rooted = take 1 path = ''/'';
          out = (if rooted then ''/'' else []) @ intercalate ''/'' (rev (fold (clean_step rooted) (Split (CHR ''/'') path) []))
      in if out = [] then ''.'' else out)"

definition Dir :: "string \<Rightarrow> string" where
  "Dir path = Clean (rev (dropWhile (\<lambda>c. c \<noteq> CHR ''/'') (rev path)))"

section \<open>Query strings\<close>

definition unhex :: "char \<Rightarrow> nat option" where
  "unhex c =
     (if 48 \<le> code c \<and> code c \<le> 57 then Some (code c - 48)
      else if 97 \<le> code c \<and> code c \<le> 102 then Some (code c - 87)
      else if 65 \<le> code c \<and> code c \<le> 70 then Some (code c - 55)
      else None)"

fun QueryUnescape :: "string \<Rightarrow> string option" where
  "QueryUnescape [] = Some []"
| "QueryUnescape (c # s) =
     (if c = CHR ''%'' then
        (case s of
          a # b # t \<Rightarrow>
            (case (unhex a, unhex b) of
              (Some x, Some y) \<Rightarrow> map_option ((#) (chr (16 * x + y))) (QueryUnescape t)
            | _ \<Rightarrow> None)
        | _ \<Rightarrow> None)
      else map_option ((#) (if c = CHR ''+'' then CHR '' '' else c)) (QueryUnescape s))"

text \<open>\<^verbatim>\<open>url.Values.Encode\<close> of the values of one key: the only key here, so there is nothing to sort.\<close>

definition Encode :: "string \<Rightarrow> string list \<Rightarrow> string" where
  "Encode key vals = intercalate ''&'' (map (\<lambda>v. QueryEscape key @ ''='' @ QueryEscape v) vals)"

section \<open>Opening\<close>

definition DefaultBusyTimeoutMillis :: int where "DefaultBusyTimeoutMillis = 5000"
definition DefaultMaxOpenConns :: int where "DefaultMaxOpenConns = 1"

record OpenOptions =
  BusyTimeoutMillis :: int
  MaxOpenConns :: int

definition DefaultOpenOptions :: OpenOptions where
  "DefaultOpenOptions = \<lparr>BusyTimeoutMillis = DefaultBusyTimeoutMillis, MaxOpenConns = DefaultMaxOpenConns\<rparr>"

definition dsn :: "string \<Rightarrow> OpenOptions \<Rightarrow> string" where
  "dsn path opts =
     (let busyTimeoutMillis = default_if_zero (BusyTimeoutMillis opts) DefaultBusyTimeoutMillis;
          params = [''foreign_keys(1)'', ''busy_timeout('' @ FormatInt busyTimeoutMillis @ '')'',
                    ''journal_mode(WAL)'', ''synchronous(NORMAL)'']
      in ''file:'' @ path @ ''?'' @ Encode ''_pragma'' params)"

definition configureConnectionPool :: "OpenOptions \<Rightarrow> unit host_op" where
  "configureConnectionPool opts = tell (SetMaxOpenConns (default_if_zero (MaxOpenConns opts) DefaultMaxOpenConns))"

definition OpenWithOptions :: "host_command peer \<Rightarrow> string \<Rightarrow> OpenOptions \<Rightarrow> unit host_op" where
  "OpenWithOptions host path opts =
     try_op (issue host (Errorf ''create database directory'') (MkdirAll (Dir path))) (\<lambda>_.
     try_op (issue host (Errorf ''open sqlite database'') (SqlOpen (dsn path opts))) (\<lambda>_.
     try_op (configureConnectionPool opts) (\<lambda>_. do {
     ping \<leftarrow> issue host (Errorf ''ping sqlite database'') Ping;
     case ping of
       Inl e \<Rightarrow> do { _ \<leftarrow> tell CloseDB; ret (Inl e) }
     | Inr _ \<Rightarrow> ret (Inr ())
     })))"

definition sqlite_Open :: "host_command peer \<Rightarrow> string \<Rightarrow> unit host_op" where
  "sqlite_Open host path = OpenWithOptions host path DefaultOpenOptions"

section \<open>The settings reach the driver\<close>

lemma unhex_upper: "n < 16 \<Longrightarrow> unhex (upper_char (hex_digit n)) = Some n"
  by (auto simp: unhex_def upper_char_def hex_digit_def)

lemma unhex_digits:
  "unhex (upper_char (hex_digit (code c div 16))) = Some (code c div 16)"
  "unhex (upper_char (hex_digit (code c mod 16))) = Some (code c mod 16)"
  using code_less [of c] by (auto intro!: unhex_upper simp: less_mult_imp_div_less simp del: code_less)

lemma QueryEscape_simps:
  "QueryEscape [] = []"
  "QueryEscape (c # s) = (if unreserved c then [c] else if c = CHR '' '' then ''+'' else percent c) @ QueryEscape s"
  by (simp_all add: QueryEscape_def)

lemma unreserved_not: "unreserved c \<Longrightarrow> c \<notin> set ''%+&=''"
  by (auto simp: unreserved_def)

lemma QueryUnescape_percent: "QueryUnescape (percent c @ s) = map_option ((#) c) (QueryUnescape s)"
proof -
  have "chr (16 * (code c div 16) + code c mod 16) = c" by simp
  then show ?thesis by (simp only: percent_def hex_encode.simps list.map append.simps QueryUnescape.simps if_True refl
        list.case option.case prod.case unhex_digits)
qed

lemma QueryUnescape_Escape: "QueryUnescape (QueryEscape s) = Some s"
proof (induction s)
  case (Cons c s)
  then show ?case using unreserved_not [of c] by (simp add: QueryEscape_simps QueryUnescape_percent)
qed (simp add: QueryEscape_simps)

text \<open>\<^verbatim>\<open>url.ParseQuery\<close>, as the driver reads the string after the question mark.\<close>

definition ParseQuery :: "string \<Rightarrow> (string \<times> string) list option" where
  "ParseQuery query = those (map (\<lambda>kv. case Cut (CHR ''='') kv of (k, v, _) \<Rightarrow>
     (case (QueryUnescape k, QueryUnescape v) of (Some k', Some v') \<Rightarrow> Some (k', v') | _ \<Rightarrow> None))
     (Split (CHR ''&'') query))"

lemma QueryEscape_chars: "c \<in> set (QueryEscape s) \<Longrightarrow> c \<noteq> CHR ''&'' \<and> c \<noteq> CHR ''=''"
proof (induction s)
  case (Cons d s)
  have "unhex (CHR ''&'') = None" "unhex (CHR ''='') = None" by (simp_all add: unhex_def)
  then have "x \<in> set (percent d) \<Longrightarrow> x \<noteq> CHR ''&'' \<and> x \<noteq> CHR ''=''" for x
    using unhex_digits [of d] by (auto simp: percent_def)
  with Cons unreserved_not [of d] show ?case by (auto simp: QueryEscape_simps split: if_splits)
qed (simp add: QueryEscape_simps)

lemma Split_intercalate:
  "xs \<noteq> [] \<Longrightarrow> (\<And>x. x \<in> set xs \<Longrightarrow> c \<notin> set x) \<Longrightarrow> Split c (intercalate [c] xs) = xs"
  by (induction "[c]" xs rule: intercalate.induct) (simp_all add: Split_no_sep Split_append)

lemma ParseQuery_Encode:
  assumes "vals \<noteq> []"
  shows "ParseQuery (Encode key vals) = Some (map (Pair key) vals)"
proof -
  define pair where "pair v = QueryEscape key @ ''='' @ QueryEscape v" for v
  have plain: "CHR ''&'' \<notin> set (pair v)" and cut: "Cut (CHR ''='') (pair v) = (QueryEscape key, QueryEscape v, True)" for v
    using QueryEscape_chars Cut_append [of "CHR ''=''" "QueryEscape key" "QueryEscape v"] by (auto simp: pair_def)
  have split: "Split (CHR ''&'') (intercalate ''&'' (map pair vals)) = map pair vals"
    using assms plain by (intro Split_intercalate) auto
  have those: "those (map (\<lambda>v. Some (key, v)) vs) = Some (map (Pair key) vs)" for vs :: "string list"
    by (induction vs) simp_all
  show ?thesis
    unfolding ParseQuery_def Encode_def pair_def [symmetric] split
    by (simp add: comp_def cut QueryUnescape_Escape those)
qed

text \<open>
  The settings reach the driver.  Whatever the timeout, and for every path without a question mark,
  the connection string is the path followed by a query that decodes to exactly four settings: foreign
  keys on, a busy timeout that is not zero, write-ahead logging and normal synchronisation.
\<close>

theorem dsn_settings:
  assumes "CHR ''?'' \<notin> set path"
  shows "\<exists>query n. Cut (CHR ''?'') (dsn path opts) = (''file:'' @ path, query, True) \<and> n \<noteq> 0 \<and>
    n = (if BusyTimeoutMillis opts = 0 then 5000 else BusyTimeoutMillis opts) \<and>
    ParseQuery query = Some (map (Pair ''_pragma'')
      [''foreign_keys(1)'', ''busy_timeout('' @ FormatInt n @ '')'', ''journal_mode(WAL)'', ''synchronous(NORMAL)''])"
  using assms Cut_append [of "CHR ''?''" "''file:'' @ path"]
  by (auto simp: dsn_def Let_def default_if_zero_def DefaultBusyTimeoutMillis_def ParseQuery_Encode)

theorem dsn_settings_witness:
  "\<exists>query. Cut (CHR ''?'') (dsn ''./data/app.db'' DefaultOpenOptions) = (''file:./data/app.db'', query, True) \<and>
    (''_pragma'', ''foreign_keys(1)'') \<in> set (the (ParseQuery query)) \<and> Dir ''./data/app.db'' = ''data''"
proof -
  have dir: "Dir ''./data/app.db'' = ''data''" by (simp add: Dir_def Clean_def clean_step_def)
  have "CHR ''?'' \<notin> set ''./data/app.db''" by simp
  from dsn_settings [OF this, of DefaultOpenOptions] dir show ?thesis by auto
qed

section \<open>Handles\<close>

text \<open>
  How many databases are open after the commands \<open>cs\<close> that follow those of \<open>pre\<close>, counting from those
  open at \<open>pre\<close>.
\<close>

definition handle_change :: "host_command peer \<Rightarrow> host_command list \<Rightarrow> host_command \<Rightarrow> int" where
  "handle_change host pre c =
     (case c of
       SqlOpen _ \<Rightarrow> if host pre c = None then 1 else 0
     | GooseOpen _ \<Rightarrow> if host pre c = None then 1 else 0
     | CloseDB \<Rightarrow> - 1
     | _ \<Rightarrow> 0)"

fun handles_from :: "host_command peer \<Rightarrow> host_command list \<Rightarrow> host_command list \<Rightarrow> int" where
  "handles_from host pre [] = 0"
| "handles_from host pre (c # cs) = handle_change host pre c + handles_from host (pre @ [c]) cs"

definition handles :: "host_command peer \<Rightarrow> host_command list \<Rightarrow> int" where
  "handles host log = handles_from host [] log"

lemma handles_from_snoc: "handles_from host pre (cs @ [c]) = handles_from host pre cs + handle_change host (pre @ cs) c"
  by (induction cs arbitrary: pre) simp_all

lemma handles_simps [simp]:
  "handles host [] = 0"
  "handles host (l @ [c]) = handles host l + handle_change host l c"
  by (simp_all add: handles_def handles_from_snoc)

lemma handle_change_simps [simp]:
  "handle_change host l (MkdirAll d) = 0" "handle_change host l (SetMaxOpenConns n) = 0" "handle_change host l Ping = 0"
  "handle_change host l CloseDB = - 1" "handle_change host l (Warn s) = 0" "handle_change host l (GooseRun a) = 0"
  "handle_change host l (Serve p) = 0"
  "handle_change host l (SqlOpen s) = (if host l (SqlOpen s) = None then 1 else 0)"
  "handle_change host l (GooseOpen s) = (if host l (GooseOpen s) = None then 1 else 0)"
  by (simp_all add: handle_change_def)

text \<open>The number of handles goes from \<open>n\<close> to \<open>k\<close> on success and to \<open>e\<close> on failure.\<close>

definition opens :: "host_command peer \<Rightarrow> int \<Rightarrow> 'a host_op \<Rightarrow> int \<Rightarrow> int \<Rightarrow> bool" where
  "opens host n oper k e \<longleftrightarrow> talks (\<lambda>l. handles host l = n) oper (\<lambda>l. handles host l = k) (\<lambda>l. handles host l = e)"

lemma opensI:
  assumes "\<And>m r m'. handles host (cv_log m) = n \<Longrightarrow> run_state oper m = (r, m') \<Longrightarrow>
    handles host (cv_log m') = (if \<exists>x. r = Inr x then k else e)"
  shows "opens host n oper k e"
  unfolding opens_def talks_def using assms by (metis (full_types))

lemma opensD:
  assumes "opens host n oper k e" and "handles host (cv_log m) = n" and "run_state oper m = (r, m')"
  shows "handles host (cv_log m') = (if \<exists>x. r = Inr x then k else e)"
proof -
  have "if \<exists>x. r = Inr x then handles host (cv_log m') = k else handles host (cv_log m') = e"
    using assms unfolding opens_def talks_def by blast
  then show ?thesis by (simp split: if_splits)
qed

lemma opens_try: "opens host n oper k e \<Longrightarrow> (\<And>x. opens host k (f x) k' e) \<Longrightarrow> opens host n (try_op oper f) k' e"
  unfolding opens_def by (rule talks_try)

lemma opens_issue:
  "(\<And>l. host l c = None \<Longrightarrow> handle_change host l c = k - n) \<Longrightarrow> (\<And>l. host l c \<noteq> None \<Longrightarrow> handle_change host l c = e - n) \<Longrightarrow>
   opens host n (issue host wrap c) k e"
  unfolding opens_def by (rule talks_issue) simp

lemma opens_tell: "(\<And>l. handle_change host l c = k - n) \<Longrightarrow> opens host n (tell c) k e"
  by (rule opensI) (auto simp: run_simps)

lemma opens_ret: "opens host n (ret r) n n"
  by (rule opensI) (auto simp: run_simps)

text \<open>A failure that closes the handle of the step before.\<close>

lemma opens_close:
  assumes "opens host n oper k (n' + 1)" and "\<And>x. opens host k (f x) k' n'"
  shows "opens host n (do { r \<leftarrow> oper; case r of Inl e \<Rightarrow> do { _ \<leftarrow> tell CloseDB; ret (Inl e) } | Inr x \<Rightarrow> f x }) k' n'"
proof (rule opensI)
  fix m r m' assume n: "handles host (cv_log m) = n"
    and run: "run_state (do { r \<leftarrow> oper; case r of Inl e \<Rightarrow> do { _ \<leftarrow> tell CloseDB; ret (Inl e) } | Inr x \<Rightarrow> f x }) m = (r, m')"
  obtain r1 m1 where first: "run_state oper m = (r1, m1)" by (metis surj_pair)
  note step = opensD [OF assms(1) n first]
  show "handles host (cv_log m') = (if \<exists>x. r = Inr x then k' else n')"
  proof (cases r1)
    case (Inl e)
    with run first step show ?thesis by (auto simp: run_simps)
  next
    case (Inr x)
    with run first have "run_state (f x) m1 = (r, m')" by (simp add: run_simps)
    with Inr step show ?thesis using opensD [OF assms(2)] by simp
  qed
qed

lemma Open_handles: "opens host n (sqlite_Open host path) (n + 1) n"
  unfolding sqlite_Open_def OpenWithOptions_def configureConnectionPool_def
  by (rule opens_try, rule opens_issue [where k = n], simp, simp, rule opens_try, rule opens_issue [where k = "n + 1"], simp, simp,
      rule opens_try, rule opens_tell [where k = "n + 1"], simp, rule opens_close, rule opens_issue [where k = "n + 1"], simp, simp)
    (auto intro: opensI simp: run_simps)

end
