(* ===== verification/Smtp.thy ===== *)
theory Smtp
  imports Email_Outbox Conversation
begin

text \<open>
  The senders of the outbox: the mail server client (\<^verbatim>\<open>internal/email/smtp.go\<close>) and the log sender
  of \<^verbatim>\<open>internal/email/email.go\<close>.  A conversation with the server is the list of the commands given to
  the \<^verbatim>\<open>net/smtp\<close> client; which of them fail, and how, is a parameter, a function of the commands before.
\<close>

section \<open>The payload\<close>

abbreviation CR :: char where "CR \<equiv> CHR 0x0D"
abbreviation LF :: char where "LF \<equiv> CHR 0x0A"

definition crlf :: bytes where
  "crlf = [CR, LF]"

definition sanitizeHeaderValue :: "string \<Rightarrow> string" where
  "sanitizeHeaderValue v = TrimSpace (filter (\<lambda>c. c \<noteq> LF) (filter (\<lambda>c. c \<noteq> CR) v))"

definition randomMIMEBoundary :: "string op" where
  "randomMIMEBoundary = try_op (rand_Read 16) (\<lambda>b. ret (Inr (''go-spark-'' @ hex_encode b)))"

definition header_line :: "string \<Rightarrow> string \<Rightarrow> bytes" where
  "header_line name v = name @ '': '' @ v @ crlf"

definition part :: "string \<Rightarrow> string \<Rightarrow> string \<Rightarrow> bytes" where
  "part boundary contentType body =
     ''--'' @ boundary @ crlf @
     header_line ''Content-Type'' (contentType @ ''; charset=UTF-8'') @
     header_line ''Content-Transfer-Encoding'' ''8bit'' @
     crlf @
     body @ crlf"

definition buildSMTPPayload :: "Message \<Rightarrow> bytes op" where
  "buildSMTPPayload message =
     (let subject = sanitizeHeaderValue (msg_Subject message);
          headers =
            header_line ''MIME-Version'' ''1.0'' @
            header_line ''From'' (sanitizeHeaderValue (msg_From message)) @
            header_line ''To'' (sanitizeHeaderValue (msg_To message)) @
            header_line ''Subject'' subject
      in if subject = [] then ret (Inl (ErrMsg ''email subject is required''))
         else if TrimSpace (msg_HTMLBody message) \<noteq> [] then
           try_op (wrapped ''generate mime boundary'' randomMIMEBoundary) (\<lambda>boundary.
           ret (Inr (headers @
             header_line ''Content-Type'' (''multipart/alternative; boundary='' @ boundary) @
             crlf @
             part boundary ''text/plain'' (msg_TextBody message) @
             part boundary ''text/html'' (msg_HTMLBody message) @
             ''--'' @ boundary @ ''--'' @ crlf)))
         else ret (Inr (headers @
           header_line ''Content-Type'' ''text/plain; charset=UTF-8'' @
           header_line ''Content-Transfer-Encoding'' ''8bit'' @
           crlf @
           msg_TextBody message @ crlf)))"

section \<open>The conversation\<close>

datatype smtp_command =
    Dial string
  | NewClient string
  | Extension string
  | StartTLS string
  | Auth string string string
  | Mail string
  | Rcpt string
  | Data
  | Write bytes
  | CloseData
  | Quit

type_synonym 'a mail_op = "(smtp_command, 'a) conversation_op"

section \<open>The sender\<close>

record SMTPSenderOptions =
  sso_Host :: string
  sso_Port :: int
  sso_Username :: string
  sso_Password :: string
  sso_From :: string
  sso_UseTLS :: bool

record SMTPSender =
  smtp_host :: string
  smtp_port :: int
  smtp_username :: string
  smtp_password :: string
  smtp_from :: string
  smtp_useTLS :: bool

definition NewSMTPSender :: "libs \<Rightarrow> SMTPSenderOptions \<Rightarrow> SMTPSender result" where
  "NewSMTPSender L opts =
     (let host = TrimSpace (sso_Host opts); username = TrimSpace (sso_Username opts); password = sso_Password opts
      in if host = [] then Inl (ErrMsg ''smtp host is required'')
         else if sso_Port opts \<le> 0 then Inl (ErrMsg ''smtp port must be greater than zero'')
         else if (username = []) \<noteq> (password = [])
         then Inl (ErrMsg ''smtp username and password must both be set when using authentication'')
         else case normalizeAddress L ''smtp from'' (sso_From opts) of
             Inl e \<Rightarrow> Inl e
           | Inr from_adr \<Rightarrow> Inr \<lparr>smtp_host = host, smtp_port = sso_Port opts, smtp_username = username,
               smtp_password = password, smtp_from = from_adr, smtp_useTLS = sso_UseTLS opts\<rparr>)"

definition envelopeAddress :: "libs \<Rightarrow> string \<Rightarrow> string result" where
  "envelopeAddress L v =
     (case lib_ParseAddress L v of
       None \<Rightarrow> Inl (ErrMsg ''mail: invalid address'')
     | Some parsed \<Rightarrow> Inr (adr_Address parsed))"

definition parseAddress :: "libs \<Rightarrow> string \<Rightarrow> string \<Rightarrow> (string \<times> string) result" where
  "parseAddress L field v =
     (case normalizeAddress L field v of
       Inl e \<Rightarrow> Inl e
     | Inr normalized \<Rightarrow>
         (case envelopeAddress L normalized of
           Inl e \<Rightarrow> Inl (Errorf (field @ '' email address'') e)
         | Inr envelope \<Rightarrow> Inr (normalized, envelope)))"

text \<open>
  \<^verbatim>\<open>Send\<close> in two parts: \<open>open_session\<close> up to the encrypted channel, \<open>transmit\<close> from the
  authentication on.  \<open>join\<close> is \<^verbatim>\<open>net.JoinHostPort\<close>; \<open>ctx_Err\<close> the error of a context that is done.  The
  deferred closing of the connection is left out.
\<close>

definition open_session :: "smtp_command peer \<Rightarrow> SMTPSender \<Rightarrow> string \<Rightarrow> unit mail_op" where
  "open_session peer s address =
     try_op (issue peer (Errorf ''dial smtp server'') (Dial address)) (\<lambda>_.
     try_op (issue peer (Errorf ''create smtp client'') (NewClient (smtp_host s))) (\<lambda>_.
     if smtp_useTLS s then
       try_op (issue peer (\<lambda>_. ErrMsg ''smtp server does not support STARTTLS'') (Extension ''STARTTLS'')) (\<lambda>_.
       issue peer (Errorf ''start tls'') (StartTLS (smtp_host s)))
     else ret (Inr ())))"

definition transmit :: "smtp_command peer \<Rightarrow> SMTPSender \<Rightarrow> string \<Rightarrow> string \<Rightarrow> bytes \<Rightarrow> unit mail_op" where
  "transmit peer s sender recipient payload =
     try_op (if smtp_username s \<noteq> []
       then issue peer (\<lambda>_. ErrMsg ''smtp authentication failed'') (Auth (smtp_username s) (smtp_password s) (smtp_host s))
       else ret (Inr ())) (\<lambda>_.
     try_op (issue peer (Errorf ''set smtp envelope from'') (Mail sender)) (\<lambda>_.
     try_op (issue peer (Errorf ''set smtp recipient'') (Rcpt recipient)) (\<lambda>_.
     try_op (issue peer (Errorf ''open smtp data stream'') Data) (\<lambda>_. do {
     written \<leftarrow> issue peer (Errorf ''write smtp payload'') (Write payload);
     case written of
       Inl e \<Rightarrow> do { _ \<leftarrow> issue peer id CloseData; ret (Inl e) }
     | Inr _ \<Rightarrow>
         try_op (issue peer (Errorf ''close smtp data stream'') CloseData) (\<lambda>_.
         issue peer (Errorf ''close smtp session'') Quit)
     }))))"

definition Send :: "libs \<Rightarrow> (string \<Rightarrow> string \<Rightarrow> string) \<Rightarrow> smtp_command peer \<Rightarrow> SMTPSender \<Rightarrow> go_error option \<Rightarrow> Message \<Rightarrow> unit mail_op" where
  "Send L join peer s ctx_Err message =
     (case ctx_Err of Some e \<Rightarrow> ret (Inl e) | None \<Rightarrow>
     (case parseAddress L ''from'' (msg_From message) of
        Inl e \<Rightarrow> ret (Inl e)
      | Inr (fromHeader, _) \<Rightarrow>
     (case parseAddress L ''to'' (msg_To message) of
        Inl e \<Rightarrow> ret (Inl e)
      | Inr (toHeader, toEnvelope) \<Rightarrow>
     (case envelopeAddress L (smtp_from s) of
        Inl e \<Rightarrow> ret (Inl e)
      | Inr configuredEnvelope \<Rightarrow>
     try_op (wrapped ''build smtp payload'' (in_world (buildSMTPPayload
       \<lparr>msg_From = fromHeader, msg_To = toHeader, msg_Subject = msg_Subject message,
        msg_TextBody = msg_TextBody message, msg_HTMLBody = msg_HTMLBody message\<rparr>))) (\<lambda>payload.
     try_op (open_session peer s (join (smtp_host s) (FormatInt (smtp_port s)))) (\<lambda>_.
     transmit peer s configuredEnvelope toEnvelope payload))))))"

text \<open>As a \<open>Sender\<close> of the outbox, in a context that is not done; \<open>err_text\<close> is the text of
  an error, \<open>peers\<close> the server it meets.\<close>

definition smtp_sender ::
  "libs \<Rightarrow> (string \<Rightarrow> string \<Rightarrow> string) \<Rightarrow> (go_error \<Rightarrow> string) \<Rightarrow> (world \<Rightarrow> smtp_command peer) \<Rightarrow> SMTPSender \<Rightarrow> Sender" where
  "smtp_sender L join err_text peers s message = State (\<lambda>w.
     case run_state (Send L join (peers w) s None message) \<lparr>cv_world = w, cv_log = []\<rparr> of
       (r, m) \<Rightarrow> (case r of Inl e \<Rightarrow> Some (err_text e) | Inr _ \<Rightarrow> None, cv_world m))"

section \<open>The log sender\<close>

record LogSender =
  ls_logBody :: bool

definition NewLogSender :: "bool \<Rightarrow> LogSender" where
  "NewLogSender logBody = \<lparr>ls_logBody = logBody\<rparr>"

definition log_attrs :: "LogSender \<Rightarrow> Message \<Rightarrow> (string \<times> string) list" where
  "log_attrs s message =
     [(''provider'', ''log''), (''from'', msg_From message), (''to'', msg_To message), (''subject'', msg_Subject message)] @
     (if ls_logBody s then [(''text_body'', msg_TextBody message), (''html_body'', msg_HTMLBody message)] else [])"

text \<open>It never fails unless the context is done; the line it logs is \<open>log_attrs\<close>.\<close>

definition log_sender :: "LogSender \<Rightarrow> Sender" where
  "log_sender s message = ret None"

end
