(* ===== verification/Smtp_Claims.thy ===== *)
theory Smtp_Claims
  imports Smtp Outbox_Delivery
begin

text \<open>
  What the mail server client guarantees: nothing in a message can add a header, credentials and
  messages travel only on an encrypted channel where one is configured, success means that the server
  accepted the message, and no sender touches the database.
\<close>

section \<open>The headers a receiver reads\<close>

text \<open>Lines up to the first empty one, and the rest.\<close>

fun read_line :: "bytes \<Rightarrow> bytes \<times> bytes" where
  "read_line [] = ([], [])"
| "read_line [c] = ([c], [])"
| "read_line (a # b # s) = (if a = CR \<and> b = LF then ([], s) else (case read_line (b # s) of (l, r) \<Rightarrow> (a # l, r)))"

lemma read_line_shorter: "snd (read_line s) \<noteq> [] \<Longrightarrow> length (snd (read_line s)) < length s"
  by (induction s rule: read_line.induct) (auto split: prod.splits if_splits)

function read_headers :: "bytes \<Rightarrow> bytes list \<times> bytes" where
  "read_headers s =
     (case read_line s of (l, r) \<Rightarrow>
        if l = [] then ([], r) else if r = [] then ([l], [])
        else (case read_headers r of (hs, body) \<Rightarrow> (l # hs, body)))"
  by pat_completeness auto
termination
  by (relation "measure length") (simp, metis in_measure read_line_shorter snd_conv)

declare read_headers.simps [simp del]

definition single_line :: "bytes \<Rightarrow> bool" where
  "single_line s \<longleftrightarrow> CR \<notin> set s \<and> LF \<notin> set s"

lemma read_line_single: "single_line l \<Longrightarrow> read_line (l @ crlf @ r) = (l, r)"
proof (induction l)
  case (Cons c l)
  then show ?case by (cases "l @ crlf @ r") (auto simp: single_line_def crlf_def split: list.splits)
qed (simp add: crlf_def)

lemma read_headers_cons:
  assumes "single_line l" and "l \<noteq> []" and "r \<noteq> []"
  shows "read_headers (l @ crlf @ r) = (l # fst (read_headers r), snd (read_headers r))"
  using assms by (subst read_headers.simps) (simp add: read_line_single case_prod_unfold)

lemma read_headers_end: "read_headers (crlf @ r) = ([], r)"
  by (subst read_headers.simps) (simp add: crlf_def)

lemma set_TrimSpace: "set (TrimSpace s) \<subseteq> set s"
proof -
  have sub: "set (trim_with e t) \<subseteq> set t" for e t by (rule set_mono_suffix [OF trim_with_suffix])
  show ?thesis unfolding TrimSpace_def using sub [of "map rev space_encodings" "rev (trim_with space_encodings s)"] sub [of space_encodings s]
    by auto
qed

lemma sanitized_single: "single_line (sanitizeHeaderValue v)"
  using set_TrimSpace [of "filter (\<lambda>c. c \<noteq> LF) (filter (\<lambda>c. c \<noteq> CR) v)"]
  by (auto simp: single_line_def sanitizeHeaderValue_def)

lemma hex_single: "single_line (hex_encode b)"
  by (auto simp: single_line_def dest: hex_encode_range)

lemma read_header_line:
  assumes "single_line name" and "single_line v" and "name \<noteq> []" and "r \<noteq> []"
  shows "read_headers (header_line name v @ r) = ((name @ '': '' @ v) # fst (read_headers r), snd (read_headers r))"
  using read_headers_cons [of "name @ '': '' @ v" r] assms by (simp add: header_line_def single_line_def)

text \<open>The headers of a message with a sanitised sender, recipient and subject.\<close>

definition message_headers :: "Message \<Rightarrow> string list \<Rightarrow> string list" where
  "message_headers m rest =
     [''MIME-Version: 1.0'', ''From: '' @ sanitizeHeaderValue (msg_From m), ''To: '' @ sanitizeHeaderValue (msg_To m),
      ''Subject: '' @ sanitizeHeaderValue (msg_Subject m)] @ rest"

lemma single_words [simp]:
  "single_line ''MIME-Version''" "single_line ''1.0''" "single_line ''From''" "single_line ''To''" "single_line ''Subject''"
  "single_line ''Content-Type''" "single_line ''Content-Transfer-Encoding''" "single_line ''8bit''"
  "single_line ''text/plain; charset=UTF-8''"
  by (simp_all add: single_line_def)

lemma crlf_nonempty [simp]: "crlf \<noteq> []" "header_line n v \<noteq> []"
  by (simp_all add: crlf_def header_line_def)

text \<open>
  C34: no message can inject a header.  Whatever bytes the sender, recipient, subject and bodies
  contain, line breaks included, a receiver of the payload reads exactly the headers
  \<^verbatim>\<open>MIME-Version\<close>, \<^verbatim>\<open>From\<close>, \<^verbatim>\<open>To\<close>, \<^verbatim>\<open>Subject\<close> and the content type, each once and in this order,
  with the sanitised values; and a payload is built only for a subject that is not blank.
\<close>

theorem no_header_injection:
  assumes "run_state (buildSMTPPayload m) w = (Inr payload, w')"
  shows "sanitizeHeaderValue (msg_Subject m) \<noteq> [] \<and>
    (if TrimSpace (msg_HTMLBody m) = []
     then fst (read_headers payload) =
       message_headers m [''Content-Type: text/plain; charset=UTF-8'', ''Content-Transfer-Encoding: 8bit'']
     else \<exists>b. fst (read_headers payload) =
       message_headers m [''Content-Type: multipart/alternative; boundary=go-spark-'' @ hex_encode b])"
proof -
  have boundary: "single_line (''multipart/alternative; boundary=go-spark-'' @ hex_encode b)" for b
    using hex_single [of b] by (simp add: single_line_def)
  show ?thesis
    using assms
    by (auto simp: buildSMTPPayload_def Let_def run_simps randomMIMEBoundary_def read_header_line read_headers_end
        sanitized_single message_headers_def boundary [simplified] split: if_splits prod.splits sum.splits option.splits)
qed

definition ex_hostile :: Message where
  "ex_hostile = \<lparr>msg_From = ''app@app.example'', msg_To = ''ada@example.com'' @ crlf @ ''Bcc:eve@example.com'',
     msg_Subject = ''Hello'' @ crlf @ ''Bcc:eve@example.com'', msg_TextBody = ''text'', msg_HTMLBody = []\<rparr>"

theorem no_header_injection_witness:
  "\<exists>payload. fst (run_state (buildSMTPPayload ex_hostile) (ex_world ex_db)) = Inr payload \<and>
     fst (read_headers payload) =
       message_headers ex_hostile [''Content-Type: text/plain; charset=UTF-8'', ''Content-Transfer-Encoding: 8bit'']"
proof -
  have trim: "TrimSpace ''HelloBcc:eve@example.com'' = ''HelloBcc:eve@example.com''" "TrimSpace [] = []"
    by (rule TrimSpace_visible, simp add: visible_def)+
  then obtain payload where run: "run_state (buildSMTPPayload ex_hostile) (ex_world ex_db) = (Inr payload, ex_world ex_db)"
    by (simp add: buildSMTPPayload_def ex_hostile_def sanitizeHeaderValue_def crlf_def)
  with no_header_injection [OF run] trim show ?thesis by (simp add: ex_hostile_def)
qed

section \<open>The conversation\<close>

text \<open>
  Credentials, addresses and messages are \<open>sensitive\<close>; \<open>tls_up\<close>: the channel to \<open>host\<close> has been
  encrypted; \<open>secured\<close>: every sensitive command came after that.
\<close>

definition sensitive :: "smtp_command \<Rightarrow> bool" where
  "sensitive c = (case c of Auth _ _ _ \<Rightarrow> True | Mail _ \<Rightarrow> True | Rcpt _ \<Rightarrow> True | Data \<Rightarrow> True | Write _ \<Rightarrow> True | _ \<Rightarrow> False)"

lemma sensitive_simps [simp]:
  "\<not> sensitive (Dial a)" "\<not> sensitive (NewClient a)" "\<not> sensitive (Extension a)" "\<not> sensitive (StartTLS a)"
  "sensitive (Auth u p h)" "sensitive (Mail a)" "sensitive (Rcpt a)" "sensitive Data" "sensitive (Write b)"
  "\<not> sensitive CloseData" "\<not> sensitive Quit"
  by (simp_all add: sensitive_def)

definition tls_up :: "smtp_command peer \<Rightarrow> string \<Rightarrow> smtp_command list \<Rightarrow> bool" where
  "tls_up peer host log \<longleftrightarrow> (\<exists>pre post. log = pre @ StartTLS host # post \<and> peer pre (StartTLS host) = None)"

definition secured :: "smtp_command peer \<Rightarrow> string \<Rightarrow> smtp_command list \<Rightarrow> bool" where
  "secured peer host log \<longleftrightarrow> (\<forall>pre c post. log = pre @ c # post \<longrightarrow> sensitive c \<longrightarrow> tls_up peer host pre)"

lemma log_Nil [simp]: "secured peer h []" "\<not> tls_up peer h []"
  by (simp_all add: secured_def tls_up_def)

lemma tls_up_snoc [simp]: "tls_up peer h (l @ [c]) \<longleftrightarrow> tls_up peer h l \<or> (c = StartTLS h \<and> peer l c = None)"
  unfolding tls_up_def snoc_split by blast

lemma secured_snoc [simp]: "secured peer h (l @ [c]) \<longleftrightarrow> secured peer h l \<and> (sensitive c \<longrightarrow> tls_up peer h l)"
  unfolding secured_def snoc_split by blast

text \<open>The conversation of a message that is delivered.\<close>

definition greeting :: "SMTPSender \<Rightarrow> string \<Rightarrow> smtp_command list" where
  "greeting s address =
     [Dial address, NewClient (smtp_host s)] @
     (if smtp_useTLS s then [Extension ''STARTTLS'', StartTLS (smtp_host s)] else [])"

definition delivery :: "SMTPSender \<Rightarrow> string \<Rightarrow> string \<Rightarrow> bytes \<Rightarrow> smtp_command list" where
  "delivery s sender recipient payload =
     (if smtp_username s \<noteq> [] then [Auth (smtp_username s) (smtp_password s) (smtp_host s)] else []) @
     [Mail sender, Rcpt recipient, Data, Write payload, CloseData, Quit]"

definition safe_log :: "smtp_command peer \<Rightarrow> SMTPSender \<Rightarrow> smtp_command list \<Rightarrow> bool" where
  "safe_log peer s l \<longleftrightarrow> (smtp_useTLS s \<longrightarrow> secured peer (smtp_host s) l)"

definition good_log :: "smtp_command peer \<Rightarrow> SMTPSender \<Rightarrow> smtp_command list \<Rightarrow> smtp_command list \<Rightarrow> bool" where
  "good_log peer s l0 l \<longleftrightarrow> l = l0 \<and> accepted peer l \<and> safe_log peer s l"

lemma talks_good:
  assumes "smtp_useTLS s \<Longrightarrow> accepted peer l0 \<Longrightarrow> sensitive c \<Longrightarrow> tls_up peer (smtp_host s) l0"
  shows "talks (good_log peer s l0) (issue peer wrap c) (good_log peer s (l0 @ [c])) (safe_log peer s)"
  using assms by (intro talks_issue) (auto simp: good_log_def safe_log_def)

lemma talks_close: "talks (safe_log peer s) (issue peer wrap CloseData) (safe_log peer s) (safe_log peer s)"
  by (rule talks_issue) (simp add: safe_log_def)

lemma open_session_talks:
  "talks (good_log peer s []) (open_session peer s address) (good_log peer s (greeting s address)) (safe_log peer s)"
proof (cases "smtp_useTLS s")
  case True
  have log: "greeting s address = ((([] @ [Dial address]) @ [NewClient (smtp_host s)]) @ [Extension ''STARTTLS'']) @ [StartTLS (smtp_host s)]"
    using True by (simp add: greeting_def)
  show ?thesis unfolding open_session_def log if_P [OF True]
    by (rule talks_try talks_good | simp)+
next
  case False
  have log: "greeting s address = ([] @ [Dial address]) @ [NewClient (smtp_host s)]"
    using False by (simp add: greeting_def)
  show ?thesis unfolding open_session_def log if_not_P [OF False]
    by (rule talks_try talks_good talks_ret | simp)+
qed

lemma tls_up_greeting: "smtp_useTLS s \<Longrightarrow> accepted peer (greeting s address) \<Longrightarrow> tls_up peer (smtp_host s) (greeting s address)"
proof -
  assume tls: "smtp_useTLS s" and acc: "accepted peer (greeting s address)"
  have "greeting s address = [Dial address, NewClient (smtp_host s), Extension ''STARTTLS''] @ [StartTLS (smtp_host s)]"
    using tls by (simp add: greeting_def)
  with acc show ?thesis using accepted_snoc tls_up_snoc by metis
qed

lemma transmit_talks:
  assumes up: "smtp_useTLS s \<Longrightarrow> accepted peer l0 \<Longrightarrow> tls_up peer (smtp_host s) l0"
  shows "talks (good_log peer s l0) (transmit peer s sender recipient payload)
    (good_log peer s (l0 @ delivery s sender recipient payload)) (safe_log peer s)"
proof -
  define l1 where "l1 = l0 @ (if smtp_username s \<noteq> [] then [Auth (smtp_username s) (smtp_password s) (smtp_host s)] else [])"
  have log: "l0 @ delivery s sender recipient payload =
      ((((((l1 @ [Mail sender]) @ [Rcpt recipient]) @ [Data]) @ [Write payload]) @ [CloseData]) @ [Quit])"
    by (simp add: l1_def delivery_def)
  have up1: "smtp_useTLS s \<Longrightarrow> accepted peer l1 \<Longrightarrow> tls_up peer (smtp_host s) l1"
    using up by (simp add: l1_def split: if_splits)
  have auth: "talks (good_log peer s l0) (if smtp_username s \<noteq> []
       then issue peer (\<lambda>_. ErrMsg ''smtp authentication failed'') (Auth (smtp_username s) (smtp_password s) (smtp_host s))
       else ret (Inr ())) (good_log peer s l1) (safe_log peer s)"
    using up unfolding l1_def by (auto intro: talks_good talks_ret)
  show ?thesis
    unfolding transmit_def log
    by (rule auth talks_try talks_cleanup talks_close talks_good | simp add: up1 del: append_assoc)+
qed

lemma Send_talks:
  "talks (good_log peer s []) (Send L join peer s ctx_Err message)
    (\<lambda>l. \<exists>sender header recipient payload.
       envelopeAddress L (smtp_from s) = Inr sender \<and> parseAddress L ''to'' (msg_To message) = Inr (header, recipient) \<and>
       good_log peer s (greeting s (join (smtp_host s) (FormatInt (smtp_port s))) @ delivery s sender recipient payload) l)
    (safe_log peer s)"
proof -
  have refused: "talks (good_log peer s []) (ret (Inl e)) Q (safe_log peer s)" for e :: go_error and Q
    by (rule talks_ret) (simp add: good_log_def)
  have sent: "talks (good_log peer s [])
      (try_op (wrapped what (in_world build)) (\<lambda>payload.
       try_op (open_session peer s address) (\<lambda>_. transmit peer s sender recipient payload)))
      (\<lambda>l. \<exists>payload. good_log peer s (greeting s address @ delivery s sender recipient payload) l) (safe_log peer s)"
    for what build address sender recipient
    by (rule talks_try, rule talks_in_world, simp add: good_log_def, rule talks_try, rule open_session_talks,
        rule talks_weaken, rule transmit_talks, rule tls_up_greeting, assumption+, blast)
  show ?thesis
  proof (cases "ctx_Err \<noteq> None \<or> (\<exists>e. parseAddress L ''from'' (msg_From message) = Inl e) \<or>
      (\<exists>e. parseAddress L ''to'' (msg_To message) = Inl e) \<or> (\<exists>e. envelopeAddress L (smtp_from s) = Inl e)")
    case True
    then show ?thesis by (auto simp: Send_def refused split: option.splits sum.splits)
  next
    case False
    then obtain fh fe header recipient sender where ok: "ctx_Err = None" "parseAddress L ''from'' (msg_From message) = Inr (fh, fe)"
        "parseAddress L ''to'' (msg_To message) = Inr (header, recipient)" "envelopeAddress L (smtp_from s) = Inr sender"
      by (metis not_None_eq obj_sumE surj_pair)
    show ?thesis unfolding Send_def ok option.case sum.case prod.case
      by (rule talks_weaken, rule sent) blast
  qed
qed

text \<open>
  C33: credentials and messages travel only on an encrypted channel, and success means delivery.  Whatever
  the server answers, with TLS configured no \<^verbatim>\<open>AUTH\<close>, \<^verbatim>\<open>MAIL\<close>, \<^verbatim>\<open>RCPT\<close>, \<^verbatim>\<open>DATA\<close> or message byte is sent
  before a \<^verbatim>\<open>STARTTLS\<close> to the configured host has succeeded; and when \<^verbatim>\<open>Send\<close> returns no error, the
  commands were exactly the protocol's, in order, from the configured sender to the recipient of the
  message, and the server accepted every one of them.
\<close>

theorem smtp_conversation:
  assumes "run_state (Send L join peer s ctx_Err message) \<lparr>cv_world = w, cv_log = []\<rparr> = (r, m)"
  shows "(smtp_useTLS s \<longrightarrow> secured peer (smtp_host s) (cv_log m)) \<and>
    (r = Inr () \<longrightarrow> accepted peer (cv_log m) \<and>
       (\<exists>sender header recipient payload.
          envelopeAddress L (smtp_from s) = Inr sender \<and> parseAddress L ''to'' (msg_To message) = Inr (header, recipient) \<and>
          cv_log m = greeting s (join (smtp_host s) (FormatInt (smtp_port s))) @ delivery s sender recipient payload))"
proof -
  have "good_log peer s [] []" by (simp add: good_log_def safe_log_def)
  with assms have "if \<exists>x. r = Inr x
      then \<exists>sender header recipient payload.
       envelopeAddress L (smtp_from s) = Inr sender \<and> parseAddress L ''to'' (msg_To message) = Inr (header, recipient) \<and>
       good_log peer s (greeting s (join (smtp_host s) (FormatInt (smtp_port s))) @ delivery s sender recipient payload) (cv_log m)
      else safe_log peer s (cv_log m)"
    using Send_talks [of peer s L join ctx_Err message] unfolding talks_def by (metis conversation.select_convs(2))
  then show ?thesis by (auto simp: good_log_def safe_log_def split: if_splits)
qed

definition ex_smtp :: SMTPSender where
  "ex_smtp = \<lparr>smtp_host = ''mail.example'', smtp_port = 587, smtp_username = ''app'', smtp_password = ''pw'',
     smtp_from = ''app@app.example'', smtp_useTLS = True\<rparr>"

definition ex_mail :: Message where
  "ex_mail = \<lparr>msg_From = ''app@app.example'', msg_To = ''ada@example.com'', msg_Subject = ''Hello'', msg_TextBody = ''text'', msg_HTMLBody = []\<rparr>"

theorem smtp_conversation_witness:
  "\<exists>m. run_state (Send ex_libs (\<lambda>h p. h @ '':'' @ p) (\<lambda>_ _. None) ex_smtp None ex_mail)
      \<lparr>cv_world = ex_world ex_db, cv_log = []\<rparr> = (Inr (), m) \<and>
    secured (\<lambda>_ _. None) ''mail.example'' (cv_log m) \<and> Rcpt ''<ada@example.com>'' \<in> set (cv_log m)"
proof -
  have trim: "TrimSpace ''Hello'' = ''Hello''" "TrimSpace [] = []" "TrimSpace ''app@app.example'' = ''app@app.example''"
      "TrimSpace ''ada@example.com'' = ''ada@example.com''"
    by (rule TrimSpace_visible, simp add: visible_def)+
  have parse: "parseAddress ex_libs ''to'' (msg_To ex_mail) = Inr (''<ada@example.com>'', ''<ada@example.com>'')"
      "parseAddress ex_libs ''from'' (msg_From ex_mail) = Inr (''<app@app.example>'', ''<app@app.example>'')"
      "envelopeAddress ex_libs (smtp_from ex_smtp) = Inr ''app@app.example''"
    by (simp_all add: parseAddress_def normalizeAddress_def envelopeAddress_def ex_libs_def ex_mail_def ex_smtp_def trim)
  have build: "\<exists>b. run_state (buildSMTPPayload \<lparr>msg_From = f, msg_To = t, msg_Subject = msg_Subject ex_mail,
      msg_TextBody = msg_TextBody ex_mail, msg_HTMLBody = msg_HTMLBody ex_mail\<rparr>) w = (Inr b, w)" for f t w
    by (simp add: buildSMTPPayload_def ex_mail_def sanitizeHeaderValue_def trim run_simps)
  have fields: "smtp_useTLS ex_smtp" "smtp_username ex_smtp \<noteq> []"
    by (simp_all add: ex_smtp_def)
  obtain m where run: "run_state (Send ex_libs (\<lambda>h p. h @ '':'' @ p) (\<lambda>_ _. None) ex_smtp None ex_mail)
      \<lparr>cv_world = ex_world ex_db, cv_log = []\<rparr> = (Inr (), m)"
    using build [of "''<app@app.example>''" "''<ada@example.com>''" "ex_world ex_db"]
    by (auto simp: Send_def parse open_session_def transmit_def reply_def run_simps fields)
  from smtp_conversation [OF run] run show ?thesis
    by (auto simp: parse delivery_def) (simp_all add: ex_smtp_def)
qed

section \<open>The senders stay outside the database\<close>

text \<open>
  The interface \<^verbatim>\<open>Sender\<close> as the processor relies on it: a sender hands messages over and does not write to
  the database.  A cycle of the processor then keeps the schema.
\<close>

locale email_sender =
  fixes send :: Sender
  assumes outside: "wdb (snd (run_state (send m) w)) = wdb w"
begin

lemma send_inv: "keeps db_inv (send m)"
  by (rule preservesI) (metis outside snd_conv)

lemma process_inv:
  assumes "pr_store p = Some EmailOutboxStore" and "pr_sender p = Some send"
  shows "keeps db_inv (ProcessPending p)"
proof -
  have mark: "keeps db_inv m \<Longrightarrow> keeps db_inv (mark msg m count c)" for msg m count c
    unfolding mark_def by (intro preserves_rules)
  have one: "keeps db_inv (process_one EmailOutboxStore send p m c)" for m c
    unfolding process_one_def EmailOutboxStore_def OutboxStore.simps outbox_MarkSent_def outbox_MarkFailed_def
      outbox_MarkFailedPermanently_def
    by (intro preserves_rules mark send_inv)
  have all: "keeps db_inv (process_all EmailOutboxStore send p ms c)" for ms c
    by (induction ms arbitrary: c) (simp_all, (intro preserves_rules one)+)
  show ?thesis
    unfolding ProcessPending_valid [OF assms(1,2)]
    unfolding EmailOutboxStore_claims outbox_ClaimPending_def generateClaimToken_def
    by (intro preserves_rules all)
qed

end

interpretation logged: email_sender "log_sender s" for s
  by unfold_locales (simp add: log_sender_def run_simps)

lemma payload_outside: "wdb (snd (run_state (buildSMTPPayload m) w)) = wdb w"
  by (auto simp: buildSMTPPayload_def Let_def run_simps randomMIMEBoundary_def split: prod.splits option.splits sum.splits)

lemma keeps_database_payload: "keeps_database (in_world (buildSMTPPayload x))"
  by (simp add: keeps_database_def run_simps case_prod_unfold payload_outside)

interpretation delivered: email_sender "smtp_sender L join err_text peers s" for L join err_text peers s
proof
  fix m w
  have session: "keeps_database (open_session peer s address)" for peer address
    by (simp add: open_session_def keeps_database_rules)
  have deliver: "keeps_database (transmit peer s sender recipient payload)" for peer sender recipient payload
    unfolding transmit_def by (intro keeps_database_rules) (simp add: keeps_database_rules)
  have "keeps_database (Send L join peer s None m)" for peer m
    by (auto simp: Send_def session deliver keeps_database_payload intro!: keeps_database_rules split: sum.splits)
  then have "run_state (Send L join peer s None m) \<lparr>cv_world = w, cv_log = []\<rparr> = (r, m') \<Longrightarrow> wdb (cv_world m') = wdb w" for peer m w r m'
    by (metis keeps_databaseD conversation.select_convs(1))
  then show "wdb (snd (run_state (smtp_sender L join err_text peers s m) w)) = wdb w"
    by (auto simp: smtp_sender_def split: prod.splits)
qed

end
