(* ===== verification/App_Build.thy ===== *)
theory App_Build
  imports Sqlite Smtp_Claims Jobs Server_Core
begin

text \<open>
  Assembling the program from its configuration (\<^verbatim>\<open>internal/app/build.go\<close>): the secrets are checked, the
  database is opened, the services, the jobs and the web server are constructed and wired together.
\<close>

section \<open>What the program runs on\<close>

text \<open>
  The functions of other packages, and the parties outside: the mail server a message meets in a world
  and the host.
\<close>

record platform =
  pf_libs :: libs
  pf_web :: web_libs
  pf_config :: config_libs
  pf_webauthn_New :: "webauthn_config \<Rightarrow> webauthn_config result"
  pf_err_text :: "go_error \<Rightarrow> string"
  pf_mail :: "world \<Rightarrow> smtp_command peer"
  pf_host :: "host_command peer"

record http_Server =
  hs_Addr :: string
  hs_Handler :: Server
  hs_ReadHeaderTimeout :: time
  hs_ReadTimeout :: time
  hs_WriteTimeout :: time
  hs_IdleTimeout :: time

record Runtime =
  rt_DB :: bool
  rt_HTTPServer :: http_Server
  rt_JobsRunner :: "Job list"

definition Runtime_Close :: "Runtime \<Rightarrow> unit host_op" where
  "Runtime_Close r = (if \<not> rt_DB r then ret (Inr ()) else tell CloseDB)"

section \<open>Security\<close>

definition defaultStarterEmailFrom :: string where
  "defaultStarterEmailFrom = ''\"Go Spark\" <hello@example.com>''"

definition emailJobInterval :: time where
  "emailJobInterval = 5 * second"

definition minSecretLength :: nat where
  "minSecretLength = 32"

fun check_secrets :: "(string \<times> string) list \<Rightarrow> unit result" where
  "check_secrets [] = Inr ()"
| "check_secrets ((name, v) # rest) =
     (let trimmed = TrimSpace v
      in if trimmed = [] then Inl (ErrMsg (name @ '' must be set''))
         else if length trimmed < minSecretLength
         then Inl (ErrMsg (name @ '' must be at least 32 characters (generate with: openssl rand -hex 32)''))
         else check_secrets rest)"

definition validateSecurityConfig :: "config \<Rightarrow> unit result" where
  "validateSecurityConfig cfg = check_secrets
     [(''AUTH_PASSWORD_PEPPER'', cfg_PasswordPepper cfg),
      (''SECRET_KEY_BASE'', cfg_SecretKeyBase cfg),
      (''AUTH_TOTP_KEY'', cfg_TOTPKey cfg)]"

text \<open>\<^verbatim>\<open>strings.EqualFold\<close> on strings of ASCII characters, as the schemes of URLs are.\<close>

definition EqualFold :: "string \<Rightarrow> string \<Rightarrow> bool" where
  "EqualFold a b \<longleftrightarrow> map lower_char a = map lower_char b"

definition isHTTPSURL :: "config_libs \<Rightarrow> string \<Rightarrow> bool" where
  "isHTTPSURL C raw = (case cf_ParseURL C raw of None \<Rightarrow> False | Some parsed \<Rightarrow> EqualFold (cu_Scheme parsed) ''https'')"

definition isDefaultStarterEmailFrom :: "string \<Rightarrow> bool" where
  "isDefaultStarterEmailFrom v \<longleftrightarrow> TrimSpace v = defaultStarterEmailFrom"

text \<open>The provider is printed as it is between quotes; the two known ones need no escape.\<close>

definition securityConfigWarnings :: "config_libs \<Rightarrow> config \<Rightarrow> string list" where
  "securityConfigWarnings C cfg =
     (if \<not> cfg_CookieSecure cfg then [''APP_COOKIE_SECURE=false is not suitable for public production deployments''] else []) @
     (if \<not> isHTTPSURL C (cfg_AppBaseURL cfg)
      then [''APP_BASE_URL does not use https; configure https for public production deployments''] else []) @
     (if cfg_EmailProvider cfg \<noteq> EmailProviderSMTP
      then [''EMAIL_PROVIDER=\"'' @ cfg_EmailProvider cfg @ ''\" does not deliver real email by default''] else []) @
     (if cfg_EmailLogBody cfg then [''EMAIL_LOG_BODY=true may expose email contents and token links in logs''] else []) @
     (if isDefaultStarterEmailFrom (cfg_EmailFrom cfg) then [''EMAIL_FROM is still the default starter sender''] else [])"

fun log_warnings :: "string list \<Rightarrow> unit host_op" where
  "log_warnings [] = ret (Inr ())"
| "log_warnings (w # ws) = try_op (tell (Warn w)) (\<lambda>_. log_warnings ws)"

definition logSecurityConfigWarnings :: "config_libs \<Rightarrow> config \<Rightarrow> unit host_op" where
  "logSecurityConfigWarnings C cfg = log_warnings (securityConfigWarnings C cfg)"

section \<open>Parts\<close>

definition defaultPasskeyRPDisplayName :: string where
  "defaultPasskeyRPDisplayName = ''Go Spark''"

definition passkeyRPID :: "config_libs \<Rightarrow> config \<Rightarrow> string" where
  "passkeyRPID C cfg =
     (if TrimSpace (cfg_PasskeyRPID cfg) \<noteq> [] then TrimSpace (cfg_PasskeyRPID cfg)
      else case cf_ParseURL C (cfg_AppBaseURL cfg) of None \<Rightarrow> [] | Some parsed \<Rightarrow> cf_Hostname C parsed)"

definition passkeyRPDisplayName :: "config \<Rightarrow> string" where
  "passkeyRPDisplayName cfg =
     (let name = TrimSpace (cfg_PasskeyRPDisplayName cfg) in if name \<noteq> [] then name else defaultPasskeyRPDisplayName)"

definition newEmailSender :: "platform \<Rightarrow> config \<Rightarrow> Sender result" where
  "newEmailSender P cfg =
     (if cfg_EmailProvider cfg = ''log'' then Inr (log_sender (NewLogSender (cfg_EmailLogBody cfg)))
      else if cfg_EmailProvider cfg = ''smtp'' then
        (case NewSMTPSender (pf_libs P)
            \<lparr>sso_Host = cfg_SMTPHost cfg, sso_Port = cfg_SMTPPort cfg, sso_Username = cfg_SMTPUsername cfg,
             sso_Password = cfg_SMTPPassword cfg, sso_From = cfg_EmailFrom cfg, sso_UseTLS = cfg_SMTPTLS cfg\<rparr> of
          Inl e \<Rightarrow> Inl e
        | Inr s \<Rightarrow> Inr (smtp_sender (pf_libs P) (cf_JoinHostPort (pf_config P)) (pf_err_text P) (pf_mail P) s))
      else Inl (ErrMsg (''unsupported email provider '' @ cfg_EmailProvider cfg)))"

definition email_job :: "Processor \<Rightarrow> Job" where
  "email_job p =
     \<lparr>job_Name = ''email-outbox'', job_Interval = emailJobInterval, job_RunAtStart = True,
      job_Run = Some (do { r \<leftarrow> ProcessPending p; ret (case r of Inl e \<Rightarrow> Some e | Inr _ \<Rightarrow> None) })\<rparr>"

definition buildJobs :: "platform \<Rightarrow> config \<Rightarrow> Job list result" where
  "buildJobs P cfg =
     and_then (wrap_err ''configure email sender'' (newEmailSender P cfg)) (\<lambda>emailSender.
     let emailProcessor = NewProcessor (Some EmailOutboxStore) (Some emailSender) 0 0 0 0 in
     and_then (wrap_err ''configure cleanup job'' (NewCleanupJob (Some NewCleanupStore)
       \<lparr>co_TokenRetention = cfg_CleanupTokenRetention cfg, co_SentEmailRetention = cfg_CleanupSentEmailRetention cfg,
        co_FailedEmailRetention = cfg_CleanupFailedEmailRetention cfg\<rparr>)) (\<lambda>cleanupJob.
     Inr [email_job emailProcessor, CleanupJob_Job cleanupJob (cfg_CleanupInterval cfg)]))"

text \<open>The options of the services; fields the code leaves out have their zero values.\<close>

definition auth_options :: "config_libs \<Rightarrow> config \<Rightarrow> AuthOptions" where
  "auth_options C cfg =
     (let totpKey = TrimSpace (cfg_TOTPKey cfg) in
      \<lparr>ao_SessionDuration = 0, ao_Argon2idMemoryKiB = 0, ao_Argon2idIterations = 0, ao_Argon2idParallelism = 0,
       ao_PasswordPepper = cfg_PasswordPepper cfg, ao_TokenBytes = 0,
       ao_PasswordMinLen = cfg_PasswordMinLength cfg,
       ao_EmailVerificationTokenDuration = 0, ao_PasswordResetTokenDuration = 0,
       ao_EmailOptions = \<lparr>mo_AppBaseURL = cfg_AppBaseURL cfg, mo_From = cfg_EmailFrom cfg\<rparr>,
       ao_EmailChangeNoticeEnabled = Some (cfg_EmailChangeNoticeEnabled cfg),
       ao_TOTPIssuer = cfg_TOTPIssuer cfg,
       ao_TOTPSecretKey = DeriveKey totpKey ''totp_secret'',
       ao_TOTPBackupCodeKey = DeriveKey totpKey ''totp_backup_code'',
       ao_WebAuthnRPID = passkeyRPID C cfg,
       ao_WebAuthnRPDisplayName = passkeyRPDisplayName cfg,
       ao_WebAuthnRPOrigins = [cfg_AppBaseURL cfg]\<rparr>)"

definition server_options :: "config \<Rightarrow> AuthService \<Rightarrow> string \<Rightarrow> Options" where
  "server_options cfg authService secretKeyBase =
     \<lparr>so_hasDB = True, so_Auth = Some authService, so_CookieSecure = cfg_CookieSecure cfg,
      so_AppBaseURL = cfg_AppBaseURL cfg, so_SecretKeyBase = secretKeyBase,
      so_PasswordMinLength = cfg_PasswordMinLength cfg, so_RateLimitPolicies = cfg_RateLimitPolicies cfg,
      so_TrustedProxies = cfg_TrustedProxies cfg\<rparr>"

definition buildRuntime :: "platform \<Rightarrow> config \<Rightarrow> string \<Rightarrow> Runtime host_op" where
  "buildRuntime P cfg secretKeyBase =
     try_op (wrapped ''configure auth service'' (in_world
       (NewAuthService (pf_libs P) (pf_webauthn_New P) (auth_options (pf_config P) cfg)))) (\<lambda>authService.
     try_op (ret (buildJobs P cfg)) (\<lambda>backgroundJobs.
     try_op (ret (wrap_err ''configure background jobs runner'' (NewRunner backgroundJobs))) (\<lambda>jobsRunner.
     try_op (ret (wrap_err ''configure web server''
       (New (pf_libs P) (pf_web P) (server_options cfg authService secretKeyBase)))) (\<lambda>webApp.
     ret (Inr \<lparr>rt_DB = True,
       rt_HTTPServer = \<lparr>hs_Addr = cfg_Addr cfg, hs_Handler = webApp, hs_ReadHeaderTimeout = 5 * second,
         hs_ReadTimeout = 10 * second, hs_WriteTimeout = 30 * second, hs_IdleTimeout = 120 * second\<rparr>,
       rt_JobsRunner = jobsRunner\<rparr>)))))"

definition Build :: "platform \<Rightarrow> config \<Rightarrow> Runtime host_op" where
  "Build P cfg =
     try_op (ret (wrap_err ''invalid security configuration'' (validateSecurityConfig cfg))) (\<lambda>_.
     try_op (logSecurityConfigWarnings (pf_config P) cfg) (\<lambda>_.
     (let secretKeyBase = TrimSpace (cfg_SecretKeyBase cfg) in
     try_op (wrapped ''open database'' (sqlite_Open (pf_host P) (cfg_DatabasePath cfg))) (\<lambda>_. do {
     runtime \<leftarrow> buildRuntime P cfg secretKeyBase;
     case runtime of
       Inl e \<Rightarrow> do { _ \<leftarrow> tell CloseDB; ret (Inl e) }
     | Inr r \<Rightarrow> ret (Inr r)
     }))))"

end
