(* ===== verification/Config_Claims.thy ===== *)
theory Config_Claims
  imports Config Fixtures Web_Fixtures
begin

text \<open>
  Reading back a \<^verbatim>\<open>.env\<close> file that was written line by line, the precedence of variables that are set
  already, and an instance of loading the configuration.
\<close>

section \<open>An instance\<close>

definition ex_config_libs :: config_libs where
  "ex_config_libs = \<lparr>cf_ParseDuration = (\<lambda>_. Some hour),
     cf_ParseURL = (\<lambda>u. Some \<lparr>cu_Scheme = ''http'', cu_Host = u, cu_Path = [], cu_RawQuery = [], cu_Fragment = []\<rparr>),
     cf_URLString = cu_Host, cf_Hostname = cu_Host, cf_SplitHostPort = (\<lambda>a. None), cf_JoinHostPort = (\<lambda>h p. h @ '':'' @ p)\<rparr>"

lemma trim_words [simp]:
  "TrimSpace [] = []" "TrimSpace ''all'' = ''all''" "TrimSpace ''text'' = ''text''" "TrimSpace ''log'' = ''log''"
  by (rule TrimSpace_visible, simp add: visible_def)+

lemma lower_words [simp]:
  "ToLower L [] = []" "ToLower L ''all'' = ''all''" "ToLower L ''text'' = ''text''" "ToLower L ''log'' = ''log''"
  by (simp_all add: ToLower_def is_ascii_def lower_char_def)

lemma ex_policies: "\<exists>ps. policies_from_env C Map.empty names ps0 = Inr ps"
  by (induction names arbitrary: ps0)
    (simp_all add: rateLimitPolicyFromEnv_def envIntOptionalPositive_def envDurationOptionalPositive_def Getenv_def)

theorem loaded_config_usable_witness:
  "\<exists>cfg. FromEnvWithProcess ex_libs ex_web ex_config_libs Map.empty [] = Inr cfg \<and> well_configured ex_libs ex_web cfg"
proof -
  obtain ps where "rateLimitPoliciesFromEnv ex_config_libs Map.empty = Inr ps"
    using ex_policies unfolding rateLimitPoliciesFromEnv_def by blast
  then obtain cfg where "FromEnvWithProcess ex_libs ex_web ex_config_libs Map.empty [] = Inr cfg"
    by (simp add: FromEnvWithProcess_def base_from_env_def processFromOverrideOrEnv_def envProcess_def envOrDefault_def
        Getenv_def mode_defs IsProcess_def envLogFormat_def envBool_def envIntOptionalPositive_def envBoolOrDefault_def
        envURL_def ex_config_libs_def envEmailAddress_def ex_libs_def envEmailProvider_def envDurationOrDefault_def
        envTrustedProxies_def)
  with loaded_config_usable [OF this] show ?thesis by blast
qed

section \<open>Files written line by line\<close>

text \<open>A key that can be written plainly, and a value on one line.\<close>

definition plain_key :: "string \<Rightarrow> bool" where
  "plain_key k \<longleftrightarrow> k \<noteq> [] \<and> list_all visible k \<and> CHR ''='' \<notin> set k \<and> hd k \<noteq> CHR ''#''"

definition one_line :: "string \<Rightarrow> bool" where
  "one_line v \<longleftrightarrow> CHR 0x0A \<notin> set v \<and> CHR 0x00 \<notin> set v"

definition dotenv_entry :: "string \<times> string \<Rightarrow> string" where
  "dotenv_entry kv = fst kv @ [CHR ''='', CHR 0x22] @ snd kv @ [CHR 0x22]"

definition dotenv_text :: "(string \<times> string) list \<Rightarrow> string" where
  "dotenv_text kvs = concat (map (\<lambda>kv. dotenv_entry kv @ [CHR 0x0A]) kvs)"

definition dotenv_ok :: "(string \<times> string) list \<Rightarrow> bool" where
  "dotenv_ok kvs \<longleftrightarrow> distinct (map fst kvs) \<and> list_all (\<lambda>(k, v). plain_key k \<and> one_line v) kvs"

text \<open>A string that starts and ends with a visible character is not trimmed.\<close>

lemma strip_one_visible_hd:
  assumes "s \<noteq> []" and "visible (hd s)"
  shows "strip_one space_encodings s = None" "strip_one (map rev space_encodings) s = None"
proof -
  have out: "hd s \<noteq> chr n" if "n \<le> 32 \<or> (128 \<le> n \<and> n < 256)" for n
    using assms that by (auto simp: visible_def)
  have "\<not> prefix (chr n # e) s" if "n \<le> 32 \<or> (128 \<le> n \<and> n < 256)" for n e
    using out [OF that] assms(1) by (auto simp: prefix_def)
  then show "strip_one space_encodings s = None" "strip_one (map rev space_encodings) s = None"
    unfolding strip_one_def space_encodings_def by (simp_all del: char_of_eq_iff)
qed

lemma TrimSpace_ends: "s \<noteq> [] \<Longrightarrow> visible (hd s) \<Longrightarrow> visible (last s) \<Longrightarrow> TrimSpace s = s"
  by (simp add: TrimSpace_def trim_with_fixpoint strip_one_visible_hd hd_rev)

lemma plain_key_trim: "plain_key k \<Longrightarrow> TrimSpace k = k"
  by (simp add: plain_key_def TrimSpace_visible)

lemma quoted_value: "TrimSpace (CHR 0x22 # v @ [CHR 0x22]) = CHR 0x22 # v @ [CHR 0x22]"
  by (rule TrimSpace_ends) (simp_all add: visible_def)

lemma dotenv_line_entry:
  assumes "plain_key k"
  shows "dotenv_line (dotenv_entry (k, v)) = Inr (Some (k, v))"
proof -
  from assms have k: "k \<noteq> []" "visible (hd k)" "CHR ''='' \<notin> set k" "hd k \<noteq> CHR ''#''" "CHR '' '' \<notin> set k"
      "CHR 0x09 \<notin> set k"
    by (auto simp: plain_key_def list_all_iff visible_def)
  have trim: "TrimSpace (dotenv_entry (k, v)) = dotenv_entry (k, v)"
    by (rule TrimSpace_ends) (use k in \<open>simp_all add: dotenv_entry_def visible_def\<close>)
  have comment: "\<not> prefix ''#'' (dotenv_entry (k, v))"
    using k by (cases k) (auto simp: dotenv_entry_def)
  have "\<not> prefix ''export '' (dotenv_entry (k, v))"
  proof
    assume "prefix ''export '' (dotenv_entry (k, v))"
    then consider "prefix ''export '' k" | us where "''export '' = k @ us" "prefix us (CHR ''='' # CHR 0x22 # v @ [CHR 0x22])"
      unfolding dotenv_entry_def by (auto simp: prefix_append)
    then show False
    proof cases
      case 1
      then have "set ''export '' \<subseteq> set k" by (auto dest: set_mono_prefix)
      with k(5) show False by simp
    next
      case (2 us)
      from 2(1) have eq: "set k \<union> set us = set ''export ''" by (metis set_append)
      have "CHR '' '' \<in> set k \<union> set us" "CHR ''='' \<notin> set k \<union> set us" unfolding eq by simp_all
      with 2(2) k(5) show False by (cases us) simp_all
    qed
  qed
  then have "TrimPrefix (dotenv_entry (k, v)) ''export '' = dotenv_entry (k, v)"
    by (simp add: TrimPrefix_def CutPrefix_def)
  with k trim comment show ?thesis
    by (simp add: dotenv_line_def Let_def dotenv_entry_def Cut_append quoted_value plain_key_trim [OF assms]
        unquoteDotEnvValue_def)
qed

lemma dotenv_lines_text:
  assumes "dotenv_ok (done @ kvs)"
  shows "dotenv_lines (Split (CHR 0x0A) (dotenv_text kvs)) done = Inr (done @ kvs)"
  using assms
proof (induction kvs arbitrary: "done")
  case Nil
  have "dotenv_line [] = Inr None" by (simp add: dotenv_line_def)
  then show ?case by (simp add: dotenv_text_def)
next
  case (Cons kv kvs)
  obtain k v where kv: "kv = (k, v)" by (cases kv)
  from Cons.prems have k: "plain_key k" "one_line v" "k \<notin> fst ` set done" by (auto simp: dotenv_ok_def kv)
  then have "CHR 0x0A \<notin> set (dotenv_entry kv)"
    by (auto simp: dotenv_entry_def kv plain_key_def one_line_def list_all_iff visible_def)
  then have "Split (CHR 0x0A) (dotenv_text (kv # kvs)) = dotenv_entry kv # Split (CHR 0x0A) (dotenv_text kvs)"
    by (simp add: dotenv_text_def Split_append)
  moreover from k(3) have "AList.update k v done = done @ [kv]"
    by (induction "done") (auto simp: kv)
  ultimately show ?case
    using Cons.IH [of "done @ [kv]"] Cons.prems dotenv_line_entry [OF k(1)] by (simp add: kv)
qed

lemma set_missing_ok:
  assumes "dotenv_ok kvs"
  shows "set_missing kvs env = (Inr (), \<lambda>key. case env key of Some v \<Rightarrow> Some v | None \<Rightarrow> map_of kvs key)"
  using assms
proof (induction kvs arbitrary: env)
  case (Cons kv kvs)
  obtain k v where kv: "kv = (k, v)" by (cases kv)
  from Cons.prems have k: "plain_key k" "one_line v" "map_of kvs k = None" and rest: "dotenv_ok kvs"
    by (auto simp: dotenv_ok_def kv map_of_eq_None_iff)
  from k have "Setenv k v env = Inr (env(k \<mapsto> v))"
    by (auto simp: Setenv_def plain_key_def one_line_def list_all_iff visible_def)
  with Cons.IH [OF rest] k(3) show ?case by (auto simp: kv fun_eq_iff split: option.splits)
qed (auto simp: fun_eq_iff split: option.splits)

text \<open>
  C32: a \<^verbatim>\<open>.env\<close> file reads back as it was written, and never overrides the environment.  For distinct
  plain keys and values on one line, quotes, equal signs, comment signs and white space in the values
  included, the file with one quoted line per entry parses to exactly these entries, and loading it
  gives every variable the value it had before, or the value of the file when it had none.
\<close>

theorem dotenv_roundtrip:
  assumes "dotenv_ok kvs" and "read_file path = Content (dotenv_text kvs)"
  shows "parseDotEnv (dotenv_text kvs) = Inr kvs \<and> 
    LoadDotEnv read_file path env = (Inr (), \<lambda>key. case env key of Some v \<Rightarrow> Some v | None \<Rightarrow> map_of kvs key)"
proof -
  from dotenv_lines_text [of "[]" kvs] assms(1) have "parseDotEnv (dotenv_text kvs) = Inr kvs"
    by (simp add: parseDotEnv_def)
  with assms set_missing_ok show ?thesis by (simp add: LoadDotEnv_def)
qed

definition ex_entries :: "(string \<times> string) list" where
  "ex_entries = [(''APP_ADDR'', '':9000''), (''NOTE'', ''a = b # c'')]"

theorem dotenv_roundtrip_witness:
  "parseDotEnv (dotenv_text ex_entries) = Inr ex_entries \<and>
   LoadDotEnv (\<lambda>_. Content (dotenv_text ex_entries)) ''.env'' [''APP_ADDR'' \<mapsto> '':80''] =
     (Inr (), [''APP_ADDR'' \<mapsto> '':80'', ''NOTE'' \<mapsto> ''a = b # c''])"
proof -
  have "dotenv_ok ex_entries"
    by (simp add: dotenv_ok_def ex_entries_def plain_key_def one_line_def visible_def)
  from dotenv_roundtrip [OF this, of "\<lambda>_. Content (dotenv_text ex_entries)" "''.env''" "[''APP_ADDR'' \<mapsto> '':80'']"]
  show ?thesis by (simp add: ex_entries_def fun_eq_iff)
qed

end
