(* ===== verification/App_Claims.thy ===== *)
theory App_Claims
  imports App_Build Config_Claims Web_Fixtures
begin

text \<open>
  What assembling the program guarantees: weak secrets are refused before anything is touched, no
  database stays open after a failure, and a configuration that loads and has its secrets gives a
  running program unless a party outside refuses.
\<close>

section \<open>Secrets\<close>

definition strong_secrets :: "config \<Rightarrow> bool" where
  "strong_secrets cfg \<longleftrightarrow> list_all (\<lambda>v. 32 \<le> length (TrimSpace v)) [cfg_PasswordPepper cfg, cfg_SecretKeyBase cfg, cfg_TOTPKey cfg]"

lemma check_secrets_ok: "check_secrets secrets = Inr () \<longleftrightarrow> list_all (\<lambda>(_, v). 32 \<le> length (TrimSpace v)) secrets"
  by (induction secrets rule: check_secrets.induct) (auto simp: Let_def minSecretLength_def)

lemma validateSecurityConfig_ok: "validateSecurityConfig cfg = Inr () \<longleftrightarrow> strong_secrets cfg"
  unfolding validateSecurityConfig_def check_secrets_ok by (simp add: strong_secrets_def)

text \<open>
  C36: weak secrets are refused before anything happens.  If the pepper, the signing secret or the second
  factor's key is shorter than 32 bytes without surrounding space, building the program fails and no
  command at all has reached the host: no directory, no database, not even a warning.
\<close>

theorem weak_secrets_refused:
  assumes "\<not> strong_secrets cfg"
  shows "\<exists>e. run_state (Build P cfg) m = (Inl (Errorf ''invalid security configuration'' e), m)"
proof -
  obtain e where "validateSecurityConfig cfg = Inl e"
    using assms validateSecurityConfig_ok [of cfg] by (cases "validateSecurityConfig cfg") auto
  then show ?thesis by (simp add: Build_def run_simps)
qed

section \<open>Handles\<close>

lemma try_run_Inr:
  assumes "run_state (try_op oper f) m = (Inr y, m')"
  obtains x m1 where "run_state oper m = (Inr x, m1)" "run_state (f x) m1 = (Inr y, m')"
  using assms by (auto simp: run_simps split: prod.splits sum.splits)

lemma opens_wrapped: "opens host n oper k e \<Longrightarrow> opens host n (wrapped what oper) k e"
  by (rule opensI) (auto simp: run_simps wrap_err_def dest: opensD split: prod.splits sum.splits)

lemma opens_in_world: "opens host n (in_world oper) n n"
  by (rule opensI) (auto simp: run_simps split: prod.splits)

lemma opens_let: "opens host n (f x) k e \<Longrightarrow> opens host n (let y = x in f y) k e"
  by simp

lemma opens_warnings: "opens host n (log_warnings ws) n n"
  by (induction ws) (auto intro: opens_ret intro!: opens_try [where k = n] opens_tell)

lemma buildRuntime_handles: "opens host n (buildRuntime P cfg secr) n n"
  unfolding buildRuntime_def by (intro opens_try [where k = n] opens_wrapped opens_in_world opens_ret)

text \<open>Building leaves one database open when it succeeds and none when it fails.\<close>

lemma Build_opens: "opens (pf_host P) 0 (Build P cfg) 1 0"
proof -
  have runtime: "opens (pf_host P) 1 (buildRuntime P cfg (TrimSpace (cfg_SecretKeyBase cfg))) 1 (0 + 1)"
    using buildRuntime_handles [of "pf_host P" 1] by simp
  have opened: "opens (pf_host P) 0 (wrapped ''open database'' (sqlite_Open (pf_host P) (cfg_DatabasePath cfg))) 1 0"
    using opens_wrapped [OF Open_handles, of _ 0] by simp
  show ?thesis
    unfolding Build_def logSecurityConfigWarnings_def Let_def
    by (rule opens_try [where k = 0], rule opens_ret, rule opens_try [where k = 0], rule opens_warnings)
      (rule opens_try, rule opened, rule opens_close [OF runtime], rule opensI, auto simp: run_simps)
qed

section \<open>Starting\<close>

lemma parseTrustedProxies_checked: "check_proxies W ps = Inr qs \<Longrightarrow> \<exists>cidrs. parseTrustedProxies W ps = Inr cidrs"
  by (induction ps arbitrary: qs) (auto simp: Let_def and_then_eq_Inr split: if_splits option.splits)

text \<open>The relying party a configuration describes.\<close>

definition relying_party :: "config_libs \<Rightarrow> config \<Rightarrow> webauthn_config" where
  "relying_party C cfg =
     (let rpID = TrimSpace (passkeyRPID C cfg); name = TrimSpace (passkeyRPDisplayName cfg) in
      \<lparr>wa_RPID = rpID, wa_RPDisplayName = (if name = [] then rpID else name),
       wa_RPOrigins = [TrimSpace (cfg_AppBaseURL cfg)], wa_Timeout = 300 * second\<rparr>)"

text \<open>
  The parties outside cooperate as far as this configuration is concerned: the host obeys, the embedded
  pages parse, the passkey library accepts the relying party the configuration describes (if it has an
  identifier and an origin), the origin of the base URL may be trusted, and the mail parser reads the
  configured sender.
\<close>

definition platform_ready :: "platform \<Rightarrow> config \<Rightarrow> bool" where
  "platform_ready P cfg \<longleftrightarrow>
     (\<forall>l c. pf_host P l c = None) \<and>
     list_all (\<lambda>(name, page). wl_ParsePage (pf_web P) (''templates/'' @ page)) pages \<and>
     (let rp = relying_party (pf_config P) cfg
      in wa_RPID rp \<noteq> [] \<longrightarrow> [] \<notin> set (wa_RPOrigins rp) \<longrightarrow> (\<exists>c'. pf_webauthn_New P rp = Inr c')) \<and>
     (let origin = normalizeOrigin (pf_libs P) (pf_web P) (cfg_AppBaseURL cfg)
      in origin \<noteq> [] \<longrightarrow> wl_TrustableOrigin (pf_web P) origin) \<and>
     lib_ParseAddress (pf_libs P) (TrimSpace (cfg_EmailFrom cfg)) \<noteq> None"

lemma newEmailSender_ready:
  assumes "platform_ready P cfg" and "well_configured (pf_libs P) (pf_web P) cfg"
  shows "\<exists>send. newEmailSender P cfg = Inr send"
proof -
  from assms(1) have "lib_ParseAddress (pf_libs P) (TrimSpace (cfg_EmailFrom cfg)) \<noteq> None"
    by (simp add: platform_ready_def)
  with assms(2) show ?thesis
    by (auto simp: newEmailSender_def NewSMTPSender_def normalizeAddress_def well_configured_def smtp_complete_def mode_defs)
qed

lemma buildJobs_ready:
  assumes "newEmailSender P cfg = Inr send" and "well_configured (pf_libs P) (pf_web P) cfg"
  shows "\<exists>jobs. buildJobs P cfg = Inr jobs \<and> NewRunner jobs = Inr jobs \<and> map job_Name jobs = [''email-outbox'', ''database-cleanup'']"
  using assms
  by (auto simp: buildJobs_def and_then_def NewCleanupJob_def well_configured_def base_configured_def email_job_def
      CleanupJob_Job_def validateJob_def emailJobInterval_def second_def)

lemma New_ready:
  assumes "platform_ready P cfg" and "well_configured (pf_libs P) (pf_web P) cfg"
  shows "\<exists>srv. New (pf_libs P) (pf_web P) (server_options cfg auth key) = Inr srv \<and> sv_auth srv = auth \<and>
    sv_flashKey srv = DeriveKey (TrimSpace key) ''flash'' \<and> sv_cookieSigningKey srv = DeriveKey (TrimSpace key) ''cookie-signing'' \<and>
    sv_cookieSecure srv = cfg_CookieSecure cfg"
proof -
  from assms(2) obtain cidrs where "parseTrustedProxies (pf_web P) (cfg_TrustedProxies cfg) = Inr cidrs"
    unfolding well_configured_def base_configured_def using parseTrustedProxies_checked by metis
  with assms(1) show ?thesis
    by (auto simp: New_def server_options_def newCrossOriginProtection_def parseTemplates_def platform_ready_def Let_def)
qed

lemma NewAuthService_ready:
  assumes "platform_ready P cfg"
  shows "\<exists>auth w'. run_state (NewAuthService (pf_libs P) (pf_webauthn_New P) (auth_options (pf_config P) cfg)) w = (Inr auth, w') \<and>
    svc_totpSecretKey auth = DeriveKey (TrimSpace (cfg_TOTPKey cfg)) ''totp_secret''"
proof -
  let ?C = "pf_config P"
  have "newWebAuthn (pf_webauthn_New P) (auth_options ?C cfg) =
      (if wa_RPID (relying_party ?C cfg) = [] \<or> [] \<in> set (wa_RPOrigins (relying_party ?C cfg)) then Inr None
       else case pf_webauthn_New P (relying_party ?C cfg) of Inl e \<Rightarrow> Inl e | Inr c \<Rightarrow> Inr (Some c))"
    by (simp add: newWebAuthn_def relying_party_def auth_options_def Let_def passkeyCeremonyTimeout_def)
  with assms obtain wa where wa: "newWebAuthn (pf_webauthn_New P) (auth_options ?C cfg) = Inr wa"
    unfolding platform_ready_def Let_def by (cases "pf_webauthn_New P (relying_party ?C cfg)") (auto split: if_splits)
  let ?opts = "auth_options ?C cfg"
  have key: "ao_TOTPSecretKey ?opts = DeriveKey (TrimSpace (cfg_TOTPKey cfg)) ''totp_secret''"
    by (simp add: auth_options_def Let_def)
  have cipher: "newSecretCipher (DeriveKey k purpose) = Inr (DeriveKey k purpose)" for k purpose
    by (simp add: newSecretCipher_def DeriveKey_def)
  show ?thesis
    by (simp add: NewAuthService_def key cipher wa Let_def run_simps split: prod.split)
qed

lemma Open_ready:
  "(\<And>l c. host l c = None) \<Longrightarrow> \<exists>m'. run_state (sqlite_Open host path) m = (Inr (), m') \<and> cv_world m' = cv_world m"
  by (simp add: sqlite_Open_def OpenWithOptions_def configureConnectionPool_def run_simps reply_def)

lemma log_warnings_run: "\<exists>m'. run_state (log_warnings ws) m = (Inr (), m') \<and> cv_world m' = cv_world m"
proof (induction ws arbitrary: m)
  case (Cons w ws)
  from Cons.IH [of "m\<lparr>cv_log := cv_log m @ [Warn w]\<rparr>"] show ?case by (simp add: run_simps)
qed (simp add: run_simps)

lemma Build_ready:
  assumes loaded: "well_configured (pf_libs P) (pf_web P) cfg"
    and "strong_secrets cfg" and "platform_ready P cfg"
  shows "\<exists>rt m'. run_state (Build P cfg) m = (Inr rt, m') \<and>
    map job_Name (rt_JobsRunner rt) = [''email-outbox'', ''database-cleanup''] \<and>
    NewRunner (rt_JobsRunner rt) = Inr (rt_JobsRunner rt) \<and>
    (let s = hs_Handler (rt_HTTPServer rt) in
      sv_flashKey s = DeriveKey (TrimSpace (cfg_SecretKeyBase cfg)) ''flash'' \<and>
      sv_cookieSigningKey s = DeriveKey (TrimSpace (cfg_SecretKeyBase cfg)) ''cookie-signing'' \<and>
      svc_totpSecretKey (sv_auth s) = DeriveKey (TrimSpace (cfg_TOTPKey cfg)) ''totp_secret'' \<and>
      list_all (\<lambda>k. length k = 32) [sv_flashKey s, sv_cookieSigningKey s, svc_totpSecretKey (sv_auth s)] \<and>
      sv_cookieSecure s = cfg_CookieSecure cfg)"
proof -
  have obeys: "pf_host P l c = None" for l c using assms(3) by (simp add: platform_ready_def)
  have valid: "validateSecurityConfig cfg = Inr ()" using assms(2) by (simp add: validateSecurityConfig_ok)
  obtain m1 where warned: "run_state (log_warnings (securityConfigWarnings (pf_config P) cfg)) m = (Inr (), m1)"
      and w1: "cv_world m1 = cv_world m"
    using log_warnings_run by blast
  obtain m2 where opened: "run_state (sqlite_Open (pf_host P) (cfg_DatabasePath cfg)) m1 = (Inr (), m2)"
      and w2: "cv_world m2 = cv_world m"
    using Open_ready [of "pf_host P" "cfg_DatabasePath cfg" m1, OF obeys] w1 by auto
  obtain auth w' where auth: "run_state (NewAuthService (pf_libs P) (pf_webauthn_New P) (auth_options (pf_config P) cfg)) (cv_world m) = (Inr auth, w')"
      and key: "svc_totpSecretKey auth = DeriveKey (TrimSpace (cfg_TOTPKey cfg)) ''totp_secret''"
    using NewAuthService_ready [OF assms(3)] by blast
  obtain send where send: "newEmailSender P cfg = Inr send" using newEmailSender_ready [OF assms(3) loaded] by blast
  obtain jobs where jobs: "buildJobs P cfg = Inr jobs" "NewRunner jobs = Inr jobs"
      "map job_Name jobs = [''email-outbox'', ''database-cleanup'']"
    using buildJobs_ready [OF send loaded] by metis
  obtain srv where srv: "New (pf_libs P) (pf_web P) (server_options cfg auth (TrimSpace (cfg_SecretKeyBase cfg))) = Inr srv"
      "sv_auth srv = auth" "sv_flashKey srv = DeriveKey (TrimSpace (cfg_SecretKeyBase cfg)) ''flash''"
      "sv_cookieSigningKey srv = DeriveKey (TrimSpace (cfg_SecretKeyBase cfg)) ''cookie-signing''" "sv_cookieSecure srv = cfg_CookieSecure cfg"
    using New_ready [OF assms(3) loaded, of auth "TrimSpace (cfg_SecretKeyBase cfg)"] unfolding TrimSpace_idem by metis
  have len: "length (DeriveKey k purpose) = 32" for k purpose by (simp add: DeriveKey_def)
  define http where "http = \<lparr>hs_Addr = cfg_Addr cfg, hs_Handler = srv, hs_ReadHeaderTimeout = 5 * second,
    hs_ReadTimeout = 10 * second, hs_WriteTimeout = 30 * second, hs_IdleTimeout = 120 * second\<rparr>"
  have "run_state (buildRuntime P cfg (TrimSpace (cfg_SecretKeyBase cfg))) m2 =
      (Inr \<lparr>rt_DB = True, rt_HTTPServer = http, rt_JobsRunner = jobs\<rparr>, m2\<lparr>cv_world := w'\<rparr>)"
    by (simp add: buildRuntime_def run_simps w2 auth jobs(1,2) srv(1) http_def)
  then have "run_state (Build P cfg) m = (Inr \<lparr>rt_DB = True, rt_HTTPServer = http, rt_JobsRunner = jobs\<rparr>, m2\<lparr>cv_world := w'\<rparr>)"
    by (simp add: Build_def logSecurityConfigWarnings_def Let_def run_simps valid warned opened)
  moreover have "hs_Handler http = srv" by (simp add: http_def)
  ultimately show ?thesis using jobs(2,3) srv(2-5) key len by (simp add: Let_def)
qed

text \<open>
  C35: a configuration that loads starts the program.  If the environment gives a configuration, its three
  secrets have 32 bytes and no party outside refuses (the host, the pages, the passkey library for this
  relying party, the origin check and the mail parser for this sender), building succeeds: the program has the two jobs,
  both valid for the runner, and a server that signs its cookies and encrypts the second factor's secrets
  with keys of 32 bytes derived from those secrets and marks its cookies as configured.
\<close>

theorem loaded_config_starts:
  assumes "FromEnvWithProcess (pf_libs P) (pf_web P) (pf_config P) env processOverride = Inr cfg"
    and "strong_secrets cfg" and "platform_ready P cfg"
  shows "\<exists>rt m'. run_state (Build P cfg) m = (Inr rt, m') \<and>
    map job_Name (rt_JobsRunner rt) = [''email-outbox'', ''database-cleanup''] \<and>
    NewRunner (rt_JobsRunner rt) = Inr (rt_JobsRunner rt) \<and>
    (let s = hs_Handler (rt_HTTPServer rt) in
      sv_flashKey s = DeriveKey (TrimSpace (cfg_SecretKeyBase cfg)) ''flash'' \<and>
      sv_cookieSigningKey s = DeriveKey (TrimSpace (cfg_SecretKeyBase cfg)) ''cookie-signing'' \<and>
      svc_totpSecretKey (sv_auth s) = DeriveKey (TrimSpace (cfg_TOTPKey cfg)) ''totp_secret'' \<and>
      list_all (\<lambda>k. length k = 32) [sv_flashKey s, sv_cookieSigningKey s, svc_totpSecretKey (sv_auth s)] \<and>
      sv_cookieSecure s = cfg_CookieSecure cfg)"
  by (rule Build_ready [OF loaded_config [OF assms(1)] assms(2,3)])

definition ex_secret :: string where
  "ex_secret = replicate 32 (CHR ''k'')"

definition ex_env :: env where
  "ex_env = (\<lambda>key. if key \<in> {''SECRET_KEY_BASE'', ''AUTH_TOTP_KEY'', ''AUTH_PASSWORD_PEPPER''} then Some ex_secret else None)"

definition ex_platform :: platform where
  "ex_platform = \<lparr>pf_libs = ex_libs, pf_web = ex_web, pf_config = ex_config_libs, pf_webauthn_New = Inr,
     pf_err_text = (\<lambda>_. ''error''), pf_mail = (\<lambda>_ _ _. None), pf_host = (\<lambda>_ _. None)\<rparr>"

lemma ex_ready: "platform_ready ex_platform cfg"
  by (simp add: platform_ready_def ex_platform_def ex_web_def ex_libs_def Let_def list_all_iff case_prod_unfold)

lemma ex_env_policies: "\<exists>ps. policies_from_env C ex_env names ps0 = Inr ps"
proof (induction names arbitrary: ps0)
  case (Cons n names)
  have "Getenv ex_env (EnvPrefix n @ ''_MAX_REQUESTS'') = []" "Getenv ex_env (EnvPrefix n @ ''_WINDOW'') = []"
    by (cases n; simp add: EnvPrefix_def Getenv_def ex_env_def)+
  with Cons show ?case
    by (simp add: rateLimitPolicyFromEnv_def envIntOptionalPositive_def envDurationOptionalPositive_def and_then_def)
qed simp

lemma ex_loads:
  assumes "processFromOverrideOrEnv ex_libs ex_env ov = Inr p"
  obtains cfg where "FromEnvWithProcess ex_libs ex_web ex_config_libs ex_env ov = Inr cfg" "strong_secrets cfg"
proof -
  obtain ps where ps: "rateLimitPoliciesFromEnv ex_config_libs ex_env = Inr ps"
    using ex_env_policies unfolding rateLimitPoliciesFromEnv_def by blast
  have trim: "TrimSpace ex_secret = ex_secret" by (rule TrimSpace_visible) (simp add: ex_secret_def visible_def list_all_iff)
  from ps assms obtain cfg where cfg: "FromEnvWithProcess ex_libs ex_web ex_config_libs ex_env ov = Inr cfg"
      and secrets: "cfg_PasswordPepper cfg = ex_secret" "cfg_SecretKeyBase cfg = ex_secret" "cfg_TOTPKey cfg = ex_secret"
    by (simp add: FromEnvWithProcess_def base_from_env_def envOrDefault_def
        Getenv_def mode_defs envLogFormat_def envBool_def envIntOptionalPositive_def envBoolOrDefault_def
        envURL_def ex_config_libs_def envEmailAddress_def ex_libs_def envEmailProvider_def envDurationOrDefault_def
        envTrustedProxies_def ex_env_def trim)
  have "strong_secrets cfg" by (simp add: strong_secrets_def secrets trim) (simp add: ex_secret_def)
  with cfg show thesis by (rule that)
qed

lemma ex_process: "processFromOverrideOrEnv ex_libs ex_env [] = Inr ''all''"
  by (simp add: processFromOverrideOrEnv_def envProcess_def envOrDefault_def Getenv_def ex_env_def mode_defs IsProcess_def)

lemma ex_builds: "\<exists>cfg rt m'. run_state (Build ex_platform cfg) m = (Inr rt, m')"
proof -
  obtain cfg where cfg: "FromEnvWithProcess ex_libs ex_web ex_config_libs ex_env [] = Inr cfg" and strong: "strong_secrets cfg"
    by (rule ex_loads [OF ex_process])
  have "well_configured (pf_libs ex_platform) (pf_web ex_platform) cfg"
    using loaded_config [OF cfg] by (simp add: ex_platform_def)
  from Build_ready [OF this strong ex_ready, of m] show ?thesis by (elim exE conjE) blast
qed

theorem loaded_config_starts_witness:
  "\<exists>cfg rt m'. FromEnvWithProcess ex_libs ex_web ex_config_libs ex_env [] = Inr cfg \<and>
    run_state (Build ex_platform cfg) \<lparr>cv_world = ex_world ex_db, cv_log = []\<rparr> = (Inr rt, m') \<and> length (rt_JobsRunner rt) = 2"
proof -
  obtain cfg where cfg: "FromEnvWithProcess ex_libs ex_web ex_config_libs ex_env [] = Inr cfg" and strong: "strong_secrets cfg"
    by (rule ex_loads [OF ex_process])
  have env: "FromEnvWithProcess (pf_libs ex_platform) (pf_web ex_platform) (pf_config ex_platform) ex_env [] = Inr cfg"
    using cfg by (simp add: ex_platform_def)
  obtain rt m' where "run_state (Build ex_platform cfg) \<lparr>cv_world = ex_world ex_db, cv_log = []\<rparr> = (Inr rt, m')"
      and names: "map job_Name (rt_JobsRunner rt) = [''email-outbox'', ''database-cleanup'']"
    using loaded_config_starts [OF env strong ex_ready, of "\<lparr>cv_world = ex_world ex_db, cv_log = []\<rparr>"] by (elim exE conjE)
  moreover have "length (rt_JobsRunner rt) = 2" using arg_cong [OF names, of length] by simp
  ultimately show ?thesis using cfg by blast
qed

text \<open>A configuration with a key that is too short.\<close>

definition ex_config :: config where
  "ex_config = \<lparr>cfg_Addr = '':8080'', cfg_Process = ''all'', cfg_LogFormat = ''text'', cfg_DatabasePath = ''./data/app.db'',
     cfg_CookieSecure = True, cfg_SecretKeyBase = ex_secret, cfg_TOTPKey = ''changeme'', cfg_EmailChangeNoticeEnabled = True,
     cfg_PasswordMinLength = 12, cfg_PasswordPepper = ex_secret, cfg_AppBaseURL = ''https://app.example'',
     cfg_EmailFrom = ''app@app.example'', cfg_EmailProvider = ''log'', cfg_EmailLogBody = False, cfg_SMTPHost = [],
     cfg_SMTPPort = 0, cfg_SMTPUsername = [], cfg_SMTPPassword = [], cfg_SMTPTLS = False, cfg_CleanupInterval = hour,
     cfg_CleanupTokenRetention = hour, cfg_CleanupSentEmailRetention = hour, cfg_CleanupFailedEmailRetention = hour,
     cfg_RateLimitPolicies = Map.empty, cfg_TrustedProxies = [], cfg_TOTPIssuer = [], cfg_PasskeyRPID = [],
     cfg_PasskeyRPDisplayName = []\<rparr>"

theorem weak_secrets_refused_witness:
  "\<exists>e. run_state (Build ex_platform ex_config) \<lparr>cv_world = ex_world ex_db, cv_log = []\<rparr> =
       (Inl (Errorf ''invalid security configuration'' e), \<lparr>cv_world = ex_world ex_db, cv_log = []\<rparr>)"
proof (rule weak_secrets_refused)
  have "TrimSpace ''changeme'' = ''changeme''" by (rule TrimSpace_visible) (simp add: visible_def)
  then show "\<not> strong_secrets ex_config" by (simp add: strong_secrets_def ex_config_def)
qed

end
