(* ===== verification/Lifecycle.thy ===== *)
theory Lifecycle
  imports Jobs
begin

text \<open>
  How the process starts, runs and stops (\<^verbatim>\<open>runAll\<close>, \<^verbatim>\<open>runWeb\<close> and \<^verbatim>\<open>runWorker\<close> of \<^verbatim>\<open>cmd/app/main.go\<close> and
  \<^verbatim>\<open>Runner.Run\<close> of \<^verbatim>\<open>internal/jobs/runner.go\<close>): goroutines, channels and contexts as a step relation.
\<close>

section \<open>State\<close>

definition ErrServerClosed :: go_error where
  "ErrServerClosed = ErrMsg ''http: Server closed''"

definition context_Canceled :: go_error where
  "context_Canceled = ErrMsg ''context canceled''"

text \<open>The goroutine of the web server: in \<^verbatim>\<open>ListenAndServe\<close>, about to send its error, at its end.\<close>

datatype http_phase = Listening | Sending go_error | Ended

text \<open>
  The goroutine of the jobs: in \<^verbatim>\<open>Run\<close>, with so many job loops that wait for their ticker or the context and
  so many that are inside a run of their job; back from it; at its end.
\<close>

datatype jobs_phase = Running nat nat | Back go_error | Closed

text \<open>The main goroutine of \<^verbatim>\<open>runAll\<close>, with \<^verbatim>\<open>firstErr\<close>.\<close>

datatype main_phase =
    Selecting
  | Selected "go_error option"
  | ShuttingDown "go_error option"
  | Stopping "go_error option"
  | Waiting "go_error option"
  | Returned "go_error option"

record life =
  lf_signalled :: bool
  lf_stopped :: bool
  lf_shutdown :: bool
  lf_http :: http_phase
  lf_jobs :: jobs_phase
  lf_errs :: "go_error list"
  lf_main :: main_phase

text \<open>At the start the loops of jobs with \<^verbatim>\<open>RunAtStart\<close> are inside a run.\<close>

definition launch :: "nat \<Rightarrow> nat \<Rightarrow> life" where
  "launch idle busy = \<lparr>lf_signalled = False, lf_stopped = False, lf_shutdown = False, lf_http = Listening,
     lf_jobs = Running idle busy, lf_errs = [], lf_main = Selecting\<rparr>"

text \<open>\<^verbatim>\<open>jobsCtx\<close> is done when its parent is or when it has been cancelled.\<close>

definition jobs_cancelled :: "life \<Rightarrow> bool" where
  "jobs_cancelled s \<longleftrightarrow> lf_signalled s \<or> lf_stopped s"

definition errs_capacity :: nat where
  "errs_capacity = 2"

section \<open>Steps\<close>

definition not_closed :: "go_error \<Rightarrow> go_error option" where
  "not_closed e = (if errors_Is e ErrServerClosed then None else Some e)"

definition keep_first :: "go_error option \<Rightarrow> go_error option \<Rightarrow> go_error option" where
  "keep_first firstErr shutdownErr =
     (case (firstErr, shutdownErr) of (None, Some e) \<Rightarrow> Some (Errorf ''shutdown server'' e) | _ \<Rightarrow> firstErr)"

text \<open>
  The steps of the program.  \<^verbatim>\<open>ListenAndServe\<close> returns \<^verbatim>\<open>ErrServerClosed\<close> once \<^verbatim>\<open>Shutdown\<close> has been
  called, which returns some error or none.  A job loop that waits ends when its context is done;
  one that is inside a run of its job has no step of its own, and \<^verbatim>\<open>Run\<close> waits for all of them.
\<close>

inductive step :: "life \<Rightarrow> life \<Rightarrow> bool" where
  closed: "lf_http s = Listening \<Longrightarrow> lf_shutdown s \<Longrightarrow> step s (s\<lparr>lf_http := Sending ErrServerClosed\<rparr>)"
| send: "lf_http s = Sending e \<Longrightarrow> length (lf_errs s) < errs_capacity \<Longrightarrow>
    step s (s\<lparr>lf_http := Ended, lf_errs := lf_errs s @ [e]\<rparr>)"
| loop_end: "lf_jobs s = Running (Suc idle) busy \<Longrightarrow> jobs_cancelled s \<Longrightarrow> step s (s\<lparr>lf_jobs := Running idle busy\<rparr>)"
| run_end: "lf_jobs s = Running 0 0 \<Longrightarrow> jobs_cancelled s \<Longrightarrow> step s (s\<lparr>lf_jobs := Back context_Canceled\<rparr>)"
| jobs_err: "lf_jobs s = Back e \<Longrightarrow> \<not> errors_Is e context_Canceled \<Longrightarrow> length (lf_errs s) < errs_capacity \<Longrightarrow>
    step s (s\<lparr>lf_jobs := Closed, lf_errs := lf_errs s @ [e]\<rparr>)"
| jobs_done: "lf_jobs s = Back e \<Longrightarrow> errors_Is e context_Canceled \<Longrightarrow> step s (s\<lparr>lf_jobs := Closed\<rparr>)"
| select_ctx: "lf_main s = Selecting \<Longrightarrow> lf_signalled s \<Longrightarrow> step s (s\<lparr>lf_main := Selected None\<rparr>)"
| select_err: "lf_main s = Selecting \<Longrightarrow> lf_errs s = e # es \<Longrightarrow>
    step s (s\<lparr>lf_main := Selected (not_closed e), lf_errs := es\<rparr>)"
| shutdown: "lf_main s = Selected f \<Longrightarrow> step s (s\<lparr>lf_main := ShuttingDown f, lf_shutdown := True\<rparr>)"
| shut: "lf_main s = ShuttingDown f \<Longrightarrow> step s (s\<lparr>lf_main := Stopping (keep_first f r)\<rparr>)"
| stop: "lf_main s = Stopping f \<Longrightarrow> step s (s\<lparr>lf_main := Waiting f, lf_stopped := True\<rparr>)"
| wait: "lf_main s = Waiting f \<Longrightarrow> lf_jobs s = Closed \<Longrightarrow> step s (s\<lparr>lf_main := Returned f\<rparr>)"

text \<open>
  What happens to the program: a signal, the server failing with another error, a ticker that fires, and
  the run of a job coming back, after which the loop goes on, or ends if the run failed and the context is
  done.  Nothing makes a run come back, not even the end of its context.
\<close>

inductive event :: "life \<Rightarrow> life \<Rightarrow> bool" where
  signal: "event s (s\<lparr>lf_signalled := True\<rparr>)"
| fail: "lf_http s = Listening \<Longrightarrow> \<not> lf_shutdown s \<Longrightarrow> \<not> errors_Is e ErrServerClosed \<Longrightarrow>
    event s (s\<lparr>lf_http := Sending e\<rparr>)"
| tick: "lf_jobs s = Running (Suc idle) busy \<Longrightarrow> event s (s\<lparr>lf_jobs := Running idle (Suc busy)\<rparr>)"
| goes_on: "lf_jobs s = Running idle (Suc busy) \<Longrightarrow> event s (s\<lparr>lf_jobs := Running (Suc idle) busy\<rparr>)"
| breaks_off: "lf_jobs s = Running idle (Suc busy) \<Longrightarrow> jobs_cancelled s \<Longrightarrow> event s (s\<lparr>lf_jobs := Running idle busy\<rparr>)"

text \<open>The states of the process.\<close>

inductive lives :: "nat \<Rightarrow> nat \<Rightarrow> life \<Rightarrow> bool" for idle busy where
  launch: "lives idle busy (launch idle busy)"
| happen: "lives idle busy s \<Longrightarrow> event s s' \<Longrightarrow> lives idle busy s'"
| act: "lives idle busy s \<Longrightarrow> step s s' \<Longrightarrow> lives idle busy s'"

text \<open>A stretch of the life of the process in which the program makes \<open>k\<close> steps.\<close>

inductive stretch :: "life \<Rightarrow> nat \<Rightarrow> life \<Rightarrow> bool" for s where
  begins: "stretch s 0 s"
| happen: "stretch s k t \<Longrightarrow> event t u \<Longrightarrow> stretch s k u"
| act: "stretch s k t \<Longrightarrow> step t u \<Longrightarrow> stretch s (Suc k) u"

section \<open>The other modes\<close>

text \<open>What \<^verbatim>\<open>runWeb\<close> selects: a signal, with what \<^verbatim>\<open>Shutdown\<close> then returns, or the error of the server.\<close>

datatype web_event = Signal "go_error option" | ListenErr go_error

definition runWeb :: "web_event \<Rightarrow> go_error option" where
  "runWeb selected =
     (case selected of
       Signal (Some e) \<Rightarrow> Some (Errorf ''shutdown server'' e)
     | Signal None \<Rightarrow> None
     | ListenErr e \<Rightarrow> if errors_Is e ErrServerClosed then None else Some e)"

text \<open>\<open>err\<close> is what \<^verbatim>\<open>Runner.Run\<close> returns, the error of the context.\<close>

definition runWorker :: "go_error option \<Rightarrow> go_error option" where
  "runWorker err = (case err of Some e \<Rightarrow> if errors_Is e context_Canceled then None else Some e | None \<Rightarrow> None)"

section \<open>The invariant\<close>

fun outcome :: "main_phase \<Rightarrow> go_error option option" where
  "outcome Selecting = None"
| "outcome (Selected f) = Some f"
| "outcome (ShuttingDown f) = Some f"
| "outcome (Stopping f) = Some f"
| "outcome (Waiting f) = Some f"
| "outcome (Returned f) = Some f"

definition buffer_inv :: "life \<Rightarrow> bool" where
  "buffer_inv s \<longleftrightarrow> length (lf_errs s) \<le> 1 \<and> (lf_errs s \<noteq> [] \<longrightarrow> lf_http s = Ended) \<and>
     (lf_http s = Ended \<longrightarrow> lf_main s = Selecting \<longrightarrow> lf_errs s \<noteq> []) \<and>
     (\<not> lf_shutdown s \<longrightarrow> (\<forall>e. lf_http s = Sending e \<or> e \<in> set (lf_errs s) \<longrightarrow> \<not> errors_Is e ErrServerClosed))"

definition jobs_inv :: "life \<Rightarrow> bool" where
  "jobs_inv s \<longleftrightarrow> (\<forall>e. lf_jobs s = Back e \<longrightarrow> e = context_Canceled) \<and>
     (\<forall>f. lf_main s = Returned f \<longrightarrow> lf_jobs s = Closed)"

fun past_shutdown :: "main_phase \<Rightarrow> bool" where
  "past_shutdown Selecting = False"
| "past_shutdown (Selected _) = False"
| "past_shutdown _ = True"

fun past_stop :: "main_phase \<Rightarrow> bool" where
  "past_stop (Waiting _) = True"
| "past_stop (Returned _) = True"
| "past_stop _ = False"

definition main_inv :: "life \<Rightarrow> bool" where
  "main_inv s \<longleftrightarrow> lf_shutdown s = past_shutdown (lf_main s) \<and> lf_stopped s = past_stop (lf_main s) \<and>
     (outcome (lf_main s) = Some None \<longrightarrow> lf_signalled s)"

definition life_inv :: "life \<Rightarrow> bool" where
  "life_inv s \<longleftrightarrow> buffer_inv s \<and> jobs_inv s \<and> main_inv s"

lemma Canceled_Is [simp]: "errors_Is context_Canceled context_Canceled"
  by (simp add: context_Canceled_def)

lemma keep_first_None: "keep_first f r = None \<Longrightarrow> f = None"
  by (auto simp: keep_first_def split: option.splits)

lemma not_closed_None: "not_closed e = None \<Longrightarrow> errors_Is e ErrServerClosed"
  by (simp add: not_closed_def split: if_splits)

lemma step_buffer: "step s s' \<Longrightarrow> life_inv s \<Longrightarrow> buffer_inv s'"
  by (induction rule: step.induct) (auto simp: life_inv_def buffer_inv_def jobs_inv_def main_inv_def errs_capacity_def)

lemma step_jobs: "step s s' \<Longrightarrow> life_inv s \<Longrightarrow> jobs_inv s'"
  by (induction rule: step.induct) (auto simp: life_inv_def jobs_inv_def)

lemma step_main: "step s s' \<Longrightarrow> life_inv s \<Longrightarrow> main_inv s'"
  by (induction rule: step.induct)
    (auto simp: life_inv_def buffer_inv_def main_inv_def dest: keep_first_None not_closed_None)

lemma event_inv: "event s s' \<Longrightarrow> life_inv s \<Longrightarrow> life_inv s'"
  by (induction rule: event.induct) (auto simp: life_inv_def buffer_inv_def jobs_inv_def main_inv_def)

lemma step_inv: "step s s' \<Longrightarrow> life_inv s \<Longrightarrow> life_inv s'"
  unfolding life_inv_def [of s'] by (blast intro: step_buffer step_jobs step_main)

lemma launch_inv: "life_inv (launch idle busy)"
  by (simp add: life_inv_def buffer_inv_def jobs_inv_def main_inv_def launch_def)

lemma lives_inv: "lives idle busy s \<Longrightarrow> life_inv s"
  by (induction rule: lives.induct) (auto intro: launch_inv event_inv step_inv)

section \<open>Results\<close>

text \<open>
  C40: the process ends well.  Whenever \<^verbatim>\<open>runAll\<close> returns, in any interleaving of its goroutines, every job
  loop has ended and the server has been shut down, so that nothing uses the database the caller then
  closes; and it returns no error only if a signal asked it to stop: a server that fails makes the
  process fail.
\<close>

theorem runAll_result:
  assumes "lives idle busy s" and "lf_main s = Returned f"
  shows "lf_jobs s = Closed \<and> lf_shutdown s \<and> (f = None \<longrightarrow> lf_signalled s)"
  using lives_inv [OF assms(1)] assms(2) by (auto simp: life_inv_def jobs_inv_def main_inv_def)

fun http_left :: "http_phase \<Rightarrow> nat" where
  "http_left Listening = 2" | "http_left (Sending _) = 1" | "http_left Ended = 0"

fun jobs_left :: "jobs_phase \<Rightarrow> nat" where
  "jobs_left (Running idle busy) = idle + busy + 2" | "jobs_left (Back _) = 1" | "jobs_left Closed = 0"

fun main_left :: "main_phase \<Rightarrow> nat" where
  "main_left Selecting = 5" | "main_left (Selected _) = 4" | "main_left (ShuttingDown _) = 3"
| "main_left (Stopping _) = 2" | "main_left (Waiting _) = 1" | "main_left (Returned _) = 0"

definition left :: "life \<Rightarrow> nat" where
  "left s = http_left (lf_http s) + jobs_left (lf_jobs s) + main_left (lf_main s)"

lemma step_left: "step s s' \<Longrightarrow> left s' < left s"
  by (induction rule: step.induct) (simp_all add: left_def)

lemma event_left: "event s s' \<Longrightarrow> left s' \<le> left s"
  by (induction rule: event.induct) (simp_all add: left_def)

lemma lives_left: "lives idle busy s \<Longrightarrow> left s \<le> idle + busy + 9"
proof (induction rule: lives.induct)
  case (act s s')
  then show ?case using step_left [of s s'] by simp
next
  case (happen s s')
  then show ?case using event_left [of s s'] by simp
qed (simp add: left_def launch_def)

lemma stretch_left: "stretch s k s' \<Longrightarrow> left s' + k \<le> left s"
proof (induction rule: stretch.induct)
  case (act k t u)
  then show ?case using step_left [of t u] by simp
next
  case (happen k t u)
  then show ?case using event_left [of t u] by simp
qed simp

text \<open>What has begun to end stays so, and is stuck only while it waits for the run of a job.\<close>

definition ending :: "life \<Rightarrow> bool" where
  "ending s \<longleftrightarrow> lf_signalled s \<or> lf_http s \<noteq> Listening"

lemma step_ending: "step s s' \<Longrightarrow> ending s \<Longrightarrow> ending s'"
  by (induction rule: step.induct) (auto simp: ending_def)

lemma event_ending: "event s s' \<Longrightarrow> ending s \<Longrightarrow> ending s'"
  by (induction rule: event.induct) (auto simp: ending_def)

text \<open>The main goroutine waits for the jobs and the only loops left are inside runs.\<close>

definition waits_for_run :: "life \<Rightarrow> bool" where
  "waits_for_run s \<longleftrightarrow> (\<exists>f busy. lf_main s = Waiting f \<and> lf_jobs s = Running 0 (Suc busy))"

lemma progress:
  assumes inv: "life_inv s" and ending: "ending s" and not_returned: "\<And>f. lf_main s \<noteq> Returned f"
    and free: "\<not> waits_for_run s"
  shows "\<exists>t. step s t"
proof (cases "lf_main s")
  case Selecting
  show ?thesis
  proof (cases "lf_signalled s")
    case True
    with Selecting show ?thesis by (blast intro: step.intros)
  next
    case False
    show ?thesis
    proof (cases "lf_http s")
      case Listening
      with False ending show ?thesis by (simp add: ending_def)
    next
      case (Sending e)
      with inv have "length (lf_errs s) < errs_capacity" by (auto simp: life_inv_def buffer_inv_def errs_capacity_def)
      with Sending show ?thesis by (blast intro: step.intros)
    next
      case Ended
      with inv Selecting obtain e es where "lf_errs s = e # es" by (cases "lf_errs s") (auto simp: life_inv_def buffer_inv_def)
      with Selecting show ?thesis by (blast intro: step.intros)
    qed
  qed
next
  case (Waiting f)
  with inv have cancelled: "jobs_cancelled s" by (simp add: life_inv_def main_inv_def jobs_cancelled_def)
  show ?thesis
  proof (cases "lf_jobs s")
    case (Running idle busy)
    with cancelled free Waiting show ?thesis
      by (cases idle; cases busy) (auto simp: waits_for_run_def intro: step.intros)
  next
    case (Back e)
    with inv have "errors_Is e context_Canceled" by (simp add: life_inv_def jobs_inv_def)
    with Back show ?thesis by (blast intro: step.intros)
  next
    case Closed
    with Waiting show ?thesis by (blast intro: step.intros)
  qed
qed (use not_returned in \<open>blast intro: step.intros\<close>)+

lemma ending_lives:
  assumes "stretch s k s'" and "lives idle busy s" and "ending s"
  shows "lives idle busy s' \<and> ending s'"
  using assms by (induction rule: stretch.induct) (auto intro: lives.act lives.happen step_ending event_ending)

text \<open>
  C39: the process comes to its end unless a job does not.  Once a signal has arrived or the server has
  failed, for any jobs, in any interleaving and whatever else happens, the program makes at most as many
  further steps as there are jobs and nine, and it can always make one until \<^verbatim>\<open>runAll\<close> has returned, with
  one exception: when it has shut the server down and cancelled the jobs, and the run of some job has not
  come back.  So no channel blocks and the jobs are released even when the server fails to start;
  but as long as the run of some job has not come back, \<^verbatim>\<open>runAll\<close> does not return.
\<close>

theorem runAll_stops:
  assumes "lives idle busy s" and "lf_signalled s \<or> lf_http s \<noteq> Listening" and "stretch s k s'"
  shows "k \<le> idle + busy + 9 \<and>
    ((\<exists>t. step s' t) \<or> (\<exists>f. lf_main s' = Returned f) \<or>
     (\<exists>f m. lf_main s' = Waiting f \<and> lf_shutdown s' \<and> lf_stopped s' \<and> lf_jobs s' = Running 0 (Suc m))) \<and>
    ((\<exists>i m. lf_jobs s' = Running i (Suc m)) \<longrightarrow> (\<nexists>f. lf_main s' = Returned f))"
proof (intro conjI)
  show "k \<le> idle + busy + 9" using stretch_left [OF assms(3)] lives_left [OF assms(1)] by simp
  from ending_lives [OF assms(3,1)] assms(2) have s': "life_inv s'" "ending s'"
    by (auto simp: ending_def intro: lives_inv)
  have "lf_shutdown s' \<and> lf_stopped s'" if "lf_main s' = Waiting f" for f
    using s'(1) that by (simp add: life_inv_def main_inv_def)
  with progress [OF s'] show "(\<exists>t. step s' t) \<or> (\<exists>f. lf_main s' = Returned f) \<or>
     (\<exists>f m. lf_main s' = Waiting f \<and> lf_shutdown s' \<and> lf_stopped s' \<and> lf_jobs s' = Running 0 (Suc m))"
    unfolding waits_for_run_def by metis
  show "(\<exists>i m. lf_jobs s' = Running i (Suc m)) \<longrightarrow> (\<nexists>f. lf_main s' = Returned f)"
    using s'(1) by (auto simp: life_inv_def jobs_inv_def)
qed

text \<open>
  The exception is real: as long as the run of a job does not come back, \<^verbatim>\<open>runAll\<close> has not returned, and when
  it has come to wait for the jobs and the server's goroutine has ended, the program has no step left.
\<close>

theorem blocked_job_blocks_stop:
  assumes "lives idle busy s" and "lf_jobs s = Running 0 (Suc m)"
  shows "(\<nexists>f. lf_main s = Returned f) \<and>
    (\<forall>f. lf_main s = Waiting f \<longrightarrow> lf_http s = Ended \<longrightarrow> \<not> (\<exists>t. step s t))"
proof -
  have "\<nexists>f. lf_main s = Returned f"
    using lives_inv [OF assms(1)] assms(2) by (auto simp: life_inv_def jobs_inv_def)
  moreover have "False" if "step s t" "lf_main s = Waiting f" "lf_http s = Ended" for t f
    using that assms(2) by (cases rule: step.cases) auto
  ultimately show ?thesis by blast
qed

text \<open>A run: the port is taken, the process ends with that error.\<close>

definition ex_failed :: life where
  "ex_failed = (launch 0 1)\<lparr>lf_http := Sending ErrDriver\<rparr>"

lemma ex_failed_lives: "lives 0 1 ex_failed"
  unfolding ex_failed_def
  by (rule lives.happen [OF lives.launch], rule event.fail) (simp_all add: launch_def ErrServerClosed_def)

text \<open>The run of the job comes back and its loop goes on waiting.\<close>

lemma ex_stretch: "stretch ex_failed 0 (ex_failed\<lparr>lf_jobs := Running 1 0\<rparr>)"
proof (rule stretch.happen [OF stretch.begins])
  show "event ex_failed (ex_failed\<lparr>lf_jobs := Running 1 0\<rparr>)"
    using event.goes_on [of ex_failed 0 0] by (simp add: ex_failed_def launch_def)
qed

theorem runAll_stops_witness: "\<exists>t. step (ex_failed\<lparr>lf_jobs := Running 1 0\<rparr>) t"
proof -
  have "lf_http ex_failed \<noteq> Listening" "lf_main ex_failed = Selecting" by (simp_all add: ex_failed_def launch_def)
  with runAll_stops [OF ex_failed_lives _ ex_stretch] show ?thesis by simp
qed

text \<open>A run: one job, a signal, and the end.\<close>

lemma ex_waiting_lives:
  "lives 0 1 \<lparr>lf_signalled = True, lf_stopped = True, lf_shutdown = True, lf_http = Listening, lf_jobs = Running 0 1, lf_errs = [],
     lf_main = Waiting None\<rparr>"
proof -
  have "lives 0 1 ((launch 0 1)\<lparr>lf_signalled := True\<rparr>)" by (rule lives.happen [OF lives.launch event.signal])
  note s0 = this [unfolded launch_def, simplified]
  note s1 = lives.act [OF s0 step.select_ctx, simplified]
  note s2 = lives.act [OF s1 step.shutdown, simplified]
  note s3 = lives.act [OF s2 step.shut [where r = None], simplified keep_first_def, simplified]
  show ?thesis using lives.act [OF s3 step.stop, simplified, of None None None] by simp
qed

text \<open>The server's goroutine ends too, but the run of the job does not: the process hangs.\<close>

theorem blocked_job_blocks_stop_witness:
  "\<exists>s. lives 0 1 s \<and> lf_signalled s \<and> (\<nexists>f. lf_main s = Returned f) \<and> \<not> (\<exists>t. step s t)"
proof -
  note s1 = lives.act [OF ex_waiting_lives step.closed, simplified]
  note s2 = lives.act [OF s1 step.send, simplified errs_capacity_def, simplified]
  note s3 = s2 [OF refl]
  from blocked_job_blocks_stop [OF s3, of 0] s3 show ?thesis by fastforce
qed

lemma ex_returned_lives:
  "lives 0 1 \<lparr>lf_signalled = True, lf_stopped = True, lf_shutdown = True, lf_http = Listening, lf_jobs = Closed, lf_errs = [],
     lf_main = Returned None\<rparr>"
proof -
  note s4 = ex_waiting_lives [simplified]
  note s5 = lives.happen [OF s4 event.breaks_off, simplified jobs_cancelled_def, simplified]
  note s6 = lives.act [OF s5 step.run_end, simplified jobs_cancelled_def, simplified]
  note s7 = lives.act [OF s6 step.jobs_done, simplified]
  show ?thesis using lives.act [OF s7 step.wait, simplified] by simp
qed

theorem runAll_result_witness:
  "\<exists>s. lives 0 1 s \<and> lf_main s = Returned None \<and> lf_jobs s = Closed \<and> lf_signalled s"
  using runAll_result [OF ex_returned_lives, of None] ex_returned_lives by force

end
