(* ===== verification/Command_Line.thy ===== *)
theory Command_Line
  imports App_Claims Lifecycle
begin

text \<open>
  The command line (\<^verbatim>\<open>cmd/app/main.go\<close>): the arguments, the dispatch to the modes of the process and to
  the migrations, and the address printed at the start.
\<close>

section \<open>Arguments\<close>

record cliCommand =
  cli_name :: string
  cli_processOverride :: string
  cli_migrateAction :: string

definition no_command :: cliCommand where
  "no_command = \<lparr>cli_name = [], cli_processOverride = [], cli_migrateAction = []\<rparr>"

definition parseMigrateArgs :: "libs \<Rightarrow> string list \<Rightarrow> cliCommand result" where
  "parseMigrateArgs L args =
     (case args of
       [arg] \<Rightarrow>
         (let action = ToLower L (TrimSpace arg)
          in if action = ''up'' \<or> action = ''down'' \<or> action = ''status''
             then Inr (no_command\<lparr>cli_name := ''migrate'', cli_migrateAction := action\<rparr>)
             else Inl (ErrMsg ''migrate action must be up, down, or status''))
     | _ \<Rightarrow> Inl (ErrMsg ''migrate subcommand requires exactly one action''))"

definition parseCLIArgs :: "libs \<Rightarrow> string list \<Rightarrow> cliCommand result" where
  "parseCLIArgs L args =
     (case args of
       [] \<Rightarrow> Inr no_command
     | arg # rest \<Rightarrow>
         (let command = ToLower L (TrimSpace arg)
          in if command = ''all'' then Inr (no_command\<lparr>cli_name := ''all'', cli_processOverride := ProcessAll\<rparr>)
             else if command = ''serve'' then Inr (no_command\<lparr>cli_name := ''serve'', cli_processOverride := ProcessWeb\<rparr>)
             else if command = ''worker'' then Inr (no_command\<lparr>cli_name := ''worker'', cli_processOverride := ProcessWorker\<rparr>)
             else if command = ''migrate'' then parseMigrateArgs L rest
             else Inl (ErrMsg (''unknown command '' @ command))))"

section \<open>Dispatch\<close>

text \<open>\<^verbatim>\<open>config.LoadDotEnv\<close> and \<^verbatim>\<open>config.FromEnvWithProcess\<close>, one after the other.\<close>

definition load_config :: "platform \<Rightarrow> (string \<Rightarrow> file_read) \<Rightarrow> env \<Rightarrow> string \<Rightarrow> config result" where
  "load_config P read_file env processOverride =
     (case LoadDotEnv read_file ''.env'' env of
       (Inl e, _) \<Rightarrow> Inl (Errorf ''load .env'' e)
     | (Inr _, env') \<Rightarrow>
         wrap_err ''load config'' (FromEnvWithProcess (pf_libs P) (pf_web P) (pf_config P) env' processOverride))"

definition runMigrate :: "platform \<Rightarrow> (string \<Rightarrow> file_read) \<Rightarrow> env \<Rightarrow> string \<Rightarrow> unit host_op" where
  "runMigrate P read_file env action =
     try_op (ret (load_config P read_file env ProcessAll)) (\<lambda>cfg.
     try_op (issue (pf_host P) (Errorf ''create database directory'') (MkdirAll (Dir (cfg_DatabasePath cfg)))) (\<lambda>_.
     try_op (issue (pf_host P) (Errorf ''open migration database'') (GooseOpen (cfg_DatabasePath cfg))) (\<lambda>_. do {
     r \<leftarrow> issue (pf_host P) (Errorf (''run migrations '' @ action)) (GooseRun action);
     _ \<leftarrow> tell CloseDB;
     ret r
     })))"

text \<open>
  A mode runs until it returns; its result, one of those of \<^verbatim>\<open>Lifecycle\<close>, is the answer to \<open>Serve\<close>.
  The deferred closing of the database follows.
\<close>

definition serve_mode :: "platform \<Rightarrow> config \<Rightarrow> unit host_op" where
  "serve_mode P cfg =
     (if cfg_Process cfg = ProcessAll \<or> cfg_Process cfg = ProcessWeb \<or> cfg_Process cfg = ProcessWorker
      then issue (pf_host P) id (Serve (cfg_Process cfg))
      else ret (Inl (ErrMsg ''APP_PROCESS must be all, web or worker'')))"

definition run :: "platform \<Rightarrow> (string \<Rightarrow> file_read) \<Rightarrow> env \<Rightarrow> string list \<Rightarrow> unit host_op" where
  "run P read_file env args =
     (case parseCLIArgs (pf_libs P) args of
       Inl e \<Rightarrow> ret (Inl e)
     | Inr command \<Rightarrow>
         if cli_name command = ''migrate'' then runMigrate P read_file env (cli_migrateAction command)
         else
           try_op (ret (load_config P read_file env (cli_processOverride command))) (\<lambda>cfg.
           try_op (Build P cfg) (\<lambda>runtime. do {
           r \<leftarrow> serve_mode P cfg;
           _ \<leftarrow> Runtime_Close runtime;
           ret r
           })))"

text \<open>The exit status of \<^verbatim>\<open>main\<close>.\<close>

definition main_exit :: "unit result \<Rightarrow> int" where
  "main_exit r = (case r of Inl _ \<Rightarrow> 1 | Inr _ \<Rightarrow> 0)"

datatype log_handler = TextHandler | JSONHandler

definition configureAppLogger :: "string \<Rightarrow> log_handler" where
  "configureAppLogger format = (if EqualFold (TrimSpace format) ''json'' then JSONHandler else TextHandler)"

section \<open>The address printed at the start\<close>

definition isLocalHost :: "libs \<Rightarrow> string \<Rightarrow> bool" where
  "isLocalHost L host \<longleftrightarrow> ToLower L (TrimSpace host) \<in> {''localhost'', ''127.0.0.1'', ''::1''}"

definition normalizeLocalBaseURL :: "libs \<Rightarrow> config_libs \<Rightarrow> string \<Rightarrow> string" where
  "normalizeLocalBaseURL L C raw =
     (case cf_ParseURL C (TrimSpace raw) of
       None \<Rightarrow> []
     | Some parsed \<Rightarrow>
         if cu_Scheme parsed \<noteq> ''http'' \<and> cu_Scheme parsed \<noteq> ''https'' then []
         else if \<not> isLocalHost L (cf_Hostname C parsed) then []
         else cf_URLString C (parsed\<lparr>cu_Path := if cu_Path parsed = [] then ''/'' else cu_Path parsed,
                cu_RawQuery := [], cu_Fragment := []\<rparr>))"

definition localURLFromAddr :: "libs \<Rightarrow> config_libs \<Rightarrow> string \<Rightarrow> string" where
  "localURLFromAddr L C addr =
     (let addr = TrimSpace addr
      in if addr = [] then []
         else case cf_SplitHostPort C addr of
             None \<Rightarrow> []
           | Some (host, port) \<Rightarrow>
               if port = [] then []
               else
                 (let host = TrimSpace host;
                      host = (if host = [] \<or> host = ''0.0.0.0'' \<or> host = ''::'' \<or> host = ''[::]'' then ''localhost'' else host)
                  in if \<not> isLocalHost L host then [] else ''http://'' @ cf_JoinHostPort C host port @ ''/''))"

definition startupURL :: "libs \<Rightarrow> config_libs \<Rightarrow> config \<Rightarrow> string" where
  "startupURL L C cfg =
     (let localURL = normalizeLocalBaseURL L C (cfg_AppBaseURL cfg)
      in if localURL \<noteq> [] then localURL else localURLFromAddr L C (cfg_Addr cfg))"

section \<open>Every database is closed\<close>

text \<open>A step, the closing of the database and the result of the step.\<close>

lemma opens_deferred:
  assumes "opens host n oper n n"
  shows "opens host n (do { r \<leftarrow> oper; _ \<leftarrow> tell CloseDB; ret r }) (n - 1) (n - 1)"
proof (rule opensI)
  fix m r m' assume n: "handles host (cv_log m) = n"
    and run: "run_state (do { r \<leftarrow> oper; _ \<leftarrow> tell CloseDB; ret r }) m = (r, m')"
  obtain r1 m1 where first: "run_state oper m = (r1, m1)" by (metis surj_pair)
  from opensD [OF assms n first] run first show "handles host (cv_log m') = (if \<exists>x. r = Inr x then n - 1 else n - 1)"
    by (auto simp: run_simps split: if_splits)
qed

lemma runMigrate_handles: "opens (pf_host P) 0 (runMigrate P read_file env action) 0 0"
proof -
  have migrate: "opens (pf_host P) 1 (do { r \<leftarrow> issue (pf_host P) wrap (GooseRun action); _ \<leftarrow> tell CloseDB; ret r }) 0 0" for wrap
    using opens_deferred [OF opens_issue, of "pf_host P" "GooseRun action" 1] by simp
  show ?thesis unfolding runMigrate_def
    by (rule opens_try [where k = 0, OF opens_ret], rule opens_try [where k = 0, OF opens_issue], simp, simp,
        rule opens_try [where k = 1, OF opens_issue], simp, simp, rule migrate)
qed

lemma Build_DB:
  assumes "run_state (Build P cfg) m = (Inr rt, m')"
  shows "rt_DB rt"
  using assms unfolding Build_def Let_def buildRuntime_def
  by (elim try_run_Inr) (auto simp: run_simps split: prod.splits sum.splits)

lemma serve_and_close:
  assumes "rt_DB rt"
  shows "opens (pf_host P) 1 (do { r \<leftarrow> serve_mode P cfg; _ \<leftarrow> Runtime_Close rt; ret r }) 0 0"
proof -
  have "opens (pf_host P) 1 (serve_mode P cfg) 1 1"
    unfolding serve_mode_def by (simp add: opens_issue opens_ret)
  from opens_deferred [OF this] show ?thesis using assms by (simp add: Runtime_Close_def)
qed

lemma built_and_served: "opens (pf_host P) 0 (try_op (Build P cfg) (\<lambda>rt. do { r \<leftarrow> serve_mode P cfg; _ \<leftarrow> Runtime_Close rt; ret r })) 0 0"
proof (rule opensI)
  fix m r m' assume n: "handles (pf_host P) (cv_log m) = 0"
    and run: "run_state (try_op (Build P cfg) (\<lambda>rt. do { r \<leftarrow> serve_mode P cfg; _ \<leftarrow> Runtime_Close rt; ret r })) m = (r, m')"
  obtain b m1 where build: "run_state (Build P cfg) m = (b, m1)" by (metis surj_pair)
  note opened = opensD [OF Build_opens n build]
  show "handles (pf_host P) (cv_log m') = (if \<exists>x. r = Inr x then 0 else 0)"
  proof (cases b)
    case (Inl e)
    with run build opened show ?thesis by (simp add: run_try_op)
  next
    case (Inr rt)
    with build have "rt_DB rt" by (auto intro: Build_DB)
    moreover from Inr run build have "run_state (do { r \<leftarrow> serve_mode P cfg; _ \<leftarrow> Runtime_Close rt; ret r }) m1 = (r, m')"
      by (simp add: run_try_op)
    ultimately show ?thesis using opensD [OF serve_and_close] opened Inr by simp
  qed
qed

text \<open>
  C37: every database that is opened is closed.  Whatever the arguments, the environment, the configuration
  file and the answers of the host, failures at any point included, when the program ends each database
  handle it opened, for serving or for a migration, has been closed exactly once.
\<close>

theorem run_closes_database:
  assumes "run_state (run P read_file env args) \<lparr>cv_world = w, cv_log = []\<rparr> = (r, m)"
  shows "handles (pf_host P) (cv_log m) = 0"
proof -
  have "opens (pf_host P) 0 (run P read_file env args) 0 0"
    unfolding run_def
    by (auto simp: opens_ret runMigrate_handles intro!: opens_try [where k = 0] built_and_served split: sum.splits)
  from opensD [OF this _ assms] show ?thesis by simp
qed

section \<open>The command selects the mode\<close>

definition is_Serve :: "host_command \<Rightarrow> bool" where
  "is_Serve c = (case c of Serve _ \<Rightarrow> True | _ \<Rightarrow> False)"

lemma is_Serve_simps [simp]:
  "is_Serve (Serve p)" "\<not> is_Serve (MkdirAll d)" "\<not> is_Serve (SqlOpen d)" "\<not> is_Serve (SetMaxOpenConns n)" "\<not> is_Serve Ping"
  "\<not> is_Serve CloseDB" "\<not> is_Serve (Warn d)" "\<not> is_Serve (GooseOpen d)" "\<not> is_Serve (GooseRun d)"
  by (simp_all add: is_Serve_def)

definition quiet :: "'a host_op \<Rightarrow> bool" where
  "quiet oper \<longleftrightarrow> (\<forall>m. filter is_Serve (cv_log (snd (run_state oper m))) = filter is_Serve (cv_log m))"

lemma quiet_rules:
  "\<not> is_Serve c \<Longrightarrow> quiet (issue host wrap c)"
  "\<not> is_Serve c \<Longrightarrow> quiet (tell c)"
  "quiet (ret r)"
  "quiet (in_world oper')"
  "quiet oper \<Longrightarrow> (\<And>x. quiet (k x)) \<Longrightarrow> quiet (try_op oper k)"
  "quiet first \<Longrightarrow> (\<And>x. quiet (f x)) \<Longrightarrow> quiet (first \<bind> f)"
  "quiet oper \<Longrightarrow> quiet (wrapped what oper)"
  "(\<And>e. quiet (f' e)) \<Longrightarrow> (\<And>x. quiet (g' x)) \<Longrightarrow> quiet (case r' of Inl e \<Rightarrow> f' e | Inr x \<Rightarrow> g' x)"
  by (simp_all add: quiet_def run_simps case_prod_unfold split: sum.splits)

lemma quietD: "quiet oper \<Longrightarrow> run_state oper m = (r, m') \<Longrightarrow> filter is_Serve (cv_log m') = filter is_Serve (cv_log m)"
  unfolding quiet_def by (metis snd_conv)

lemma quiet_warnings: "quiet (log_warnings ws)"
  by (induction ws) (simp_all add: quiet_rules)

lemma quiet_Build: "quiet (Build P cfg)"
  unfolding Build_def Let_def buildRuntime_def logSecurityConfigWarnings_def sqlite_Open_def OpenWithOptions_def configureConnectionPool_def
  by (intro quiet_rules quiet_warnings is_Serve_simps)

lemma quiet_migrate: "quiet (runMigrate P read_file env action)"
  unfolding runMigrate_def by (intro quiet_rules is_Serve_simps)

lemma FromEnv_process:
  assumes "FromEnvWithProcess L W C env ov = Inr cfg"
  shows "processFromOverrideOrEnv L env ov = Inr (cfg_Process cfg)"
proof -
  obtain base where base: "base_from_env L W C env ov = Inr base"
    and cfg: "(if cfg_EmailProvider base \<noteq> EmailProviderSMTP then Inr base else smtp_from_env env base) = Inr cfg"
    using assms by (auto simp: FromEnvWithProcess_def and_then_eq_Inr)
  have same: "cfg_Process cfg = cfg_Process base"
    using cfg by (auto simp: smtp_from_env_def Let_def and_then_eq_Inr split: if_splits)
  from base have "processFromOverrideOrEnv L env ov = Inr (cfg_Process base)"
    unfolding base_from_env_def and_then_eq_Inr by auto
  then show ?thesis by (simp add: same)
qed

lemma mode_words:
  "TrimSpace ''web'' = ''web''" "TrimSpace ''worker'' = ''worker''" "TrimSpace ''serve'' = ''serve''"
  "ToLower L ''web'' = ''web''" "ToLower L ''worker'' = ''worker''" "ToLower L ''serve'' = ''serve''"
  by (rule TrimSpace_visible, simp add: visible_def)+ (simp_all add: ToLower_def is_ascii_def lower_char_def)

lemma process_of_override:
  "processFromOverrideOrEnv L env ov = Inr p \<Longrightarrow> IsProcess p \<and> (IsProcess ov \<longrightarrow> p = ov)"
  by (auto simp: processFromOverrideOrEnv_def envProcess_def IsProcess_def mode_defs mode_words Let_def split: if_splits)

text \<open>The mode each command stands for.\<close>

definition mode_of :: "string \<Rightarrow> string option" where
  "mode_of command = map_of [(''all'', ProcessAll), (''serve'', ProcessWeb), (''worker'', ProcessWorker)] command"

lemma parse_mode:
  assumes "parseCLIArgs L args = Inr command" and "cli_name command \<noteq> ''migrate''"
  shows "if args = [] then cli_processOverride command = []
    else IsProcess (cli_processOverride command) \<and> mode_of (ToLower L (TrimSpace (hd args))) = Some (cli_processOverride command)"
  using assms
  by (auto simp: parseCLIArgs_def parseMigrateArgs_def no_command_def mode_of_def IsProcess_def Let_def
      split: list.splits if_splits)

text \<open>
  C38: the command line selects what runs.  At most one mode is started, always one of the three; with an
  argument it is the mode that argument names, whatever \<^verbatim>\<open>APP_PROCESS\<close> and the configuration file say;
  and a migration never starts one.
\<close>

theorem command_selects_mode:
  assumes "run_state (run P read_file env args) \<lparr>cv_world = w, cv_log = []\<rparr> = (r, m)"
  shows "filter is_Serve (cv_log m) = [] \<or>
    (\<exists>p. filter is_Serve (cv_log m) = [Serve p] \<and> IsProcess p \<and>
       (args \<noteq> [] \<longrightarrow> mode_of (ToLower (pf_libs P) (TrimSpace (hd args))) = Some p))"
proof (cases "parseCLIArgs (pf_libs P) args")
  case (Inl e)
  with assms show ?thesis by (auto simp: run_def run_simps)
next
  case (Inr command)
  show ?thesis
  proof (cases "cli_name command = ''migrate''")
    case True
    with assms Inr have "run_state (runMigrate P read_file env (cli_migrateAction command)) \<lparr>cv_world = w, cv_log = []\<rparr> = (r, m)"
      by (simp add: run_def)
    from quietD [OF quiet_migrate this] show ?thesis by simp
  next
    case migrate: False
    show ?thesis
    proof (cases "load_config P read_file env (cli_processOverride command)")
      case (Inl e)
      with assms Inr migrate show ?thesis by (auto simp: run_def run_simps)
    next
      case cfg: (Inr cfg)
      then obtain env' where "FromEnvWithProcess (pf_libs P) (pf_web P) (pf_config P) env' (cli_processOverride command) = Inr cfg"
        by (auto simp: load_config_def wrap_err_def split: prod.splits sum.splits)
      from process_of_override [OF FromEnv_process [OF this]] parse_mode [OF Inr migrate]
      have mode: "IsProcess (cfg_Process cfg)" "args \<noteq> [] \<longrightarrow> mode_of (ToLower (pf_libs P) (TrimSpace (hd args))) = Some (cfg_Process cfg)"
        by (auto split: if_splits)
      obtain b m1 where build: "run_state (Build P cfg) \<lparr>cv_world = w, cv_log = []\<rparr> = (b, m1)" by (metis surj_pair)
      have quiet: "filter is_Serve (cv_log m1) = []" using quietD [OF quiet_Build build] by simp
      show ?thesis
        using assms Inr migrate cfg build quiet mode
        by (cases b) (auto simp: run_def run_simps serve_mode_def IsProcess_def Runtime_Close_def split: if_splits)
    qed
  qed
qed

text \<open>A run: the worker, with the secrets in the environment, no configuration file and a host that obeys.\<close>

definition ex_run :: "unit host_op" where
  "ex_run = run ex_platform (\<lambda>_. NotExist) ex_env [''worker'']"

lemma ex_run_serves:
  "\<exists>m. run_state ex_run \<lparr>cv_world = ex_world ex_db, cv_log = []\<rparr> = (Inr (), m) \<and> filter is_Serve (cv_log m) \<noteq> []"
proof -
  have "processFromOverrideOrEnv ex_libs ex_env ProcessWorker = Inr ''worker''"
    by (simp add: processFromOverrideOrEnv_def mode_defs IsProcess_def mode_words)
  then obtain cfg where cfg: "FromEnvWithProcess ex_libs ex_web ex_config_libs ex_env ProcessWorker = Inr cfg" "strong_secrets cfg"
    by (rule ex_loads)
  have process: "IsProcess (cfg_Process cfg)" using process_of_override [OF FromEnv_process [OF cfg(1)]] by blast
  have "well_configured (pf_libs ex_platform) (pf_web ex_platform) cfg"
    using loaded_config [OF cfg(1)] by (simp add: ex_platform_def)
  then obtain rt m1 where build: "run_state (Build ex_platform cfg) \<lparr>cv_world = ex_world ex_db, cv_log = []\<rparr> = (Inr rt, m1)"
    using Build_ready [OF _ cfg(2) ex_ready] by blast
  have load: "load_config ex_platform (\<lambda>_. NotExist) ex_env ProcessWorker = Inr cfg"
    using cfg(1) by (simp add: load_config_def LoadDotEnv_def ex_platform_def)
  have parse: "parseCLIArgs (pf_libs ex_platform) [''worker''] = Inr (no_command\<lparr>cli_name := ''worker'', cli_processOverride := ProcessWorker\<rparr>)"
    by (simp add: parseCLIArgs_def mode_words)
  have host: "pf_host ex_platform l c = None" for l c by (simp add: ex_platform_def)
  show ?thesis
    using process build load Build_DB [OF build]
    by (simp add: ex_run_def run_def parse no_command_def run_simps serve_mode_def IsProcess_def host reply_def Runtime_Close_def)
qed

theorem run_closes_database_witness:
  "\<exists>m. run_state ex_run \<lparr>cv_world = ex_world ex_db, cv_log = []\<rparr> = (Inr (), m) \<and> handles (pf_host ex_platform) (cv_log m) = 0"
  using ex_run_serves run_closes_database unfolding ex_run_def by blast

theorem command_selects_mode_witness:
  "\<exists>m. run_state ex_run \<lparr>cv_world = ex_world ex_db, cv_log = []\<rparr> = (Inr (), m) \<and> filter is_Serve (cv_log m) = [Serve ''worker'']"
proof -
  obtain m where run: "run_state ex_run \<lparr>cv_world = ex_world ex_db, cv_log = []\<rparr> = (Inr (), m)" "filter is_Serve (cv_log m) \<noteq> []"
    using ex_run_serves by blast
  from command_selects_mode [OF run(1) [unfolded ex_run_def]] run show ?thesis
    by (auto simp: mode_words mode_of_def mode_defs)
qed

end
