(* ===== verification/Email_Templates.thy ===== *)
theory Email_Templates
  imports Email_Messages
begin

text \<open>
  The email templates compiled at start-up (\<^verbatim>\<open>mustParseEmailTemplates\<close> of \<^verbatim>\<open>internal/email/email.go\<close>)
  from the embedded files.  The template languages are parameters: \<open>et_ParseText\<close> and \<open>et_ParseHTML\<close> say whether a
  text parses.
\<close>

record embedded_templates =
  et_Files :: "string list"
  et_ReadFile :: "string \<Rightarrow> string option"
  et_ParseText :: "string \<Rightarrow> bool"
  et_ParseHTML :: "string \<Rightarrow> bool"

record compiledEmailTemplates =
  ce_subject :: string
  ce_text :: string
  ce_html :: string

definition subjectSuffix :: string where
  "subjectSuffix = ''.subject.txt''"

text \<open>\<^verbatim>\<open>fs.Glob\<close> of the pattern \<^verbatim>\<open>templates/*.subject.txt\<close>: the star matches no slash.\<close>

definition subject_name :: "string \<Rightarrow> string option" where
  "subject_name file =
     (case CutPrefix ''templates/'' file of
       None \<Rightarrow> None
     | Some base \<Rightarrow>
         (case CutPrefix (rev subjectSuffix) (rev base) of
           None \<Rightarrow> None
         | Some name \<Rightarrow> if CHR ''/'' \<in> set name then None else Some (rev name)))"

definition parseTextTemplate :: "embedded_templates \<Rightarrow> string \<Rightarrow> string result" where
  "parseTextTemplate T filePath =
     (case et_ReadFile T filePath of
       None \<Rightarrow> Inl (ErrMsg (''open '' @ filePath @ '': file does not exist''))
     | Some content \<Rightarrow> if et_ParseText T content then Inr content else Inl (ErrMsg ''template''))"

definition parseHTMLTemplate :: "embedded_templates \<Rightarrow> string \<Rightarrow> string result" where
  "parseHTMLTemplate T filePath =
     (case et_ReadFile T filePath of
       None \<Rightarrow> Inl (ErrMsg (''open '' @ filePath @ '': file does not exist''))
     | Some content \<Rightarrow> if et_ParseHTML T content then Inr content else Inl (ErrMsg ''template''))"

definition parseEmailTemplateSet :: "embedded_templates \<Rightarrow> string \<Rightarrow> compiledEmailTemplates result" where
  "parseEmailTemplateSet T templateName =
     (case wrap_err (''parse '' @ templateName @ '' subject template'')
         (parseTextTemplate T (''templates/'' @ templateName @ ''.subject.txt'')) of
       Inl e \<Rightarrow> Inl e
     | Inr subject \<Rightarrow>
     (case wrap_err (''parse '' @ templateName @ '' text template'')
         (parseTextTemplate T (''templates/'' @ templateName @ ''.text.txt'')) of
       Inl e \<Rightarrow> Inl e
     | Inr textBody \<Rightarrow>
     (case wrap_err (''parse '' @ templateName @ '' html template'')
         (parseHTMLTemplate T (''templates/'' @ templateName @ ''.html.tmpl'')) of
       Inl e \<Rightarrow> Inl e
     | Inr htmlBody \<Rightarrow> Inr \<lparr>ce_subject = subject, ce_text = textBody, ce_html = htmlBody\<rparr>)))"

fun parse_sets :: "embedded_templates \<Rightarrow> string list \<Rightarrow> (string \<rightharpoonup> compiledEmailTemplates) \<Rightarrow>
    (string \<rightharpoonup> compiledEmailTemplates) result" where
  "parse_sets T [] compiled = Inr compiled"
| "parse_sets T (name # names) compiled =
     (case parseEmailTemplateSet T name of
       Inl e \<Rightarrow> Inl e
     | Inr templates \<Rightarrow> parse_sets T names (compiled(name \<mapsto> templates)))"

text \<open>The panics of the code are errors here.\<close>

definition mustParseEmailTemplates :: "embedded_templates \<Rightarrow> (string \<rightharpoonup> compiledEmailTemplates) result" where
  "mustParseEmailTemplates T = wrap_err ''parse email templates'' (parse_sets T (List.map_filter subject_name (et_Files T)) Map.empty)"

section \<open>The embedded files\<close>

text \<open>The files of \<^verbatim>\<open>internal/email/templates\<close>, in the order of the directory.\<close>

definition template_files :: "string list" where
  "template_files = [''templates/README.md'',
     ''templates/account_confirmation.html.tmpl'', ''templates/account_confirmation.subject.txt'', ''templates/account_confirmation.text.txt'',
     ''templates/email_change.html.tmpl'', ''templates/email_change.subject.txt'', ''templates/email_change.text.txt'',
     ''templates/email_change_notice.html.tmpl'', ''templates/email_change_notice.subject.txt'', ''templates/email_change_notice.text.txt'',
     ''templates/password_reset.html.tmpl'', ''templates/password_reset.subject.txt'', ''templates/password_reset.text.txt'']"

lemma template_names: "List.map_filter subject_name template_files = [''account_confirmation'', ''email_change'', ''email_change_notice'', ''password_reset'']"
  by (simp add: template_files_def map_filter_simps subject_name_def CutPrefix_def subjectSuffix_def)

lemma parse_sets_dom:
  assumes "\<And>n. n \<in> set names \<Longrightarrow> \<exists>t. parseEmailTemplateSet T n = Inr t"
  shows "\<exists>compiled. parse_sets T names c = Inr compiled \<and> dom compiled = set names \<union> dom c"
  using assms
proof (induction names arbitrary: c)
  case (Cons n names)
  then obtain t where t: "parseEmailTemplateSet T n = Inr t" by (metis list.set_intros(1))
  obtain compiled where rest: "parse_sets T names (c(n \<mapsto> t)) = Inr compiled" "dom compiled = set names \<union> dom (c(n \<mapsto> t))"
    using Cons.IH [of "c(n \<mapsto> t)"] Cons.prems by (metis list.set_intros(2))
  then have "dom compiled = set (n # names) \<union> dom c" by (auto simp only: dom_fun_upd option.distinct if_False list.set)
  with t rest(1) show ?case by (simp only: parse_sets.simps sum.case) blast
qed simp

text \<open>
  With these files, all readable and well formed, start-up does not panic and compiles exactly the
  templates the message builders ask for.
\<close>

lemma embedded_templates_compile:
  assumes "et_Files T = template_files" and "\<And>f. f \<in> set template_files \<Longrightarrow> et_ReadFile T f \<noteq> None"
    and "\<And>c. et_ParseText T c" and "\<And>c. et_ParseHTML T c"
  shows "\<exists>compiled. mustParseEmailTemplates T = Inr compiled \<and> dom compiled = set emailTemplates"
proof -
  have read: "\<exists>c. et_ReadFile T f = Some c" if "f \<in> set template_files" for f using assms(2) [OF that] by auto
  have "\<exists>t. parseEmailTemplateSet T n = Inr t" if "n \<in> {''account_confirmation'', ''email_change'', ''email_change_notice'', ''password_reset''}" for n
    using that read [of "''templates/'' @ n @ ''.subject.txt''"] read [of "''templates/'' @ n @ ''.text.txt''"] read [of "''templates/'' @ n @ ''.html.tmpl''"] assms(3,4)
    by (auto simp: parseEmailTemplateSet_def parseTextTemplate_def parseHTMLTemplate_def template_files_def)
  with parse_sets_dom [of "List.map_filter subject_name template_files" T Map.empty] show ?thesis
    by (auto simp: mustParseEmailTemplates_def assms(1) template_names emailTemplates_def)
qed

end
