(* ===== verification/Spec2Isabelle.thy ===== *)
theory Spec2Isabelle
  imports Auth_Claims Second_Factor Passkey_Claims Rate_Limit_Claims Jobs Cookie_Claims Command_Line Email_Templates
begin

text \<open>
  A verification development for go-spark, a Go web application starter: accounts with sessions, email
  verification, password reset, second factors and passkeys, a transactional email outbox, background
  jobs, a server-rendered web interface with rate limits, and an example feature, over one SQLite database.

  \<^bold>\<open>The program.\<close>  \<^verbatim>\<open>cmd/app\<close> reads the command line and the configuration (\<^verbatim>\<open>internal/config\<close>), assembles
  the program (\<^verbatim>\<open>internal/app\<close>) and runs it: the web server (\<^verbatim>\<open>internal/server\<close>) calls the services
  (\<^verbatim>\<open>internal/auth\<close>, \<^verbatim>\<open>internal/project\<close>), which run the generated SQL (\<^verbatim>\<open>internal/db/generated\<close>) through
  stores and queue messages (\<^verbatim>\<open>internal/email\<close>) in the outbox; the job runner (\<^verbatim>\<open>internal/jobs\<close>) sends the
  queued messages through a sender and deletes what has expired (\<^verbatim>\<open>internal/database\<close>).

  \<^bold>\<open>Conventions.\<close>  A struct is a record with prefixed fields, a method a definition of the same name (or
  \<^verbatim>\<open>store_Name\<close>, \<^verbatim>\<open>Q_Name\<close>, \<^verbatim>\<open>outbox_Name\<close>, \<^verbatim>\<open>paths_Name\<close> where names repeat).  Go errors are the
  datatype \<open>go_error\<close>, results the sum \<open>go_error + 'a\<close>; \<open>Errorf\<close> wraps and \<open>errors_Is\<close> follows the
  chain.  Strings and byte slices are char lists, times are integers in nanoseconds, counters of the
  limiter and of authenticators integers or words.  Code with effects is a state monad: over a \<open>world\<close>
  (database, clock, random source and failures of the driver, each a stream that every use advances), over
  an \<open>http\<close> state (world, limiter, request and response), or over a \<open>conversation\<close> (world and the commands
  given to a party outside).  Every statement may fail; \<open>withTx\<close> restores the database when its body fails.

  \<^bold>\<open>Theories\<close>, from the bottom up.

  \<^item> \<open>Prelude\<close>: errors, results, the collection \<open>run_simps\<close> that executes programs, \<open>preserves\<close> with its rules.
  \<^item> \<open>Go_Strings\<close>, \<open>Go_Crypto\<close>: what the program uses of \<^verbatim>\<open>strings\<close>, \<^verbatim>\<open>strconv\<close>, \<^verbatim>\<open>utf8\<close>, \<^verbatim>\<open>hex\<close>, \<^verbatim>\<open>base64\<close>;
    SHA-256, HMAC, Base32 and URL escaping as functions on bytes.
  \<^item> \<open>Database\<close>, \<open>Queries\<close>, \<open>Schema\<close>: the tables of \<^verbatim>\<open>migrations/\<close>, one definition per generated query, and
    the invariant \<open>db_inv\<close> every statement keeps (keys, unique columns, foreign keys, cascades).
  \<^item> \<open>Credentials\<close>: the password hasher, the secret cipher and the \<^verbatim>\<open>totp\<close> package.
  \<^item> \<open>Email_Messages\<close>, \<open>Email_Templates\<close>, \<open>Paths\<close>: the messages, their compiled templates and the routes' names.
  \<^item> \<open>Auth_Store\<close>, \<open>Factor_Store\<close>, \<open>Tokens\<close>: the store of \<^verbatim>\<open>internal/auth\<close>; the locale of single-use tokens
    with its three interpretations.
  \<^item> \<open>Auth_Service\<close>, \<open>Auth_Properties\<close>, \<open>Auth_Claims\<close>: every method of \<^verbatim>\<open>auth.go\<close>, what each does on every
    branch, and the properties that span methods.
  \<^item> \<open>TOTP_Service\<close>, \<open>TOTP_Claims\<close>, \<open>Second_Factor\<close>: the second factor.
  \<^item> \<open>WebAuthn_Service\<close>, \<open>Passkey_Claims\<close>: passkeys, over the documented contract of the package.
  \<^item> \<open>Projects\<close>: the example feature, refining a map, and the locale of deletes scoped to an owner.
  \<^item> \<open>Rate_Limit\<close>, \<open>Rate_Limit_Claims\<close>: the fixed-window limiter and its abstract specification.
  \<^item> \<open>Email_Outbox\<close>, \<open>Outbox_Claims\<close>, \<open>Outbox_Delivery\<close>, \<open>Reliable_Runs\<close>: the outbox store and processor; the
    locale of its contract, interleavings of concurrent workers that run the processor's step, and what a
    cycle makes of each answer of the transport.
  \<^item> \<open>Jobs\<close>: the cleanup job and the loop of the job runner.
  \<^item> \<open>Conversation\<close>, \<open>Smtp\<close>, \<open>Smtp_Claims\<close>: recorded conversations, the mail server client and the log
    sender; the locale of senders, interpreted for both.
  \<^item> \<open>Http\<close>, \<open>Server_Core\<close>, \<open>Middleware\<close>, \<open>Auth_Handlers\<close>, \<open>Feature_Handlers\<close>, \<open>Passkey_Handlers\<close>, \<open>Routes\<close>: the
    web server, every handler and layer, and the routing table as data.
  \<^item> \<open>Server_Invariant\<close>, \<open>Server_Claims\<close>, \<open>Cookie_Claims\<close>: what serving a request keeps, the guards of routes,
    cookies and client addresses.
  \<^item> \<open>Config\<close>, \<open>Config_Claims\<close>: the \<^verbatim>\<open>.env\<close> file and the configuration.
  \<^item> \<open>Sqlite\<close>, \<open>App_Build\<close>, \<open>App_Claims\<close>, \<open>Command_Line\<close>: opening the database, assembling the program, the
    command line.
  \<^item> \<open>Lifecycle\<close>: the goroutines and channels of a running process as a step relation, with signals, failures
    of the server, tickers and the ends of job runs as events that happen to it.
  \<^item> \<open>Fixtures\<close>, \<open>Web_Fixtures\<close>: the concrete instances the witnesses run on.

  \<^bold>\<open>What is shown.\<close>  Authentication: a token is accepted exactly when a live session carries its hash, the
  cookie of a login authenticates its user, an enabled second factor is never bypassed, codes and tokens
  work once, passkeys log in their owner.  Every service method is specified on every branch, errors
  included, as a weakest precondition.  Web: protected routes do nothing without a session, client addresses
  cannot be forged through headers, the routing table is well formed.  Limiter: it refines one window per
  key, is bounded in memory and bursts, and admits after the delay announced for a window that is used up.
  Outbox: claims are leases, attempts are bounded under any interleaving, and a cycle marks every message it
  claimed as the transport answered for it.  Mail: no header injection,
  no credential or message byte before TLS, success only after acceptance.  Process: a configuration that loads starts,
  weak secrets do not, every database handle is closed, the command selects the mode, and shutting down
  comes to an end as soon as every run of a job does (which a silent mail server can prevent).  Finally \<open>system_invariant\<close> below composes all parts: whatever program the assembly
  returns, requests, jobs and restarts in any order keep the schema and the limiter's invariant.

  \<^bold>\<open>Parameters.\<close>  Code outside the repository is an argument of the definitions: the record \<open>libs\<close> (Argon2,
  AES-GCM, \<^verbatim>\<open>net/mail\<close>, Unicode case tables, HOTP, templates), \<open>web_libs\<close> (URLs, IP addresses, HTML templates, the
  file server), \<open>config_libs\<close> (durations, URLs, host and port), \<open>webauthn_lib\<close> and \<open>passkey_json\<close> (the
  ceremonies), the peers of conversations (mail server, host).  What a theorem relies on is a named hypothesis
  (\<open>argon2_key_length\<close>, \<open>aead_correct\<close>, \<open>webauthn_documented\<close>, \<open>json_documented\<close> for strings in UTF-8, and
  \<open>platform_ready\<close> for one configuration), and its witness satisfies it.

  \<^bold>\<open>Bounds.\<close>  No definition uses fuel.  Loops are recursions on their data; those that are not structural have
  measures (trimming, runes, blocks of SHA-256, the truncation of errors, the headers a receiver reads).  Once it is
  asked to stop, the process makes at most \<open>n + 9\<close> steps for \<open>n\<close> jobs, by a measure.  Retries are bounded by the attempts configured for the processor.

  \<^bold>\<open>Not modelled.\<close>  Logging, except the warnings of the assembly and the fields of the log sender; the matching of
  \<^verbatim>\<open>http.ServeMux\<close> beyond exact paths and the static prefix; HTML and static files, \<^verbatim>\<open>go:embed\<close> and \<^verbatim>\<open>fs.Sub\<close>; goose
  and the SQL text of the migrations other than the schema they define; the timing of tickers and
  timeouts (they are events); the helpers of tests; \<^verbatim>\<open>db.New\<close> and \<^verbatim>\<open>WithTx\<close>, which only choose the handle a
  query runs on.  Requests run one after the other: SQLite is opened with one connection, and
  the limiter is guarded by a mutex; concurrency is modelled for the outbox and for the process lifecycle.
\<close>

section \<open>The system\<close>

text \<open>
  The states of the running program \<open>rt\<close>: requests served by the routes, runs of its jobs and restarts
  with a new limiter, in any order and any number, each in a world with its own clock, randomness and
  failures of the driver, over one database.
\<close>

inductive reachable ::
  "('opts, 'ask, 'sd, 'att, 'asr) webauthn_lib \<Rightarrow> ('opts, 'ask, 'sd, 'att, 'asr) passkey_json \<Rightarrow> Runtime \<Rightarrow>
   db \<Rightarrow> fixedWindowRateLimiter \<Rightarrow> bool"
  for W J rt where
  start: "reachable W J rt empty_db newFixedWindowRateLimiter"
| serve: "reachable W J rt (wdb w) l \<Longrightarrow>
    run_state (Routes W J (hs_Handler (rt_HTTPServer rt)))
      \<lparr>h_world = w, h_limiter = l, h_req = r, h_resp = new_response\<rparr> = (x, h) \<Longrightarrow>
    reachable W J rt (wdb (h_world h)) (h_limiter h)"
| work: "reachable W J rt (wdb w) l \<Longrightarrow> job \<in> set (rt_JobsRunner rt) \<Longrightarrow>
    run_state (runJobOnce job cancelled) w = (y, w') \<Longrightarrow> reachable W J rt (wdb w') l"
| restart: "reachable W J rt d l \<Longrightarrow> reachable W J rt d newFixedWindowRateLimiter"

lemma cleanup_inv:
  assumes "cj_store j = NewCleanupStore"
  shows "keeps db_inv (CleanupJob_Run j)"
  unfolding CleanupJob_Run_def cleanup_at_def assms NewCleanupStore_def CleanupStore.simps
  by (intro preserves_rules)

lemma limiter_inv_new: "limiter_inv newFixedWindowRateLimiter"
  by (simp add: limiter_inv_def newFixedWindowRateLimiter_def cleanupEveryNRateLimitCalls_def)

text \<open>The jobs the program is built with.\<close>

lemma newEmailSender_outside: "newEmailSender P cfg = Inr send \<Longrightarrow> email_sender send"
  by (auto simp: newEmailSender_def intro: logged.email_sender_axioms delivered.email_sender_axioms split: if_splits sum.splits)

lemma NewRunner_same: "NewRunner jobs = Inr js \<Longrightarrow> js = jobs"
  by (induction jobs arbitrary: js) (auto split: sum.splits)

lemma NewCleanupJob_store: "NewCleanupJob (Some s) opts = Inr j \<Longrightarrow> cj_store j = s"
  by (auto simp: NewCleanupJob_def split: if_splits)

lemma buildRuntime_jobs:
  assumes "run_state (buildRuntime P cfg secr) m = (Inr rt, m')"
  shows "buildJobs P cfg = Inr (rt_JobsRunner rt)"
  using assms unfolding buildRuntime_def
  by (elim try_run_Inr) (auto simp: run_simps wrap_err_def dest: NewRunner_same split: sum.splits)

lemma Build_jobs:
  assumes "run_state (Build P cfg) m = (Inr rt, m')"
  obtains p send j where "rt_JobsRunner rt = [email_job p, CleanupJob_Job j (cfg_CleanupInterval cfg)]"
    "pr_store p = Some EmailOutboxStore" "pr_sender p = Some send" "email_sender send" "cj_store j = NewCleanupStore"
proof -
  from assms obtain m1 m2 where "run_state (buildRuntime P cfg (TrimSpace (cfg_SecretKeyBase cfg))) m1 = (Inr rt, m2)"
    unfolding Build_def Let_def by (elim try_run_Inr) (auto simp: run_simps split: prod.splits sum.splits)
  from buildRuntime_jobs [OF this] obtain send j where send: "newEmailSender P cfg = Inr send"
    and j: "NewCleanupJob (Some NewCleanupStore) \<lparr>co_TokenRetention = cfg_CleanupTokenRetention cfg,
        co_SentEmailRetention = cfg_CleanupSentEmailRetention cfg, co_FailedEmailRetention = cfg_CleanupFailedEmailRetention cfg\<rparr> = Inr j"
    and jobs: "rt_JobsRunner rt = [email_job (NewProcessor (Some EmailOutboxStore) (Some send) 0 0 0 0),
        CleanupJob_Job j (cfg_CleanupInterval cfg)]"
    by (auto simp: buildJobs_def and_then_eq_Inr wrap_err_def split: sum.splits)
  show thesis
    by (rule that [OF jobs _ _ newEmailSender_outside [OF send] NewCleanupJob_store [OF j]]) (simp_all add: NewProcessor_def)
qed

lemma job_inv:
  assumes "\<And>run. job_Run job = Some run \<Longrightarrow> keeps db_inv run" and "job_Run job \<noteq> None"
  shows "keeps db_inv (runJobOnce job cancelled)"
  using assms unfolding runJobOnce_def by (intro preserves_rules) auto

lemma built_jobs_inv:
  assumes "run_state (Build P cfg) m = (Inr rt, m')" and "job \<in> set (rt_JobsRunner rt)"
  shows "keeps db_inv (runJobOnce job cancelled)"
proof (rule Build_jobs [OF assms(1)])
  fix p send j
  assume jobs: "rt_JobsRunner rt = [email_job p, CleanupJob_Job j (cfg_CleanupInterval cfg)]"
    and p: "pr_store p = Some EmailOutboxStore" "pr_sender p = Some send" "email_sender send" and j: "cj_store j = NewCleanupStore"
  from jobs assms(2) consider "job = email_job p" | "job = CleanupJob_Job j (cfg_CleanupInterval cfg)" by auto
  then show ?thesis
    by cases (auto intro!: job_inv preserves_rules email_sender.process_inv [OF p(3,1,2)] cleanup_inv [OF j] simp: email_job_def CleanupJob_Job_def)
qed

text \<open>
  C2: the invariant of the system.  For every program that \<^verbatim>\<open>Build\<close> returns, from any configuration, in
  every state it can reach by serving requests, running its jobs and restarting in any order, with
  failures of the driver and answers of the mail server of any kind, the database satisfies its schema
  (unique ids, handles, addresses and token hashes, and every row's owner exists) and the limiter its own
  invariant (at most 50000 distinct keys with positive counts).
\<close>

theorem system_invariant:
  assumes "run_state (Build P cfg) m = (Inr rt, m')" and "reachable W J rt d l" and "webauthn_documented W"
  shows "db_inv d \<and> limiter_inv l"
  using assms(2)
proof (induction rule: reachable.induct)
  case start
  show ?case by (simp add: db_inv_empty limiter_inv_new)
next
  case (serve w l r x h)
  with hkeepsD [OF Routes_inv [OF assms(3)] serve.hyps(2)] show ?case by (simp add: web_inv_def)
next
  case (work w l job cancelled y w')
  with preservesD [OF built_jobs_inv [OF assms(1) work.hyps(2)] _ work.hyps(3)] show ?case by simp
next
  case (restart d l)
  then show ?case by (simp add: limiter_inv_new)
qed

theorem system_invariant_witness:
  "\<exists>cfg rt m'. run_state (Build ex_platform cfg) \<lparr>cv_world = ex_world ex_db, cv_log = []\<rparr> = (Inr rt, m') \<and>
    (case run_state (Routes ex_webauthn ex_json (hs_Handler (rt_HTTPServer rt)))
       \<lparr>h_world = ex_world empty_db, h_limiter = newFixedWindowRateLimiter, h_req = ex_login_request, h_resp = new_response\<rparr> of
      (x, h) \<Rightarrow> db_inv (wdb (h_world h)) \<and> limiter_inv (h_limiter h))"
proof -
  obtain cfg rt m' where build: "run_state (Build ex_platform cfg) \<lparr>cv_world = ex_world ex_db, cv_log = []\<rparr> = (Inr rt, m')"
    using ex_builds by blast
  obtain x h where run: "run_state (Routes ex_webauthn ex_json (hs_Handler (rt_HTTPServer rt)))
      \<lparr>h_world = ex_world empty_db, h_limiter = newFixedWindowRateLimiter, h_req = ex_login_request, h_resp = new_response\<rparr> = (x, h)"
    by (metis surj_pair)
  have "reachable ex_webauthn ex_json rt (wdb (ex_world empty_db)) newFixedWindowRateLimiter"
    by (simp add: reachable.start)
  from system_invariant [OF build reachable.serve [OF this run] ex_webauthn_documented] build run show ?thesis
    by (intro exI [of _ cfg] exI [of _ rt] exI [of _ m']) simp
qed

end
